(* ===== verification/Prelude.thy ===== *)
theory Prelude
  imports Main "HOL-Library.Word" "HOL-Library.Char_ord"
begin

text \<open>
  What every component of the development shares: the collections that carry the component
  proofs, the machine integers of the Rust sources with the checked and the truncating
  operations the code uses, and generic facts on options and finite sums.

  An integer of the source is a word of its width. The unsigned types are read with
  \<open>uint\<close>, the signed ones (\<open>i32\<close>, \<open>i64\<close>, \<open>i128\<close>) with \<open>sint\<close>. Plain \<open>+\<close> and \<open>*\<close> of Rust are
  modelled together with their overflow behaviour, see \<open>arith_u64\<close> and \<open>arith_i128\<close>.
\<close>

section \<open>Collections\<close>

named_theorems op_defs \<open>definitions of the operations, unfolded to compute a branch\<close>
named_theorems frame \<open>what an operation leaves unchanged\<close>

section \<open>Machine integers\<close>

type_synonym u16 = "16 word"
type_synonym u32 = "32 word"
type_synonym u64 = "64 word"
type_synonym i32 = "32 word"
type_synonym i64 = "64 word"
type_synonym i128 = "128 word"

text \<open>
  \<open>signed_of\<close> and \<open>unsigned_of\<close> are the conversions that may fail: the mathematical value
  when it fits the target type, nothing when it does not.
\<close>

definition fits_signed :: "nat \<Rightarrow> int \<Rightarrow> bool" where
  "fits_signed n i \<longleftrightarrow> - (2 ^ (n - 1)) \<le> i \<and> i < 2 ^ (n - 1)"

definition signed_of :: "int \<Rightarrow> 'a::len word option" where
  "signed_of i = (if fits_signed LENGTH('a) i then Some (word_of_int i) else None)"

definition unsigned_of :: "int \<Rightarrow> 'a::len word option" where
  "unsigned_of i = (if 0 \<le> i \<and> i < 2 ^ LENGTH('a) then Some (word_of_int i) else None)"

text \<open>\<open>checked_add\<close>, \<open>checked_sub\<close> and \<open>checked_mul\<close> of a signed type.\<close>

definition checked_add :: "'a::len word \<Rightarrow> 'a word \<Rightarrow> 'a word option" where
  "checked_add a b = signed_of (sint a + sint b)"

definition checked_sub :: "'a::len word \<Rightarrow> 'a word \<Rightarrow> 'a word option" where
  "checked_sub a b = signed_of (sint a - sint b)"

definition checked_mul :: "'a::len word \<Rightarrow> 'a word \<Rightarrow> 'a word option" where
  "checked_mul a b = signed_of (sint a * sint b)"

text \<open>
  Plain \<open>+\<close> and \<open>*\<close>: with overflow checks compiled in, an overflow panics (\<open>None\<close>);
  without them the result wraps around.
\<close>

definition arith_u64 :: "bool \<Rightarrow> int \<Rightarrow> u64 option" where
  "arith_u64 overflow_checks i =
     (if overflow_checks then unsigned_of i else Some (word_of_int i))"

definition arith_i128 :: "bool \<Rightarrow> int \<Rightarrow> i128 option" where
  "arith_i128 overflow_checks i =
     (if overflow_checks then signed_of i else Some (word_of_int i))"

text \<open>\<open>i128::from\<close> of a \<open>u32\<close> and of an \<open>i64\<close>: value-preserving widenings.\<close>

definition i128_from_u32 :: "u32 \<Rightarrow> i128" where
  "i128_from_u32 x = word_of_int (uint x)"

definition i128_from_i64 :: "i64 \<Rightarrow> i128" where
  "i128_from_i64 x = word_of_int (sint x)"

lemma fits_signed_sint [simp]:
  fixes w :: "'a::len word"
  shows "fits_signed LENGTH('a) (sint w)"
  using sint_ge [of w] sint_lt [of w] by (simp add: fits_signed_def)

lemma sint_word_of_int_fits:
  assumes "fits_signed LENGTH('a) i"
  shows "sint (word_of_int i :: 'a::len word) = i"
  using assms by (simp add: fits_signed_def sint_sbintrunc' signed_take_bit_int_eq_self)

lemma signed_of_Some [simp]: "signed_of i = Some w \<longleftrightarrow> sint w = i"
  by (auto simp: signed_of_def sint_word_of_int_fits)

lemma signed_of_None [simp]:
  "signed_of i = (None :: 'a::len word option) \<longleftrightarrow> \<not> fits_signed LENGTH('a) i"
  by (simp add: signed_of_def)

lemma unsigned_of_Some [simp]:
  "unsigned_of i = Some (w :: 'a::len word) \<longleftrightarrow> 0 \<le> i \<and> i < 2 ^ LENGTH('a) \<and> uint w = i"
  by (auto simp: unsigned_of_def uint_word_of_int_eq take_bit_int_eq_self)

lemma arith_u64_small:
  "0 \<le> i \<Longrightarrow> i < 2 ^ 64 \<Longrightarrow> arith_u64 b i = Some w \<longleftrightarrow> uint w = i"
  by (auto simp: arith_u64_def unsigned_of_def uint_word_of_int_eq take_bit_int_eq_self)

lemmas checked_simps =
  checked_add_def checked_sub_def checked_mul_def

lemma sint_i128_from_u32 [simp]: "sint (i128_from_u32 x) = uint x"
proof -
  have "uint x < 2 ^ 32" using uint_lt2p [of x] by simp
  then have "fits_signed LENGTH(128) (uint x)"
    using uint_ge_0 [of x] by (auto simp add: fits_signed_def intro: order_trans [where y = 0])
  then show ?thesis by (simp only: i128_from_u32_def sint_word_of_int_fits)
qed

lemma sint_i64_bounds:
  fixes x :: i64
  shows "- 9223372036854775808 \<le> sint x \<and> sint x \<le> 9223372036854775807"
  using sint_ge [of x] sint_lt [of x] by simp

lemma sint_i128_from_i64 [simp]: "sint (i128_from_i64 x) = sint x"
proof -
  have "fits_signed LENGTH(128) (sint x)"
    using sint_i64_bounds [of x] by (simp add: fits_signed_def)
  then show ?thesis by (simp only: i128_from_i64_def sint_word_of_int_fits)
qed

lemma word_eq_sint: "a = b \<longleftrightarrow> sint a = sint b"
  by (simp add: signed_word_eqI [of a b] iffI)

section \<open>Finite sums and options\<close>

lemma sum_update_one:
  fixes f g :: "'a \<Rightarrow> int"
  assumes "finite A" "a \<in> A" and same: "\<And>x. x \<noteq> a \<Longrightarrow> g x = f x"
  shows "sum g A = sum f A - f a + g a"
proof -
  have "sum g (A - {a}) = sum f (A - {a})"
    by (rule sum.cong) (auto simp: same)
  then show ?thesis
    using assms(1,2) by (simp add: sum.remove [of A a])
qed

lemma member_le_sum_int:
  fixes f :: "'a \<Rightarrow> int"
  assumes "finite A" "a \<in> A" "\<And>x. 0 \<le> f x"
  shows "f a \<le> sum f A"
  using assms by (simp add: member_le_sum)

section \<open>Runs of a transition system\<close>

text \<open>A labelled transition system run over a list of labels, oldest first.\<close>

inductive run :: "('s \<Rightarrow> 'l \<Rightarrow> 's \<Rightarrow> bool) \<Rightarrow> 's \<Rightarrow> 'l list \<Rightarrow> 's \<Rightarrow> bool"
  for step :: "'s \<Rightarrow> 'l \<Rightarrow> 's \<Rightarrow> bool" where
  run_start: "run step s [] s"
| run_step: "run step s ls s' \<Longrightarrow> step s' l s'' \<Longrightarrow> run step s (ls @ [l]) s''"

lemma run_one: "step s l s' \<Longrightarrow> run step s [l] s'"
  using run.run_step [OF run.run_start] by fastforce

lemma run_append:
  "run step s' ms s'' \<Longrightarrow> run step s ls s' \<Longrightarrow> run step s (ls @ ms) s''"
  by (induction rule: run.induct) (auto simp flip: append_assoc intro: run.intros)

lemma run_cons: "step s l s' \<Longrightarrow> run step s' ls s'' \<Longrightarrow> run step s (l # ls) s''"
  using run_append [OF _ run_one] by fastforce

text \<open>
  The contract of an invariant: every step keeps it. What it gives its user is that every run
  keeps it, from any state that has it.
\<close>

locale invariant_of =
  fixes step :: "'s \<Rightarrow> 'l \<Rightarrow> 's \<Rightarrow> bool" and inv :: "'s \<Rightarrow> bool"
  assumes step_keeps: "inv s \<Longrightarrow> step s l s' \<Longrightarrow> inv s'"
begin

lemma run_keeps: "run step s ls s' \<Longrightarrow> inv s \<Longrightarrow> inv s'"
  by (induction rule: run.induct) (auto intro: step_keeps)

end

text \<open>
  An invariant between the state and the history that led to it: what holds of the labels so
  far and the state keeps holding when a step extends both.
\<close>

locale history_invariant =
  fixes step :: "'s \<Rightarrow> 'l \<Rightarrow> 's \<Rightarrow> bool" and start :: "'s \<Rightarrow> bool"
    and inv :: "'l list \<Rightarrow> 's \<Rightarrow> bool"
  assumes start_holds: "start s \<Longrightarrow> inv [] s"
    and step_extends: "inv ls s \<Longrightarrow> step s l s' \<Longrightarrow> inv (ls @ [l]) s'"
begin

lemma run_holds: "run step s ls s' \<Longrightarrow> start s \<Longrightarrow> inv ls s'"
  by (induction rule: run.induct) (auto intro: start_holds step_extends)

end

end
