(* ===== verification/Escrow_Types.thy ===== *)
theory Escrow_Types
  imports Prelude
begin

text \<open>
  The data of the Soroban contract, \<open>contracts/waveflow-escrow/src\<close>: the error enum of
  \<open>errors.rs\<close>, the structs of \<open>types.rs\<close>, the storage keys of \<open>storage.rs\<close> and the event
  structs of \<open>events.rs\<close>.

  An \<open>Address\<close> is its strkey text and a \<open>Symbol\<close> the list of its characters. The host admits
  only some texts as symbols (\<open>host_symbol\<close>); the type does not enforce it, so every property
  that depends on it says so.
\<close>

type_synonym address = string
type_synonym symbol = string

section \<open>errors.rs\<close>

datatype contract_error =
    AlreadyInitialized
  | NotInitialized
  | Unauthorized
  | InvalidRepo
  | ProgramNotFound
  | ContributorNotFound
  | ContributorAlreadyRegistered
  | InsufficientEscrow
  | ProgramPaused
  | PrAlreadyProcessed
  | MilestoneCapExceeded
  | InsufficientDeposit
  | InvalidRatio
  | Overflow
  | ProgramNotPaused

text \<open>The \<open>repr(u32)\<close> discriminants, the codes a failed invocation carries.\<close>

fun error_code :: "contract_error \<Rightarrow> u32" where
  "error_code AlreadyInitialized = 1"
| "error_code NotInitialized = 2"
| "error_code Unauthorized = 3"
| "error_code InvalidRepo = 4"
| "error_code ProgramNotFound = 5"
| "error_code ContributorNotFound = 6"
| "error_code ContributorAlreadyRegistered = 7"
| "error_code InsufficientEscrow = 8"
| "error_code ProgramPaused = 9"
| "error_code PrAlreadyProcessed = 10"
| "error_code MilestoneCapExceeded = 11"
| "error_code InsufficientDeposit = 12"
| "error_code InvalidRatio = 13"
| "error_code Overflow = 14"
| "error_code ProgramNotPaused = 15"

text \<open>A client decodes a code back to the error; codes outside the enum decode to nothing.\<close>

definition error_of_code :: "u32 \<Rightarrow> contract_error option" where
  "error_of_code c = find (\<lambda>e. error_code e = c)
     [AlreadyInitialized, NotInitialized, Unauthorized, InvalidRepo, ProgramNotFound,
      ContributorNotFound, ContributorAlreadyRegistered, InsufficientEscrow, ProgramPaused,
      PrAlreadyProcessed, MilestoneCapExceeded, InsufficientDeposit, InvalidRatio, Overflow,
      ProgramNotPaused]"

lemma error_of_code_inverse [simp]: "error_of_code (error_code e) = Some e"
  by (cases e) (simp_all add: error_of_code_def)

lemma error_code_inject: "error_code a = error_code b \<longleftrightarrow> a = b"
  by (metis error_of_code_inverse option.inject)

text \<open>Errors are ordered by their code.\<close>

instantiation contract_error :: linorder
begin

definition less_eq_contract_error :: "contract_error \<Rightarrow> contract_error \<Rightarrow> bool" where
  "less_eq_contract_error a b \<longleftrightarrow> error_code a \<le> error_code b"

definition less_contract_error :: "contract_error \<Rightarrow> contract_error \<Rightarrow> bool" where
  "less_contract_error a b \<longleftrightarrow> error_code a < error_code b"

instance
  by standard
    (auto simp: less_eq_contract_error_def less_contract_error_def dest: antisym
      simp flip: error_code_inject)

end

section \<open>types.rs\<close>

datatype program_status = Active | Paused

record program =
  maintainer :: address
  github_repo :: symbol
  reward_per_point :: i128
  escrow_balance :: i128
  milestone_cap :: "i128 option"
  milestone_spent :: i128
  status :: program_status

record contributor =
  stellar_address :: address

section \<open>DataKey of storage.rs\<close>

datatype data_key =
    Admin
  | Gateway
  | Token
  | ProgramCounter
  | Program u64
  | Contributor u64 symbol
  | ProcessedPr u64 u64

section \<open>events.rs\<close>

datatype event_data =
    ProgramCreatedEvent (created_id: u64) (created_maintainer: address)
      (created_repo: symbol) (created_reward: i128)
  | FundedEvent (funded_id: u64) (funded_amount: i128) (funded_balance: i128)
  | ContributorRegisteredEvent (registered_id: u64) (registered_user: symbol)
      (registered_address: address)
  | MergeRecordedEvent (merged_id: u64) (merged_user: symbol) (merged_pr: u64)
      (merged_points: u32) (merged_payout: i128)
  | ProgramPausedEvent (paused_id: u64)
  | ProgramResumedEvent (resumed_id: u64)

text \<open>An emitted event: its one-symbol topic and its payload.\<close>

type_synonym event = "symbol \<times> event_data"

section \<open>The alphabet of host symbols\<close>

text \<open>
  A Soroban \<open>Symbol\<close> holds at most 32 characters of \<open>a-z\<close>, \<open>A-Z\<close>, \<open>0-9\<close> and the underscore;
  the host rejects every other text when the symbol is built. This is documented behaviour of
  the platform, not code of the repository.
\<close>

definition symbol_char :: "char \<Rightarrow> bool" where
  "symbol_char c \<longleftrightarrow>
     (CHR ''a'' \<le> c \<and> c \<le> CHR ''z'') \<or> (CHR ''A'' \<le> c \<and> c \<le> CHR ''Z'') \<or>
     (CHR ''0'' \<le> c \<and> c \<le> CHR ''9'') \<or> c = CHR ''_''"

definition host_symbol :: "symbol \<Rightarrow> bool" where
  "host_symbol s \<longleftrightarrow> length s \<le> 32 \<and> list_all symbol_char s"

lemma slash_not_symbol_char: "\<not> symbol_char (CHR ''/'')"
  by (simp add: symbol_char_def less_eq_char_def)

lemma host_symbol_no_slash: "host_symbol s \<Longrightarrow> CHR ''/'' \<notin> set s"
  using slash_not_symbol_char by (auto simp: host_symbol_def list_all_iff)

end
