(* ===== verification/Escrow_Host.thy ===== *)
theory Escrow_Host
  imports Escrow_Types
begin

text \<open>
  The part of the Soroban host the contract uses, as explicit state: the environment record
  \<open>env\<close> with the two stores, the event log, the authorisations of the current invocation and
  the state of the token contracts.

  The token contract is not code of the repository. Its \<open>transfer\<close> is a parameter of every
  operation that calls it; \<open>None\<close> is a transfer that traps. What is assumed of it is the
  predicate \<open>token_laws\<close>, the documented behaviour of the token interface.
\<close>

section \<open>Outcomes\<close>

text \<open>
  A contract function returns \<open>Ok\<close>, returns \<open>Err\<close> with a contract error, or traps (a failed
  \<open>require_auth\<close>, a panic, a failed host call).
\<close>

datatype 'a outcome = Ok 'a | Err contract_error | Trap

text \<open>The \<open>?\<close> operator: go on with the value, or leave with the error and the state so far.\<close>

fun propagate :: "'a outcome \<Rightarrow> 'e \<Rightarrow> ('a \<Rightarrow> 'b outcome \<times> 'e) \<Rightarrow> 'b outcome \<times> 'e" where
  "propagate (Ok x) s k = k x"
| "propagate (Err e) s k = (Err e, s)"
| "propagate Trap s k = (Trap, s)"

fun ok_or :: "'a option \<Rightarrow> contract_error \<Rightarrow> 'a outcome" where
  "ok_or None e = Err e"
| "ok_or (Some x) e = Ok x"

text \<open>A host call or an arithmetic operation that yields a value or traps.\<close>

fun ok_or_trap :: "'a option \<Rightarrow> 'a outcome" where
  "ok_or_trap None = Trap"
| "ok_or_trap (Some x) = Ok x"

lemma propagate_Ok_iff:
  "propagate v s k = (Ok r, s') \<longleftrightarrow> (\<exists>x. v = Ok x \<and> k x = (Ok r, s'))"
  by (cases v) auto

lemma ok_or_Ok [simp]: "ok_or v e = Ok x \<longleftrightarrow> v = Some x"
  by (cases v) auto

lemma ok_or_Err [simp]: "ok_or v e = Err e' \<longleftrightarrow> v = None \<and> e' = e"
  by (cases v) auto

lemma ok_or_not_Trap [simp]: "ok_or v e \<noteq> Trap"
  by (cases v) auto

lemma ok_or_trap_Ok [simp]: "ok_or_trap v = Ok x \<longleftrightarrow> v = Some x"
  by (cases v) auto

lemma ok_or_trap_not_Err [simp]: "ok_or_trap v \<noteq> Err e"
  by (cases v) auto

lemma ok_or_trap_Trap [simp]: "ok_or_trap v = Trap \<longleftrightarrow> v = None"
  by (cases v) auto

section \<open>The environment\<close>

text \<open>A stored value, tagged with the type it was written at.\<close>

datatype stored =
    StoredAddress address
  | StoredU64 u64
  | StoredProgram program
  | StoredContributor contributor
  | StoredBool bool

text \<open>
  \<open>overflow_checks\<close> is the setting the contract was compiled with; it decides what the plain
  \<open>+\<close> of \<open>next_program_id\<close> does on overflow.
\<close>

record 't env =
  instance_store :: "data_key \<rightharpoonup> stored"
  persistent_store :: "data_key \<rightharpoonup> stored"
  events :: "event list"
  tokens :: 't
  auths :: "address \<Rightarrow> bool"
  contract_address :: address
  overflow_checks :: bool

definition instance_set :: "data_key \<Rightarrow> stored \<Rightarrow> 't env \<Rightarrow> 't env" where
  "instance_set k v e = e\<lparr>instance_store := (instance_store e)(k \<mapsto> v)\<rparr>"

definition persistent_set :: "data_key \<Rightarrow> stored \<Rightarrow> 't env \<Rightarrow> 't env" where
  "persistent_set k v e = e\<lparr>persistent_store := (persistent_store e)(k \<mapsto> v)\<rparr>"

definition publish :: "symbol \<Rightarrow> event_data \<Rightarrow> 't env \<Rightarrow> 't env" where
  "publish topic data e = e\<lparr>events := events e @ [(topic, data)]\<rparr>"

text \<open>
  \<open>get\<close> at a type: absent, present, or present with another type, which traps in the
  conversion.
\<close>

fun get_as :: "(stored \<Rightarrow> 'a option) \<Rightarrow> stored option \<Rightarrow> 'a option outcome" where
  "get_as conv None = Ok None"
| "get_as conv (Some v) = (case conv v of None \<Rightarrow> Trap | Some x \<Rightarrow> Ok (Some x))"

fun as_address :: "stored \<Rightarrow> address option" where
  "as_address (StoredAddress a) = Some a"
| "as_address _ = None"

fun as_u64 :: "stored \<Rightarrow> u64 option" where
  "as_u64 (StoredU64 n) = Some n"
| "as_u64 _ = None"

fun as_program :: "stored \<Rightarrow> program option" where
  "as_program (StoredProgram p) = Some p"
| "as_program _ = None"

fun as_contributor :: "stored \<Rightarrow> contributor option" where
  "as_contributor (StoredContributor c) = Some c"
| "as_contributor _ = None"

fun as_bool :: "stored \<Rightarrow> bool option" where
  "as_bool (StoredBool b) = Some b"
| "as_bool _ = None"

lemma as_Some_iff [simp]:
  "as_address v = Some a \<longleftrightarrow> v = StoredAddress a"
  "as_u64 v = Some n \<longleftrightarrow> v = StoredU64 n"
  "as_program v = Some p \<longleftrightarrow> v = StoredProgram p"
  "as_contributor v = Some c \<longleftrightarrow> v = StoredContributor c"
  "as_bool v = Some b \<longleftrightarrow> v = StoredBool b"
  by (cases v; simp)+

section \<open>The token contract\<close>

type_synonym 't token_transfer = "address \<Rightarrow> address \<Rightarrow> address \<Rightarrow> i128 \<Rightarrow> 't \<Rightarrow> 't option"
type_synonym 't token_balance = "'t \<Rightarrow> address \<Rightarrow> address \<Rightarrow> int"

definition call_transfer ::
  "'t token_transfer \<Rightarrow> address \<Rightarrow> address \<Rightarrow> address \<Rightarrow> i128 \<Rightarrow> 't env
   \<Rightarrow> 't env outcome" where
  "call_transfer transfer token src dst amount e =
     ok_or_trap (map_option (\<lambda>t. e\<lparr>tokens := t\<rparr>) (transfer token src dst amount (tokens e)))"

text \<open>
  What the token interface documents: balances are not negative, and when \<open>transfer\<close> returns, the amount was not
  negative and covered by the sender, it moved from the sender to the receiver, and no other
  balance changed, neither of another account nor of another token.
\<close>

definition token_laws :: "'t token_transfer \<Rightarrow> 't token_balance \<Rightarrow> bool" where
  "token_laws transfer balance \<longleftrightarrow>
     (\<forall>t token who. 0 \<le> balance t token who) \<and>
     (\<forall>token src dst amount t t'. transfer token src dst amount t = Some t' \<longrightarrow>
        0 \<le> sint amount \<and> sint amount \<le> balance t token src \<and>
        (\<forall>token' who. balance t' token' who =
           balance t token' who
           - (if token' = token \<and> who = src then sint amount else 0)
           + (if token' = token \<and> who = dst then sint amount else 0)))"

text \<open>
  A token that does not refuse: a covered transfer between accounts it serves succeeds.
  Only the properties on progress assume it.
\<close>

definition token_serves ::
  "'t token_transfer \<Rightarrow> 't token_balance \<Rightarrow> (address \<Rightarrow> bool) \<Rightarrow> bool" where
  "token_serves transfer balance account \<longleftrightarrow>
     (\<forall>token src dst amount t. account src \<longrightarrow> account dst \<longrightarrow> 0 \<le> sint amount \<longrightarrow>
        sint amount \<le> balance t token src \<longrightarrow>
        (\<exists>t'. transfer token src dst amount t = Some t'))"

section \<open>An invocation\<close>

text \<open>
  The host runs a contract function for an invocation that some addresses have authorised and
  rolls every effect of the frame back unless it returns \<open>Ok\<close>.
\<close>

definition invoke ::
  "(address \<Rightarrow> bool) \<Rightarrow> ('t env \<Rightarrow> 'a outcome \<times> 't env) \<Rightarrow> 't env \<Rightarrow> 'a outcome \<times> 't env" where
  "invoke signers f e =
     (case f (e\<lparr>auths := signers\<rparr>) of
        (Ok r, e') \<Rightarrow> (Ok r, e'\<lparr>auths := auths e\<rparr>)
      | (res, _) \<Rightarrow> (res, e))"

lemma invoke_Ok:
  "invoke signers f e = (Ok r, e') \<longleftrightarrow>
     (\<exists>e1. f (e\<lparr>auths := signers\<rparr>) = (Ok r, e1) \<and> e' = e1\<lparr>auths := auths e\<rparr>)"
  by (auto simp: invoke_def split: prod.splits outcome.splits)

lemma invoke_failed:
  "invoke signers f e = (v, e') \<Longrightarrow> \<forall>r. v \<noteq> Ok r \<Longrightarrow> e' = e"
  by (auto simp: invoke_def split: prod.splits outcome.splits)

end
