(* ===== verification/Escrow_Storage.thy ===== *)
theory Escrow_Storage
  imports Escrow_Host
begin

text \<open>
  The typed accessors of \<open>contracts/waveflow-escrow/src/storage.rs\<close> over the two stores, and
  the interface they give the contract: a slot per kind of entry that reads back what was
  written (locale \<open>slot\<close>), and slots that do not disturb each other (locale
  \<open>independent_slots\<close>).
\<close>

section \<open>Accessors\<close>

fun and_then :: "'a outcome \<Rightarrow> ('a \<Rightarrow> 'b outcome) \<Rightarrow> 'b outcome" where
  "and_then (Ok x) k = k x"
| "and_then (Err e) k = Err e"
| "and_then Trap k = Trap"

definition read_admin :: "'t env \<Rightarrow> address outcome" where
  "read_admin e =
     and_then (get_as as_address (instance_store e Admin)) (\<lambda>v. ok_or v NotInitialized)"

definition read_gateway :: "'t env \<Rightarrow> address outcome" where
  "read_gateway e =
     and_then (get_as as_address (instance_store e Gateway)) (\<lambda>v. ok_or v NotInitialized)"

definition read_token :: "'t env \<Rightarrow> address outcome" where
  "read_token e =
     and_then (get_as as_address (instance_store e Token)) (\<lambda>v. ok_or v NotInitialized)"

definition read_program :: "'t env \<Rightarrow> u64 \<Rightarrow> program outcome" where
  "read_program e program_id =
     and_then (get_as as_program (persistent_store e (Program program_id)))
       (\<lambda>v. ok_or v ProgramNotFound)"

definition write_program :: "u64 \<Rightarrow> program \<Rightarrow> 't env \<Rightarrow> 't env" where
  "write_program program_id program = persistent_set (Program program_id) (StoredProgram program)"

definition next_program_id :: "'t env \<Rightarrow> u64 outcome \<times> 't env" where
  "next_program_id e =
     propagate (get_as as_u64 (instance_store e ProgramCounter)) e (\<lambda>stored.
     let current = (case stored of None \<Rightarrow> 0 | Some n \<Rightarrow> n) in
     propagate (ok_or_trap (arith_u64 (overflow_checks e) (uint current + 1))) e (\<lambda>next.
     (Ok next, instance_set ProgramCounter (StoredU64 next) e)))"

definition is_pr_processed :: "'t env \<Rightarrow> u64 \<Rightarrow> u64 \<Rightarrow> bool outcome" where
  "is_pr_processed e program_id pr_number =
     and_then (get_as as_bool (persistent_store e (ProcessedPr program_id pr_number)))
       (\<lambda>v. Ok (case v of None \<Rightarrow> False | Some b \<Rightarrow> b))"

definition mark_pr_processed :: "u64 \<Rightarrow> u64 \<Rightarrow> 't env \<Rightarrow> 't env" where
  "mark_pr_processed program_id pr_number =
     persistent_set (ProcessedPr program_id pr_number) (StoredBool True)"

definition read_contributor :: "'t env \<Rightarrow> u64 \<Rightarrow> symbol \<Rightarrow> contributor outcome" where
  "read_contributor e program_id github_username =
     and_then (get_as as_contributor (persistent_store e (Contributor program_id github_username)))
       (\<lambda>v. ok_or v ContributorNotFound)"

definition write_contributor :: "u64 \<Rightarrow> symbol \<Rightarrow> contributor \<Rightarrow> 't env \<Rightarrow> 't env" where
  "write_contributor program_id github_username contributor =
     persistent_set (Contributor program_id github_username) (StoredContributor contributor)"

definition validate_repo :: "symbol \<Rightarrow> unit outcome" where
  "validate_repo repo =
     (let slash_count = length (filter (\<lambda>b. b = CHR ''/'') repo)
      in if slash_count \<noteq> 1 \<or> repo = [] \<or> repo ! 0 = CHR ''/''
            \<or> repo ! (length repo - 1) = CHR ''/''
         then Err InvalidRepo else Ok ())"

definition require_active :: "program \<Rightarrow> unit outcome" where
  "require_active program = (if status program = Paused then Err ProgramPaused else Ok ())"

lemma and_then_Ok [simp]: "and_then v k = Ok r \<longleftrightarrow> (\<exists>x. v = Ok x \<and> k x = Ok r)"
  by (cases v) auto

lemma get_as_Ok [simp]:
  "get_as conv v = Ok None \<longleftrightarrow> v = None"
  "get_as conv v = Ok (Some x) \<longleftrightarrow> (\<exists>w. v = Some w \<and> conv w = Some x)"
  by (cases v; auto split: option.splits)+

lemma read_instance_Ok [simp]:
  "read_admin e = Ok a \<longleftrightarrow> instance_store e Admin = Some (StoredAddress a)"
  "read_gateway e = Ok a \<longleftrightarrow> instance_store e Gateway = Some (StoredAddress a)"
  "read_token e = Ok a \<longleftrightarrow> instance_store e Token = Some (StoredAddress a)"
  by (auto simp: read_admin_def read_gateway_def read_token_def)

lemma read_program_Ok [simp]:
  "read_program e pid = Ok p \<longleftrightarrow> persistent_store e (Program pid) = Some (StoredProgram p)"
  by (auto simp: read_program_def)

lemma read_contributor_Ok [simp]:
  "read_contributor e pid u = Ok c \<longleftrightarrow>
     persistent_store e (Contributor pid u) = Some (StoredContributor c)"
  by (auto simp: read_contributor_def)

lemma is_pr_processed_Ok [simp]:
  "is_pr_processed e pid pr = Ok b \<longleftrightarrow>
     persistent_store e (ProcessedPr pid pr) = Some (StoredBool b) \<or>
     (persistent_store e (ProcessedPr pid pr) = None \<and> \<not> b)"
  by (cases "persistent_store e (ProcessedPr pid pr)")
    (auto simp: is_pr_processed_def split: option.split)

lemma require_active_Ok [simp]: "require_active p = Ok () \<longleftrightarrow> status p = Active"
  by (cases "status p") (simp_all add: require_active_def)

lemma next_program_id_Ok:
  "next_program_id e = (Ok n, e') \<longleftrightarrow>
     e' = instance_set ProgramCounter (StoredU64 n) e \<and>
     (\<exists>c. (instance_store e ProgramCounter = Some (StoredU64 c) \<or>
           instance_store e ProgramCounter = None \<and> c = 0) \<and>
          arith_u64 (overflow_checks e) (uint c + 1) = Some n)"
  by (cases "instance_store e ProgramCounter")
    (auto simp: next_program_id_def propagate_Ok_iff split: option.split)

section \<open>The interface: slots\<close>

text \<open>A slot reads back what was written, and writing one index leaves the others alone.\<close>

locale slot =
  fixes get :: "'e \<Rightarrow> 'i \<Rightarrow> 'a outcome"
    and put :: "'i \<Rightarrow> 'a \<Rightarrow> 'e \<Rightarrow> 'e"
  assumes get_same: "get (put i a e) i = Ok a"
    and get_other: "i \<noteq> j \<Longrightarrow> get (put i a e) j = get e j"
begin

lemma get_put: "get (put i a e) j = (if i = j then Ok a else get e j)"
  by (simp add: get_same get_other)

text \<open>The last write of a run of writes wins, an index nobody wrote keeps its value.\<close>

lemma get_fold:
  "get (fold (\<lambda>(i, a). put i a) ws e) j =
     (case map_of (rev ws) j of None \<Rightarrow> get e j | Some a \<Rightarrow> Ok a)"
proof (induction ws arbitrary: e)
  case Nil
  then show ?case by simp
next
  case (Cons w ws)
  then show ?case
    by (cases w) (auto simp: get_put map_add_def split: option.splits)
qed

lemma update_commute:
  "i \<noteq> j \<Longrightarrow> get (put i a (put j b e)) k = get (put j b (put i a e)) k"
  by (auto simp add: get_put)

end

text \<open>Two slots over one environment whose writes do not reach each other.\<close>

locale independent_slots =
  fst: slot get1 put1 + snd: slot get2 put2
  for get1 :: "'e \<Rightarrow> 'i \<Rightarrow> 'a outcome" and put1 :: "'i \<Rightarrow> 'a \<Rightarrow> 'e \<Rightarrow> 'e"
    and get2 :: "'e \<Rightarrow> 'j \<Rightarrow> 'b outcome" and put2 :: "'j \<Rightarrow> 'b \<Rightarrow> 'e \<Rightarrow> 'e" +
  assumes get1_put2: "get1 (put2 j b e) i = get1 e i"
    and get2_put1: "get2 (put1 i a e) j = get2 e j"
begin

lemma both_written:
  "get1 (put1 i a (put2 j b e)) i = Ok a"
  "get2 (put1 i a (put2 j b e)) j = Ok b"
  by (simp_all add: fst.get_same snd.get_same get2_put1)

end

definition read_processed :: "'t env \<Rightarrow> u64 \<times> u64 \<Rightarrow> bool outcome" where
  "read_processed e k = is_pr_processed e (fst k) (snd k)"

definition write_processed :: "u64 \<times> u64 \<Rightarrow> bool \<Rightarrow> 't env \<Rightarrow> 't env" where
  "write_processed k b = persistent_set (ProcessedPr (fst k) (snd k)) (StoredBool b)"

definition read_registered :: "'t env \<Rightarrow> u64 \<times> symbol \<Rightarrow> contributor outcome" where
  "read_registered e k = read_contributor e (fst k) (snd k)"

definition write_registered :: "u64 \<times> symbol \<Rightarrow> contributor \<Rightarrow> 't env \<Rightarrow> 't env" where
  "write_registered k c = write_contributor (fst k) (snd k) c"

lemma mark_is_write_processed: "mark_pr_processed pid pr = write_processed (pid, pr) True"
  by (simp add: mark_pr_processed_def write_processed_def)

lemmas slot_defs =
  read_program_def write_program_def read_processed_def write_processed_def
  is_pr_processed_def read_registered_def write_registered_def read_contributor_def
  write_contributor_def persistent_set_def

interpretation program_slot: slot read_program write_program
  by unfold_locales (auto simp: slot_defs)

interpretation processed_slot: slot read_processed write_processed
  by unfold_locales (auto simp: slot_defs prod_eq_iff)

interpretation registered_slot: slot read_registered write_registered
  by unfold_locales (auto simp: slot_defs prod_eq_iff)

interpretation program_processed:
  independent_slots read_program write_program read_processed write_processed
  by unfold_locales (auto simp: slot_defs)

interpretation program_registered:
  independent_slots read_program write_program read_registered write_registered
  by unfold_locales (auto simp: slot_defs)

interpretation processed_registered:
  independent_slots read_processed write_processed read_registered write_registered
  by unfold_locales (auto simp: slot_defs)

end
