(* ===== verification/Escrow_Contract.thy ===== *)
theory Escrow_Contract
  imports Escrow_Storage
begin

text \<open>
  The contract functions of \<open>contracts/waveflow-escrow/src/contract.rs\<close>, one definition per
  function, guards and effects in the order of the source. When each returns \<open>Ok\<close>, and with which state,
  is proved in \<open>Escrow_System\<close>.

  A function takes the environment and returns an outcome with the environment at the point
  where it returned or trapped; the roll back of a failed frame is the host's (\<open>invoke\<close>).
  \<open>require_auth\<close> of an address that did not authorise the invocation traps.
\<close>

definition MIN_DEPOSIT :: i128 where
  "MIN_DEPOSIT = 1"

definition initialize :: "address \<Rightarrow> address \<Rightarrow> address \<Rightarrow> 't env \<Rightarrow> unit outcome \<times> 't env" where
  "initialize admin gateway token e =
     (if instance_store e Admin \<noteq> None then (Err AlreadyInitialized, e)
      else if \<not> auths e admin then (Trap, e)
      else let e = instance_set Admin (StoredAddress admin) e;
               e = instance_set Gateway (StoredAddress gateway) e;
               e = instance_set Token (StoredAddress token) e;
               e = instance_set ProgramCounter (StoredU64 0) e
           in (Ok (), e))"

definition create_program ::
  "address \<Rightarrow> symbol \<Rightarrow> i128 \<Rightarrow> i128 option \<Rightarrow> 't env \<Rightarrow> u64 outcome \<times> 't env" where
  "create_program caller repo reward cap e =
     (if \<not> auths e caller then (Trap, e)
      else if sint reward \<le> 0 then (Err InvalidRatio, e)
      else propagate (validate_repo repo) e (\<lambda>_.
        let (id_result, e) = next_program_id e in
        propagate id_result e (\<lambda>program_id.
        let program = \<lparr>maintainer = caller, github_repo = repo, reward_per_point = reward,
              escrow_balance = 0, milestone_cap = cap, milestone_spent = 0, status = Active\<rparr>;
            e = write_program program_id program e;
            e = publish ''prog_new'' (ProgramCreatedEvent program_id caller repo reward) e
        in (Ok program_id, e))))"

definition fund ::
  "'t token_transfer \<Rightarrow> u64 \<Rightarrow> address \<Rightarrow> i128 \<Rightarrow> 't env \<Rightarrow> unit outcome \<times> 't env" where
  "fund transfer program_id src amount e =
     (if \<not> auths e src then (Trap, e)
      else if sint amount < sint MIN_DEPOSIT then (Err InsufficientDeposit, e)
      else propagate (read_program e program_id) e (\<lambda>program.
        if maintainer program \<noteq> src then (Err Unauthorized, e)
        else propagate (read_token e) e (\<lambda>token.
        propagate (call_transfer transfer token src (contract_address e) amount e) e (\<lambda>e.
        propagate (ok_or (checked_add (escrow_balance program) amount) Overflow) e (\<lambda>balance.
        let program = program\<lparr>escrow_balance := balance\<rparr>;
            e = write_program program_id program e;
            e = publish ''funded'' (FundedEvent program_id amount (escrow_balance program)) e
        in (Ok (), e))))))"

definition register_contributor ::
  "u64 \<Rightarrow> address \<Rightarrow> symbol \<Rightarrow> address \<Rightarrow> 't env \<Rightarrow> unit outcome \<times> 't env" where
  "register_contributor program_id caller github_username wallet e =
     (if \<not> auths e caller then (Trap, e)
      else propagate (read_program e program_id) e (\<lambda>program.
        if maintainer program \<noteq> caller then (Err Unauthorized, e)
        else if persistent_store e (Contributor program_id github_username) \<noteq> None
        then (Err ContributorAlreadyRegistered, e)
        else let e = write_contributor program_id github_username
                       \<lparr>stellar_address = wallet\<rparr> e;
                 e = publish ''contrib''
                       (ContributorRegisteredEvent program_id github_username wallet) e
             in (Ok (), e)))"

text \<open>The \<open>if let Some(cap)\<close> block of \<open>record_merge\<close>: the program with the payout charged.\<close>

definition charge_milestone :: "program \<Rightarrow> i128 \<Rightarrow> program outcome" where
  "charge_milestone program payout =
     (case milestone_cap program of
        None \<Rightarrow> Ok program
      | Some cap \<Rightarrow>
          and_then (ok_or (checked_add (milestone_spent program) payout) Overflow) (\<lambda>new_spent.
          if sint new_spent > sint cap then Err MilestoneCapExceeded
          else Ok (program\<lparr>milestone_spent := new_spent\<rparr>)))"

definition record_merge ::
  "'t token_transfer \<Rightarrow> address \<Rightarrow> u64 \<Rightarrow> symbol \<Rightarrow> u64 \<Rightarrow> u32 \<Rightarrow> 't env
   \<Rightarrow> i128 outcome \<times> 't env" where
  "record_merge transfer gateway program_id github_username pr_number points e =
     (if \<not> auths e gateway then (Trap, e)
      else propagate (read_gateway e) e (\<lambda>authorized.
        if authorized \<noteq> gateway then (Err Unauthorized, e)
        else if points = 0 then (Err InvalidRatio, e)
        else propagate (is_pr_processed e program_id pr_number) e (\<lambda>processed.
        if processed then (Err PrAlreadyProcessed, e)
        else propagate (read_program e program_id) e (\<lambda>program.
        propagate (require_active program) e (\<lambda>_.
        propagate (read_contributor e program_id github_username) e (\<lambda>contributor.
        propagate (ok_or (checked_mul (i128_from_u32 points) (reward_per_point program)) Overflow) e
          (\<lambda>payout.
        if sint (escrow_balance program) < sint payout then (Err InsufficientEscrow, e)
        else propagate (charge_milestone program payout) e (\<lambda>program.
        propagate (read_token e) e (\<lambda>token.
        propagate (call_transfer transfer token (contract_address e)
                     (stellar_address contributor) payout e) e (\<lambda>e.
        propagate (ok_or (checked_sub (escrow_balance program) payout) Overflow) e (\<lambda>balance.
        let program = program\<lparr>escrow_balance := balance\<rparr>;
            e = write_program program_id program e;
            e = mark_pr_processed program_id pr_number e;
            e = publish ''merge''
              (MergeRecordedEvent program_id github_username pr_number points payout) e
        in (Ok payout, e))))))))))))"

definition pause :: "u64 \<Rightarrow> address \<Rightarrow> 't env \<Rightarrow> unit outcome \<times> 't env" where
  "pause program_id caller e =
     (if \<not> auths e caller then (Trap, e)
      else propagate (read_program e program_id) e (\<lambda>program.
        if maintainer program \<noteq> caller then (Err Unauthorized, e)
        else let program = program\<lparr>status := Paused\<rparr>;
                 e = write_program program_id program e;
                 e = publish ''paused'' (ProgramPausedEvent program_id) e
             in (Ok (), e)))"

definition resume :: "u64 \<Rightarrow> address \<Rightarrow> 't env \<Rightarrow> unit outcome \<times> 't env" where
  "resume program_id caller e =
     (if \<not> auths e caller then (Trap, e)
      else propagate (read_program e program_id) e (\<lambda>program.
        if maintainer program \<noteq> caller then (Err Unauthorized, e)
        else let program = program\<lparr>status := Active\<rparr>;
                 e = write_program program_id program e;
                 e = publish ''resumed'' (ProgramResumedEvent program_id) e
             in (Ok (), e)))"

definition set_ratio :: "u64 \<Rightarrow> address \<Rightarrow> i128 \<Rightarrow> 't env \<Rightarrow> unit outcome \<times> 't env" where
  "set_ratio program_id caller reward e =
     (if \<not> auths e caller then (Trap, e)
      else if sint reward \<le> 0 then (Err InvalidRatio, e)
      else propagate (read_program e program_id) e (\<lambda>program.
        if maintainer program \<noteq> caller then (Err Unauthorized, e)
        else let program = program\<lparr>reward_per_point := reward\<rparr>;
                 e = write_program program_id program e
             in (Ok (), e)))"

definition withdraw_remaining ::
  "'t token_transfer \<Rightarrow> u64 \<Rightarrow> address \<Rightarrow> 't env \<Rightarrow> i128 outcome \<times> 't env" where
  "withdraw_remaining transfer program_id caller e =
     (if \<not> auths e caller then (Trap, e)
      else propagate (read_program e program_id) e (\<lambda>program.
        if maintainer program \<noteq> caller then (Err Unauthorized, e)
        else if status program \<noteq> Paused then (Err ProgramNotPaused, e)
        else let amount = escrow_balance program in
        if sint amount \<le> 0 then (Ok 0, e)
        else propagate (read_token e) e (\<lambda>token.
        propagate (call_transfer transfer token (contract_address e) caller amount e) e (\<lambda>e.
        let program = program\<lparr>escrow_balance := 0\<rparr>;
            e = write_program program_id program e
        in (Ok amount, e)))))"

definition get_program :: "u64 \<Rightarrow> 't env \<Rightarrow> program outcome" where
  "get_program program_id e = read_program e program_id"

definition get_escrow_balance :: "u64 \<Rightarrow> 't env \<Rightarrow> i128 outcome" where
  "get_escrow_balance program_id e =
     and_then (read_program e program_id) (\<lambda>program. Ok (escrow_balance program))"

definition is_processed :: "u64 \<Rightarrow> u64 \<Rightarrow> 't env \<Rightarrow> bool outcome" where
  "is_processed program_id pr_number e = is_pr_processed e program_id pr_number"

definition admin :: "'t env \<Rightarrow> address outcome" where
  "admin e = read_admin e"

lemmas contract_defs [op_defs] =
  initialize_def create_program_def fund_def register_contributor_def record_merge_def
  pause_def resume_def set_ratio_def withdraw_remaining_def

end
