(* ===== verification/Escrow_System.thy ===== *)
theory Escrow_System
  imports Escrow_Contract
begin

text \<open>
  The contract as a transition system. \<open>dispatch\<close> is the contract's entry point;
  \<open>committed\<close> describes, one rule per function, the invocations that return \<open>Ok\<close> and the
  state they leave, and \<open>committed_iff\<close> proves that the code commits exactly these.
  \<open>escrow_step\<close> adds the failed invocations, which leave no effect, and the moves of the rest
  of the token world.
\<close>

section \<open>Entry points\<close>

datatype call =
    Initialize address address address
  | CreateProgram address symbol i128 "i128 option"
  | Fund u64 address i128
  | RegisterContributor u64 address symbol address
  | RecordMerge address u64 symbol u64 u32
  | Pause u64 address
  | Resume u64 address
  | SetRatio u64 address i128
  | WithdrawRemaining u64 address

datatype reply = Done | ProgramId u64 | Amount i128

definition map_reply :: "('a \<Rightarrow> 'b) \<Rightarrow> 'a outcome \<times> 'e \<Rightarrow> 'b outcome \<times> 'e" where
  "map_reply f res = (map_outcome f (fst res), snd res)"

fun dispatch :: "'t token_transfer \<Rightarrow> call \<Rightarrow> 't env \<Rightarrow> reply outcome \<times> 't env" where
  "dispatch transfer (Initialize adm gw tok) e = map_reply (\<lambda>_. Done) (initialize adm gw tok e)"
| "dispatch transfer (CreateProgram who repo reward cap) e =
     map_reply ProgramId (create_program who repo reward cap e)"
| "dispatch transfer (Fund pid src amount) e = map_reply (\<lambda>_. Done) (fund transfer pid src amount e)"
| "dispatch transfer (RegisterContributor pid caller user wallet) e =
     map_reply (\<lambda>_. Done) (register_contributor pid caller user wallet e)"
| "dispatch transfer (RecordMerge gw pid user pr points) e =
     map_reply Amount (record_merge transfer gw pid user pr points e)"
| "dispatch transfer (Pause pid caller) e = map_reply (\<lambda>_. Done) (pause pid caller e)"
| "dispatch transfer (Resume pid caller) e = map_reply (\<lambda>_. Done) (resume pid caller e)"
| "dispatch transfer (SetRatio pid caller reward) e =
     map_reply (\<lambda>_. Done) (set_ratio pid caller reward e)"
| "dispatch transfer (WithdrawRemaining pid caller) e =
     map_reply Amount (withdraw_remaining transfer pid caller e)"

lemma map_reply_Ok:
  "map_reply f res = (Ok r, e) \<longleftrightarrow> (\<exists>x. res = (Ok x, e) \<and> r = f x)"
  by (cases res; cases "fst res") (auto simp: map_reply_def)

section \<open>Views of the stores\<close>

definition program_at :: "'t env \<Rightarrow> u64 \<Rightarrow> program option" where
  "program_at e pid =
     (case persistent_store e (Program pid) of Some (StoredProgram p) \<Rightarrow> Some p | _ \<Rightarrow> None)"

definition paid_prs :: "'t env \<Rightarrow> (u64 \<times> u64) set" where
  "paid_prs e = {(pid, pr). persistent_store e (ProcessedPr pid pr) = Some (StoredBool True)}"

definition token_of :: "'t env \<Rightarrow> address option" where
  "token_of e = (case instance_store e Token of Some (StoredAddress a) \<Rightarrow> Some a | _ \<Rightarrow> None)"

lemma program_at_Some [simp]:
  "program_at e pid = Some p \<longleftrightarrow> persistent_store e (Program pid) = Some (StoredProgram p)"
  by (auto simp: program_at_def split: option.splits stored.splits)

lemma token_of_Some [simp]:
  "token_of e = Some a \<longleftrightarrow> instance_store e Token = Some (StoredAddress a)"
  by (auto simp: token_of_def split: option.splits stored.splits)

section \<open>Committed invocations\<close>

abbreviation store_at :: "data_key \<Rightarrow> stored \<Rightarrow> 't env \<Rightarrow> (data_key \<rightharpoonup> stored)" where
  "store_at k v e \<equiv> (persistent_store e)(k \<mapsto> v)"

text \<open>The value the milestone counter takes when a payout is charged.\<close>

definition milestone_after :: "program \<Rightarrow> i128 \<Rightarrow> i128 \<Rightarrow> bool" where
  "milestone_after p payout spent \<longleftrightarrow>
     (case milestone_cap p of
        None \<Rightarrow> spent = milestone_spent p
      | Some cap \<Rightarrow> sint spent = sint (milestone_spent p) + sint payout \<and> sint spent \<le> sint cap)"

inductive committed ::
  "'t token_transfer \<Rightarrow> (address \<Rightarrow> bool) \<Rightarrow> call \<Rightarrow> 't env \<Rightarrow> reply \<Rightarrow> 't env \<Rightarrow> bool"
  for transfer :: "'t token_transfer" and signers :: "address \<Rightarrow> bool" where
  initialize:
    "instance_store e Admin = None \<Longrightarrow> signers adm \<Longrightarrow>
     committed transfer signers (Initialize adm gw tok) e Done
       (e\<lparr>instance_store := (instance_store e)(Admin \<mapsto> StoredAddress adm,
            Gateway \<mapsto> StoredAddress gw, Token \<mapsto> StoredAddress tok,
            ProgramCounter \<mapsto> StoredU64 0)\<rparr>)"
| create_program:
    "signers who \<Longrightarrow> 0 < sint reward \<Longrightarrow> validate_repo repo = Ok () \<Longrightarrow>
     instance_store e ProgramCounter = Some (StoredU64 n) \<or>
       instance_store e ProgramCounter = None \<and> n = 0 \<Longrightarrow>
     arith_u64 (overflow_checks e) (uint n + 1) = Some pid \<Longrightarrow>
     committed transfer signers (CreateProgram who repo reward cap) e (ProgramId pid)
       (e\<lparr>instance_store := (instance_store e)(ProgramCounter \<mapsto> StoredU64 pid),
          persistent_store := store_at (Program pid) (StoredProgram
            \<lparr>maintainer = who, github_repo = repo, reward_per_point = reward,
             escrow_balance = 0, milestone_cap = cap, milestone_spent = 0,
             status = Active\<rparr>) e,
          events := events e @ [(''prog_new'', ProgramCreatedEvent pid who repo reward)]\<rparr>)"
| fund:
    "signers who \<Longrightarrow> 0 < sint amount \<Longrightarrow> program_at e pid = Some p \<Longrightarrow> maintainer p = who \<Longrightarrow>
     token_of e = Some tok \<Longrightarrow>
     transfer tok who (contract_address e) amount (tokens e) = Some t \<Longrightarrow>
     sint balance = sint (escrow_balance p) + sint amount \<Longrightarrow>
     committed transfer signers (Fund pid who amount) e Done
       (e\<lparr>tokens := t,
          persistent_store := store_at (Program pid) (StoredProgram
            (p\<lparr>escrow_balance := balance\<rparr>)) e,
          events := events e @ [(''funded'', FundedEvent pid amount balance)]\<rparr>)"
| register_contributor:
    "signers who \<Longrightarrow> program_at e pid = Some p \<Longrightarrow> maintainer p = who \<Longrightarrow>
     persistent_store e (Contributor pid user) = None \<Longrightarrow>
     committed transfer signers (RegisterContributor pid who user wallet) e Done
       (e\<lparr>persistent_store := store_at (Contributor pid user)
            (StoredContributor \<lparr>stellar_address = wallet\<rparr>) e,
          events := events e @ [(''contrib'', ContributorRegisteredEvent pid user wallet)]\<rparr>)"
| record_merge:
    "signers gw \<Longrightarrow> instance_store e Gateway = Some (StoredAddress gw) \<Longrightarrow> points \<noteq> 0 \<Longrightarrow>
     persistent_store e (ProcessedPr pid pr) \<in> {None, Some (StoredBool False)} \<Longrightarrow>
     program_at e pid = Some p \<Longrightarrow> status p = Active \<Longrightarrow>
     persistent_store e (Contributor pid user) = Some (StoredContributor c) \<Longrightarrow>
     sint payout = uint points * sint (reward_per_point p) \<Longrightarrow>
     sint payout \<le> sint (escrow_balance p) \<Longrightarrow>
     milestone_after p payout spent \<Longrightarrow>
     token_of e = Some tok \<Longrightarrow>
     transfer tok (contract_address e) (stellar_address c) payout (tokens e) = Some t \<Longrightarrow>
     sint balance = sint (escrow_balance p) - sint payout \<Longrightarrow>
     committed transfer signers (RecordMerge gw pid user pr points) e (Amount payout)
       (e\<lparr>tokens := t,
          persistent_store := (store_at (Program pid) (StoredProgram
            (p\<lparr>milestone_spent := spent, escrow_balance := balance\<rparr>)) e)
            (ProcessedPr pid pr \<mapsto> StoredBool True),
          events := events e @ [(''merge'', MergeRecordedEvent pid user pr points payout)]\<rparr>)"
| pause:
    "signers who \<Longrightarrow> program_at e pid = Some p \<Longrightarrow> maintainer p = who \<Longrightarrow>
     committed transfer signers (Pause pid who) e Done
       (e\<lparr>persistent_store := store_at (Program pid) (StoredProgram (p\<lparr>status := Paused\<rparr>)) e,
          events := events e @ [(''paused'', ProgramPausedEvent pid)]\<rparr>)"
| resume:
    "signers who \<Longrightarrow> program_at e pid = Some p \<Longrightarrow> maintainer p = who \<Longrightarrow>
     committed transfer signers (Resume pid who) e Done
       (e\<lparr>persistent_store := store_at (Program pid) (StoredProgram (p\<lparr>status := Active\<rparr>)) e,
          events := events e @ [(''resumed'', ProgramResumedEvent pid)]\<rparr>)"
| set_ratio:
    "signers who \<Longrightarrow> 0 < sint reward \<Longrightarrow> program_at e pid = Some p \<Longrightarrow> maintainer p = who \<Longrightarrow>
     committed transfer signers (SetRatio pid who reward) e Done
       (e\<lparr>persistent_store := store_at (Program pid)
            (StoredProgram (p\<lparr>reward_per_point := reward\<rparr>)) e\<rparr>)"
| withdraw_nothing:
    "signers who \<Longrightarrow> program_at e pid = Some p \<Longrightarrow> maintainer p = who \<Longrightarrow> status p = Paused \<Longrightarrow>
     sint (escrow_balance p) \<le> 0 \<Longrightarrow>
     committed transfer signers (WithdrawRemaining pid who) e (Amount 0) e"
| withdraw_remaining:
    "signers who \<Longrightarrow> program_at e pid = Some p \<Longrightarrow> maintainer p = who \<Longrightarrow> status p = Paused \<Longrightarrow>
     0 < sint (escrow_balance p) \<Longrightarrow> token_of e = Some tok \<Longrightarrow>
     transfer tok (contract_address e) who (escrow_balance p) (tokens e) = Some t \<Longrightarrow>
     committed transfer signers (WithdrawRemaining pid who) e
       (Amount (escrow_balance p))
       (e\<lparr>tokens := t,
          persistent_store := store_at (Program pid) (StoredProgram (p\<lparr>escrow_balance := 0\<rparr>)) e\<rparr>)"

section \<open>The code commits exactly these\<close>

lemma call_transfer_Ok [simp]:
  "call_transfer transfer tok src dst amount e = Ok e' \<longleftrightarrow>
     (\<exists>t. transfer tok src dst amount (tokens e) = Some t \<and> e' = e\<lparr>tokens := t\<rparr>)"
  by (auto simp: call_transfer_def)

lemma charge_milestone_Ok:
  "charge_milestone p payout = Ok p' \<longleftrightarrow>
     (\<exists>spent. milestone_after p payout spent \<and> p' = p\<lparr>milestone_spent := spent\<rparr>)"
proof (cases "milestone_cap p")
  case None
  then show ?thesis by (auto simp: charge_milestone_def milestone_after_def)
next
  case (Some cap)
  have "(\<exists>x. P x \<and> (if sint cap < sint x then Err MilestoneCapExceeded else Ok (f x)) = Ok p')
      \<longleftrightarrow> (\<exists>x. P x \<and> sint x \<le> sint cap \<and> p' = f x)" for P and f :: "i128 \<Rightarrow> program"
    by (metis contract_error.exhaust outcome.distinct(1) outcome.inject(1) linorder_not_le)
  with Some show ?thesis
    by (simp add: charge_milestone_def milestone_after_def checked_simps conj_assoc)
qed

lemmas write_defs =
  instance_set_def persistent_set_def publish_def write_program_def write_contributor_def
  mark_pr_processed_def

lemmas code_simps =
  propagate_Ok_iff Let_def checked_simps MIN_DEPOSIT_def charge_milestone_Ok next_program_id_Ok
  write_defs map_reply_Ok invoke_Ok

lemma commits_initialize:
  "invoke signers (dispatch transfer (Initialize adm gw tok)) e = (Ok r, e') \<Longrightarrow>
     committed transfer signers (Initialize adm gw tok) e r e'"
  by (auto simp: initialize_def code_simps split: if_splits intro!: committed.intros)

lemma commits_create_program:
  "invoke signers (dispatch transfer (CreateProgram who repo reward cap)) e = (Ok r, e') \<Longrightarrow>
     committed transfer signers (CreateProgram who repo reward cap) e r e'"
  by (auto simp: create_program_def code_simps split: if_splits prod.splits
      intro!: committed.create_program)

lemma commits_fund:
  "invoke signers (dispatch transfer (Fund pid src amount)) e = (Ok r, e') \<Longrightarrow>
     committed transfer signers (Fund pid src amount) e r e'"
  by (auto simp: fund_def code_simps split: if_splits intro!: committed.fund)

lemma commits_register_contributor:
  "invoke signers (dispatch transfer (RegisterContributor pid who user wallet)) e = (Ok r, e') \<Longrightarrow>
     committed transfer signers (RegisterContributor pid who user wallet) e r e'"
  by (auto simp: register_contributor_def code_simps split: if_splits
      intro!: committed.register_contributor)

lemma commits_record_merge:
  "invoke signers (dispatch transfer (RecordMerge gw pid user pr points)) e = (Ok r, e') \<Longrightarrow>
     committed transfer signers (RecordMerge gw pid user pr points) e r e'"
  by (auto simp: record_merge_def code_simps split: if_splits
      intro!: committed.record_merge)

lemma commits_pause:
  "invoke signers (dispatch transfer (Pause pid who)) e = (Ok r, e') \<Longrightarrow>
     committed transfer signers (Pause pid who) e r e'"
  by (auto simp: pause_def code_simps split: if_splits intro!: committed.pause)

lemma commits_resume:
  "invoke signers (dispatch transfer (Resume pid who)) e = (Ok r, e') \<Longrightarrow>
     committed transfer signers (Resume pid who) e r e'"
  by (auto simp: resume_def code_simps split: if_splits intro!: committed.resume)

lemma commits_set_ratio:
  "invoke signers (dispatch transfer (SetRatio pid who reward)) e = (Ok r, e') \<Longrightarrow>
     committed transfer signers (SetRatio pid who reward) e r e'"
  by (auto simp: set_ratio_def code_simps split: if_splits intro!: committed.set_ratio)

lemma commits_withdraw_remaining:
  "invoke signers (dispatch transfer (WithdrawRemaining pid who)) e = (Ok r, e') \<Longrightarrow>
     committed transfer signers (WithdrawRemaining pid who) e r e'"
  by (auto simp: withdraw_remaining_def code_simps split: if_splits
      intro!: committed.withdraw_remaining committed.withdraw_nothing)

lemmas commits =
  commits_initialize commits_create_program commits_fund commits_register_contributor
  commits_record_merge commits_pause commits_resume commits_set_ratio commits_withdraw_remaining

lemma invoke_commits:
  "invoke signers (dispatch transfer c) e = (Ok r, e') \<Longrightarrow> committed transfer signers c e r e'"
  by (cases c) (auto intro: commits simp del: dispatch.simps)

text \<open>
  The other direction: in a state where a rule applies, the code runs to its end. The word
  equations are turned round, so that the checked operations compute the rule's values.
\<close>

lemma sint_eq [simp]: "sint a = sint b \<longleftrightarrow> a = b"
  by (simp add: word_eq_sint)

lemma next_program_id_intro:
  "instance_store e ProgramCounter = Some (StoredU64 n) \<or>
     instance_store e ProgramCounter = None \<and> n = 0 \<Longrightarrow>
   arith_u64 (overflow_checks e) (uint n + 1) = Some pid \<Longrightarrow>
   next_program_id e = (Ok pid, instance_set ProgramCounter (StoredU64 pid) e)"
  unfolding next_program_id_Ok by blast

lemma charge_milestone_intro:
  "milestone_after p payout spent \<Longrightarrow>
     charge_milestone p payout = Ok (p\<lparr>milestone_spent := spent\<rparr>)"
  unfolding charge_milestone_Ok by blast

lemma committed_invokes:
  "committed transfer signers c e r e' \<Longrightarrow> invoke signers (dispatch transfer c) e = (Ok r, e')"
proof (induction rule: committed.induct)
  case (initialize e adm gw tok)
  then show ?case by (simp add: initialize_def code_simps)
next
  case (create_program who reward repo e n pid cap)
  then have "next_program_id (e\<lparr>auths := signers\<rparr>) =
      (Ok pid, instance_set ProgramCounter (StoredU64 pid) (e\<lparr>auths := signers\<rparr>))"
    by (intro next_program_id_intro) auto
  with create_program show ?case
    by (cases e) (simp add: create_program_def map_reply_Ok invoke_Ok Let_def write_defs)
next
  case (fund who amount e pid p tok t balance)
  from fund(7) [symmetric] fund(1-6) show ?case
    by (simp add: fund_def code_simps)
next
  case (register_contributor who e pid p user wallet)
  then show ?case by (simp add: register_contributor_def code_simps)
next
  case (record_merge gw e points pid pr p user c payout spent tok t balance)
  let ?e = "e\<lparr>auths := signers\<rparr>"
  have reads: "read_gateway ?e = Ok gw" "is_pr_processed ?e pid pr = Ok False"
      "read_program ?e pid = Ok p" "require_active p = Ok ()" "read_contributor ?e pid user = Ok c"
      "read_token ?e = Ok tok"
    using record_merge(2,4-7,11) by auto
  have payout: "ok_or (checked_mul (i128_from_u32 points) (reward_per_point p)) Overflow = Ok payout"
    using record_merge(8) by (simp add: checked_simps)
  have balance: "ok_or (checked_sub (escrow_balance p) payout) Overflow = Ok balance"
    using record_merge(13) by (simp add: checked_simps)
  have moved: "call_transfer transfer tok (contract_address e) (stellar_address c) payout ?e =
      Ok (?e\<lparr>tokens := t\<rparr>)"
    using record_merge(12) by simp
  have "record_merge transfer gw pid user pr points ?e = (Ok payout,
      publish ''merge'' (MergeRecordedEvent pid user pr points payout)
        (mark_pr_processed pid pr (write_program pid
          (p\<lparr>milestone_spent := spent, escrow_balance := balance\<rparr>) (?e\<lparr>tokens := t\<rparr>))))"
    using record_merge(1,3,9)
    by (simp add: record_merge_def Let_def reads payout balance moved
      charge_milestone_intro [OF record_merge(10)])
  then show ?case
    by (simp add: map_reply_Ok invoke_Ok write_defs)
next
  case (pause who e pid p)
  then show ?case by (simp add: pause_def code_simps)
next
  case (resume who e pid p)
  then show ?case by (simp add: resume_def code_simps)
next
  case (set_ratio who reward e pid p)
  then show ?case by (simp add: set_ratio_def code_simps)
next
  case (withdraw_nothing who e pid p)
  then show ?case by (simp add: withdraw_remaining_def code_simps)
next
  case (withdraw_remaining who e pid p tok t)
  then show ?case by (simp add: withdraw_remaining_def code_simps)
qed

lemma invoke_iff_committed:
  "invoke signers (dispatch transfer c) e = (Ok r, e') \<longleftrightarrow> committed transfer signers c e r e'"
  using invoke_commits committed_invokes by blast

end
