(* ===== verification/Escrow_Invariants.thy ===== *)
theory Escrow_Invariants
  imports Escrow_System
begin

text \<open>
  What holds in every state the contract can reach: stored values have the type of their key,
  the configuration is written at once, every program is sound (positive reward, no negative
  balance, milestone within its cap), every payout was logged once, and the escrow is covered
  by the contract's token balance. Each is one instance of the locale \<open>invariant_of\<close>.
\<close>

section \<open>Steps\<close>

datatype escrow_label = Invoked "address \<Rightarrow> bool" call "reply outcome" | TokenWorld

text \<open>
  An invocation by anyone, with any signers but the contract itself (the contract calls only
  the token, never itself, so it never authorises one of its own functions), or a move of the
  rest of the token world, which can pay the contract but, without the contract's
  authorisation, not debit it.
\<close>

inductive escrow_step ::
  "'t token_transfer \<Rightarrow> 't token_balance \<Rightarrow> 't env \<Rightarrow> escrow_label \<Rightarrow> 't env \<Rightarrow> bool"
  for transfer balance where
  invoked:
    "\<not> signers (contract_address e) \<Longrightarrow> invoke signers (dispatch transfer c) e = (v, e') \<Longrightarrow>
     escrow_step transfer balance e (Invoked signers c v) e'"
| token_world:
    "(\<And>token. balance (tokens e) token (contract_address e)
        \<le> balance t token (contract_address e)) \<Longrightarrow>
     escrow_step transfer balance e TokenWorld (e\<lparr>tokens := t\<rparr>)"

lemma escrow_step_cases [consumes 1, case_names committed failed token_world]:
  assumes "escrow_step transfer balance e l e'"
  obtains (committed) signers c r where "l = Invoked signers c (Ok r)"
      "\<not> signers (contract_address e)" "committed transfer signers c e r e'"
  | (failed) signers c v where "l = Invoked signers c v" "\<forall>r. v \<noteq> Ok r" "e' = e"
  | (token_world) t where "l = TokenWorld" "e' = e\<lparr>tokens := t\<rparr>"
      "\<And>token. balance (tokens e) token (contract_address e)
         \<le> balance t token (contract_address e)"
  using assms
proof (cases rule: escrow_step.cases)
  case (invoked signers c v)
  then show ?thesis
    by (cases v) (use invoke_commits invoke_failed that in fastforce)+
qed (use that in auto)

definition deployed :: "'t env \<Rightarrow> bool" where
  "deployed e \<longleftrightarrow>
     instance_store e = Map.empty \<and> persistent_store e = Map.empty \<and> events e = []"

section \<open>Typed storage\<close>

fun has_type :: "data_key \<Rightarrow> stored \<Rightarrow> bool" where
  "has_type Admin v \<longleftrightarrow> (\<exists>a. v = StoredAddress a)"
| "has_type Gateway v \<longleftrightarrow> (\<exists>a. v = StoredAddress a)"
| "has_type Token v \<longleftrightarrow> (\<exists>a. v = StoredAddress a)"
| "has_type ProgramCounter v \<longleftrightarrow> (\<exists>n. v = StoredU64 n)"
| "has_type (Program _) v \<longleftrightarrow> (\<exists>p. v = StoredProgram p)"
| "has_type (Contributor _ _) v \<longleftrightarrow> (\<exists>c. v = StoredContributor c)"
| "has_type (ProcessedPr _ _) v \<longleftrightarrow> (\<exists>b. v = StoredBool b)"

definition well_typed :: "'t env \<Rightarrow> bool" where
  "well_typed e \<longleftrightarrow>
     (\<forall>k v. instance_store e k = Some v \<longrightarrow> has_type k v) \<and>
     (\<forall>k v. persistent_store e k = Some v \<longrightarrow> has_type k v)"

lemma well_typed_tokens [frame]: "well_typed (e\<lparr>tokens := t\<rparr>) = well_typed e"
  by (simp add: well_typed_def)

lemma committed_well_typed:
  "committed transfer signers c e r e' \<Longrightarrow> well_typed e \<Longrightarrow> well_typed e'"
  by (induction rule: committed.induct) (auto simp: well_typed_def)

interpretation typed_storage: invariant_of "escrow_step transfer balance" well_typed
  for transfer :: "'t token_transfer" and balance :: "'t token_balance"
proof
  fix e l e'
  assume "well_typed e" and step: "escrow_step transfer balance e l e'"
  with step show "well_typed e'"
    by (cases rule: escrow_step_cases) (auto intro: committed_well_typed simp: frame)
qed

section \<open>Sound programs\<close>

definition sound_program :: "program \<Rightarrow> bool" where
  "sound_program p \<longleftrightarrow>
     0 < sint (reward_per_point p) \<and> 0 \<le> sint (escrow_balance p) \<and> 0 \<le> sint (milestone_spent p)
     \<and> (\<forall>cap. milestone_cap p = Some cap \<longrightarrow> sint (milestone_spent p) \<le> max 0 (sint cap))"

definition sound_programs :: "'t env \<Rightarrow> bool" where
  "sound_programs e \<longleftrightarrow> (\<forall>pid p. program_at e pid = Some p \<longrightarrow> sound_program p)"

lemma sound_programs_tokens [frame]: "sound_programs (e\<lparr>tokens := t\<rparr>) = sound_programs e"
  by (simp add: sound_programs_def)

lemma payout_positive:
  "points \<noteq> 0 \<Longrightarrow> 0 < sint (reward_per_point p) \<Longrightarrow>
     sint payout = uint (points :: u32) * sint (reward_per_point p) \<Longrightarrow> 0 < sint (payout :: i128)"
  by (simp add: word_neq_0_conv word_less_def)

lemma committed_sound_programs:
  "committed transfer signers c e r e' \<Longrightarrow> sound_programs e \<Longrightarrow> sound_programs e'"
proof (induction rule: committed.induct)
  case (record_merge gw e points pid pr p user c payout spent tok t balance)
  then have sound: "sound_program p" by (auto simp: sound_programs_def)
  then have "0 < sint payout"
    using payout_positive [OF record_merge(3) _ record_merge(8)] by (simp add: sound_program_def)
  with sound record_merge(9,10,13)
  have "sound_program (p\<lparr>milestone_spent := spent, escrow_balance := balance\<rparr>)"
    by (auto simp: sound_program_def milestone_after_def split: option.splits)
  with record_merge.prems show ?case
    by (auto simp: sound_programs_def)
qed (auto simp: sound_programs_def sound_program_def)

interpretation sound_escrow: invariant_of "escrow_step transfer balance" sound_programs
  for transfer :: "'t token_transfer" and balance :: "'t token_balance"
proof
  fix e l e'
  assume "sound_programs e" and step: "escrow_step transfer balance e l e'"
  with step show "sound_programs e'"
    by (cases rule: escrow_step_cases) (auto intro: committed_sound_programs simp: frame)
qed

section \<open>The configuration\<close>

text \<open>The admin, the gateway and the token are written by one call, and the counter with them.\<close>

definition config_together :: "'t env \<Rightarrow> bool" where
  "config_together e \<longleftrightarrow>
     (instance_store e Gateway = None \<longleftrightarrow> instance_store e Admin = None) \<and>
     (instance_store e Token = None \<longleftrightarrow> instance_store e Admin = None) \<and>
     (instance_store e Admin \<noteq> None \<longrightarrow> instance_store e ProgramCounter \<noteq> None)"

definition config :: "'t env \<Rightarrow> stored option \<times> stored option \<times> stored option" where
  "config e = (instance_store e Admin, instance_store e Gateway, instance_store e Token)"

lemma config_together_tokens [frame]: "config_together (e\<lparr>tokens := t\<rparr>) = config_together e"
  by (simp add: config_together_def)

lemma committed_config_together:
  "committed transfer signers c e r e' \<Longrightarrow> config_together e \<Longrightarrow> config_together e'"
  by (induction rule: committed.induct) (auto simp: config_together_def)

lemma committed_config:
  "committed transfer signers c e r e' \<Longrightarrow> instance_store e Admin \<noteq> None \<Longrightarrow> config e' = config e"
  by (induction rule: committed.induct) (auto simp: config_def)

lemma committed_contract_address [frame]:
  "committed transfer signers c e r e' \<Longrightarrow> contract_address e' = contract_address e"
  by (induction rule: committed.induct) auto

interpretation configured: invariant_of "escrow_step transfer balance" config_together
  for transfer :: "'t token_transfer" and balance :: "'t token_balance"
proof
  fix e l e'
  assume "config_together e" and step: "escrow_step transfer balance e l e'"
  with step show "config_together e'"
    by (cases rule: escrow_step_cases) (auto intro: committed_config_together simp: frame)
qed

interpretation fixed_config:
  invariant_of "escrow_step transfer balance" "\<lambda>e. instance_store e Admin \<noteq> None \<and> config e = cfg"
  for transfer :: "'t token_transfer" and balance :: "'t token_balance" and cfg
proof
  fix e l e'
  assume inv: "instance_store e Admin \<noteq> None \<and> config e = cfg"
    and step: "escrow_step transfer balance e l e'"
  from step show "instance_store e' Admin \<noteq> None \<and> config e' = cfg"
  proof (cases rule: escrow_step_cases)
    case (committed signers c r)
    then have "config e' = config e" using inv committed_config by blast
    with inv show ?thesis by (auto simp: config_def)
  qed (use inv in \<open>auto simp: config_def\<close>)
qed

section \<open>One payout per pull request\<close>

text \<open>The pull requests the log says were paid, oldest first.\<close>

fun merged_key :: "event \<Rightarrow> (u64 \<times> u64) option" where
  "merged_key (_, MergeRecordedEvent pid _ pr _ _) = Some (pid, pr)"
| "merged_key _ = None"

definition merged_prs :: "'t env \<Rightarrow> (u64 \<times> u64) list" where
  "merged_prs e = List.map_filter merged_key (events e)"

definition logged_once :: "'t env \<Rightarrow> bool" where
  "logged_once e \<longleftrightarrow> distinct (merged_prs e) \<and> set (merged_prs e) = paid_prs e"

lemma merged_prs_snoc [simp]:
  "merged_prs (e\<lparr>events := evs @ [ev]\<rparr>) =
     List.map_filter merged_key evs @ (case merged_key ev of None \<Rightarrow> [] | Some k \<Rightarrow> [k])"
  by (simp add: merged_prs_def map_filter_def split: option.split)

lemma logged_once_tokens [frame]: "logged_once (e\<lparr>tokens := t\<rparr>) = logged_once e"
  by (simp add: logged_once_def merged_prs_def paid_prs_def)

lemma committed_logged_once:
  "committed transfer signers c e r e' \<Longrightarrow> logged_once e \<Longrightarrow> logged_once e'"
  by (induction rule: committed.induct)
    (auto simp: logged_once_def merged_prs_def paid_prs_def map_filter_def)

interpretation paid_once: invariant_of "escrow_step transfer balance" logged_once
  for transfer :: "'t token_transfer" and balance :: "'t token_balance"
proof
  fix e l e'
  assume "logged_once e" and step: "escrow_step transfer balance e l e'"
  with step show "logged_once e'"
    by (cases rule: escrow_step_cases) (auto intro: committed_logged_once simp: frame)
qed

end
