(* ===== verification/Escrow_Solvency.thy ===== *)
theory Escrow_Solvency
  imports Escrow_Invariants
begin

text \<open>
  Where the money is. \<open>solvent\<close>: the sum of all escrow balances is covered by what the token
  contract holds for the escrow contract. \<open>accounted\<close>: on a run that starts right after
  \<open>initialize\<close>, the balance of each program is its deposits less its payouts and its
  withdrawals. \<open>reclaimable\<close>: a maintainer can always pause and take the balance out.
\<close>

section \<open>Solvency\<close>

declare token_of_Some [simp del]

definition escrow_of :: "'t env \<Rightarrow> u64 \<Rightarrow> int" where
  "escrow_of e pid = (case program_at e pid of None \<Rightarrow> 0 | Some p \<Rightarrow> sint (escrow_balance p))"

definition total_escrow :: "'t env \<Rightarrow> int" where
  "total_escrow e = (\<Sum>pid\<in>UNIV. escrow_of e pid)"

definition holdings :: "'t token_balance \<Rightarrow> 't env \<Rightarrow> address \<Rightarrow> int" where
  "holdings balance e tok = balance (tokens e) tok (contract_address e)"

definition solvent :: "'t token_balance \<Rightarrow> 't env \<Rightarrow> bool" where
  "solvent balance e \<longleftrightarrow>
     (case token_of e of
        None \<Rightarrow> (\<forall>pid. escrow_of e pid = 0)
      | Some tok \<Rightarrow> total_escrow e \<le> holdings balance e tok)"

lemma escrow_of_same_store:
  "persistent_store e' = persistent_store e \<Longrightarrow> escrow_of e' = escrow_of e"
  by (simp add: escrow_of_def program_at_def fun_eq_iff)

lemma total_escrow_update:
  assumes "\<And>pid'. escrow_of e' pid' = (if pid' = pid then b else escrow_of e pid')"
  shows "total_escrow e' = total_escrow e - escrow_of e pid + b"
  unfolding total_escrow_def using assms by (subst sum_update_one [of _ pid _ "escrow_of e"]) auto

lemma escrow_of_nonneg: "sound_programs e \<Longrightarrow> 0 \<le> escrow_of e pid"
  by (auto simp: escrow_of_def sound_programs_def sound_program_def split: option.splits)

lemma escrow_of_le_total: "sound_programs e \<Longrightarrow> escrow_of e pid \<le> total_escrow e"
  unfolding total_escrow_def by (rule member_le_sum_int) (auto intro: escrow_of_nonneg)

lemma token_of_frame [simp]:
  "token_of (e\<lparr>tokens := t\<rparr>) = token_of e"
  "token_of (e\<lparr>persistent_store := m\<rparr>) = token_of e"
  "token_of (e\<lparr>events := evs\<rparr>) = token_of e"
  by (simp_all add: token_of_def)

text \<open>What the token laws give for one transfer and the account of the contract.\<close>

lemma transfer_balance:
  assumes "token_laws transfer balance" "transfer tok src dst amount t = Some t'"
  shows "balance t' tok' who = balance t tok' who
           - (if tok' = tok \<and> who = src then sint amount else 0)
           + (if tok' = tok \<and> who = dst then sint amount else 0)"
    and "0 \<le> sint amount" "sint amount \<le> balance t tok src"
  using assms unfolding token_laws_def by blast+

lemma transfer_in:
  "token_laws transfer balance \<Longrightarrow> transfer tok src self amount t = Some t' \<Longrightarrow> src \<noteq> self \<Longrightarrow>
     balance t' tok self = balance t tok self + sint amount"
  using transfer_balance by fastforce

lemma transfer_out:
  "token_laws transfer balance \<Longrightarrow> transfer tok self dst amount t = Some t' \<Longrightarrow>
     balance t tok self - sint amount \<le> balance t' tok self"
  using transfer_balance [of transfer balance tok self dst amount t t'] by auto

text \<open>The effect of a committed invocation on the escrow of one program.\<close>

fun escrow_after :: "call \<Rightarrow> reply \<Rightarrow> u64 \<Rightarrow> int \<Rightarrow> int" where
  "escrow_after (CreateProgram _ _ _ _) (ProgramId new) pid b = (if new = pid then 0 else b)"
| "escrow_after (Fund pid' _ amount) _ pid b = (if pid' = pid then b + sint amount else b)"
| "escrow_after (RecordMerge _ pid' _ _ _) (Amount a) pid b = (if pid' = pid then b - sint a else b)"
| "escrow_after (WithdrawRemaining pid' _) (Amount a) pid b = (if pid' = pid then b - sint a else b)"
| "escrow_after _ _ pid b = b"

lemma committed_escrow:
  "committed transfer signers c e r e' \<Longrightarrow> escrow_of e' pid = escrow_after c r pid (escrow_of e pid)"
  by (induction rule: committed.induct) (auto simp: escrow_of_def program_at_def)

text \<open>
  Solvency of the next state, from what an invocation did to the total and to the holdings.
  Before \<open>initialize\<close> there is no token and no program can hold anything.
\<close>

lemma solvent_step:
  assumes "solvent balance e" "token_of e = Some tok" "token_of e' = Some tok"
    and "total_escrow e' - total_escrow e \<le> holdings balance e' tok - holdings balance e tok"
  shows "solvent balance e'"
  using assms by (simp add: solvent_def)

lemma solvent_same:
  assumes "solvent balance e" "token_of e' = token_of e" "\<And>pid. escrow_of e' pid = escrow_of e pid"
    and "tokens e' = tokens e" "contract_address e' = contract_address e"
  shows "solvent balance e'"
proof -
  have "total_escrow e' = total_escrow e" using assms(3) by (simp add: total_escrow_def)
  then show ?thesis using assms by (simp add: solvent_def holdings_def split: option.splits)
qed

lemma total_after:
  "committed transfer signers c e r e' \<Longrightarrow>
     (\<And>pid'. escrow_after c r pid' (escrow_of e pid') = (if pid' = pid then b else escrow_of e pid')) \<Longrightarrow>
     total_escrow e' = total_escrow e - escrow_of e pid + b"
  by (rule total_escrow_update) (simp add: committed_escrow)

lemma committed_solvent:
  assumes "committed transfer signers c e r e'" and laws: "token_laws transfer balance"
    and "\<not> signers (contract_address e)" "sound_programs e" "config_together e" "solvent balance e"
  shows "solvent balance e'"
  using assms(1,3-)
proof (cases rule: committed.cases)
  case (initialize adm gw tok)
  with assms(5,6) have "escrow_of e pid = 0" for pid
    by (auto simp: solvent_def config_together_def token_of_def)
  then have "escrow_of e' pid = 0" for pid
    by (subst committed_escrow [OF assms(1)]) (simp add: initialize(1,2))
  moreover have "0 \<le> holdings balance e' tok"
    using laws by (simp add: token_laws_def holdings_def)
  ultimately show ?thesis
    using initialize by (simp add: solvent_def total_escrow_def token_of_def)
next
  case (create_program who reward repo n pid cap)
  have total: "total_escrow e' = total_escrow e - escrow_of e pid + 0"
    by (rule total_after [OF assms(1)]) (simp add: create_program)
  with escrow_of_nonneg [OF assms(4)] have "total_escrow e' \<le> total_escrow e"
    by (simp add: add_increasing2)
  moreover have "escrow_of e' pid' = 0" if "escrow_of e pid' = 0" for pid'
    using that by (subst committed_escrow [OF assms(1)]) (simp add: create_program(1,2))
  ultimately show ?thesis
    using assms(6) create_program
    by (auto simp: solvent_def token_of_def holdings_def split: option.splits)
next
  case (fund who amount pid p tok t b)
  have "total_escrow e' = total_escrow e - escrow_of e pid + (escrow_of e pid + sint amount)"
    by (rule total_after [OF assms(1)]) (simp add: fund)
  moreover have "balance t tok (contract_address e) =
      balance (tokens e) tok (contract_address e) + sint amount"
    using fund assms(3) by (intro transfer_in [OF laws]) auto
  ultimately show ?thesis
    using fund by (intro solvent_step [OF assms(6), of tok]) (auto simp: holdings_def)
next
  case (record_merge gw points pid pr p user c payout spent tok t b)
  have "total_escrow e' = total_escrow e - escrow_of e pid + (escrow_of e pid - sint payout)"
    by (rule total_after [OF assms(1)]) (simp add: record_merge)
  moreover note transfer_out [OF laws record_merge(15)]
  ultimately show ?thesis
    using record_merge by (intro solvent_step [OF assms(6), of tok]) (auto simp: holdings_def)
next
  case (withdraw_remaining who pid p tok t)
  have "total_escrow e' = total_escrow e - escrow_of e pid
      + (escrow_of e pid - sint (escrow_balance p))"
    by (rule total_after [OF assms(1)]) (simp add: withdraw_remaining)
  moreover note transfer_out [OF laws withdraw_remaining(10)]
  ultimately show ?thesis
    using withdraw_remaining by (intro solvent_step [OF assms(6), of tok]) (auto simp: holdings_def)
qed (auto intro!: solvent_same [OF assms(6)] simp: escrow_of_def program_at_def)

text \<open>The facts solvency needs of a state are an invariant together.\<close>

definition covered :: "'t token_transfer \<Rightarrow> 't token_balance \<Rightarrow> 't env \<Rightarrow> bool" where
  "covered transfer balance e \<longleftrightarrow>
     sound_programs e \<and> config_together e \<and> (token_laws transfer balance \<longrightarrow> solvent balance e)"

lemma token_world_solvent:
  assumes "solvent balance e"
    and "\<And>tok. balance (tokens e) tok (contract_address e) \<le> balance t tok (contract_address e)"
  shows "solvent balance (e\<lparr>tokens := t\<rparr>)"
proof -
  have "escrow_of (e\<lparr>tokens := t\<rparr>) = escrow_of e"
    by (rule escrow_of_same_store) simp
  then show ?thesis
    using assms by (auto simp: solvent_def total_escrow_def holdings_def split: option.splits
      intro: order_trans)
qed

interpretation coverage: invariant_of "escrow_step transfer balance" "covered transfer balance"
  for transfer :: "'t token_transfer" and balance :: "'t token_balance"
proof
  fix e l e'
  assume cov: "covered transfer balance e" and step: "escrow_step transfer balance e l e'"
  from step show "covered transfer balance e'"
  proof (cases rule: escrow_step_cases)
    case (committed signers c r)
    with cov show ?thesis
      by (auto simp: covered_def intro: committed_solvent committed_sound_programs
        committed_config_together)
  next
    case (token_world t)
    with cov show ?thesis
      by (auto simp: covered_def frame intro: token_world_solvent)
  qed (use cov in auto)
qed

end
