(* ===== verification/Escrow_Ledger.thy ===== *)
theory Escrow_Ledger
  imports Escrow_Solvency
begin

text \<open>
  The books of a run: what was deposited, paid out and withdrawn, read off the labels, against
  what the state says. The run starts right after \<open>initialize\<close>, with no program, and is
  shorter than the id space, so that no id is given twice.
\<close>

section \<open>What a label moves\<close>

fun deposit_in :: "u64 \<Rightarrow> escrow_label \<Rightarrow> int" where
  "deposit_in pid (Invoked _ (Fund pid' _ amount) (Ok _)) = (if pid' = pid then sint amount else 0)"
| "deposit_in pid _ = 0"

fun payout_in :: "u64 \<Rightarrow> escrow_label \<Rightarrow> int" where
  "payout_in pid (Invoked _ (RecordMerge _ pid' _ _ _) (Ok (Amount a))) =
     (if pid' = pid then sint a else 0)"
| "payout_in pid _ = 0"

fun withdrawal_in :: "u64 \<Rightarrow> escrow_label \<Rightarrow> int" where
  "withdrawal_in pid (Invoked _ (WithdrawRemaining pid' _) (Ok (Amount a))) =
     (if pid' = pid then sint a else 0)"
| "withdrawal_in pid _ = 0"

definition deposited :: "u64 \<Rightarrow> escrow_label list \<Rightarrow> int" where
  "deposited pid ls = sum_list (map (deposit_in pid) ls)"

definition paid_out :: "u64 \<Rightarrow> escrow_label list \<Rightarrow> int" where
  "paid_out pid ls = sum_list (map (payout_in pid) ls)"

definition withdrawn :: "u64 \<Rightarrow> escrow_label list \<Rightarrow> int" where
  "withdrawn pid ls = sum_list (map (withdrawal_in pid) ls)"

lemma books_snoc [simp]:
  "deposited pid (ls @ [l]) = deposited pid ls + deposit_in pid l"
  "paid_out pid (ls @ [l]) = paid_out pid ls + payout_in pid l"
  "withdrawn pid (ls @ [l]) = withdrawn pid ls + withdrawal_in pid l"
  "deposited pid [] = 0" "paid_out pid [] = 0" "withdrawn pid [] = 0"
  by (simp_all add: deposited_def paid_out_def withdrawn_def)

lemma failed_moves_nothing:
  "\<forall>r. v \<noteq> Ok r \<Longrightarrow> deposit_in pid (Invoked signers c v) = 0"
  "\<forall>r. v \<noteq> Ok r \<Longrightarrow> payout_in pid (Invoked signers c v) = 0"
  "\<forall>r. v \<noteq> Ok r \<Longrightarrow> withdrawal_in pid (Invoked signers c v) = 0"
  by (cases v; simp)+

section \<open>The state against the books\<close>

definition program_balanced :: "u64 \<Rightarrow> escrow_label list \<Rightarrow> program \<Rightarrow> bool" where
  "program_balanced pid ls p \<longleftrightarrow>
     sint (escrow_balance p) = deposited pid ls - paid_out pid ls - withdrawn pid ls \<and>
     sint (milestone_spent p) = (if milestone_cap p = None then 0 else paid_out pid ls)"

definition books_agree :: "escrow_label list \<Rightarrow> 't env \<Rightarrow> bool" where
  "books_agree ls e \<longleftrightarrow>
     (\<forall>pid. case program_at e pid of
        None \<Rightarrow> deposited pid ls = 0 \<and> paid_out pid ls = 0 \<and> withdrawn pid ls = 0
      | Some p \<Rightarrow> program_balanced pid ls p)"

definition ids_in_use :: "'t env \<Rightarrow> int \<Rightarrow> bool" where
  "ids_in_use e bound \<longleftrightarrow>
     (\<exists>n. instance_store e ProgramCounter = Some (StoredU64 n) \<and> uint n \<le> bound \<and>
        (\<forall>pid. program_at e pid \<noteq> None \<longrightarrow> 1 \<le> uint pid \<and> uint pid \<le> uint n))"

definition ledger_inv :: "escrow_label list \<Rightarrow> 't env \<Rightarrow> bool" where
  "ledger_inv ls e \<longleftrightarrow> instance_store e Admin \<noteq> None \<and>
     (int (length ls) < 2 ^ 64 \<longrightarrow> ids_in_use e (int (length ls)) \<and> books_agree ls e)"

definition just_initialized :: "'t env \<Rightarrow> bool" where
  "just_initialized e \<longleftrightarrow> instance_store e Admin \<noteq> None \<and>
     instance_store e ProgramCounter = Some (StoredU64 0) \<and> (\<forall>pid. program_at e pid = None)"

lemma ids_in_use_frame:
  assumes "ids_in_use e b" "b \<le> b'"
    and "instance_store e' ProgramCounter = instance_store e ProgramCounter"
    and "\<And>pid. program_at e' pid \<noteq> None \<Longrightarrow> program_at e pid \<noteq> None"
  shows "ids_in_use e' b'"
  using assms unfolding ids_in_use_def by (metis order_trans)

lemma committed_Admin:
  "committed transfer signers c e r e' \<Longrightarrow> instance_store e Admin \<noteq> None \<Longrightarrow>
     instance_store e' Admin \<noteq> None"
  by (induction rule: committed.induct) auto

text \<open>The ids after a step: a creation takes the next one, nothing else adds one.\<close>

lemma committed_ids:
  assumes "committed transfer signers c e r e'" "ids_in_use e b" "b + 1 < 2 ^ 64"
    and "instance_store e Admin \<noteq> None"
  shows "ids_in_use e' (b + 1)"
  using assms(1)
proof (cases rule: committed.cases)
  case (create_program who reward repo n pid cap)
  from assms(2) create_program(7) have n: "instance_store e ProgramCounter = Some (StoredU64 n)" "uint n \<le> b"
    and old: "\<And>pid'. program_at e pid' \<noteq> None \<Longrightarrow> 1 \<le> uint pid' \<and> uint pid' \<le> uint n"
    by (auto simp: ids_in_use_def)
  have pid: "uint pid = uint n + 1"
    using create_program(8) n(2) assms(3) by (subst (asm) arith_u64_small) auto
  have "1 \<le> uint pid' \<and> uint pid' \<le> uint pid" if "program_at e' pid' \<noteq> None" for pid'
  proof (cases "pid' = pid")
    case False
    then have "program_at e pid' \<noteq> None"
      using that create_program(3) by (simp add: program_at_def)
    then show ?thesis using old [of pid'] pid by simp
  qed (simp add: pid)
  then show ?thesis
    using create_program(3) n pid by (auto simp: ids_in_use_def)
next
  case (initialize adm gw tok)
  then show ?thesis using assms(4) by simp
qed (auto intro!: ids_in_use_frame [OF assms(2)] simp: program_at_def split: if_splits)

text \<open>A fresh id: the program a creation writes did not exist.\<close>

lemma created_fresh:
  assumes "committed transfer signers (CreateProgram who repo reward cap) e (ProgramId pid) e'"
    and "ids_in_use e b" "b + 1 < 2 ^ 64"
  shows "program_at e pid = None"
  using assms(1)
proof (cases rule: committed.cases)
  case (create_program n)
  from assms(2) create_program have n: "uint n \<le> b"
    and old: "program_at e pid \<noteq> None \<Longrightarrow> uint pid \<le> uint n"
    by (auto simp: ids_in_use_def)
  have "uint pid = uint n + 1"
    using create_program n assms(3) by (subst (asm) arith_u64_small) auto
  with old show ?thesis by fastforce
qed

text \<open>One committed step: only the program it names moves, and by what the label says.\<close>

definition book_entry :: "u64 \<Rightarrow> escrow_label list \<Rightarrow> 't env \<Rightarrow> bool" where
  "book_entry pid ls e \<longleftrightarrow>
     (case program_at e pid of
        None \<Rightarrow> deposited pid ls = 0 \<and> paid_out pid ls = 0 \<and> withdrawn pid ls = 0
      | Some p \<Rightarrow> program_balanced pid ls p)"

lemma books_agree_entries: "books_agree ls e \<longleftrightarrow> (\<forall>pid. book_entry pid ls e)"
  by (simp add: books_agree_def book_entry_def)

lemma book_entry_known:
  "program_at e pid = Some p \<Longrightarrow> book_entry pid ls e \<longleftrightarrow> program_balanced pid ls p"
  unfolding book_entry_def by (metis option.simps(5))

lemma book_entry_unmoved:
  "program_at e' pid = program_at e pid \<Longrightarrow> deposit_in pid l = 0 \<Longrightarrow> payout_in pid l = 0 \<Longrightarrow>
     withdrawal_in pid l = 0 \<Longrightarrow> book_entry pid (ls @ [l]) e' \<longleftrightarrow> book_entry pid ls e"
  by (simp add: book_entry_def program_balanced_def split: option.split del: program_at_Some)

lemma committed_book_entry:
  assumes "committed transfer signers c e r e'" "book_entry pid ls e"
    and fresh: "\<And>who repo reward cap. c = CreateProgram who repo reward cap \<Longrightarrow> r = ProgramId pid \<Longrightarrow>
      program_at e pid = None"
  shows "book_entry pid (ls @ [Invoked signers c (Ok r)]) e'"
  using assms
proof (induction rule: committed.induct)
  case (create_program who reward repo e n pid' cap)
  show ?case
  proof (cases "pid' = pid")
    case True
    then have "program_at e pid = None" using create_program.prems(2) by blast
    with True create_program.prems(1) show ?thesis
      by (auto simp: book_entry_def program_balanced_def program_at_def)
  next
    case False
    then show ?thesis
      using create_program.prems(1) by (subst book_entry_unmoved [of _ _ e]) (simp_all add: program_at_def)
  qed
next
  case (fund who amount e pid' p tok t b)
  show ?case
  proof (cases "pid' = pid")
    case True
    with fund book_entry_known [OF fund(3)] show ?thesis
      by (auto simp: book_entry_def program_balanced_def program_at_def)
  next
    case False
    then show ?thesis
      using fund.prems(1) by (subst book_entry_unmoved [of _ _ e]) (simp_all add: program_at_def)
  qed
next
  case (record_merge gw e points pid' pr p user c payout spent tok t b)
  show ?case
  proof (cases "pid' = pid")
    case True
    with record_merge book_entry_known [OF record_merge(5)] show ?thesis
      by (auto simp: book_entry_def program_balanced_def program_at_def milestone_after_def
          split: option.splits)
  next
    case False
    then show ?thesis
      using record_merge.prems(1)
      by (subst book_entry_unmoved [of _ _ e]) (simp_all add: program_at_def)
  qed
qed (auto simp: book_entry_def program_balanced_def program_at_def split: option.splits stored.splits)

interpretation ledger: history_invariant "escrow_step transfer balance" just_initialized ledger_inv
  for transfer :: "'t token_transfer" and balance :: "'t token_balance"
proof
  fix e :: "'t env"
  assume "just_initialized e"
  then show "ledger_inv [] e"
    by (auto simp: ledger_inv_def just_initialized_def ids_in_use_def books_agree_def)
next
  fix ls :: "escrow_label list" and e l and e' :: "'t env"
  assume inv: "ledger_inv ls e" and step: "escrow_step transfer balance e l e'"
  from step show "ledger_inv (ls @ [l]) e'"
  proof (cases rule: escrow_step_cases)
    case (committed signers c r)
    have "ids_in_use e' (int (length ls) + 1)"
      if "int (length ls) + 1 < 2 ^ 64"
      using inv that committed(3) by (intro committed_ids) (auto simp: ledger_inv_def)
    moreover have "books_agree (ls @ [l]) e'" if "int (length ls) + 1 < 2 ^ 64"
      unfolding books_agree_entries committed(1)
      using inv that committed(3)
      by (auto simp: ledger_inv_def books_agree_entries intro!: committed_book_entry
        dest: created_fresh)
    moreover have "instance_store e' Admin \<noteq> None"
      using inv committed(3) by (auto simp: ledger_inv_def dest: committed_Admin)
    moreover have "int (length (ls @ [l])) = int (length ls) + 1"
      by simp
    ultimately show ?thesis
      unfolding ledger_inv_def by presburger
  next
    case (failed signers c v)
    have "books_agree (ls @ [l]) e' = books_agree ls e"
      using failed by (simp add: books_agree_entries book_entry_unmoved failed_moves_nothing)
    with inv failed(3) show ?thesis
      by (auto simp: ledger_inv_def intro: ids_in_use_frame)
  next
    case (token_world t)
    then have same: "program_at e' pid = program_at e pid" for pid
      by (simp add: program_at_def)
    then have "books_agree (ls @ [l]) e' = books_agree ls e"
      using token_world by (simp add: books_agree_entries book_entry_unmoved)
    moreover have "ids_in_use e' (int (length (ls @ [l])))" if "ids_in_use e (int (length ls))"
      by (rule ids_in_use_frame [OF that]) (simp_all add: same [unfolded token_world(2)] token_world(2) del: program_at_Some)
    ultimately show ?thesis
      using inv token_world(2) by (simp add: ledger_inv_def)
  qed
qed

end
