(* ===== verification/Escrow_Authority.thy ===== *)
theory Escrow_Authority
  imports Escrow_Ledger
begin

text \<open>
  Who can do what, and when an invocation traps: the caller every function authenticates, the
  programs and the balances only their owners and the gateway move, the registrations nobody
  can change, and the traps that are left in a reachable state.
\<close>

section \<open>Callers\<close>

fun caller :: "call \<Rightarrow> address" where
  "caller (Initialize adm _ _) = adm"
| "caller (CreateProgram who _ _ _) = who"
| "caller (Fund _ src _) = src"
| "caller (RegisterContributor _ who _ _) = who"
| "caller (RecordMerge gw _ _ _ _) = gw"
| "caller (Pause _ who) = who"
| "caller (Resume _ who) = who"
| "caller (SetRatio _ who _) = who"
| "caller (WithdrawRemaining _ who) = who"

lemma committed_caller_signed: "committed transfer signers c e r e' \<Longrightarrow> signers (caller c)"
  by (induction rule: committed.induct) auto

text \<open>The calls by which a program's maintainer changes it, and the program they name.\<close>

fun maintains :: "call \<Rightarrow> u64 option" where
  "maintains (Fund pid _ _) = Some pid"
| "maintains (Pause pid _) = Some pid"
| "maintains (Resume pid _) = Some pid"
| "maintains (SetRatio pid _ _) = Some pid"
| "maintains (WithdrawRemaining pid _) = Some pid"
| "maintains _ = None"

lemma committed_change:
  assumes "committed transfer signers c e r e'"
    and "program_at e pid = Some p" "program_at e' pid \<noteq> Some p"
  shows "(maintains c = Some pid \<and> caller c = maintainer p) \<or>
     (\<exists>user pr points. c = RecordMerge (caller c) pid user pr points \<and> status p = Active \<and>
        instance_store e Gateway = Some (StoredAddress (caller c))) \<or>
     (\<exists>who repo reward cap. c = CreateProgram who repo reward cap \<and> r = ProgramId pid)"
  using assms by (induction rule: committed.induct) (auto split: if_splits)

lemma committed_debit:
  assumes "committed transfer signers c e r e'"
    and "program_at e pid = Some p" "escrow_of e' pid < escrow_of e pid"
    and "r \<noteq> ProgramId pid"
  shows "(c = WithdrawRemaining pid (maintainer p) \<and> status p = Paused \<and> escrow_of e' pid = 0) \<or>
     (\<exists>user pr points w. c = RecordMerge (caller c) pid user pr points \<and> status p = Active \<and>
        instance_store e Gateway = Some (StoredAddress (caller c)) \<and>
        persistent_store e (Contributor pid user) = Some (StoredContributor w) \<and>
        escrow_of e pid - escrow_of e' pid = uint points * sint (reward_per_point p))"
  using assms
proof (induction rule: committed.induct)
  case (create_program who reward repo e n pid' cap)
  then show ?case by (auto simp: escrow_of_def program_at_def split: if_splits)
next
  case (fund who amount e pid' p' tok t b)
  then show ?case by (auto simp: escrow_of_def program_at_def split: if_splits)
next
  case (record_merge gw e points pid' pr p' user c payout spent tok t b)
  then show ?case by (cases "pid' = pid") (auto simp: escrow_of_def program_at_def)
next
  case (withdraw_remaining who e pid' p' tok t)
  then show ?case by (cases "pid' = pid") (auto simp: escrow_of_def program_at_def)
qed (auto simp: escrow_of_def program_at_def split: if_splits)

text \<open>Program and contributor entries are never removed, and a registration never changes.\<close>

lemma committed_registration:
  "committed transfer signers c e r e' \<Longrightarrow>
     persistent_store e (Contributor pid user) = Some w \<Longrightarrow>
     persistent_store e' (Contributor pid user) = Some w"
  by (induction rule: committed.induct) auto

interpretation registrations_kept:
  invariant_of "escrow_step transfer balance"
    "\<lambda>e. persistent_store e (Contributor pid user) = Some w"
  for transfer :: "'t token_transfer" and balance :: "'t token_balance" and pid user w
proof
  fix e l e'
  assume "persistent_store e (Contributor pid user) = Some w"
    and step: "escrow_step transfer balance e l e'"
  with step show "persistent_store e' (Contributor pid user) = Some w"
    by (cases rule: escrow_step_cases) (auto intro: committed_registration)
qed

section \<open>Traps\<close>

lemma propagate_Trap:
  "propagate v s k = (Trap, s') \<longleftrightarrow>
     v = Trap \<and> s' = s \<or> (\<exists>x. v = Ok x \<and> k x = (Trap, s'))"
  by (cases v) auto

lemma and_then_Trap [simp]:
  "and_then v k = Trap \<longleftrightarrow> v = Trap \<or> (\<exists>x. v = Ok x \<and> k x = Trap)"
  by (cases v) auto

lemma get_as_Trap [simp]:
  "get_as conv v = Trap \<longleftrightarrow> (\<exists>w. v = Some w \<and> conv w = None)"
  by (cases v) (auto split: option.splits)

lemma well_typed_reads:
  assumes "well_typed e"
  shows "read_gateway e \<noteq> Trap" "read_token e \<noteq> Trap" "read_program e pid \<noteq> Trap"
    "read_contributor e pid user \<noteq> Trap" "is_pr_processed e pid pr \<noteq> Trap"
    "read_admin e \<noteq> Trap"
  using assms
  by (auto simp: well_typed_def read_gateway_def read_token_def read_program_def read_admin_def
      read_contributor_def is_pr_processed_def; fastforce)+

lemma charge_milestone_not_Trap [simp]: "charge_milestone p payout \<noteq> Trap"
  by (auto simp: charge_milestone_def split: option.splits if_splits)

lemma require_active_not_Trap [simp]: "require_active p \<noteq> Trap"
  by (simp add: require_active_def)

lemma validate_repo_not_Trap [simp]: "validate_repo repo \<noteq> Trap"
  by (simp add: validate_repo_def Let_def)

lemma call_transfer_Trap [simp]:
  "call_transfer transfer tok src dst amount e = Trap \<longleftrightarrow>
     transfer tok src dst amount (tokens e) = None"
  by (simp add: call_transfer_def)

lemma next_program_id_Trap:
  assumes "well_typed e" "next_program_id e = (Trap, e')"
  shows "overflow_checks e \<and> instance_store e ProgramCounter = Some (StoredU64 (- 1))"
proof -
  have counter: "v = None \<or> (\<exists>n. v = Some (StoredU64 n))"
    if "v = instance_store e ProgramCounter" for v
    using assms(1) that unfolding well_typed_def
    by (metis has_type.simps(4) option.exhaust)
  have last: "n = - 1" if "\<not> uint n < 18446744073709551615" for n :: u64
  proof -
    have "uint n = 2 ^ 64 - 1" using that uint_lt2p [of n] by simp
    also have "\<dots> = uint (- 1 :: u64)"
      by (simp add: unsigned_minus_1_eq_mask mask_eq_exp_minus_1)
    finally show ?thesis by (simp only: word_uint_eq_iff)
  qed
  show ?thesis
    using assms(2) counter [OF refl]
    by (auto simp: next_program_id_def propagate_Trap arith_u64_def unsigned_of_def
        split: if_splits dest!: last)
qed

text \<open>The transfer a call asks the token for: from whom, to whom, how much.\<close>

fun requested_transfer :: "call \<Rightarrow> 't env \<Rightarrow> (address \<times> address \<times> i128) option" where
  "requested_transfer (Fund pid src amount) e = Some (src, contract_address e, amount)"
| "requested_transfer (RecordMerge gw pid user pr points) e =
     (case (program_at e pid, persistent_store e (Contributor pid user)) of
        (Some p, Some (StoredContributor w)) \<Rightarrow>
          map_option (\<lambda>payout. (contract_address e, stellar_address w, payout))
            (checked_mul (i128_from_u32 points) (reward_per_point p))
      | _ \<Rightarrow> None)"
| "requested_transfer (WithdrawRemaining pid who) e =
     map_option (\<lambda>p. (contract_address e, who, escrow_balance p)) (program_at e pid)"
| "requested_transfer _ e = None"

definition token_refused :: "'t token_transfer \<Rightarrow> call \<Rightarrow> 't env \<Rightarrow> bool" where
  "token_refused transfer c e \<longleftrightarrow>
     (\<exists>tok src dst amount. token_of e = Some tok \<and>
        requested_transfer c e = Some (src, dst, amount) \<and>
        transfer tok src dst amount (tokens e) = None)"

lemma token_refused_intro:
  assumes "instance_store e Token = Some (StoredAddress tok)"
  shows "transfer tok src (contract_address e) amount (tokens e) = None \<Longrightarrow>
      token_refused transfer (Fund pid src amount) e"
    and "persistent_store e (Program pid) = Some (StoredProgram p) \<Longrightarrow>
      transfer tok (contract_address e) who (escrow_balance p) (tokens e) = None \<Longrightarrow>
      token_refused transfer (WithdrawRemaining pid who) e"
    and "persistent_store e (Program pid) = Some (StoredProgram p) \<Longrightarrow>
      persistent_store e (Contributor pid user) = Some (StoredContributor w) \<Longrightarrow>
      checked_mul (i128_from_u32 points) (reward_per_point p) = Some payout \<Longrightarrow>
      transfer tok (contract_address e) (stellar_address w) payout (tokens e) = None \<Longrightarrow>
      token_refused transfer (RecordMerge gw pid user pr points) e"
  using assms by (auto simp: token_refused_def token_of_def program_at_def)

lemma requested_transfer_auths [frame]:
  "requested_transfer c (e\<lparr>auths := signers\<rparr>) = requested_transfer c e"
  by (cases c) (simp_all add: program_at_def split: option.splits stored.splits)

definition ids_exhausted :: "call \<Rightarrow> 't env \<Rightarrow> bool" where
  "ids_exhausted c e \<longleftrightarrow>
     (\<exists>who repo reward cap. c = CreateProgram who repo reward cap) \<and> overflow_checks e \<and>
     instance_store e ProgramCounter = Some (StoredU64 (- 1))"

lemma invoke_Trap:
  "fst (invoke signers f e) = Trap \<longleftrightarrow> (\<exists>e'. f (e\<lparr>auths := signers\<rparr>) = (Trap, e'))"
  by (auto simp: invoke_def split: prod.splits outcome.splits)

lemma map_reply_Trap: "map_reply f res = (Trap, e) \<longleftrightarrow> res = (Trap, e)"
  by (cases res; cases "fst res") (auto simp: map_reply_def)

lemma dispatch_Trap:
  assumes "well_typed e" "auths e (caller c)" "dispatch transfer c e = (Trap, e')"
  shows "token_refused transfer c e \<or> ids_exhausted c e"
proof (cases c)
  case (CreateProgram who repo reward cap)
  with assms next_program_id_Trap [OF assms(1)] show ?thesis
    by (auto simp: map_reply_Trap create_program_def propagate_Trap Let_def ids_exhausted_def
        split: if_splits prod.splits)
next
  case (Fund pid src amount)
  with assms well_typed_reads [OF assms(1)] show ?thesis
    by (auto simp: map_reply_Trap fund_def propagate_Trap Let_def
        split: if_splits intro: token_refused_intro)
next
  case (RecordMerge gw pid user pr points)
  with assms well_typed_reads [OF assms(1)] show ?thesis
    by (auto simp: map_reply_Trap record_merge_def propagate_Trap Let_def
        split: if_splits intro: token_refused_intro)
next
  case (WithdrawRemaining pid who)
  with assms well_typed_reads [OF assms(1)] show ?thesis
    by (auto simp: map_reply_Trap withdraw_remaining_def propagate_Trap Let_def
        split: if_splits intro: token_refused_intro)
qed (use assms well_typed_reads [OF assms(1)] in
  \<open>auto simp: map_reply_Trap initialize_def register_contributor_def pause_def resume_def
     set_ratio_def propagate_Trap Let_def split: if_splits\<close>)

lemma expected_traps:
  assumes "well_typed e" "signers (caller c)" "fst (invoke signers (dispatch transfer c) e) = Trap"
  shows "token_refused transfer c e \<or> ids_exhausted c e"
proof -
  let ?e = "e\<lparr>auths := signers\<rparr>"
  obtain e' where "dispatch transfer c ?e = (Trap, e')"
    using assms(3) by (auto simp: invoke_Trap)
  moreover have "well_typed ?e" using assms(1) by (simp add: well_typed_def)
  ultimately have "token_refused transfer c ?e \<or> ids_exhausted c ?e"
    using assms(2) by (intro dispatch_Trap) auto
  then show ?thesis
    by (simp add: token_refused_def ids_exhausted_def token_of_def frame)
qed

section \<open>Refusals\<close>

lemma propagate_Err:
  "propagate v s k = (Err x, s') \<longleftrightarrow>
     v = Err x \<and> s' = s \<or> (\<exists>y. v = Ok y \<and> k y = (Err x, s'))"
  by (cases v) auto

lemma branch_Err:
  "(if b then u else v) = (Err x, s) \<longleftrightarrow> b \<and> u = (Err x, s) \<or> \<not> b \<and> v = (Err x, s)"
  by simp

lemma and_then_Err:
  "and_then v k = Err x \<longleftrightarrow> v = Err x \<or> (\<exists>y. v = Ok y \<and> k y = Err x)"
  by (cases v) auto

lemma get_as_not_Err [simp]: "get_as conv v \<noteq> Err x"
  by (cases v) (auto split: option.splits)

lemma read_Err:
  "read_gateway e = Err x \<longleftrightarrow> x = NotInitialized \<and> instance_store e Gateway = None"
  "read_token e = Err x \<longleftrightarrow> x = NotInitialized \<and> instance_store e Token = None"
  "read_program e pid = Err x \<longleftrightarrow>
     x = ProgramNotFound \<and> persistent_store e (Program pid) = None"
  "read_contributor e pid user = Err x \<longleftrightarrow>
     x = ContributorNotFound \<and> persistent_store e (Contributor pid user) = None"
  "is_pr_processed e pid pr \<noteq> Err x"
  by (auto simp: read_gateway_def read_token_def read_program_def read_contributor_def
      is_pr_processed_def and_then_Err)

lemma call_transfer_not_Err [simp]: "call_transfer transfer tok src dst amount e \<noteq> Err x"
  by (simp add: call_transfer_def)

lemma require_active_Err:
  "require_active p = Err x \<longleftrightarrow> x = ProgramPaused \<and> status p = Paused"
  by (auto simp: require_active_def)

lemma charge_milestone_Err:
  "charge_milestone p a = Err x \<longleftrightarrow>
     (\<exists>cap. milestone_cap p = Some cap \<and>
        (let new = sint (milestone_spent p) + sint a in
         if fits_signed 128 new then x = MilestoneCapExceeded \<and> sint cap < new
         else x = Overflow))"
proof (cases "milestone_cap p")
  case (Some cap)
  show ?thesis
  proof (cases "fits_signed 128 (sint (milestone_spent p) + sint a)")
    case True
    then obtain new :: i128 where new: "signed_of (sint (milestone_spent p) + sint a) = Some new"
      by (cases "signed_of (sint (milestone_spent p) + sint a) :: i128 option") auto
    then have "charge_milestone p a = (if sint new > sint cap then Err MilestoneCapExceeded
        else Ok (p\<lparr>milestone_spent := new\<rparr>))"
      unfolding charge_milestone_def checked_add_def Some new by simp
    with new Some True show ?thesis
      by (auto simp: Let_def)
  next
    case False
    then have none: "signed_of (sint (milestone_spent p) + sint a) = (None :: i128 option)" by simp
    have "charge_milestone p a = Err Overflow"
      unfolding charge_milestone_def checked_add_def Some none by simp
    with Some False show ?thesis
      by (auto simp: Let_def)
  qed
qed (simp add: charge_milestone_def)

text \<open>What each refusal of \<open>record_merge\<close> says about the state and the arguments.\<close>

fun merge_refused_for ::
  "contract_error \<Rightarrow> 't env \<Rightarrow> address \<Rightarrow> u64 \<Rightarrow> symbol \<Rightarrow> u64 \<Rightarrow> u32 \<Rightarrow> bool" where
  "merge_refused_for NotInitialized e gw pid user pr points \<longleftrightarrow> instance_store e Gateway = None"
| "merge_refused_for Unauthorized e gw pid user pr points \<longleftrightarrow>
     instance_store e Gateway \<noteq> Some (StoredAddress gw)"
| "merge_refused_for InvalidRatio e gw pid user pr points \<longleftrightarrow> points = 0"
| "merge_refused_for PrAlreadyProcessed e gw pid user pr points \<longleftrightarrow> (pid, pr) \<in> paid_prs e"
| "merge_refused_for ProgramNotFound e gw pid user pr points \<longleftrightarrow> program_at e pid = None"
| "merge_refused_for ProgramPaused e gw pid user pr points \<longleftrightarrow>
     (\<exists>p. program_at e pid = Some p \<and> status p = Paused)"
| "merge_refused_for ContributorNotFound e gw pid user pr points \<longleftrightarrow>
     persistent_store e (Contributor pid user) = None"
| "merge_refused_for InsufficientEscrow e gw pid user pr points \<longleftrightarrow>
     (\<exists>p. program_at e pid = Some p \<and>
        sint (escrow_balance p) < uint points * sint (reward_per_point p))"
| "merge_refused_for MilestoneCapExceeded e gw pid user pr points \<longleftrightarrow>
     (\<exists>p cap. program_at e pid = Some p \<and> milestone_cap p = Some cap \<and>
        sint cap < sint (milestone_spent p) + uint points * sint (reward_per_point p))"
| "merge_refused_for Overflow e gw pid user pr points \<longleftrightarrow>
     (\<exists>p. program_at e pid = Some p \<and>
        (2 ^ 127 \<le> uint points * sint (reward_per_point p) \<or>
         milestone_cap p \<noteq> None \<and>
         2 ^ 127 \<le> sint (milestone_spent p) + uint points * sint (reward_per_point p)))"
| "merge_refused_for _ e gw pid user pr points \<longleftrightarrow> False"

lemma committed_merge_not_refused:
  assumes "committed transfer signers (RecordMerge gw pid user pr points) e r e'"
  shows "\<not> merge_refused_for x e gw pid user pr points"
  using assms
proof (cases rule: committed.cases)
  case (record_merge p c payout spent tok t b)
  have small: "sint payout < 2 ^ 127" "sint spent < 2 ^ 127"
    using sint_less [of payout] sint_less [of spent] by simp_all
  show ?thesis
    using record_merge small
    by (cases x) (auto simp: paid_prs_def milestone_after_def program_at_def)
qed

lemma record_merge_Err:
  assumes "record_merge transfer gw pid user pr points e = (Err x, e')"
  shows "(x = NotInitialized \<and> (instance_store e Gateway = None \<or> instance_store e Token = None)) \<or>
    (x = Unauthorized \<and> instance_store e Gateway \<noteq> Some (StoredAddress gw)) \<or>
    (x = InvalidRatio \<and> points = 0) \<or>
    (x = PrAlreadyProcessed \<and> persistent_store e (ProcessedPr pid pr) = Some (StoredBool True)) \<or>
    (x = ProgramNotFound \<and> persistent_store e (Program pid) = None) \<or>
    (x = ContributorNotFound \<and> persistent_store e (Contributor pid user) = None) \<or>
    (\<exists>p. persistent_store e (Program pid) = Some (StoredProgram p) \<and>
      (let pay = uint points * sint (reward_per_point p); new = sint (milestone_spent p) + pay in
       (x = ProgramPaused \<and> status p = Paused) \<or>
       (x = Overflow \<and> \<not> fits_signed 128 pay) \<or>
       (x = InsufficientEscrow \<and> sint (escrow_balance p) < pay) \<or>
       (\<exists>cap. milestone_cap p = Some cap \<and>
          (if fits_signed 128 new then x = MilestoneCapExceeded \<and> sint cap < new
           else x = Overflow)) \<or>
       (x = Overflow \<and> pay \<le> sint (escrow_balance p) \<and>
          \<not> fits_signed 128 (sint (escrow_balance p) - pay))))"
proof -
  have kept: "escrow_balance q = escrow_balance p" if "charge_milestone p a = Ok q" for p q a
    using that by (auto simp: charge_milestone_Ok)
  show ?thesis
    using assms
    apply (simp add: record_merge_def propagate_Err read_Err require_active_Err branch_Err
        charge_milestone_Err checked_simps Let_def)
    apply (elim disjE exE conjE)
    apply (auto dest!: kept)
    done
qed

lemma sint_i128_bounds: "- (2 ^ 127) \<le> sint (x :: i128) \<and> sint x < 2 ^ 127"
  using sint_ge [of x] sint_less [of x] by simp

lemma record_merge_refusal:
  assumes err: "record_merge transfer gw pid user pr points e = (Err x, e')"
    and "sound_programs e" "config_together e"
  shows "merge_refused_for x e gw pid user pr points"
proof -
  have sound: "0 \<le> uint points * sint (reward_per_point p) \<and> 0 \<le> sint (milestone_spent p)
      \<and> sint (escrow_balance p) < 2 ^ 127"
    if "persistent_store e (Program pid) = Some (StoredProgram p)" for p
  proof -
    have "0 < sint (reward_per_point p)" "0 \<le> sint (milestone_spent p)"
      using assms(2) that by (auto simp: sound_programs_def sound_program_def)
    then show ?thesis using sint_i128_bounds [of "escrow_balance p"] by (simp add: uint_ge_0)
  qed
  have gateway: "instance_store e Token = None \<longleftrightarrow> instance_store e Gateway = None"
    using assms(3) by (simp add: config_together_def)
  show ?thesis
  proof (cases "\<exists>p. persistent_store e (Program pid) = Some (StoredProgram p)")
    case True
    then obtain p where p: "persistent_store e (Program pid) = Some (StoredProgram p)" by blast
    then have "program_at e pid = Some p" by simp
    with record_merge_Err [OF err] sound [OF p] gateway p show ?thesis
      by (elim disjE exE conjE)
        (auto simp: paid_prs_def fits_signed_def Let_def simp del: program_at_Some split: if_splits)
  next
    case False
    with record_merge_Err [OF err] gateway show ?thesis
      by (auto simp: paid_prs_def program_at_def)
  qed
qed

lemma map_outcome_Err: "map_outcome f v = Err x \<longleftrightarrow> v = Err x"
  by (cases v) auto

lemma invoked_merge_refusal:
  assumes "fst (invoke signers (dispatch transfer (RecordMerge gw pid user pr points)) e) = Err x"
    and "sound_programs e" "config_together e"
  shows "merge_refused_for x e gw pid user pr points"
proof -
  obtain e' where "record_merge transfer gw pid user pr points (e\<lparr>auths := signers\<rparr>) = (Err x, e')"
    using assms(1)
    by (auto simp: invoke_def map_reply_def map_outcome_Err prod_eq_iff
        split: prod.splits outcome.splits)
  moreover have "sound_programs (e\<lparr>auths := signers\<rparr>)" "config_together (e\<lparr>auths := signers\<rparr>)"
    using assms(2,3) by (simp_all add: sound_programs_def config_together_def)
  ultimately have "merge_refused_for x (e\<lparr>auths := signers\<rparr>) gw pid user pr points"
    by (rule record_merge_refusal)
  then show ?thesis by (cases x) (simp_all add: paid_prs_def program_at_def)
qed

text \<open>What a paid merge writes: the program, then the mark of the pull request.\<close>

lemma merge_writes:
  assumes "invoke signers (dispatch transfer (RecordMerge gw pid user pr points)) e =
      (Ok (Amount payout), e')"
  obtains p spent b c tok t where "program_at e pid = Some p"
    "persistent_store e (Contributor pid user) = Some (StoredContributor c)" "token_of e = Some tok"
    "transfer tok (contract_address e) (stellar_address c) payout (tokens e) = Some t"
    "sint payout = uint points * sint (reward_per_point p)" "milestone_after p payout spent"
    "sint b = sint (escrow_balance p) - sint payout"
    "e' = write_processed (pid, pr) True (write_program pid
       (p\<lparr>milestone_spent := spent, escrow_balance := b\<rparr>) (e\<lparr>tokens := t,
          events := events e @ [(''merge'', MergeRecordedEvent pid user pr points payout)]\<rparr>))"
  using assms unfolding invoke_iff_committed
proof (cases rule: committed.cases)
  case (record_merge p c spent tok t b)
  then show ?thesis
    by (intro that [of p c tok t spent b])
      (auto simp: write_processed_def write_program_def persistent_set_def)
qed

section \<open>The way out\<close>

text \<open>
  A maintainer who can sign reclaims the whole balance with two calls, if the token serves the
  contract's and the maintainer's account: the tokens move to the maintainer's account, and
  without a configured token there is nothing to move.
\<close>

definition paid_back :: "'t token_balance \<Rightarrow> 't env \<Rightarrow> 't env \<Rightarrow> address \<Rightarrow> int \<Rightarrow> bool" where
  "paid_back balance e e' who n \<longleftrightarrow>
     (case token_of e of
        None \<Rightarrow> n = 0
      | Some tok \<Rightarrow> balance (tokens e') tok who = balance (tokens e) tok who + n \<and>
          balance (tokens e') tok (contract_address e) = balance (tokens e) tok (contract_address e) - n)"

lemma paid_back_known:
  "token_of e = Some tok \<Longrightarrow> paid_back balance e e' who n \<longleftrightarrow>
     balance (tokens e') tok who = balance (tokens e) tok who + n \<and>
     balance (tokens e') tok (contract_address e) = balance (tokens e) tok (contract_address e) - n"
  by (simp add: paid_back_def)

lemma reclaimable:
  assumes "covered transfer balance e" "token_laws transfer balance"
    and "token_serves transfer balance (\<lambda>a. a = contract_address e \<or> a = maintainer p)"
    and "program_at e pid = Some p" "signers (maintainer p)" "maintainer p \<noteq> contract_address e"
  shows "\<exists>e1 e2.
     invoke signers (dispatch transfer (Pause pid (maintainer p))) e = (Ok Done, e1) \<and>
     invoke signers (dispatch transfer (WithdrawRemaining pid (maintainer p))) e1 =
       (Ok (Amount (escrow_balance p)), e2) \<and>
     escrow_of e2 pid = 0 \<and> paid_back balance e e2 (maintainer p) (sint (escrow_balance p))"
proof -
  let ?p = "p\<lparr>status := Paused\<rparr>"
  let ?e1 = "e\<lparr>persistent_store := store_at (Program pid) (StoredProgram ?p) e,
      events := events e @ [(''paused'', ProgramPausedEvent pid)]\<rparr>"
  have pause: "committed transfer signers (Pause pid (maintainer p)) e Done ?e1"
    using assms(4,5) by (intro committed.pause) auto
  have sound: "sound_programs e" and solv: "solvent balance e"
    using assms(1,2) by (auto simp: covered_def)
  then have nonneg: "0 \<le> sint (escrow_balance p)"
    using assms(4) by (auto simp: sound_programs_def sound_program_def)
  show ?thesis
  proof (cases "sint (escrow_balance p) = 0")
    case True
    then have zero: "escrow_balance p = 0" by (simp add: word_eq_sint)
    have "committed transfer signers (WithdrawRemaining pid (maintainer p)) ?e1 (Amount 0) ?e1"
      using assms(5) zero by (intro committed.withdraw_nothing [of _ _ _ _ ?p]) auto
    then have "invoke signers (dispatch transfer (WithdrawRemaining pid (maintainer p))) ?e1 =
        (Ok (Amount (escrow_balance p)), ?e1)"
      by (simp add: invoke_iff_committed zero)
    moreover have "escrow_of ?e1 pid = 0" by (simp add: escrow_of_def program_at_def zero)
    moreover have "paid_back balance e ?e1 (maintainer p) (sint (escrow_balance p))"
      by (simp add: paid_back_def zero split: option.split)
    ultimately show ?thesis using pause unfolding invoke_iff_committed by blast
  next
    case False
    have held: "escrow_of e pid = sint (escrow_balance p)"
      using assms(4) by (auto simp: escrow_of_def program_at_def)
    with False solv obtain tok where tok: "token_of e = Some tok"
      by (auto simp: solvent_def split: option.splits)
    then have "sint (escrow_balance p) \<le> balance (tokens e) tok (contract_address e)"
      using escrow_of_le_total [OF sound, of pid] held solv
      by (simp add: solvent_def holdings_def)
    then obtain t where t: "transfer tok (contract_address e) (maintainer p) (escrow_balance p)
        (tokens e) = Some t"
      using assms(3) nonneg unfolding token_serves_def by blast
    let ?e2 = "?e1\<lparr>tokens := t, persistent_store := store_at (Program pid)
        (StoredProgram (?p\<lparr>escrow_balance := 0\<rparr>)) ?e1\<rparr>"
    have "committed transfer signers (WithdrawRemaining pid (maintainer p)) ?e1
        (Amount (escrow_balance ?p)) ?e2"
      using assms(5) False nonneg tok t by (intro committed.withdraw_remaining [where tok = tok]) auto
    moreover have "escrow_of ?e2 pid = 0" by (simp add: escrow_of_def program_at_def)
    moreover have "paid_back balance e ?e2 (maintainer p) (sint (escrow_balance p))"
      unfolding paid_back_known [OF tok]
      using transfer_balance(1) [OF assms(2) t, of tok] assms(6) by simp
    ultimately show ?thesis using pause unfolding invoke_iff_committed by fastforce
  qed
qed

section \<open>Ids are given once\<close>

lemma no_reuse:
  assumes "just_initialized e0" "run (escrow_step transfer balance) e0 ls e"
    and "int (length ls) + 1 < 2 ^ 64" and "program_at e pid = Some p"
  shows "\<not> committed transfer signers c e (ProgramId pid) e'"
proof
  assume com: "committed transfer signers c e (ProgramId pid) e'"
  then obtain who repo reward cap where "c = CreateProgram who repo reward cap"
    by (cases rule: committed.cases) auto
  moreover have "ids_in_use e (int (length ls))"
    using ledger.run_holds [OF assms(2,1)] assms(3) by (simp add: ledger_inv_def)
  ultimately have "program_at e pid = None" using com assms(3) created_fresh by blast
  with assms(4) show False by (simp del: program_at_Some)
qed

section \<open>Repository names the host can carry\<close>

text \<open>The repository a label's call names, if it creates a program, is a symbol the host can build.\<close>

fun names_host_symbol :: "escrow_label \<Rightarrow> bool" where
  "names_host_symbol (Invoked _ (CreateProgram _ repo _ _) _) \<longleftrightarrow> host_symbol repo"
| "names_host_symbol _ \<longleftrightarrow> True"

lemma validate_repo_host_symbol: "host_symbol repo \<Longrightarrow> validate_repo repo = Err InvalidRepo"
proof -
  assume "host_symbol repo"
  then have "filter (\<lambda>b. b = CHR ''/'') repo = []"
    by (auto simp: filter_empty_conv dest: host_symbol_no_slash)
  then show ?thesis by (simp add: validate_repo_def)
qed

definition no_program_yet :: "escrow_label list \<Rightarrow> 't env \<Rightarrow> bool" where
  "no_program_yet ls e \<longleftrightarrow> list_all names_host_symbol ls \<longrightarrow> (\<forall>pid. program_at e pid = None)"

lemma committed_no_program:
  "committed transfer signers c e r e' \<Longrightarrow> names_host_symbol (Invoked signers c (Ok r)) \<Longrightarrow>
     \<forall>pid. program_at e pid = None \<Longrightarrow> program_at e' pid = None"
  by (induction rule: committed.induct)
    (auto simp: validate_repo_host_symbol program_at_def)

interpretation host_symbols:
  history_invariant "escrow_step transfer balance" deployed no_program_yet
  for transfer :: "'t token_transfer" and balance :: "'t token_balance"
proof
  fix e :: "'t env"
  assume "deployed e"
  then show "no_program_yet [] e"
    by (simp add: no_program_yet_def deployed_def program_at_def)
next
  fix ls :: "escrow_label list" and e l and e' :: "'t env"
  assume inv: "no_program_yet ls e" and step: "escrow_step transfer balance e l e'"
  from step show "no_program_yet (ls @ [l]) e'"
  proof (cases rule: escrow_step_cases)
    case (committed signers c r)
    with inv show ?thesis
      by (auto simp: no_program_yet_def simp del: program_at_Some intro!: committed_no_program [OF committed(3)])
  qed (use inv in \<open>auto simp: no_program_yet_def program_at_def\<close>)
qed

end
