(* ===== verification/Escrow_Demo.thy ===== *)
theory Escrow_Demo
  imports Escrow_Authority
begin

text \<open>
  A concrete token and a concrete run for the witnesses: a ledger of natural numbers that
  satisfies the token laws, and the contract initialised, one program created, funded, given a
  contributor and charged with one merge.
\<close>

section \<open>A token\<close>

type_synonym ledger = "address \<Rightarrow> address \<Rightarrow> nat"

definition credit :: "address \<Rightarrow> address \<Rightarrow> nat \<Rightarrow> ledger \<Rightarrow> ledger" where
  "credit tok who n t = t(tok := (t tok)(who := n))"

definition ledger_transfer :: "ledger token_transfer" where
  "ledger_transfer tok src dst amount t =
     (if 0 \<le> sint amount \<and> sint amount \<le> int (t tok src)
      then let t1 = credit tok src (t tok src - nat (sint amount)) t
           in Some (credit tok dst (t1 tok dst + nat (sint amount)) t1)
      else None)"

definition ledger_balance :: "ledger token_balance" where
  "ledger_balance t tok who = int (t tok who)"

lemma ledger_laws: "token_laws ledger_transfer ledger_balance"
  by (auto simp: token_laws_def ledger_transfer_def ledger_balance_def credit_def Let_def
      split: if_splits)

lemma ledger_serves: "token_serves ledger_transfer ledger_balance account"
  by (simp add: token_serves_def ledger_transfer_def ledger_balance_def Let_def)

section \<open>Serving a list of calls\<close>

fun serve :: "'t token_transfer \<Rightarrow> (address \<Rightarrow> bool) \<Rightarrow> call list \<Rightarrow> 't env
    \<Rightarrow> escrow_label list \<times> 't env" where
  "serve transfer signers [] e = ([], e)"
| "serve transfer signers (c # cs) e =
     (let (v, e1) = invoke signers (dispatch transfer c) e;
          (ls, e2) = serve transfer signers cs e1
      in (Invoked signers c v # ls, e2))"

lemma escrow_step_contract_address:
  "escrow_step transfer balance e l e' \<Longrightarrow> contract_address e' = contract_address e"
  by (cases rule: escrow_step_cases) (auto dest: committed_contract_address)

lemma serve_run:
  "\<not> signers (contract_address e) \<Longrightarrow> serve transfer signers cs e = (ls, e') \<Longrightarrow>
     run (escrow_step transfer balance) e ls e'"
proof (induction cs arbitrary: e ls)
  case Nil
  then show ?case by (auto intro: run.intros)
next
  case (Cons c cs)
  obtain v e1 where inv: "invoke signers (dispatch transfer c) e = (v, e1)" by fastforce
  with Cons.prems obtain ls1 where ls: "ls = Invoked signers c v # ls1"
      and rest: "serve transfer signers cs e1 = (ls1, e')"
    by (auto split: prod.splits)
  have step: "escrow_step transfer balance e (Invoked signers c v) e1"
    using Cons.prems(1) inv by (rule escrow_step.invoked)
  then have "\<not> signers (contract_address e1)"
    using Cons.prems(1) by (simp add: escrow_step_contract_address)
  with step rest show ?case
    unfolding ls by (intro run_cons) (auto intro: Cons.IH)
qed

section \<open>A run\<close>

definition demo_signers :: "address \<Rightarrow> bool" where
  "demo_signers a \<longleftrightarrow> a \<noteq> ''C''"

definition demo_deployed :: "ledger env" where
  "demo_deployed = \<lparr>instance_store = Map.empty, persistent_store = Map.empty, events = [],
     tokens = credit ''T'' ''M'' 1000 (\<lambda>_ _. 0), auths = (\<lambda>_. False),
     contract_address = ''C'', overflow_checks = True\<rparr>"

definition demo_setup :: "call list" where
  "demo_setup = [Initialize ''A'' ''G'' ''T'']"

definition demo_program :: "call list" where
  "demo_program =
     [CreateProgram ''M'' ''org/repo'' 100 (Some 250), Fund 1 ''M'' 500,
      RegisterContributor 1 ''M'' ''alice'' ''W'']"

definition demo_merge :: "call list" where
  "demo_merge = [RecordMerge ''G'' 1 ''alice'' 42 2]"

definition demo_initialized :: "ledger env" where
  "demo_initialized = demo_deployed\<lparr>instance_store := [Admin \<mapsto> StoredAddress ''A'',
     Gateway \<mapsto> StoredAddress ''G'', Token \<mapsto> StoredAddress ''T'',
     ProgramCounter \<mapsto> StoredU64 0]\<rparr>"

definition demo_funded :: "ledger env" where
  "demo_funded = demo_initialized\<lparr>
     instance_store := (instance_store demo_initialized)(ProgramCounter \<mapsto> StoredU64 1),
     persistent_store := [Program 1 \<mapsto> StoredProgram \<lparr>maintainer = ''M'',
         github_repo = ''org/repo'', reward_per_point = 100, escrow_balance = 500,
         milestone_cap = Some 250, milestone_spent = 0, status = Active\<rparr>,
       Contributor 1 ''alice'' \<mapsto> StoredContributor \<lparr>stellar_address = ''W''\<rparr>],
     events := [(''prog_new'', ProgramCreatedEvent 1 ''M'' ''org/repo'' 100),
       (''funded'', FundedEvent 1 500 500),
       (''contrib'', ContributorRegisteredEvent 1 ''alice'' ''W'')],
     tokens := credit ''T'' ''C'' 500 (credit ''T'' ''M'' 500 (\<lambda>_ _. 0))\<rparr>"

definition demo_paid :: "ledger env" where
  "demo_paid = demo_funded\<lparr>
     persistent_store := (persistent_store demo_funded)
      (Program 1 \<mapsto> StoredProgram \<lparr>maintainer = ''M'',
         github_repo = ''org/repo'', reward_per_point = 100, escrow_balance = 300,
         milestone_cap = Some 250, milestone_spent = 200, status = Active\<rparr>,
       ProcessedPr 1 42 \<mapsto> StoredBool True),
     events := events demo_funded @ [(''merge'', MergeRecordedEvent 1 ''alice'' 42 2 200)],
     tokens := credit ''T'' ''W'' 200 (credit ''T'' ''C'' 300 (credit ''T'' ''M'' 500 (\<lambda>_ _. 0)))\<rparr>"

lemmas evaluate =
  invoke_def map_reply_def Let_def write_defs checked_simps signed_of_def fits_signed_def
  arith_u64_def unsigned_of_def validate_repo_def next_program_id_def MIN_DEPOSIT_def
  read_program_def read_token_def read_gateway_def read_contributor_def is_pr_processed_def
  require_active_def charge_milestone_def call_transfer_def i128_from_u32_def
  ledger_transfer_def credit_def demo_signers_def demo_deployed_def demo_initialized_def

lemma demo_setup_serves:
  "serve ledger_transfer demo_signers demo_setup demo_deployed =
     ([Invoked demo_signers (Initialize ''A'' ''G'' ''T'') (Ok Done)], demo_initialized)"
  by (simp add: demo_setup_def initialize_def evaluate)

lemma demo_program_serves:
  "serve ledger_transfer demo_signers demo_program demo_initialized =
     ([Invoked demo_signers (CreateProgram ''M'' ''org/repo'' 100 (Some 250)) (Ok (ProgramId 1)),
       Invoked demo_signers (Fund 1 ''M'' 500) (Ok Done),
       Invoked demo_signers (RegisterContributor 1 ''M'' ''alice'' ''W'') (Ok Done)], demo_funded)"
  by (simp add: demo_program_def create_program_def fund_def register_contributor_def evaluate
      demo_funded_def fun_eq_iff)

lemma demo_merge_serves:
  "serve ledger_transfer demo_signers demo_merge demo_funded =
     ([Invoked demo_signers (RecordMerge ''G'' 1 ''alice'' 42 2) (Ok (Amount 200))], demo_paid)"
  by (simp add: demo_merge_def record_merge_def evaluate demo_funded_def demo_paid_def
      fun_eq_iff)

definition demo_program_labels :: "escrow_label list" where
  "demo_program_labels = fst (serve ledger_transfer demo_signers demo_program demo_initialized)"

definition demo_merge_labels :: "escrow_label list" where
  "demo_merge_labels = fst (serve ledger_transfer demo_signers demo_merge demo_funded)"

lemma demo_not_self: "\<not> demo_signers (contract_address demo_deployed)"
  "\<not> demo_signers (contract_address demo_initialized)"
  "\<not> demo_signers (contract_address demo_funded)"
  by (simp_all add: demo_signers_def demo_deployed_def demo_initialized_def demo_funded_def)

lemma demo_run_setup:
  "run (escrow_step ledger_transfer balance) demo_deployed
     [Invoked demo_signers (Initialize ''A'' ''G'' ''T'') (Ok Done)] demo_initialized"
  by (rule serve_run [OF demo_not_self(1) demo_setup_serves])

lemma demo_run_program:
  "run (escrow_step ledger_transfer balance) demo_initialized demo_program_labels demo_funded"
  unfolding demo_program_labels_def demo_program_serves
  using serve_run [of demo_signers demo_initialized, OF demo_not_self(2) demo_program_serves] by simp

lemma demo_run_merge:
  "run (escrow_step ledger_transfer balance) demo_funded demo_merge_labels demo_paid"
  unfolding demo_merge_labels_def demo_merge_serves
  using serve_run [of demo_signers demo_funded, OF demo_not_self(3) demo_merge_serves] by simp

lemma demo_run_books:
  "run (escrow_step ledger_transfer balance) demo_initialized
     (demo_program_labels @ demo_merge_labels) demo_paid"
  by (rule run_append [OF demo_run_merge demo_run_program])

lemma demo_run_all:
  "run (escrow_step ledger_transfer balance) demo_deployed
     ([Invoked demo_signers (Initialize ''A'' ''G'' ''T'') (Ok Done)] @
      demo_program_labels @ demo_merge_labels) demo_paid"
  by (rule run_append [OF demo_run_books demo_run_setup])

lemma demo_labels:
  "demo_program_labels =
     [Invoked demo_signers (CreateProgram ''M'' ''org/repo'' 100 (Some 250)) (Ok (ProgramId 1)),
      Invoked demo_signers (Fund 1 ''M'' 500) (Ok Done),
      Invoked demo_signers (RegisterContributor 1 ''M'' ''alice'' ''W'') (Ok Done)]"
  "demo_merge_labels =
     [Invoked demo_signers (RecordMerge ''G'' 1 ''alice'' 42 2) (Ok (Amount 200))]"
  by (simp_all add: demo_program_labels_def demo_program_serves demo_merge_labels_def
      demo_merge_serves)

lemma demo_states:
  "deployed demo_deployed" "just_initialized demo_initialized"
  "persistent_store demo_paid (Program 1) = Some (StoredProgram \<lparr>maintainer = ''M'',
     github_repo = ''org/repo'', reward_per_point = 100, escrow_balance = 300,
     milestone_cap = Some 250, milestone_spent = 200, status = Active\<rparr>)"
  "instance_store demo_paid Token = Some (StoredAddress ''T'')"
  "ledger_balance (tokens demo_paid) ''T'' (contract_address demo_paid) = 300"
  by (simp_all add: deployed_def just_initialized_def demo_deployed_def demo_initialized_def
      demo_funded_def demo_paid_def program_at_def ledger_balance_def credit_def)

section \<open>A program created too early\<close>

definition demo_early :: "ledger env" where
  "demo_early = demo_deployed\<lparr>instance_store := [ProgramCounter \<mapsto> StoredU64 1],
     persistent_store := [Program 1 \<mapsto> StoredProgram \<lparr>maintainer = ''M'',
         github_repo = ''org/repo'', reward_per_point = 100, escrow_balance = 0,
         milestone_cap = None, milestone_spent = 0, status = Active\<rparr>],
     events := [(''prog_new'', ProgramCreatedEvent 1 ''M'' ''org/repo'' 100)]\<rparr>"

definition demo_early_funded :: "ledger env" where
  "demo_early_funded = demo_deployed\<lparr>instance_store := instance_store demo_initialized,
     persistent_store := [Program 1 \<mapsto> StoredProgram \<lparr>maintainer = ''M'',
         github_repo = ''org/repo'', reward_per_point = 100, escrow_balance = 500,
         milestone_cap = None, milestone_spent = 0, status = Active\<rparr>],
     events := events demo_early @ [(''funded'', FundedEvent 1 500 500)],
     tokens := credit ''T'' ''C'' 500 (credit ''T'' ''M'' 500 (\<lambda>_ _. 0))\<rparr>"

lemma demo_early_first:
  "escrow_step ledger_transfer balance demo_deployed
     (Invoked demo_signers (CreateProgram ''M'' ''org/repo'' 100 None) (Ok (ProgramId 1))) demo_early"
  by (rule escrow_step.invoked [of demo_signers demo_deployed, OF demo_not_self(1)])
    (simp add: create_program_def evaluate demo_early_def fun_eq_iff)

lemma demo_early_serves:
  "serve ledger_transfer demo_signers [Initialize ''A'' ''G'' ''T'', Fund 1 ''M'' 500] demo_early =
     ([Invoked demo_signers (Initialize ''A'' ''G'' ''T'') (Ok Done),
       Invoked demo_signers (Fund 1 ''M'' 500) (Ok Done)], demo_early_funded)"
  by (simp add: initialize_def fund_def evaluate demo_early_def demo_early_funded_def fun_eq_iff)

lemma demo_early_run:
  "run (escrow_step ledger_transfer balance) demo_early
     [Invoked demo_signers (Initialize ''A'' ''G'' ''T'') (Ok Done),
      Invoked demo_signers (Fund 1 ''M'' 500) (Ok Done)] demo_early_funded"
  by (rule serve_run [OF _ demo_early_serves])
    (simp add: demo_early_def demo_deployed_def demo_signers_def)

lemma demo_early_facts:
  "instance_store demo_early_funded Token = Some (StoredAddress ''T'')"
  "program_at demo_early_funded 1 = Some \<lparr>maintainer = ''M'', github_repo = ''org/repo'',
     reward_per_point = 100, escrow_balance = 500, milestone_cap = None, milestone_spent = 0,
     status = Active\<rparr>"
  by (simp_all add: demo_early_funded_def demo_initialized_def demo_deployed_def)

lemma demo_early_last:
  "\<exists>e. invoke demo_signers (dispatch ledger_transfer (CreateProgram ''N'' ''org/other'' 7 None))
     demo_early_funded = (Ok (ProgramId 1), e)"
  by (simp add: create_program_def evaluate demo_early_funded_def)

end
