(* ===== verification/Escrow_Vault.thy ===== *)
theory Escrow_Vault
  imports Escrow_Authority
begin

text \<open>
  The abstract specification of the contract: a vault of accounts in whole numbers, with what is
  left of each budget instead of a cap and a counter, one table of payees and one set of settled
  pull requests, and seven movements with the actor who makes each. It knows no storage keys,
  machine integers, tokens, events or signatures. \<open>vault_of\<close> reads the vault off the contract's
  state, \<open>movement_of\<close> the movement off an invocation, and \<open>vault_simulates\<close> shows that every run
  of the contract is a run of the vault.
\<close>

section \<open>The vault\<close>

record account =
  acc_owner :: address
  acc_rate :: int
  acc_funds :: int
  acc_budget :: "int option"
  acc_open :: bool

record vault =
  vault_operator :: "address option"
  vault_accounts :: "u64 \<rightharpoonup> account"
  vault_payees :: "u64 \<times> symbol \<rightharpoonup> address"
  vault_settled :: "(u64 \<times> u64) set"

datatype movement =
    Opened u64 int "int option"
  | Deposited u64 int
  | Enrolled u64 symbol address
  | Settled u64 symbol u64 int
  | Switched u64 bool
  | Repriced u64 int
  | Emptied u64 int

definition with_account :: "u64 \<Rightarrow> account \<Rightarrow> vault \<Rightarrow> vault" where
  "with_account pid a v = v\<lparr>vault_accounts := (vault_accounts v)(pid \<mapsto> a)\<rparr>"

text \<open>
  Who may do what: anyone opens an account under an unused number, the owner does the rest to it,
  and the operator settles pull requests, each at most once, to a payee of the account, from the
  funds and within the budget of an open account.
\<close>

inductive vault_step :: "vault \<Rightarrow> address \<times> movement \<Rightarrow> vault \<Rightarrow> bool" where
  opened:
    "vault_accounts v pid = None \<Longrightarrow> 0 < rate \<Longrightarrow>
     vault_step v (who, Opened pid rate budget) (with_account pid
       \<lparr>acc_owner = who, acc_rate = rate, acc_funds = 0, acc_budget = budget, acc_open = True\<rparr> v)"
| deposited:
    "vault_accounts v pid = Some a \<Longrightarrow> acc_owner a = who \<Longrightarrow> 0 < n \<Longrightarrow>
     vault_step v (who, Deposited pid n) (with_account pid (a\<lparr>acc_funds := acc_funds a + n\<rparr>) v)"
| enrolled:
    "vault_accounts v pid = Some a \<Longrightarrow> acc_owner a = who \<Longrightarrow> vault_payees v (pid, user) = None \<Longrightarrow>
     vault_step v (who, Enrolled pid user wallet)
       (v\<lparr>vault_payees := (vault_payees v)((pid, user) \<mapsto> wallet)\<rparr>)"
| settled:
    "vault_accounts v pid = Some a \<Longrightarrow> vault_operator v = Some who \<Longrightarrow> acc_open a \<Longrightarrow>
     vault_payees v (pid, user) \<noteq> None \<Longrightarrow> (pid, pr) \<notin> vault_settled v \<Longrightarrow>
     0 < n \<Longrightarrow> acc_rate a dvd n \<Longrightarrow> n \<le> acc_funds a \<Longrightarrow>
     pred_option (\<lambda>left. n \<le> left) (acc_budget a) \<Longrightarrow>
     vault_step v (who, Settled pid user pr n) ((with_account pid
       (a\<lparr>acc_funds := acc_funds a - n, acc_budget := map_option (\<lambda>left. left - n) (acc_budget a)\<rparr>) v)
       \<lparr>vault_settled := insert (pid, pr) (vault_settled v)\<rparr>)"
| switched:
    "vault_accounts v pid = Some a \<Longrightarrow> acc_owner a = who \<Longrightarrow>
     vault_step v (who, Switched pid b) (with_account pid (a\<lparr>acc_open := b\<rparr>) v)"
| repriced:
    "vault_accounts v pid = Some a \<Longrightarrow> acc_owner a = who \<Longrightarrow> 0 < rate \<Longrightarrow>
     vault_step v (who, Repriced pid rate) (with_account pid (a\<lparr>acc_rate := rate\<rparr>) v)"
| emptied:
    "vault_accounts v pid = Some a \<Longrightarrow> acc_owner a = who \<Longrightarrow> \<not> acc_open a \<Longrightarrow>
     vault_step v (who, Emptied pid (acc_funds a)) (with_account pid (a\<lparr>acc_funds := 0\<rparr>) v)"

section \<open>The vault a state of the contract stands for\<close>

definition account_of :: "program \<Rightarrow> account" where
  "account_of p =
     \<lparr>acc_owner = maintainer p, acc_rate = sint (reward_per_point p),
      acc_funds = sint (escrow_balance p),
      acc_budget = map_option (\<lambda>cap. sint cap - sint (milestone_spent p)) (milestone_cap p),
      acc_open = (status p = Active)\<rparr>"

definition gateway_of :: "'t env \<Rightarrow> address option" where
  "gateway_of e = (case instance_store e Gateway of Some (StoredAddress a) \<Rightarrow> Some a | _ \<Rightarrow> None)"

definition payee_at :: "'t env \<Rightarrow> u64 \<times> symbol \<Rightarrow> address option" where
  "payee_at e k = (case persistent_store e (Contributor (fst k) (snd k)) of
     Some (StoredContributor c) \<Rightarrow> Some (stellar_address c) | _ \<Rightarrow> None)"

definition vault_of :: "'t env \<Rightarrow> vault" where
  "vault_of e =
     \<lparr>vault_operator = gateway_of e, vault_accounts = (\<lambda>pid. map_option account_of (program_at e pid)),
      vault_payees = payee_at e, vault_settled = paid_prs e\<rparr>"

text \<open>The movement an invocation makes, with its actor; a failed one makes none.\<close>

fun movement_of :: "escrow_label \<Rightarrow> (address \<times> movement) list" where
  "movement_of (Invoked _ (CreateProgram who _ reward cap) (Ok (ProgramId pid))) =
     [(who, Opened pid (sint reward) (map_option sint cap))]"
| "movement_of (Invoked _ (Fund pid who amount) (Ok _)) = [(who, Deposited pid (sint amount))]"
| "movement_of (Invoked _ (RegisterContributor pid who user wallet) (Ok _)) =
     [(who, Enrolled pid user wallet)]"
| "movement_of (Invoked _ (RecordMerge gw pid user pr _) (Ok (Amount a))) =
     [(gw, Settled pid user pr (sint a))]"
| "movement_of (Invoked _ (Pause pid who) (Ok _)) = [(who, Switched pid False)]"
| "movement_of (Invoked _ (Resume pid who) (Ok _)) = [(who, Switched pid True)]"
| "movement_of (Invoked _ (SetRatio pid who reward) (Ok _)) = [(who, Repriced pid (sint reward))]"
| "movement_of (Invoked _ (WithdrawRemaining pid who) (Ok (Amount a))) = [(who, Emptied pid (sint a))]"
| "movement_of _ = []"

lemma movement_of_failed: "\<forall>r. v \<noteq> Ok r \<Longrightarrow> movement_of (Invoked signers c v) = []"
  by (cases v; cases c) auto

lemma vault_of_frame [simp]:
  "vault_of (e\<lparr>tokens := t\<rparr>) = vault_of e"
  by (simp add: vault_of_def gateway_of_def program_at_def payee_at_def paid_prs_def fun_eq_iff)

lemma vault_of_program:
  "vault_of (e\<lparr>tokens := t, persistent_store := store_at (Program pid) (StoredProgram p) e, events := evs\<rparr>) =
     with_account pid (account_of p) (vault_of e)"
  "vault_of (e\<lparr>persistent_store := store_at (Program pid) (StoredProgram p) e, events := evs\<rparr>) =
     with_account pid (account_of p) (vault_of e)"
  "vault_of (e\<lparr>persistent_store := store_at (Program pid) (StoredProgram p) e\<rparr>) =
     with_account pid (account_of p) (vault_of e)"
  "vault_of (e\<lparr>tokens := t, persistent_store := store_at (Program pid) (StoredProgram p) e\<rparr>) =
     with_account pid (account_of p) (vault_of e)"
  "vault_of (e\<lparr>instance_store := (instance_store e)(ProgramCounter \<mapsto> StoredU64 n),
     persistent_store := store_at (Program pid) (StoredProgram p) e, events := evs\<rparr>) =
     with_account pid (account_of p) (vault_of e)"
  by (simp_all add: vault_of_def with_account_def gateway_of_def program_at_def payee_at_def
      paid_prs_def fun_eq_iff)

lemma vault_of_payee:
  "vault_of (e\<lparr>persistent_store := store_at (Contributor pid user) (StoredContributor c) e, events := evs\<rparr>) =
     (vault_of e)\<lparr>vault_payees := (vault_payees (vault_of e))((pid, user) \<mapsto> stellar_address c)\<rparr>"
  by (simp add: vault_of_def gateway_of_def program_at_def payee_at_def paid_prs_def fun_eq_iff)

lemma vault_of_settled:
  "vault_of (e\<lparr>tokens := t, persistent_store := (store_at (Program pid) (StoredProgram p) e)
       (ProcessedPr pid' pr \<mapsto> StoredBool True), events := evs\<rparr>) =
     (with_account pid (account_of p) (vault_of e))
       \<lparr>vault_settled := insert (pid', pr) (vault_settled (vault_of e))\<rparr>"
  by (auto simp: vault_of_def with_account_def gateway_of_def program_at_def payee_at_def
      paid_prs_def fun_eq_iff)

section \<open>The simulation\<close>

lemma vault_one: "vault_step v (who, m) v' \<Longrightarrow> run vault_step v [(who, m)] v'"
  by (rule run_one)

lemma committed_vault:
  assumes "committed transfer signers c e r e'" and "sound_programs e"
    and "instance_store e Admin \<noteq> None"
    and fresh: "\<And>who repo reward cap pid. c = CreateProgram who repo reward cap \<Longrightarrow>
      r = ProgramId pid \<Longrightarrow> program_at e pid = None"
  shows "run vault_step (vault_of e) (movement_of (Invoked signers c (Ok r))) (vault_of e')"
  using assms(1)
proof (cases rule: committed.cases)
  case (initialize adm gw tok)
  with assms(3) show ?thesis by simp
next
  case (create_program who reward repo n pid cap)
  then have none: "vault_accounts (vault_of e) pid = None"
    using fresh by (simp add: vault_of_def)
  show ?thesis
    using create_program vault_one [OF vault_step.opened [where who = who and budget = "map_option sint cap",
        OF none create_program(5)]]
    by (simp add: vault_of_program account_of_def)
next
  case (fund who amount pid p tok t b)
  then have known: "vault_accounts (vault_of e) pid = Some (account_of p)"
    by (simp add: vault_of_def program_at_def)
  have "acc_owner (account_of p) = who" using fund by (simp add: account_of_def)
  from vault_one [OF vault_step.deposited [OF known this, of "sint amount"]] fund show ?thesis
    by (simp add: vault_of_program account_of_def)
next
  case (register_contributor who pid p user wallet)
  then have known: "vault_accounts (vault_of e) pid = Some (account_of p)"
    by (simp add: vault_of_def program_at_def)
  have "acc_owner (account_of p) = who" "vault_payees (vault_of e) (pid, user) = None"
    using register_contributor by (simp_all add: account_of_def vault_of_def payee_at_def)
  from vault_one [OF vault_step.enrolled [OF known this, of wallet]] register_contributor show ?thesis
    by (simp add: vault_of_payee)
next
  case (record_merge gw points pid pr p user c payout spent tok t b)
  then have known: "vault_accounts (vault_of e) pid = Some (account_of p)"
    by (simp add: vault_of_def program_at_def)
  have sound: "0 < sint (reward_per_point p)"
    using assms(2) record_merge(8) by (auto simp: sound_programs_def sound_program_def)
  have pay: "0 < sint payout" "acc_rate (account_of p) dvd sint payout"
      "sint payout \<le> acc_funds (account_of p)"
    using payout_positive [OF record_merge(6) sound record_merge(11)] record_merge
    by (simp_all add: account_of_def)
  have "vault_operator (vault_of e) = Some gw" "acc_open (account_of p)"
      "vault_payees (vault_of e) (pid, user) \<noteq> None" "(pid, pr) \<notin> vault_settled (vault_of e)"
    using record_merge by (auto simp: vault_of_def gateway_of_def account_of_def payee_at_def paid_prs_def)
  note guards = known this pay
  have "pred_option (\<lambda>left. sint payout \<le> left) (acc_budget (account_of p))"
    using record_merge(13) by (auto simp: account_of_def milestone_after_def pred_option_def split: option.splits)
  from vault_one [OF vault_step.settled [OF guards this]]
  have "run vault_step (vault_of e) [(gw, Settled pid user pr (sint payout))]
      ((with_account pid ((account_of p)\<lparr>acc_funds := acc_funds (account_of p) - sint payout,
          acc_budget := map_option (\<lambda>left. left - sint payout) (acc_budget (account_of p))\<rparr>) (vault_of e))
        \<lparr>vault_settled := insert (pid, pr) (vault_settled (vault_of e))\<rparr>)" .
  moreover have "(account_of p)\<lparr>acc_funds := acc_funds (account_of p) - sint payout,
      acc_budget := map_option (\<lambda>left. left - sint payout) (acc_budget (account_of p))\<rparr> =
      account_of (p\<lparr>milestone_spent := spent, escrow_balance := b\<rparr>)"
    using record_merge(13,16)
    by (auto simp: account_of_def milestone_after_def split: option.splits)
  ultimately show ?thesis
    using record_merge(1-3) by (simp add: vault_of_settled)
next
  case (pause who pid p)
  then have known: "vault_accounts (vault_of e) pid = Some (account_of p)"
    by (simp add: vault_of_def program_at_def)
  have "acc_owner (account_of p) = who" using pause by (simp add: account_of_def)
  from vault_one [OF vault_step.switched [OF known this, of False]] pause show ?thesis
    by (simp add: vault_of_program account_of_def)
next
  case (resume who pid p)
  then have known: "vault_accounts (vault_of e) pid = Some (account_of p)"
    by (simp add: vault_of_def program_at_def)
  have "acc_owner (account_of p) = who" using resume by (simp add: account_of_def)
  from vault_one [OF vault_step.switched [OF known this, of True]] resume show ?thesis
    by (simp add: vault_of_program account_of_def)
next
  case (set_ratio who reward pid p)
  then have known: "vault_accounts (vault_of e) pid = Some (account_of p)"
    by (simp add: vault_of_def program_at_def)
  have "acc_owner (account_of p) = who" using set_ratio by (simp add: account_of_def)
  from vault_one [OF vault_step.repriced [OF known this set_ratio(5)]] set_ratio show ?thesis
    by (simp add: vault_of_program account_of_def)
next
  case (withdraw_nothing who pid p)
  then have known: "vault_accounts (vault_of e) pid = Some (account_of p)"
    by (simp add: vault_of_def program_at_def)
  have zero: "acc_funds (account_of p) = 0"
    using assms(2) withdraw_nothing(5,8)
    by (force simp: sound_programs_def sound_program_def account_of_def)
  have "acc_owner (account_of p) = who" "\<not> acc_open (account_of p)"
    using withdraw_nothing by (simp_all add: account_of_def)
  from vault_one [OF vault_step.emptied [OF known this]]
  have "run vault_step (vault_of e) [(who, Emptied pid 0)]
      (with_account pid ((account_of p)\<lparr>acc_funds := 0\<rparr>) (vault_of e))" using zero by simp
  moreover have "(account_of p)\<lparr>acc_funds := 0\<rparr> = account_of p" using zero by simp
  moreover have "with_account pid (account_of p) (vault_of e) = vault_of e"
    using known by (simp add: with_account_def fun_upd_idem)
  ultimately show ?thesis using withdraw_nothing by simp
next
  case (withdraw_remaining who pid p tok t)
  then have known: "vault_accounts (vault_of e) pid = Some (account_of p)"
    by (simp add: vault_of_def program_at_def)
  have "acc_owner (account_of p) = who" "\<not> acc_open (account_of p)"
    using withdraw_remaining by (simp_all add: account_of_def)
  from vault_one [OF vault_step.emptied [OF known this]] withdraw_remaining show ?thesis
    by (simp add: vault_of_program account_of_def)
qed

lemma vault_simulates:
  assumes "run (escrow_step transfer balance) e0 ls e" and "just_initialized e0"
    and "int (length ls) < 2 ^ 64"
  shows "run vault_step (vault_of e0) (concat (map movement_of ls)) (vault_of e)"
  using assms
proof (induction rule: run.induct)
  case run_start
  then show ?case by (simp add: run.run_start)
next
  case (run_step s ls s' l s'')
  have short: "int (length ls) + 1 < 2 ^ 64" using run_step.prems(2) by simp
  with run_step have before: "run vault_step (vault_of s) (concat (map movement_of ls)) (vault_of s')"
    by simp
  have "ledger_inv ls s'" using ledger.run_holds [OF run_step.hyps(1) run_step.prems(1)] .
  then have ids: "ids_in_use s' (int (length ls))" and admin: "instance_store s' Admin \<noteq> None"
    using short by (auto simp: ledger_inv_def)
  have "sound_programs s" using run_step.prems(1) by (auto simp: just_initialized_def sound_programs_def)
  with run_step.hyps(1) have sound: "sound_programs s'" by (rule sound_escrow.run_keeps)
  from run_step.hyps(2) have "run vault_step (vault_of s') (movement_of l) (vault_of s'')"
  proof (cases rule: escrow_step_cases)
    case (committed signers c r)
    show ?thesis
      unfolding committed(1)
    proof (rule committed_vault [OF committed(3) sound admin])
      fix who repo reward cap pid
      assume "c = CreateProgram who repo reward cap" "r = ProgramId pid"
      then show "program_at s' pid = None"
        using created_fresh [of transfer signers who repo reward cap s' pid s''] committed(3) ids short
        by blast
    qed
  next
    case (failed signers c v)
    then show ?thesis by (simp add: movement_of_failed run.run_start)
  next
    case (token_world t)
    then show ?thesis by (simp add: run.run_start)
  qed
  from run_append [OF this before] show ?case by simp
qed

end
