(* ===== verification/Escrow_Stranded.thy ===== *)
theory Escrow_Stranded
  imports Escrow_Authority
begin

text \<open>
  What happens to a program created before \<open>initialize\<close>: the counter that gave its id is set back,
  the first creation afterwards takes the same id, and the money booked for the first program is
  in no program's balance any more. The \<open>margin\<close> is what the token contract holds beyond the
  balances of all programs; no step ever lowers it, so that money never leaves the contract.
\<close>

section \<open>The margin\<close>

definition margin :: "'t token_balance \<Rightarrow> address \<Rightarrow> 't env \<Rightarrow> int" where
  "margin balance tok e = holdings balance e tok - total_escrow e"

lemma margin_same:
  assumes "\<And>pid. escrow_of e' pid = escrow_of e pid" "tokens e' = tokens e"
    and "contract_address e' = contract_address e" "token_of e' = token_of e" "token_of e = Some tok"
  shows "token_of e' = Some tok \<and> margin balance tok e \<le> margin balance tok e'"
  using assms by (simp add: margin_def holdings_def total_escrow_def)

lemma committed_margin:
  assumes "committed transfer signers c e r e'" and laws: "token_laws transfer balance"
    and "\<not> signers (contract_address e)" "sound_programs e" "token_of e = Some tok"
    and "instance_store e Admin \<noteq> None"
  shows "token_of e' = Some tok \<and> margin balance tok e \<le> margin balance tok e'"
proof -
  have same: ?thesis if "\<And>pid b. escrow_after c r pid b = b" "tokens e' = tokens e"
      "contract_address e' = contract_address e" "token_of e' = token_of e"
    using margin_same [OF _ that(2-4) assms(5)] committed_escrow [OF assms(1)] that(1) by simp
  from assms(1) show ?thesis
  proof (cases rule: committed.cases)
    case (initialize adm gw tok)
    with assms(6) show ?thesis by simp
  next
    case (create_program who reward repo n pid cap)
    have "total_escrow e' = total_escrow e - escrow_of e pid + 0"
      by (rule total_after [OF assms(1)]) (simp add: create_program)
    with escrow_of_nonneg [OF assms(4)] have "total_escrow e' \<le> total_escrow e"
      by (simp add: add_increasing2)
    with create_program assms(5) show ?thesis by (simp add: margin_def holdings_def token_of_def)
  next
    case (fund who amount pid p tok' t b)
    have "total_escrow e' = total_escrow e - escrow_of e pid + (escrow_of e pid + sint amount)"
      by (rule total_after [OF assms(1)]) (simp add: fund)
    moreover have "balance t tok' (contract_address e) =
        balance (tokens e) tok' (contract_address e) + sint amount"
      using fund assms(3) by (intro transfer_in [OF laws]) auto
    ultimately show ?thesis using fund assms(5) by (simp add: margin_def holdings_def)
  next
    case (record_merge gw points pid pr p user c payout spent tok' t b)
    have "total_escrow e' = total_escrow e - escrow_of e pid + (escrow_of e pid - sint payout)"
      by (rule total_after [OF assms(1)]) (simp add: record_merge)
    moreover note transfer_out [OF laws record_merge(15)]
    ultimately show ?thesis using record_merge assms(5) by (simp add: margin_def holdings_def)
  next
    case (withdraw_remaining who pid p tok' t)
    have "total_escrow e' = total_escrow e - escrow_of e pid
        + (escrow_of e pid - sint (escrow_balance p))"
      by (rule total_after [OF assms(1)]) (simp add: withdraw_remaining)
    moreover note transfer_out [OF laws withdraw_remaining(10)]
    ultimately show ?thesis using withdraw_remaining assms(5) by (simp add: margin_def holdings_def)
  qed (rule same; simp)+
qed

interpretation margin_kept:
  invariant_of "escrow_step transfer balance"
    "\<lambda>e. sound_programs e \<and> instance_store e Admin \<noteq> None \<and> (token_laws transfer balance \<longrightarrow>
       token_of e = Some tok \<and> least \<le> margin balance tok e)"
  for transfer :: "'t token_transfer" and balance :: "'t token_balance" and tok least
proof
  fix e l e'
  assume inv: "sound_programs e \<and> instance_store e Admin \<noteq> None \<and> (token_laws transfer balance \<longrightarrow>
       token_of e = Some tok \<and> least \<le> margin balance tok e)"
    and step: "escrow_step transfer balance e l e'"
  from step show "sound_programs e' \<and> instance_store e' Admin \<noteq> None \<and> (token_laws transfer balance \<longrightarrow>
       token_of e' = Some tok \<and> least \<le> margin balance tok e')"
  proof (cases rule: escrow_step_cases)
    case (committed signers c r)
    have "token_of e' = Some tok \<and> least \<le> margin balance tok e'" if "token_laws transfer balance"
      using committed_margin [OF committed(3) that committed(2)] inv that by fastforce
    with inv committed(3) show ?thesis
      using committed_sound_programs committed_Admin by blast
  next
    case (token_world t)
    have "escrow_of e' = escrow_of e"
      unfolding token_world(2) by (rule escrow_of_same_store) simp
    with inv token_world show ?thesis
      by (auto simp: margin_def holdings_def total_escrow_def frame intro: order_trans)
  qed (use inv in auto)
qed

section \<open>The counter set back\<close>

fun creates :: "escrow_label \<Rightarrow> bool" where
  "creates (Invoked _ (CreateProgram _ _ _ _) (Ok _)) \<longleftrightarrow> True"
| "creates _ \<longleftrightarrow> False"

text \<open>Without creations, a state that is initialised after one that was not has the counter at 0.\<close>

definition counter_reset :: "'t env \<Rightarrow> bool" where
  "counter_reset e \<longleftrightarrow>
     (instance_store e Admin \<noteq> None \<longrightarrow> instance_store e ProgramCounter = Some (StoredU64 0))"

lemma committed_counter_reset:
  "committed transfer signers c e r e' \<Longrightarrow> \<not> creates (Invoked signers c (Ok r)) \<Longrightarrow>
     counter_reset e \<Longrightarrow> counter_reset e'"
  by (induction rule: committed.induct) (auto simp: counter_reset_def)

lemma run_counter_reset:
  "run (escrow_step transfer balance) e ls e' \<Longrightarrow> \<not> list_ex creates ls \<Longrightarrow> counter_reset e \<Longrightarrow>
     counter_reset e'"
proof (induction rule: run.induct)
  case (run_step s ls s' l s'')
  then have "counter_reset s'" by simp
  with run_step.hyps(2) run_step.prems(1) show ?case
    by (cases rule: escrow_step_cases) (auto simp: counter_reset_def dest: committed_counter_reset)
qed

text \<open>The first id of a counter that is absent or 0 is 1, whatever the overflow checks.\<close>

lemma first_id:
  assumes "escrow_step transfer balance e
      (Invoked signers (CreateProgram who repo reward cap) (Ok (ProgramId pid))) e'"
    and "instance_store e ProgramCounter \<in> {None, Some (StoredU64 0)}"
  shows "pid = 1 \<and> instance_store e' Admin = instance_store e Admin \<and>
    program_at e' pid = Some \<lparr>maintainer = who, github_repo = repo, reward_per_point = reward,
      escrow_balance = 0, milestone_cap = cap, milestone_spent = 0, status = Active\<rparr>"
  using assms(1)
proof (cases rule: escrow_step_cases)
  case (committed s c r)
  then have "committed transfer signers (CreateProgram who repo reward cap) e (ProgramId pid) e'" by simp
  then show ?thesis
  proof (cases rule: committed.cases)
    case (create_program n)
    with assms(2) have "n = 0" by auto
    with create_program have "uint pid = 1" by (subst (asm) arith_u64_small) auto
    then have "pid = 1" by (simp add: word_uint_eq_iff)
    with create_program show ?thesis by auto
  qed
qed auto

lemma overwritten:
  assumes "deployed e0"
    and "escrow_step transfer balance e0 (Invoked signers (CreateProgram who repo reward cap) (Ok (ProgramId pid))) e1"
    and "run (escrow_step transfer balance) e1 ls e2" "\<not> list_ex creates ls"
    and "instance_store e2 Admin \<noteq> None"
    and "escrow_step transfer balance e2
      (Invoked signers' (CreateProgram who' repo' reward' cap') (Ok (ProgramId pid'))) e3"
  shows "pid' = pid \<and> program_at e3 pid = Some \<lparr>maintainer = who', github_repo = repo',
      reward_per_point = reward', escrow_balance = 0, milestone_cap = cap', milestone_spent = 0,
      status = Active\<rparr>"
proof -
  have "pid = 1" "instance_store e1 Admin = None"
    using first_id [OF assms(2)] assms(1) by (simp_all add: deployed_def)
  then have "counter_reset e2"
    using run_counter_reset [OF assms(3,4)] by (simp add: counter_reset_def)
  with first_id [OF assms(6)] assms(5) \<open>pid = 1\<close> show ?thesis by (auto simp: counter_reset_def)
qed

text \<open>Replacing a program raises the margin by its balance.\<close>

lemma replaced_margin:
  assumes "escrow_step transfer balance e
      (Invoked signers (CreateProgram who repo reward cap) (Ok (ProgramId pid))) e'"
    and "program_at e pid = Some p"
  shows "margin balance tok e' = margin balance tok e + sint (escrow_balance p)"
  using assms(1)
proof (cases rule: escrow_step_cases)
  case (committed s c r)
  then have com: "committed transfer signers (CreateProgram who repo reward cap) e (ProgramId pid) e'" by simp
  have "total_escrow e' = total_escrow e - escrow_of e pid + 0"
    by (rule total_after [OF com]) simp
  moreover have "tokens e' = tokens e" "contract_address e' = contract_address e"
    using com by (auto elim: committed.cases)
  moreover have "escrow_of e pid = sint (escrow_balance p)"
    using assms(2) by (auto simp: escrow_of_def program_at_def)
  ultimately show ?thesis by (simp add: margin_def holdings_def)
qed auto

end
