(* ===== verification/Escrow_Properties.thy ===== *)
theory Escrow_Properties
  imports Escrow_Demo Escrow_Vault Escrow_Stranded
begin

text \<open>
  The properties of the escrow contract: solvency, the books of each program, the milestone
  cap, one payout per pull request, typed storage, authority, the configuration, the way out,
  and the two places where the code does not do what it means to.
\<close>

section \<open>Facts every reachable state has\<close>

lemma deployed_facts:
  assumes "deployed e0"
  shows "well_typed e0" "sound_programs e0" "config_together e0" "logged_once e0"
    and "covered transfer balance e0"
proof -
  show base: "well_typed e0" "sound_programs e0" "config_together e0" "logged_once e0"
    using assms by (auto simp: deployed_def well_typed_def sound_programs_def config_together_def
      logged_once_def merged_prs_def paid_prs_def)
  show "covered transfer balance e0"
    using base assms by (auto simp: covered_def solvent_def deployed_def token_of_def escrow_of_def
      program_at_def)
qed

lemma reachable_facts:
  assumes "deployed e0" "run (escrow_step transfer balance) e0 ls e"
  shows "well_typed e" "sound_programs e" "config_together e" "logged_once e"
    and "covered transfer balance e"
  using deployed_facts [OF assms(1)] assms(2)
  by (auto intro: typed_storage.run_keeps sound_escrow.run_keeps configured.run_keeps
      paid_once.run_keeps coverage.run_keeps)

lemma run_balanced:
  assumes "just_initialized e0" and "run (escrow_step transfer balance) e0 ls e"
    and "int (length ls) < 2 ^ 64" and "program_at e pid = Some p"
  shows "program_balanced pid ls p"
proof -
  have "book_entry pid ls e"
    using ledger.run_holds [OF assms(2,1)] assms(3)
    by (simp add: ledger_inv_def books_agree_entries)
  then show ?thesis by (simp only: book_entry_known [OF assms(4)])
qed

section \<open>Money\<close>

text \<open>
  C1. Solvency. In every state the contract can reach from its deployment, whatever the calls,
  the signers (other than the contract itself) and the outside token movements, the escrow
  balances of all programs together are covered by what the token contract holds for it.
\<close>

theorem escrow_is_solvent:
  assumes "token_laws transfer balance" and "deployed e0"
    and "run (escrow_step transfer balance) e0 ls e"
    and "instance_store e Token = Some (StoredAddress tok)"
  shows "(\<Sum>pid\<in>UNIV. escrow_of e pid) \<le> balance (tokens e) tok (contract_address e)"
proof -
  have "solvent balance e"
    using reachable_facts(5) [OF assms(2,3)] assms(1) by (simp add: covered_def)
  moreover have "token_of e = Some tok" using assms(4) by (simp add: token_of_def)
  ultimately show ?thesis by (simp add: solvent_def total_escrow_def holdings_def)
qed

theorem escrow_is_solvent_witness:
  "(\<Sum>pid\<in>UNIV. escrow_of demo_paid pid) \<le> 300"
  using escrow_is_solvent [OF ledger_laws demo_states(1) demo_run_all demo_states(4)]
    demo_states(5) by simp

text \<open>
  C5. The books. On a run that starts right after \<open>initialize\<close> and is shorter than the id
  space, the escrow balance of every program is exactly what its maintainer deposited, less
  what was paid to contributors, less what was withdrawn.
\<close>

theorem escrow_balance_is_booked:
  assumes "just_initialized e0" and "run (escrow_step transfer balance) e0 ls e"
    and "int (length ls) < 2 ^ 64" and "program_at e pid = Some p"
  shows "sint (escrow_balance p) = deposited pid ls - paid_out pid ls - withdrawn pid ls"
  using run_balanced [OF assms] by (simp add: program_balanced_def)

theorem escrow_balance_is_booked_witness:
  "(300 :: int) = deposited 1 (demo_program_labels @ demo_merge_labels)
     - paid_out 1 (demo_program_labels @ demo_merge_labels)
     - withdrawn 1 (demo_program_labels @ demo_merge_labels)"
proof -
  have short: "int (length (demo_program_labels @ demo_merge_labels)) < 2 ^ 64"
    by (simp add: demo_labels)
  show ?thesis
    using escrow_balance_is_booked [OF demo_states(2) demo_run_books short, of 1] demo_states(3)
    by simp
qed

text \<open>
  C3. The milestone cap. On such a run, a program with a cap never pays out more than the cap
  in all, however often it is funded, paused, resumed or repriced; and its stored counter is
  what was paid.
\<close>

theorem milestone_caps_payouts:
  assumes "just_initialized e0" and "sound_programs e0"
    and "run (escrow_step transfer balance) e0 ls e" and "int (length ls) < 2 ^ 64"
    and "program_at e pid = Some p" and "milestone_cap p = Some cap"
  shows "sint (milestone_spent p) = paid_out pid ls \<and> paid_out pid ls \<le> max 0 (sint cap)"
proof -
  have spent: "sint (milestone_spent p) = paid_out pid ls"
    using run_balanced [OF assms(1,3-5)] assms(6) by (simp add: program_balanced_def)
  have "sound_programs e" using assms(2,3) sound_escrow.run_keeps by blast
  then have "sound_program p" using assms(5) by (simp add: sound_programs_def)
  with spent assms(6) show ?thesis by (auto simp: sound_program_def)
qed

theorem milestone_caps_payouts_witness:
  "paid_out 1 (demo_program_labels @ demo_merge_labels) \<le> max 0 (sint (250 :: i128))"
proof -
  have short: "int (length (demo_program_labels @ demo_merge_labels)) < 2 ^ 64"
    by (simp add: demo_labels)
  have "sound_programs demo_initialized"
    using demo_states(2) by (simp add: just_initialized_def sound_programs_def program_at_def
      demo_initialized_def demo_deployed_def)
  from milestone_caps_payouts [OF demo_states(2) this demo_run_books short, of 1] show ?thesis
    using demo_states(3) by fastforce
qed

text \<open>
  C7. One payout per pull request. In every reachable state no pull request was paid twice
  according to the event log, and one that was paid is refused for ever: no invocation of
  \<open>record_merge\<close> for it returns a payout again, whatever the signers, user and points.
\<close>

theorem merge_pays_once:
  assumes "deployed e0" and "run (escrow_step transfer balance) e0 ls e"
  shows "distinct (merged_prs e) \<and>
     (\<forall>(pid, pr) \<in> set (merged_prs e). \<forall>signers gw user points r e'.
        invoke signers (dispatch transfer (RecordMerge gw pid user pr points)) e \<noteq> (Ok r, e'))"
proof -
  have once: "logged_once e" using reachable_facts(4) [OF assms] .
  have "persistent_store e (ProcessedPr pid pr) = Some (StoredBool True)"
    if "(pid, pr) \<in> set (merged_prs e)" for pid pr
    using once that by (auto simp: logged_once_def paid_prs_def)
  then show ?thesis
    using once unfolding invoke_iff_committed
    by (fastforce simp: logged_once_def elim: committed.cases)
qed

theorem merge_pays_once_witness:
  "(1, 42) \<in> set (merged_prs demo_paid) \<and>
   invoke demo_signers (dispatch ledger_transfer (RecordMerge ''G'' 1 ''alice'' 42 2)) demo_paid
     \<noteq> (Ok (Amount 200), demo_paid)"
proof -
  have "(1, 42) \<in> set (merged_prs demo_paid)"
    by (simp add: merged_prs_def demo_paid_def demo_funded_def demo_initialized_def
        demo_deployed_def map_filter_def)
  with merge_pays_once [OF demo_states(1) demo_run_all] show ?thesis by fastforce
qed

section \<open>The code and its transition system\<close>

text \<open>
  C9. The contract keeps a vault. Every run from \<open>initialize\<close> that is shorter than the id space is,
  seen through \<open>vault_of\<close>, a run of the abstract vault: whole numbers instead of machine integers,
  what is left of a budget instead of a cap and a counter, accounts opened under unused numbers
  only, touched by their owner only, and settled by the operator only, once per pull request, to
  an enrolled payee, from the funds and within the budget. The movements of the vault are, in
  order, those the invocations that returned \<open>Ok\<close> stand for; every other step moves nothing.
\<close>

theorem contract_refines_vault:
  assumes "just_initialized e0" and "run (escrow_step transfer balance) e0 ls e"
    and "int (length ls) < 2 ^ 64"
  shows "run vault_step (vault_of e0) (concat (map movement_of ls)) (vault_of e)"
  using assms(2,1,3) by (rule vault_simulates)

theorem contract_refines_vault_witness:
  "run vault_step (vault_of demo_initialized)
     [(''M'', Opened 1 100 (Some 250)), (''M'', Deposited 1 500), (''M'', Enrolled 1 ''alice'' ''W''),
      (''G'', Settled 1 ''alice'' 42 200)] (vault_of demo_paid) \<and>
   vault_accounts (vault_of demo_paid) 1 = Some \<lparr>acc_owner = ''M'', acc_rate = 100, acc_funds = 300,
     acc_budget = Some 50, acc_open = True\<rparr>"
proof -
  have short: "int (length (demo_program_labels @ demo_merge_labels)) < 2 ^ 64"
    by (simp add: demo_labels)
  have "vault_accounts (vault_of demo_paid) 1 = Some \<lparr>acc_owner = ''M'', acc_rate = 100,
      acc_funds = 300, acc_budget = Some 50, acc_open = True\<rparr>"
    using demo_states(3) by (simp add: vault_of_def program_at_def account_of_def)
  with contract_refines_vault [OF demo_states(2) demo_run_books short] show ?thesis
    by (simp add: demo_labels)
qed

text \<open>
  C16. Traps. In every reachable state, an invocation whose caller signed it traps only because
  the token refused the transfer, or because every program id was used: no stored value is ever
  read at a wrong type and no arithmetic traps.
\<close>

theorem only_expected_traps:
  assumes "deployed e0" and "run (escrow_step transfer balance) e0 ls e"
    and "signers (caller c)" and "fst (invoke signers (dispatch transfer c) e) = Trap"
  shows "token_refused transfer c e \<or> ids_exhausted c e"
  using reachable_facts(1) [OF assms(1,2)] assms(3,4) by (rule expected_traps)

theorem only_expected_traps_witness:
  "token_refused ledger_transfer (Fund 1 ''M'' 501) demo_paid \<or>
   ids_exhausted (Fund 1 ''M'' 501) demo_paid"
proof (rule only_expected_traps [OF demo_states(1) demo_run_all])
  show "demo_signers (caller (Fund 1 ''M'' 501))" by (simp add: demo_signers_def)
  show "fst (invoke demo_signers (dispatch ledger_transfer (Fund 1 ''M'' 501)) demo_paid) = Trap"
    by (simp add: fund_def evaluate demo_paid_def demo_funded_def)
qed

text \<open>
  C11. When a merge is paid. In every reachable state, for a gateway that signed and a token that
  does not refuse the payout, \<open>record_merge\<close> pays exactly when none of its refusals applies, and
  an error it returns names a refusal that does apply: in particular \<open>Overflow\<close> is reported only
  when the payout or the milestone total really leaves the range of \<open>i128\<close>.
\<close>

theorem merge_paid_iff_not_refused:
  assumes "deployed e0" and "run (escrow_step transfer balance) e0 ls e" and "signers gw"
    and "\<not> token_refused transfer (RecordMerge gw pid user pr points) e"
  shows "(case fst (invoke signers (dispatch transfer (RecordMerge gw pid user pr points)) e) of
      Ok r \<Rightarrow> \<forall>x. \<not> merge_refused_for x e gw pid user pr points
    | Err x \<Rightarrow> merge_refused_for x e gw pid user pr points
    | Trap \<Rightarrow> False)"
proof (cases "fst (invoke signers (dispatch transfer (RecordMerge gw pid user pr points)) e)")
  case (Ok r)
  then have "\<exists>e'. committed transfer signers (RecordMerge gw pid user pr points) e r e'"
    unfolding invoke_iff_committed [symmetric] by (metis prod.collapse)
  with Ok show ?thesis by (auto dest: committed_merge_not_refused)
next
  case (Err x)
  then show ?thesis
    using invoked_merge_refusal reachable_facts(2,3) [OF assms(1,2)] by simp
next
  case Trap
  then have "token_refused transfer (RecordMerge gw pid user pr points) e \<or>
      ids_exhausted (RecordMerge gw pid user pr points) e"
    using expected_traps [OF reachable_facts(1) [OF assms(1,2)], of signers] assms(3) by simp
  with assms(4) show ?thesis by (simp add: ids_exhausted_def)
qed

theorem merge_paid_iff_not_refused_witness:
  "merge_refused_for PrAlreadyProcessed demo_paid ''G'' 1 ''alice'' 42 1"
proof -
  have signed: "demo_signers ''G''" by (simp add: demo_signers_def)
  have serves: "\<not> token_refused ledger_transfer (RecordMerge ''G'' 1 ''alice'' 42 1) demo_paid"
    by (simp add: token_refused_def token_of_def program_at_def evaluate demo_paid_def
        demo_funded_def)
  have refused: "fst (invoke demo_signers (dispatch ledger_transfer
      (RecordMerge ''G'' 1 ''alice'' 42 1)) demo_paid) = Err PrAlreadyProcessed"
    by (simp add: record_merge_def evaluate demo_paid_def demo_funded_def)
  from merge_paid_iff_not_refused [where signers = demo_signers and gw = "''G''",
      OF demo_states(1) demo_run_all [where balance = ledger_balance] signed serves] refused
  show ?thesis by simp
qed

text \<open>
  C17. What a merge leaves behind. After \<open>record_merge\<close> returned a payout, the readers see it:
  the pull request is processed, the payout is the points times the reward and was transferred by
  the configured token from the contract to the contributor's registered address; the program reads
  as before but for its escrow balance, which went down by the payout, and its milestone counter,
  which went up by it and stayed within the cap if there is one; one event was emitted, with the
  topic \<open>merge\<close> and the merge with its payout; the configuration and every contributor, every
  other program and every other pull request read as before.
\<close>

theorem merge_readback:
  assumes "invoke signers (dispatch transfer (RecordMerge gw pid user pr points)) e =
      (Ok (Amount payout), e')"
  shows "is_processed pid pr e' = Ok True \<and>
     (\<exists>p b spent. get_program pid e = Ok p \<and>
        get_program pid e' = Ok (p\<lparr>escrow_balance := b, milestone_spent := spent\<rparr>) \<and>
        get_escrow_balance pid e' = Ok b \<and>
        sint payout = uint points * sint (reward_per_point p) \<and>
        sint b = sint (escrow_balance p) - sint payout \<and>
        (case milestone_cap p of
           None \<Rightarrow> spent = milestone_spent p
         | Some cap \<Rightarrow> sint spent = sint (milestone_spent p) + sint payout \<and> sint spent \<le> sint cap)) \<and>
     (\<forall>pid'. pid' \<noteq> pid \<longrightarrow> get_program pid' e' = get_program pid' e) \<and>
     (\<forall>pid' pr'. (pid', pr') \<noteq> (pid, pr) \<longrightarrow> is_processed pid' pr' e' = is_processed pid' pr' e) \<and>
     (\<forall>pid' user'. read_contributor e' pid' user' = read_contributor e pid' user') \<and>
     (\<exists>c tok. read_contributor e pid user = Ok c \<and> read_token e = Ok tok \<and>
        transfer tok (contract_address e) (stellar_address c) payout (tokens e) = Some (tokens e')) \<and>
     instance_store e' = instance_store e \<and>
     events e' = events e @ [(''merge'', MergeRecordedEvent pid user pr points payout)]"
proof -
  let ?evs = "events e @ [(''merge'', MergeRecordedEvent pid user pr points payout)]"
  obtain p spent b c tok t where read: "program_at e pid = Some p"
    and moved: "persistent_store e (Contributor pid user) = Some (StoredContributor c)"
      "token_of e = Some tok"
      "transfer tok (contract_address e) (stellar_address c) payout (tokens e) = Some t"
    and pay: "sint payout = uint points * sint (reward_per_point p)"
    and ms: "milestone_after p payout spent"
    and bal: "sint b = sint (escrow_balance p) - sint payout"
    and e': "e' = write_processed (pid, pr) True (write_program pid
        (p\<lparr>milestone_spent := spent, escrow_balance := b\<rparr>) (e\<lparr>tokens := t, events := ?evs\<rparr>))"
    using assms(1) by (rule merge_writes)
  note reads = get_program_def get_escrow_balance_def is_processed_def
    read_processed_def [of _ "(i, j)" for i j, simplified, symmetric]
  have world: "read_program (e\<lparr>tokens := t, events := ?evs\<rparr>) i = read_program e i"
    "read_processed (e\<lparr>tokens := t, events := ?evs\<rparr>) k = read_processed e k" for i k
    by (simp_all add: read_program_def read_processed_def is_pr_processed_def)
  have others: "read_contributor e' i u = read_contributor e i u" "instance_store e' = instance_store e"
    "events e' = ?evs" "tokens e' = t" for i u
    by (simp_all add: e' read_contributor_def write_processed_def write_program_def persistent_set_def)
  have paid: "\<exists>c tok. read_contributor e pid user = Ok c \<and> read_token e = Ok tok \<and>
      transfer tok (contract_address e) (stellar_address c) payout (tokens e) = Some (tokens e')"
    using moved(1,3) moved(2) [unfolded token_of_Some] others(4) by auto
  have known: "read_program e pid = Ok p" using read by simp
  have new: "read_program e' pid = Ok (p\<lparr>escrow_balance := b, milestone_spent := spent\<rparr>)"
    unfolding e' by (simp add: program_processed.get1_put2 program_slot.get_put)
  have "read_program e' i = read_program e i" if "i \<noteq> pid" for i
    unfolding e' using that by (simp add: program_processed.get1_put2 program_slot.get_put world)
  moreover have "read_processed e' k = (if k = (pid, pr) then Ok True else read_processed e k)" for k
    unfolding e' by (simp add: program_processed.get2_put1 processed_slot.get_put world)
  ultimately show ?thesis
    unfolding reads using pay bal ms known new others
    by (intro conjI exI [of _ p] exI [of _ b] exI [of _ spent] paid)
      (simp_all add: milestone_after_def)
qed

theorem merge_readback_witness:
  "is_processed 1 42 demo_paid = Ok True \<and> get_escrow_balance 1 demo_paid = Ok 300 \<and>
   events demo_paid = events demo_funded @ [(''merge'', MergeRecordedEvent 1 ''alice'' 42 2 200)]"
proof -
  have inv: "invoke demo_signers (dispatch ledger_transfer
      (RecordMerge ''G'' 1 ''alice'' 42 2)) demo_funded = (Ok (Amount 200), demo_paid)"
    using demo_merge_serves by (simp add: demo_merge_def split: prod.splits)
  from merge_readback [OF inv] show ?thesis
    by (auto simp: get_escrow_balance_def demo_paid_def)
qed

section \<open>Authority\<close>

text \<open>
  C14. Who changes a program. On a run from \<open>initialize\<close>, an invocation that changes a program
  in any field was signed by its caller, who is the program's maintainer calling one of the
  functions for it, or the configured gateway recording a merge on an active program. No
  creation ever replaces a program.
\<close>

theorem program_changes_are_authorised:
  assumes "just_initialized e0" and "run (escrow_step transfer balance) e0 ls e"
    and "int (length ls) + 1 < 2 ^ 64"
    and "invoke signers (dispatch transfer c) e = (Ok r, e')"
    and "program_at e pid = Some p" and "program_at e' pid \<noteq> Some p"
  shows "signers (caller c) \<and>
     (maintains c = Some pid \<and> caller c = maintainer p \<or>
      (\<exists>user pr points. c = RecordMerge (caller c) pid user pr points \<and> status p = Active \<and>
         instance_store e Gateway = Some (StoredAddress (caller c))))"
proof -
  have com: "committed transfer signers c e r e'" using assms(4) unfolding invoke_iff_committed .
  then have "r \<noteq> ProgramId pid" using no_reuse [OF assms(1-3,5)] by blast
  with committed_change [OF com assms(5,6)] committed_caller_signed [OF com] show ?thesis by blast
qed

theorem program_changes_are_authorised_witness:
  "maintains (SetRatio 1 ''M'' 7) = Some 1 \<and> caller (SetRatio 1 ''M'' 7) = ''M''"
proof -
  let ?p = "\<lparr>maintainer = ''M'', github_repo = ''org/repo'', reward_per_point = 100,
     escrow_balance = 300, milestone_cap = Some 250, milestone_spent = 200, status = Active\<rparr>"
  have short: "int (length (demo_program_labels @ demo_merge_labels)) + 1 < 2 ^ 64"
    by (simp add: demo_labels)
  have known: "program_at demo_paid 1 = Some ?p" using demo_states(3) by simp
  obtain e' where inv: "invoke demo_signers (dispatch ledger_transfer (SetRatio 1 ''M'' 7)) demo_paid =
      (Ok Done, e')" and new: "program_at e' 1 \<noteq> Some ?p"
    using demo_states(3) by (fastforce simp: set_ratio_def evaluate)
  from program_changes_are_authorised [OF demo_states(2) demo_run_books short inv known new]
  show ?thesis by simp
qed

text \<open>
  C15. Who takes money out. An invocation that lowers a program's balance is signed either by its
  maintainer, who withdraws everything while the program is paused, or by the configured gateway,
  which pays a registered contributor of an active program exactly the points times the reward.
\<close>

theorem debits_are_authorised:
  assumes "just_initialized e0" and "run (escrow_step transfer balance) e0 ls e"
    and "int (length ls) + 1 < 2 ^ 64"
    and "invoke signers (dispatch transfer c) e = (Ok r, e')"
    and "program_at e pid = Some p" and "escrow_of e' pid < escrow_of e pid"
  shows "(c = WithdrawRemaining pid (maintainer p) \<and> signers (maintainer p) \<and> status p = Paused \<and>
        escrow_of e' pid = 0) \<or>
     (\<exists>gw user pr points w. c = RecordMerge gw pid user pr points \<and> signers gw \<and> status p = Active \<and>
        instance_store e Gateway = Some (StoredAddress gw) \<and>
        persistent_store e (Contributor pid user) = Some (StoredContributor w) \<and>
        escrow_of e pid - escrow_of e' pid = uint points * sint (reward_per_point p))"
proof -
  have com: "committed transfer signers c e r e'" using assms(4) unfolding invoke_iff_committed .
  then have "r \<noteq> ProgramId pid" using no_reuse [OF assms(1-3,5)] by blast
  with committed_debit [OF com assms(5,6)] committed_caller_signed [OF com] show ?thesis
    by (metis caller.simps(5,9))
qed

theorem debits_are_authorised_witness:
  "escrow_of demo_funded 1 - escrow_of demo_paid 1 = uint (2 :: u32) * sint (100 :: i128)"
proof -
  let ?p = "\<lparr>maintainer = ''M'', github_repo = ''org/repo'', reward_per_point = 100,
     escrow_balance = 500, milestone_cap = Some 250, milestone_spent = 0, status = Active\<rparr>"
  have short: "int (length demo_program_labels) + 1 < 2 ^ 64" by (simp add: demo_labels)
  have inv: "invoke demo_signers (dispatch ledger_transfer
      (RecordMerge ''G'' 1 ''alice'' 42 2)) demo_funded = (Ok (Amount 200), demo_paid)"
    using demo_merge_serves by (simp add: demo_merge_def split: prod.splits)
  have known: "program_at demo_funded 1 = Some ?p" by (simp add: demo_funded_def)
  have less: "escrow_of demo_paid 1 < escrow_of demo_funded 1"
    by (simp add: escrow_of_def program_at_def demo_paid_def demo_funded_def)
  from debits_are_authorised [OF demo_states(2) demo_run_program short inv known less]
  show ?thesis by auto
qed

text \<open>
  C18. Fixed for good. Once the contract is configured, every later state has the same admin,
  gateway and token and answers \<open>initialize\<close> with \<open>AlreadyInitialized\<close>, whoever signs; and every
  contributor registered by then keeps the registered address. There is no way to replace the
  gateway's key.
\<close>

theorem configuration_is_final:
  assumes "instance_store e Admin \<noteq> None" and "run (escrow_step transfer balance) e ls e'"
  shows "config e' = config e \<and>
     invoke signers (dispatch transfer (Initialize adm gw tok)) e' = (Err AlreadyInitialized, e') \<and>
     (\<forall>pid user w. persistent_store e (Contributor pid user) = Some w \<longrightarrow>
        persistent_store e' (Contributor pid user) = Some w)"
proof -
  have "instance_store e' Admin \<noteq> None \<and> config e' = config e"
    using fixed_config.run_keeps [OF assms(2)] assms(1) by simp
  moreover have "persistent_store e' (Contributor pid user) = Some w"
    if "persistent_store e (Contributor pid user) = Some w" for pid user w
    using registrations_kept.run_keeps [OF assms(2)] that by simp
  ultimately show ?thesis by (auto simp: invoke_def initialize_def map_reply_def)
qed

theorem configuration_is_final_witness:
  "config demo_paid = config demo_initialized \<and>
   invoke demo_signers (dispatch ledger_transfer (Initialize ''B'' ''H'' ''U'')) demo_funded =
     (Err AlreadyInitialized, demo_funded) \<and>
   persistent_store demo_paid (Contributor 1 ''alice'') =
     Some (StoredContributor \<lparr>stellar_address = ''W''\<rparr>)"
proof -
  have configured: "instance_store demo_initialized Admin \<noteq> None" "instance_store demo_funded Admin \<noteq> None"
    and alice: "persistent_store demo_funded (Contributor 1 ''alice'') =
       Some (StoredContributor \<lparr>stellar_address = ''W''\<rparr>)"
    by (simp_all add: demo_funded_def demo_initialized_def demo_deployed_def)
  note final = configuration_is_final [of _ ledger_transfer ledger_balance]
  show ?thesis
    using final [OF configured(1) demo_run_books] final [OF configured(1) demo_run_program]
      final [OF configured(2) demo_run_merge] alice
    by (intro conjI) metis+
qed

section \<open>Progress\<close>

text \<open>
  C19. The way out. In every reachable state, against a token that serves the contract and the
  maintainer, the maintainer of any program gets its whole balance back with two calls: the
  tokens move from the contract's account to the maintainer's (before \<open>initialize\<close> there is no
  token, and no program has a balance), and the program's balance is 0.
\<close>

theorem maintainer_can_reclaim:
  assumes "deployed e0" and "run (escrow_step transfer balance) e0 ls e"
    and "token_laws transfer balance"
    and "token_serves transfer balance (\<lambda>a. a = contract_address e \<or> a = maintainer p)"
    and "program_at e pid = Some p" and "signers (maintainer p)"
    and "\<not> signers (contract_address e)"
  shows "\<exists>e1 e2.
     invoke signers (dispatch transfer (Pause pid (maintainer p))) e = (Ok Done, e1) \<and>
     invoke signers (dispatch transfer (WithdrawRemaining pid (maintainer p))) e1 =
       (Ok (Amount (escrow_balance p)), e2) \<and>
     escrow_of e2 pid = 0 \<and>
     (case token_of e of
        None \<Rightarrow> sint (escrow_balance p) = 0
      | Some tok \<Rightarrow>
          balance (tokens e2) tok (maintainer p) =
            balance (tokens e) tok (maintainer p) + sint (escrow_balance p) \<and>
          balance (tokens e2) tok (contract_address e) =
            balance (tokens e) tok (contract_address e) - sint (escrow_balance p))"
proof -
  have "maintainer p \<noteq> contract_address e" using assms(6,7) by auto
  from reclaimable [of transfer balance e p pid signers, OF reachable_facts(5) [OF assms(1,2)] assms(3-6) this]
  show ?thesis
    unfolding paid_back_def .
qed

theorem maintainer_can_reclaim_witness:
  "\<exists>e1 e2.
     invoke demo_signers (dispatch ledger_transfer (Pause 1 ''M'')) demo_paid = (Ok Done, e1) \<and>
     invoke demo_signers (dispatch ledger_transfer (WithdrawRemaining 1 ''M'')) e1 =
       (Ok (Amount 300), e2) \<and>
     escrow_of e2 1 = 0 \<and> ledger_balance (tokens e2) ''T'' ''M'' = 800 \<and>
     ledger_balance (tokens e2) ''T'' ''C'' = 0"
proof -
  have demo: "token_of demo_paid = Some ''T''" "contract_address demo_paid = ''C''"
    "ledger_balance (tokens demo_paid) ''T'' ''M'' = 500" "ledger_balance (tokens demo_paid) ''T'' ''C'' = 300"
    "demo_signers ''M''" "\<not> demo_signers ''C''"
    by (simp_all add: token_of_def demo_paid_def demo_funded_def demo_initialized_def
        demo_deployed_def ledger_balance_def credit_def demo_signers_def)
  from maintainer_can_reclaim [OF demo_states(1) demo_run_all ledger_laws ledger_serves,
      where pid = 1 and signers = demo_signers] demo_states(3) demo
  show ?thesis by fastforce
qed

section \<open>Where the code falls short\<close>

text \<open>
  C20. Repository names. \<open>validate_repo\<close> asks for exactly one slash, and no Soroban symbol has
  one: on a run in which every \<open>create_program\<close> passes a symbol the host can build, no
  program is ever created.
\<close>

theorem no_program_with_host_symbols:
  assumes "deployed e0" and "run (escrow_step transfer balance) e0 ls e"
    and "list_all names_host_symbol ls"
  shows "program_at e pid = None"
  using host_symbols.run_holds [OF assms(2,1)] assms(3) by (simp add: no_program_yet_def)

theorem no_program_with_host_symbols_witness:
  "\<exists>e. run (escrow_step ledger_transfer ledger_balance) demo_deployed
      [Invoked demo_signers (Initialize ''A'' ''G'' ''T'') (Ok Done),
       Invoked demo_signers (CreateProgram ''M'' ''org_repo'' 100 None) (Err InvalidRepo)] e \<and>
    program_at e 1 = None"
proof -
  let ?calls = "[Initialize ''A'' ''G'' ''T'', CreateProgram ''M'' ''org_repo'' 100 None]"
  have "serve ledger_transfer demo_signers ?calls demo_deployed =
      ([Invoked demo_signers (Initialize ''A'' ''G'' ''T'') (Ok Done),
        Invoked demo_signers (CreateProgram ''M'' ''org_repo'' 100 None) (Err InvalidRepo)], demo_initialized)"
    by (simp add: initialize_def create_program_def evaluate)
  then have served: "run (escrow_step ledger_transfer ledger_balance) demo_deployed
      [Invoked demo_signers (Initialize ''A'' ''G'' ''T'') (Ok Done),
       Invoked demo_signers (CreateProgram ''M'' ''org_repo'' 100 None) (Err InvalidRepo)] demo_initialized"
    by (rule serve_run [of demo_signers demo_deployed, OF demo_not_self(1)])
  have "host_symbol ''org_repo''"
    by (simp add: host_symbol_def symbol_char_def less_eq_char_def)
  then have "program_at demo_initialized 1 = None"
    by (intro no_program_with_host_symbols [OF demo_states(1) served]) simp
  with served show ?thesis by blast
qed

text \<open>
  C21. Creation before \<open>initialize\<close>. \<open>create_program\<close> does not ask for an initialised contract,
  and \<open>initialize\<close> resets the counter. A program created first is replaced by the first one created
  after \<open>initialize\<close>, whoever creates it: it gets the same id and the record is a new one with
  balance 0. And the money booked for the first program is stranded: in every later state the
  contract holds it in excess of the balances of all programs, so nobody can ever take it out.
\<close>

theorem early_program_is_overwritten:
  assumes "token_laws transfer balance" and "deployed e0"
    and "escrow_step transfer balance e0
      (Invoked signers (CreateProgram who repo reward cap) (Ok (ProgramId pid))) e1"
    and "run (escrow_step transfer balance) e1 ls e2" and "\<not> list_ex creates ls"
    and "instance_store e2 Token = Some (StoredAddress tok)" and "program_at e2 pid = Some p"
    and "escrow_step transfer balance e2
      (Invoked signers' (CreateProgram who' repo' reward' cap') (Ok (ProgramId pid'))) e3"
  shows "pid' = pid \<and>
    program_at e3 pid = Some \<lparr>maintainer = who', github_repo = repo', reward_per_point = reward',
      escrow_balance = 0, milestone_cap = cap', milestone_spent = 0, status = Active\<rparr> \<and>
    (\<forall>ls' e. run (escrow_step transfer balance) e3 ls' e \<longrightarrow>
       (\<Sum>pid\<in>UNIV. escrow_of e pid) + sint (escrow_balance p)
         \<le> balance (tokens e) tok (contract_address e))"
proof -
  have reached: "run (escrow_step transfer balance) e0
      (Invoked signers (CreateProgram who repo reward cap) (Ok (ProgramId pid)) # ls) e2"
    using assms(3,4) by (rule run_cons)
  note facts = reachable_facts [OF assms(2) reached]
  have admin: "instance_store e2 Admin \<noteq> None"
    using facts(3) assms(6) by (auto simp: config_together_def)
  have new: "pid' = pid" and stored: "program_at e3 pid = Some \<lparr>maintainer = who', github_repo = repo',
      reward_per_point = reward', escrow_balance = 0, milestone_cap = cap', milestone_spent = 0,
      status = Active\<rparr>"
    using overwritten [OF assms(2-5) admin assms(8)] by simp_all
  have tok: "token_of e2 = Some tok" using assms(6) by (simp add: token_of_def)
  then have "0 \<le> margin balance tok e2"
    using facts(5) assms(1) by (simp add: covered_def solvent_def margin_def)
  then have gap: "sint (escrow_balance p) \<le> margin balance tok e3"
    using replaced_margin [OF assms(8) [unfolded new] assms(7)] by simp
  have "sound_programs e3 \<and> instance_store e3 Admin \<noteq> None \<and> (token_laws transfer balance \<longrightarrow>
      token_of e3 = Some tok \<and> margin balance tok e2 \<le> margin balance tok e3)"
    using margin_kept.step_keeps [OF _ assms(8), of tok "margin balance tok e2"] facts(2) admin tok by simp
  then have "sound_programs e3 \<and> instance_store e3 Admin \<noteq> None \<and> (token_laws transfer balance \<longrightarrow>
      token_of e3 = Some tok \<and> sint (escrow_balance p) \<le> margin balance tok e3)"
    using gap by simp
  from margin_kept.run_keeps [OF _ this] assms(1) stored new show ?thesis
    by (auto simp: margin_def holdings_def total_escrow_def algebra_simps)
qed

theorem early_program_is_overwritten_witness:
  "\<exists>e3. program_at e3 1 = Some \<lparr>maintainer = ''N'', github_repo = ''org/other'', reward_per_point = 7,
      escrow_balance = 0, milestone_cap = None, milestone_spent = 0, status = Active\<rparr> \<and>
    (\<Sum>pid\<in>UNIV. escrow_of e3 pid) + 500 \<le> ledger_balance (tokens e3) ''T'' (contract_address e3)"
proof -
  obtain e3 where last: "invoke demo_signers (dispatch ledger_transfer
      (CreateProgram ''N'' ''org/other'' 7 None)) demo_early_funded = (Ok (ProgramId 1), e3)"
    using demo_early_last by blast
  have "\<not> demo_signers (contract_address demo_early_funded)"
    by (simp add: demo_early_funded_def demo_deployed_def demo_signers_def)
  from escrow_step.invoked [of demo_signers demo_early_funded, OF this last]
  have step: "escrow_step ledger_transfer ledger_balance demo_early_funded
      (Invoked demo_signers (CreateProgram ''N'' ''org/other'' 7 None) (Ok (ProgramId 1))) e3" .
  have no_creation: "\<not> list_ex creates [Invoked demo_signers (Initialize ''A'' ''G'' ''T'') (Ok Done),
      Invoked demo_signers (Fund 1 ''M'' 500) (Ok Done)]" by simp
  have run_start: "run (escrow_step ledger_transfer ledger_balance) e3 [] e3" by (rule run.run_start)
  note stranded = early_program_is_overwritten [OF ledger_laws demo_states(1) demo_early_first
      demo_early_run no_creation demo_early_facts step]
  from stranded have "program_at e3 1 = Some \<lparr>maintainer = ''N'', github_repo = ''org/other'',
      reward_per_point = 7, escrow_balance = 0, milestone_cap = None, milestone_spent = 0, status = Active\<rparr>"
    by blast
  moreover from stranded run_start have "(\<Sum>pid\<in>UNIV. escrow_of e3 pid) + 500
      \<le> ledger_balance (tokens e3) ''T'' (contract_address e3)" by fastforce
  ultimately show ?thesis by blast
qed

end
