(* ===== verification/Shared_Types.thy ===== *)
theory Shared_Types
  imports Prelude
begin

text \<open>
  The crate \<open>crates/shared\<close> without its configuration: the error enum of \<open>error.rs\<close> with its
  texts and status codes, and the records and the validators of \<open>types.rs\<close>.

  A Rust \<open>String\<close> is the list of its UTF-8 bytes, one \<open>char\<close> each, so \<open>length\<close> is \<open>len()\<close>.
  A \<open>Uuid\<close> is its canonical text and a \<open>DateTime\<close> the number of its instant.
\<close>

type_synonym uuid = string
type_synonym timestamp = int

section \<open>Decimal texts\<close>

text \<open>What \<open>Display\<close> of an unsigned integer prints.\<close>

definition digit :: "nat \<Rightarrow> char" where
  "digit n = char_of (48 + n)"

fun decimal :: "nat \<Rightarrow> string" where
  "decimal n = (if n < 10 then [digit n] else decimal (n div 10) @ [digit (n mod 10)])"

declare decimal.simps [simp del]

definition is_digit :: "char \<Rightarrow> bool" where
  "is_digit c \<longleftrightarrow> 48 \<le> (of_char c :: nat) \<and> (of_char c :: nat) \<le> 57"

definition digit_value :: "char \<Rightarrow> nat" where
  "digit_value c = of_char c - 48"

definition number_of :: "string \<Rightarrow> nat" where
  "number_of = foldl (\<lambda>n c. 10 * n + digit_value c) 0"

lemma digit_facts [simp]:
  assumes "n < 10"
  shows "digit_value (digit n) = n" "is_digit (digit n)"
  using assms by (simp_all add: digit_value_def digit_def is_digit_def)

lemma decimal_digits: "\<forall>c \<in> set (decimal n). is_digit c"
proof (induction n rule: decimal.induct)
  case (1 n)
  then show ?case by (subst decimal.simps) auto
qed

lemma number_of_decimal [simp]: "number_of (decimal n) = n"
proof (induction n rule: decimal.induct)
  case (1 n)
  then show ?case by (subst decimal.simps) (simp add: number_of_def)
qed

lemma decimal_inject [simp]: "decimal m = decimal n \<longleftrightarrow> m = n"
  by (metis number_of_decimal)

text \<open>A decimal text ends where a character that is no digit follows.\<close>

lemma decimal_split:
  assumes "decimal m @ c # xs = decimal n @ c # ys" "\<not> is_digit c"
  shows "m = n \<and> xs = ys"
proof -
  have "takeWhile is_digit (decimal k @ c # zs) = decimal k"
    "dropWhile is_digit (decimal k @ c # zs) = c # zs" for k zs
    using decimal_digits [of k] assms(2)
    by (simp_all add: takeWhile_append dropWhile_append3 takeWhile_eq_all_conv)
  with assms(1) show ?thesis by (metis decimal_inject list.inject)
qed

section \<open>error.rs\<close>

datatype waveflow_error =
    ConfigError string
  | UnauthorizedError string
  | ValidationError string
  | NotFoundError string
  | ConflictError string
  | DatabaseError string
  | WebhookError string
  | ChainError string
  | InternalError string

fun error_text :: "waveflow_error \<Rightarrow> string" where
  "error_text (ConfigError m) = ''configuration error: '' @ m"
| "error_text (UnauthorizedError m) = ''unauthorized: '' @ m"
| "error_text (ValidationError m) = ''validation error: '' @ m"
| "error_text (NotFoundError m) = ''not found: '' @ m"
| "error_text (ConflictError m) = ''conflict: '' @ m"
| "error_text (DatabaseError m) = ''database error: '' @ m"
| "error_text (WebhookError m) = ''webhook error: '' @ m"
| "error_text (ChainError m) = ''chain error: '' @ m"
| "error_text (InternalError m) = ''internal error: '' @ m"

fun http_status_code :: "waveflow_error \<Rightarrow> u16" where
  "http_status_code (UnauthorizedError _) = 401"
| "http_status_code (ValidationError _) = 400"
| "http_status_code (WebhookError _) = 400"
| "http_status_code (NotFoundError _) = 404"
| "http_status_code (ConflictError _) = 409"
| "http_status_code (ConfigError _) = 500"
| "http_status_code (DatabaseError _) = 500"
| "http_status_code (ChainError _) = 500"
| "http_status_code (InternalError _) = 500"

section \<open>Records of types.rs\<close>

text \<open>\<open>ProgramStatus\<close> of the shared crate (the contract has an enum of the same name).\<close>

datatype record_status = RecordActive | RecordPaused

record program_record =
  record_id :: uuid
  record_on_chain_program_id :: u64
  record_github_repo :: string
  record_maintainer_address :: string
  record_reward_per_point :: i128
  record_escrow_balance :: i128
  record_milestone_cap :: "i128 option"
  record_milestone_spent :: i128
  record_status :: record_status
  record_created_at :: timestamp

record contributor_record =
  contributor_program_id :: uuid
  contributor_github_username :: string
  contributor_stellar_address :: string
  contributor_registered_at :: timestamp

record payout_record =
  payout_record_id :: uuid
  payout_record_program_id :: uuid
  payout_record_pr_number :: u64
  payout_record_github_username :: string
  payout_record_stellar_address :: string
  payout_record_points :: u32
  payout_record_amount :: i128
  payout_record_tx_hash :: "string option"
  payout_record_created_at :: timestamp

record attestation_request =
  attested_program_id :: u64
  attested_github_username :: string
  attested_pr_number :: u64
  attested_points :: u32

record github_user = user_login :: string

record github_ref = ref_name :: string

record github_pull_request =
  pr_merged :: bool
  pr_user :: github_user
  pr_base :: github_ref

record github_repository =
  full_name :: string
  default_branch :: string

record github_pull_request_event =
  event_action :: string
  event_number :: u64
  event_pull_request :: github_pull_request
  event_repository :: github_repository

record merge_idempotency_key =
  key_program_id :: uuid
  key_pr_number :: u64

section \<open>Validators of types.rs\<close>

text \<open>\<open>str::split\<close> at a byte: always at least one part.\<close>

fun split_at :: "char \<Rightarrow> string \<Rightarrow> string list" where
  "split_at c [] = [[]]"
| "split_at c (x # xs) =
     (if x = c then [] # split_at c xs
      else case split_at c xs of [] \<Rightarrow> [[x]] | p # ps \<Rightarrow> (x # p) # ps)"

lemma split_at_not_Nil [simp]: "split_at c xs \<noteq> []"
  by (induction xs) (auto split: list.split)

lemma split_at_parts: "p \<in> set (split_at c xs) \<Longrightarrow> c \<notin> set p"
proof (induction xs arbitrary: p)
  case (Cons x xs)
  then show ?case by (cases "split_at c xs") (auto split: if_splits)
qed simp

lemma split_at_length: "length (split_at c xs) = Suc (length (filter (\<lambda>x. x = c) xs))"
  by (induction xs) (auto split: list.split)

lemma split_at_none: "c \<notin> set xs \<Longrightarrow> split_at c xs = [xs]"
  by (induction xs) auto

lemma split_at_append:
  "c \<notin> set p \<Longrightarrow> split_at c (p @ c # q) = p # split_at c q"
  by (induction p) auto

text \<open>Two parts: exactly one separator.\<close>

lemma split_at_two:
  "split_at c xs = [p, q] \<longleftrightarrow> xs = p @ c # q \<and> c \<notin> set p \<and> c \<notin> set q"
proof
  assume two: "split_at c xs = [p, q]"
  then have "c \<in> set xs" using split_at_none [of c xs] by auto
  then obtain u v where xs: "xs = u @ c # v" "c \<notin> set u" by (meson split_list_first)
  then have "split_at c xs = u # split_at c v" by (simp add: split_at_append)
  with two have u: "u = p" "split_at c v = [q]" by auto
  then have "c \<notin> set v"
    using split_at_length [of c v] by (auto simp: filter_empty_conv)
  with u xs show "xs = p @ c # q \<and> c \<notin> set p \<and> c \<notin> set q" by (simp add: split_at_none)
next
  assume "xs = p @ c # q \<and> c \<notin> set p \<and> c \<notin> set q"
  then show "split_at c xs = [p, q]" by (simp add: split_at_append split_at_none)
qed

definition validate_github_repo :: "string \<Rightarrow> bool" where
  "validate_github_repo repo =
     (let parts = split_at (CHR ''/'') repo
      in length parts = 2 \<and> list_all (\<lambda>p. p \<noteq> [] \<and> CHR '' '' \<notin> set p) parts)"

definition stellar_char :: "char \<Rightarrow> bool" where
  "stellar_char c \<longleftrightarrow>
     (CHR ''A'' \<le> c \<and> c \<le> CHR ''Z'') \<or> (CHR ''2'' \<le> c \<and> c \<le> CHR ''7'')"

definition validate_stellar_address :: "string \<Rightarrow> bool" where
  "validate_stellar_address address \<longleftrightarrow>
     length address = 56 \<and> take 1 address = ''G'' \<and> list_all stellar_char address"

lemma validate_github_repo_iff:
  "validate_github_repo repo \<longleftrightarrow>
     (\<exists>own name. repo = own @ CHR ''/'' # name \<and> own \<noteq> [] \<and> name \<noteq> [] \<and>
        CHR ''/'' \<notin> set (own @ name) \<and> CHR '' '' \<notin> set (own @ name))"
  (is "_ \<longleftrightarrow> ?slug")
proof
  assume "validate_github_repo repo"
  then obtain p q where "split_at (CHR ''/'') repo = [p, q]" "p \<noteq> []" "q \<noteq> []"
      "CHR '' '' \<notin> set p" "CHR '' '' \<notin> set q"
    by (auto simp: validate_github_repo_def Let_def length_Suc_conv numeral_2_eq_2)
  then show ?slug unfolding split_at_two by auto
next
  assume ?slug
  then obtain p q where "split_at (CHR ''/'') repo = [p, q]" "p \<noteq> []" "q \<noteq> []"
      "CHR '' '' \<notin> set p" "CHR '' '' \<notin> set q"
    by (auto simp: split_at_two)
  then show "validate_github_repo repo"
    by (simp add: validate_github_repo_def)
qed

end
