(* ===== verification/Json.thy ===== *)
theory Json
  imports Shared_Types
begin

text \<open>
  \<open>serde_json::Value\<close>, the readers the handlers use on it, and the derived \<open>Deserialize\<close> and
  \<open>Serialize\<close> of the GitHub event structs of \<open>crates/shared/src/types.rs\<close>, and what the reader
  takes from which path. The text parser is not code of the repository: payloads enter the model
  as values.

  An object is the list of its entries, read by the first entry of a key; the parser leaves one
  entry per key. A float is the word of its IEEE bits.
\<close>

datatype json_number = PosInt u64 | NegInt i64 | Float u64

datatype json =
    JNull
  | JBool bool
  | JNumber json_number
  | JString string
  | JArray "json list"
  | JObject "(string \<times> json) list"

text \<open>\<open>Value::get\<close> with a key, \<open>as_str\<close> and \<open>as_u64\<close>.\<close>

fun json_get :: "string \<Rightarrow> json \<Rightarrow> json option" where
  "json_get k (JObject kvs) = map_of kvs k"
| "json_get k _ = None"

fun json_str :: "json \<Rightarrow> string option" where
  "json_str (JString s) = Some s"
| "json_str _ = None"

fun json_bool :: "json \<Rightarrow> bool option" where
  "json_bool (JBool b) = Some b"
| "json_bool _ = None"

fun json_u64 :: "json \<Rightarrow> u64 option" where
  "json_u64 (JNumber (PosInt n)) = Some n"
| "json_u64 _ = None"

lemma json_readers [simp]:
  "json_str j = Some s \<longleftrightarrow> j = JString s"
  "json_bool j = Some b \<longleftrightarrow> j = JBool b"
  "json_u64 j = Some n \<longleftrightarrow> j = JNumber (PosInt n)"
  by (cases j; simp; (rename_tac x; case_tac x; auto)?)+

text \<open>
  A derived struct reader: an object that has every field (others are ignored), or an array of
  exactly the fields in the order of the struct.
\<close>

fun struct_fields :: "string list \<Rightarrow> json \<Rightarrow> json list option" where
  "struct_fields names (JObject kvs) = those (map (map_of kvs) names)"
| "struct_fields names (JArray vs) = (if length vs = length names then Some vs else None)"
| "struct_fields names _ = None"

definition decode_user :: "json \<Rightarrow> github_user option" where
  "decode_user j =
     (case struct_fields [''login''] j of
        Some [l] \<Rightarrow> map_option (\<lambda>s. \<lparr>user_login = s\<rparr>) (json_str l)
      | _ \<Rightarrow> None)"

definition decode_ref :: "json \<Rightarrow> github_ref option" where
  "decode_ref j =
     (case struct_fields [''ref''] j of
        Some [r] \<Rightarrow> map_option (\<lambda>s. \<lparr>ref_name = s\<rparr>) (json_str r)
      | _ \<Rightarrow> None)"

definition decode_pull_request :: "json \<Rightarrow> github_pull_request option" where
  "decode_pull_request j =
     (case struct_fields [''merged'', ''user'', ''base''] j of
        Some [m, u, b] \<Rightarrow>
          (case (json_bool m, decode_user u, decode_ref b) of
             (Some m, Some u, Some b) \<Rightarrow> Some \<lparr>pr_merged = m, pr_user = u, pr_base = b\<rparr>
           | _ \<Rightarrow> None)
      | _ \<Rightarrow> None)"

definition decode_repository :: "json \<Rightarrow> github_repository option" where
  "decode_repository j =
     (case struct_fields [''full_name'', ''default_branch''] j of
        Some [n, b] \<Rightarrow>
          (case (json_str n, json_str b) of
             (Some n, Some b) \<Rightarrow> Some \<lparr>full_name = n, default_branch = b\<rparr>
           | _ \<Rightarrow> None)
      | _ \<Rightarrow> None)"

definition decode_event :: "json \<Rightarrow> github_pull_request_event option" where
  "decode_event j =
     (case struct_fields [''action'', ''number'', ''pull_request'', ''repository''] j of
        Some [a, n, p, r] \<Rightarrow>
          (case (json_str a, json_u64 n, decode_pull_request p, decode_repository r) of
             (Some a, Some n, Some p, Some r) \<Rightarrow>
               Some \<lparr>event_action = a, event_number = n, event_pull_request = p,
                     event_repository = r\<rparr>
           | _ \<Rightarrow> None)
      | _ \<Rightarrow> None)"

text \<open>The derived \<open>Serialize\<close>: an object with the fields in order.\<close>

definition encode_user :: "github_user \<Rightarrow> json" where
  "encode_user u = JObject [(''login'', JString (user_login u))]"

definition encode_ref :: "github_ref \<Rightarrow> json" where
  "encode_ref r = JObject [(''ref'', JString (ref_name r))]"

definition encode_pull_request :: "github_pull_request \<Rightarrow> json" where
  "encode_pull_request p = JObject
     [(''merged'', JBool (pr_merged p)), (''user'', encode_user (pr_user p)),
      (''base'', encode_ref (pr_base p))]"

definition encode_repository :: "github_repository \<Rightarrow> json" where
  "encode_repository r = JObject
     [(''full_name'', JString (full_name r)), (''default_branch'', JString (default_branch r))]"

definition encode_event :: "github_pull_request_event \<Rightarrow> json" where
  "encode_event e = JObject
     [(''action'', JString (event_action e)), (''number'', JNumber (PosInt (event_number e))),
      (''pull_request'', encode_pull_request (event_pull_request e)),
      (''repository'', encode_repository (event_repository e))]"

lemma decode_encode_parts [simp]:
  "decode_user (encode_user u) = Some u"
  "decode_ref (encode_ref r) = Some r"
  "decode_pull_request (encode_pull_request p) = Some p"
  "decode_repository (encode_repository rep) = Some rep"
proof -
  show user: "decode_user (encode_user u) = Some u" for u
    by (simp add: decode_user_def encode_user_def)
  show ref: "decode_ref (encode_ref r) = Some r" for r
    by (simp add: decode_ref_def encode_ref_def)
  show "decode_pull_request (encode_pull_request p) = Some p"
    by (simp add: decode_pull_request_def encode_pull_request_def user ref)
  show "decode_repository (encode_repository rep) = Some rep"
    by (simp add: decode_repository_def encode_repository_def)
qed

lemma those_Some: "those xs = Some ys \<longleftrightarrow> xs = map Some ys"
  by (induction xs arbitrary: ys) (auto split: option.splits)

lemma struct_fields_object [simp]:
  "struct_fields names (JObject kvs) = Some vs \<longleftrightarrow> map (map_of kvs) names = map Some vs"
  by (simp add: those_Some)

section \<open>Reading by path\<close>

text \<open>The value at a path of keys, and that it is an object.\<close>

fun json_at :: "string list \<Rightarrow> json \<Rightarrow> json option" where
  "json_at [] j = Some j"
| "json_at (k # ks) j = Option.bind (json_get k j) (json_at ks)"

definition object_at :: "string list \<Rightarrow> json \<Rightarrow> bool" where
  "object_at path j \<longleftrightarrow> (\<exists>kvs. json_at path j = Some (JObject kvs))"

lemma json_at_append: "json_at (ks @ ks') j = Option.bind (json_at ks j) (json_at ks')"
  by (induction ks arbitrary: j) (auto split: Option.bind_split)

text \<open>The parts of an event, read from objects.\<close>

lemma decode_parts_by_key:
  "decode_user (JObject kvs) = Some u \<longleftrightarrow> json_get ''login'' (JObject kvs) = Some (JString (user_login u))"
  "decode_ref (JObject kvs) = Some r \<longleftrightarrow> json_get ''ref'' (JObject kvs) = Some (JString (ref_name r))"
  "decode_repository (JObject kvs) = Some p \<longleftrightarrow>
     json_get ''full_name'' (JObject kvs) = Some (JString (full_name p)) \<and>
     json_get ''default_branch'' (JObject kvs) = Some (JString (default_branch p))"
  by (cases u; cases r; cases p;
      auto simp: decode_user_def decode_ref_def decode_repository_def split: option.splits)+

lemma decode_pull_request_by_key:
  "decode_pull_request (JObject kvs) = Some p \<longleftrightarrow>
     json_get ''merged'' (JObject kvs) = Some (JBool (pr_merged p)) \<and>
     Option.bind (json_get ''user'' (JObject kvs)) decode_user = Some (pr_user p) \<and>
     Option.bind (json_get ''base'' (JObject kvs)) decode_ref = Some (pr_base p)"
  by (cases p) (auto simp: decode_pull_request_def split: option.splits Option.bind_splits)

lemma decode_event_by_key:
  "decode_event (JObject kvs) = Some e \<longleftrightarrow>
     json_get ''action'' (JObject kvs) = Some (JString (event_action e)) \<and>
     json_get ''number'' (JObject kvs) = Some (JNumber (PosInt (event_number e))) \<and>
     Option.bind (json_get ''pull_request'' (JObject kvs)) decode_pull_request =
       Some (event_pull_request e) \<and>
     Option.bind (json_get ''repository'' (JObject kvs)) decode_repository = Some (event_repository e)"
  by (cases e) (auto simp: decode_event_def split: option.splits Option.bind_splits)

end
