(* ===== verification/Io.thy ===== *)
theory Io
  imports Prelude
begin

text \<open>
  Asynchronous handlers. A handler of the gateway or of the API is a sequence of atomic actions
  on the shared world (a database statement, a fresh uuid, a counter), with the control flow
  between them depending on the answers: \<open>'a io\<close> is the tree of these actions. The same term
  is run alone (\<open>run_io\<close>) and interleaved with everything the other requests do
  (\<open>interleaved\<close>), which is how the awaits of the source let requests overlap.
\<close>

section \<open>Actions\<close>

datatype ('w, 'a) io = Return 'a | Atomic "'w \<Rightarrow> ('w, 'a) io \<times> 'w"

definition act :: "('w \<Rightarrow> 'a \<times> 'w) \<Rightarrow> ('w, 'a) io" where
  "act f = Atomic (\<lambda>w. map_prod Return id (f w))"

primrec bind_io :: "('w, 'a) io \<Rightarrow> ('a \<Rightarrow> ('w, 'b) io) \<Rightarrow> ('w, 'b) io" where
  "bind_io (Return x) k = k x"
| "bind_io (Atomic f) k = Atomic (\<lambda>w. map_prod (\<lambda>m. bind_io m k) id (f w))"

text \<open>The \<open>?\<close> operator of a fallible handler: go on with the value or leave with the error.\<close>

definition try_io ::
  "('w, 'e + 'a) io \<Rightarrow> ('a \<Rightarrow> ('w, 'e + 'b) io) \<Rightarrow> ('w, 'e + 'b) io" where
  "try_io m k = bind_io m (case_sum (\<lambda>e. Return (Inl e)) k)"

text \<open>\<open>map_err\<close> and \<open>map\<close> of the answer.\<close>

definition answer_map :: "('a \<Rightarrow> 'b) \<Rightarrow> ('w, 'a) io \<Rightarrow> ('w, 'b) io" where
  "answer_map f m = bind_io m (\<lambda>x. Return (f x))"

section \<open>Running alone\<close>

primrec run_io :: "('w, 'a) io \<Rightarrow> 'w \<Rightarrow> 'a \<times> 'w" where
  "run_io (Return x) = (\<lambda>w. (x, w))"
| "run_io (Atomic f) = (\<lambda>w. (\<lambda>(r, w'). r w') (map_prod run_io id (f w)))"

lemma run_act [simp]: "run_io (act f) w = f w"
  by (cases "f w") (simp add: act_def)

lemma run_bind [simp]:
  "run_io (bind_io m k) w = (case run_io m w of (x, w') \<Rightarrow> run_io (k x) w')"
proof (induction m arbitrary: w)
  case (Atomic f)
  obtain m w' where f: "f w = (m, w')" by (cases "f w")
  then have "m \<in> Basic_BNFs.fsts (f w)" by simp
  from Atomic.IH [OF rangeI this, of w'] f show ?case by simp
qed simp

lemma run_try:
  "run_io (try_io m k) w =
     (case run_io m w of (Inl e, w') \<Rightarrow> (Inl e, w') | (Inr x, w') \<Rightarrow> run_io (k x) w')"
  by (simp add: try_io_def split: prod.split sum.split)

lemma run_map [simp]: "run_io (answer_map f m) w = map_prod f id (run_io m w)"
  by (simp add: answer_map_def split: prod.split)

section \<open>Running among others\<close>

text \<open>
  \<open>interleaved others m w x w'\<close>: started in \<open>w\<close>, with any steps of \<open>others\<close> before and between
  its own actions, the handler answers \<open>x\<close>, in \<open>w'\<close>.
\<close>

inductive interleaved ::
  "('w \<Rightarrow> 'w \<Rightarrow> bool) \<Rightarrow> ('w, 'a) io \<Rightarrow> 'w \<Rightarrow> 'a \<Rightarrow> 'w \<Rightarrow> bool"
  for others :: "'w \<Rightarrow> 'w \<Rightarrow> bool" where
  answered: "interleaved others (Return x) w x w"
| own: "f w = (m, w') \<Longrightarrow> interleaved others m w' x w'' \<Longrightarrow> interleaved others (Atomic f) w x w''"
| other: "others w w' \<Longrightarrow> interleaved others m w' x w'' \<Longrightarrow> interleaved others m w x w''"

lemma interleaved_alone: "run_io m w = (x, w') \<Longrightarrow> interleaved others m w x w'"
proof (induction m arbitrary: w)
  case (Return y)
  then show ?case by (auto intro: answered)
next
  case (Atomic f)
  obtain m1 w1 where f: "f w = (m1, w1)" by (cases "f w")
  then have "m1 \<in> Basic_BNFs.fsts (f w)" by simp
  from Atomic.IH [OF rangeI this, of w1] Atomic.prems f show ?case
    by (auto intro: own)
qed

lemma interleaved_bind:
  assumes "interleaved others (bind_io m k) w y w''"
  obtains x w' where "interleaved others m w x w'" "interleaved others (k x) w' y w''"
proof -
  have "\<exists>x w'. interleaved others m w x w' \<and> interleaved others (k x) w' y w''"
    using assms
  proof (induction n \<equiv> "bind_io m k" w y w'' arbitrary: m rule: interleaved.induct)
    case (answered y w)
    then show ?case
      by (cases m) (metis bind_io.simps(1) interleaved.answered, simp)
  next
    case (own f w n w' y w'')
    show ?case
    proof (cases m)
      case (Return x)
      with own show ?thesis by (metis bind_io.simps(1) interleaved.answered interleaved.own)
    next
      case (Atomic g)
      with own(4) have f: "f = (\<lambda>w. map_prod (\<lambda>m. bind_io m k) id (g w))" by simp
      obtain m1 w1 where g: "g w = (m1, w1)" by (cases "g w")
      with f own(1) have "n = bind_io m1 k" "w' = w1" by auto
      with own(3) obtain x v where "interleaved others m1 w1 x v" "interleaved others (k x) v y w''"
        by blast
      with Atomic g show ?thesis by (blast intro: interleaved.own)
    qed
  next
    case (other w w' n y w'')
    then show ?case by (blast intro: interleaved.other)
  qed
  with that show ?thesis by blast
qed

lemma interleaved_try:
  assumes "interleaved others (try_io m k) w r w''"
  obtains (failed) e w' where "interleaved others m w (Inl e) w'"
      "interleaved others (Return (Inl e)) w' r w''"
  | (passed) x w' where "interleaved others m w (Inr x) w'" "interleaved others (k x) w' r w''"
proof -
  from assms obtain v w' where "interleaved others m w v w'"
      "interleaved others (case_sum (\<lambda>e. Return (Inl e)) k v) w' r w''"
    unfolding try_io_def by (rule interleaved_bind)
  with failed passed show thesis by (cases v) auto
qed

text \<open>Among others whose steps compose, only the others moved since an answer was fixed.\<close>

inductive_cases interleaved_AtomicE: "interleaved others (Atomic f) w x w'"

section \<open>What a handler can do\<close>

text \<open>\<open>steps_in may m\<close>: every action the handler can ever perform is a step of \<open>may\<close>.\<close>

inductive steps_in :: "('w \<Rightarrow> 'w \<Rightarrow> bool) \<Rightarrow> ('w, 'a) io \<Rightarrow> bool"
  for may :: "'w \<Rightarrow> 'w \<Rightarrow> bool" where
  returns [intro!, simp]: "steps_in may (Return x)"
| acts: "(\<And>w. may w (snd (f w))) \<Longrightarrow> (\<And>w. steps_in may (fst (f w))) \<Longrightarrow> steps_in may (Atomic f)"

inductive_cases steps_in_AtomicE: "steps_in may (Atomic f)"

lemma steps_in_act: "(\<And>w. may w (snd (f w))) \<Longrightarrow> steps_in may (act f)"
  unfolding act_def by (rule acts) auto

lemma steps_in_bind:
  "steps_in may m \<Longrightarrow> (\<And>x. steps_in may (k x)) \<Longrightarrow> steps_in may (bind_io m k)"
  by (induction rule: steps_in.induct) (auto intro: acts)

lemma steps_in_try:
  "steps_in may m \<Longrightarrow> (\<And>x. steps_in may (k x)) \<Longrightarrow> steps_in may (try_io m k)"
  unfolding try_io_def by (rule steps_in_bind) (auto split: sum.split)

lemma steps_in_map: "steps_in may m \<Longrightarrow> steps_in may (answer_map f m)"
  unfolding answer_map_def by (rule steps_in_bind) auto

text \<open>
  Interference: a reflexive and transitive relation. Handlers whose actions all belong to it,
  run among others that stay in it, move the world only along it.
\<close>

locale interference =
  fixes may :: "'w \<Rightarrow> 'w \<Rightarrow> bool"
  assumes may_refl: "may w w" and may_trans: "may u v \<Longrightarrow> may v w \<Longrightarrow> may u w"
begin

lemma interleaved_may: "interleaved may m w x w' \<Longrightarrow> steps_in may m \<Longrightarrow> may w w'"
proof (induction rule: interleaved.induct)
  case (own f w m w' x w'')
  from own(4) have "may w (snd (f w))" "steps_in may (fst (f w))"
    by (auto elim: steps_in_AtomicE)
  with own(1,3) show ?case by (auto intro: may_trans)
qed (auto intro: may_refl may_trans)

lemma interleaved_Return: "interleaved may (Return x) w y w' \<Longrightarrow> y = x \<and> may w w'"
  by (induction m \<equiv> "Return x :: ('w, 'a) io" w y w' rule: interleaved.induct)
    (auto intro: may_refl may_trans)

text \<open>One action: others, the action at one point, others again.\<close>

lemma interleaved_act:
  assumes "interleaved may (act f) w y w''"
  obtains u v where "may w u" "f u = (y, v)" "may v w''"
proof -
  have "\<exists>u v. may w u \<and> f u = (y, v) \<and> may v w''"
    using assms
  proof (induction m \<equiv> "act f" w y w'' rule: interleaved.induct)
    case (own g w m w' y w'')
    then have "m = Return (fst (f w))" "w' = snd (f w)"
      by (auto simp: act_def map_prod_def split: prod.splits)
    then have "interleaved may (Return (fst (f w))) (snd (f w)) y w''"
      using own(2) by simp
    then have "y = fst (f w)" "may (snd (f w)) w''" by (auto dest: interleaved_Return)
    then show ?case using may_refl by (metis prod.collapse)
  qed (auto simp: act_def intro: may_trans)
  with that show thesis by blast
qed

lemma run_may: "steps_in may m \<Longrightarrow> run_io m w = (x, w') \<Longrightarrow> may w w'"
  using interleaved_may interleaved_alone by metis

end

end
