(* ===== verification/Database.thy ===== *)
theory Database
  imports Json Io "HOL-Library.Sublist"
begin

text \<open>
  The tables of the Postgres database the two services share: the rows and the constraints of
  \<open>migrations/001_init.sql\<close> and \<open>002_webhook_delivery_id.sql\<close>, the insertion of a row under its
  constraints, and the locale \<open>keyed_table\<close>, interpreted once per unique key.
\<close>

section \<open>Tables\<close>

record program_row =
  row_id :: uuid
  row_on_chain_program_id :: i64
  row_github_repo :: string
  row_maintainer_address :: string
  row_reward_per_point :: i64
  row_escrow_balance :: i64
  row_milestone_cap :: "i64 option"
  row_milestone_spent :: i64
  row_status :: string
  row_created_at :: timestamp

record contributor_row =
  member_program_id :: uuid
  member_github_username :: string
  member_stellar_address :: string
  member_registered_at :: timestamp

record payout_row =
  payout_id :: uuid
  payout_program_id :: uuid
  payout_pr_number :: i64
  payout_github_username :: string
  payout_stellar_address :: string
  payout_points :: i32
  payout_amount :: i64
  payout_tx_hash :: "string option"
  payout_created_at :: timestamp

record webhook_row =
  hook_id :: uuid
  hook_delivery_id :: "string option"
  hook_event_type :: string
  hook_github_repo :: string
  hook_pr_number :: "i64 option"
  hook_payload :: json
  hook_status :: string
  hook_error_message :: "string option"
  hook_received_at :: timestamp

record tables =
  programs :: "program_row list"
  contributors :: "contributor_row list"
  payouts :: "payout_row list"
  webhook_events :: "webhook_row list"

section \<open>Constraints\<close>

text \<open>A constraint: its name, and when a new row violates it against the rows present.\<close>

type_synonym 'r constraints = "(string \<times> ('r list \<Rightarrow> 'r \<Rightarrow> bool)) list"

definition taken :: "('r \<Rightarrow> 'k option) \<Rightarrow> 'r list \<Rightarrow> 'r \<Rightarrow> bool" where
  "taken key rows r \<longleftrightarrow> key r \<noteq> None \<and> list_ex (\<lambda>x. key x = key r) rows"

definition insert_row :: "'r constraints \<Rightarrow> 'r \<Rightarrow> 'r list \<Rightarrow> string + 'r list" where
  "insert_row cs r rows =
     (case find (\<lambda>c. snd c rows r) cs of
        Some c \<Rightarrow> Inl (fst c)
      | None \<Rightarrow> Inr (rows @ [r]))"

lemma insert_row_Inr:
  "insert_row cs r rows = Inr rows' \<longleftrightarrow>
     rows' = rows @ [r] \<and> (\<forall>(n, violated) \<in> set cs. \<not> violated rows r)"
proof (cases "find (\<lambda>c. snd c rows r) cs")
  case None
  with None [unfolded find_None_iff] show ?thesis by (auto simp: insert_row_def)
next
  case (Some c)
  then have "c \<in> set cs" "snd c rows r" by (auto simp: find_Some_iff)
  with Some show ?thesis by (cases c) (force simp: insert_row_def)
qed

lemma insert_row_Inl:
  "insert_row cs r rows = Inl n \<Longrightarrow> \<exists>violated. (n, violated) \<in> set cs \<and> violated rows r"
  by (auto simp: insert_row_def find_Some_iff split: option.splits) (metis nth_mem prod.collapse)

text \<open>
  The interface of a key: a table whose constraints refuse a row with a key that is taken
  (rows without the key, the NULLs of a partial index, are never refused for it).
\<close>

locale keyed_table =
  fixes constraints :: "'t \<Rightarrow> 'r constraints" and key :: "'r \<Rightarrow> 'k option" and name :: string
  assumes guarded: "(name, taken key) \<in> set (constraints t)"
begin

definition keyed :: "'r list \<Rightarrow> bool" where
  "keyed rows \<longleftrightarrow> distinct (List.map_filter key rows)"

lemma insert_keeps_keyed:
  "insert_row (constraints t) r rows = Inr rows' \<Longrightarrow> keyed rows \<Longrightarrow> keyed rows'"
  using guarded [of t]
  by (fastforce simp: insert_row_Inr keyed_def taken_def map_filter_def list_ex_iff)

lemma taken_refused:
  "x \<in> set rows \<Longrightarrow> key x = Some k \<Longrightarrow> key r = Some k \<Longrightarrow>
     \<exists>n. insert_row (constraints t) r rows = Inl n"
  using guarded [of t]
  by (cases "insert_row (constraints t) r rows")
    (fastforce simp: insert_row_Inr taken_def list_ex_iff)+

lemma keyed_unique:
  assumes "keyed rows" "x \<in> set rows" "y \<in> set rows" "key x = Some k" "key y = Some k"
  shows "x = y"
  using assms
proof (induction rows)
  case (Cons z rows)
  have other: "k \<in> set (List.map_filter key rows)" if "u \<in> set rows" "key u = Some k" for u
    using that by (force simp: map_filter_def)
  have "keyed rows" using Cons.prems(1) by (auto simp: keyed_def map_filter_def split: if_splits)
  moreover have "\<not> (u \<in> set rows \<and> key u = Some k)" if "key z = Some k" for u
    using Cons.prems(1) that other [of u] by (auto simp: keyed_def map_filter_def)
  ultimately show ?case using Cons by auto
qed simp

lemma keyed_find:
  assumes "keyed rows" "x \<in> set rows" "key x = Some k"
  shows "find (\<lambda>y. key y = Some k) rows = Some x"
proof (cases "find (\<lambda>y. key y = Some k) rows")
  case None
  with assms show ?thesis by (auto simp: find_None_iff)
next
  case (Some y)
  then have "y \<in> set rows" "key y = Some k" by (auto simp: find_Some_iff)
  with assms Some keyed_unique show ?thesis by blast
qed

end

definition program_constraints :: "tables \<Rightarrow> program_row constraints" where
  "program_constraints t =
     [(''programs_reward_per_point_check'', \<lambda>_ r. \<not> 0 < sint (row_reward_per_point r)),
      (''programs_status_check'', \<lambda>_ r. row_status r \<notin> {''active'', ''paused''}),
      (''programs_pkey'', taken (\<lambda>r. Some (row_id r))),
      (''programs_on_chain_program_id_key'', taken (\<lambda>r. Some (row_on_chain_program_id r))),
      (''programs_github_repo_key'', taken (\<lambda>r. Some (row_github_repo r)))]"

definition program_missing :: "tables \<Rightarrow> uuid \<Rightarrow> bool" where
  "program_missing t pid \<longleftrightarrow> \<not> list_ex (\<lambda>r. row_id r = pid) (programs t)"

definition contributor_constraints :: "tables \<Rightarrow> contributor_row constraints" where
  "contributor_constraints t =
     [(''contributors_pkey'',
        taken (\<lambda>r. Some (member_program_id r, member_github_username r))),
      (''contributors_program_id_fkey'', \<lambda>_ r. program_missing t (member_program_id r))]"

definition payout_constraints :: "tables \<Rightarrow> payout_row constraints" where
  "payout_constraints t =
     [(''payouts_points_check'', \<lambda>_ r. \<not> 0 < sint (payout_points r)),
      (''payouts_amount_check'', \<lambda>_ r. \<not> 0 < sint (payout_amount r)),
      (''payouts_pkey'', taken (\<lambda>r. Some (payout_id r))),
      (''payouts_program_id_pr_number_key'',
        taken (\<lambda>r. Some (payout_program_id r, payout_pr_number r))),
      (''payouts_program_id_fkey'', \<lambda>_ r. program_missing t (payout_program_id r))]"

definition webhook_constraints :: "tables \<Rightarrow> webhook_row constraints" where
  "webhook_constraints t =
     [(''webhook_events_pkey'', taken (\<lambda>r. Some (hook_id r))),
      (''idx_webhook_events_delivery_id'', taken hook_delivery_id)]"

interpretation program_ids: keyed_table program_constraints "\<lambda>r. Some (row_id r)" "''programs_pkey''"
  by unfold_locales (simp add: program_constraints_def)

interpretation program_repos:
  keyed_table program_constraints "\<lambda>r. Some (row_github_repo r)" "''programs_github_repo_key''"
  by unfold_locales (simp add: program_constraints_def)

interpretation program_chain_ids:
  keyed_table program_constraints "\<lambda>r. Some (row_on_chain_program_id r)"
    "''programs_on_chain_program_id_key''"
  by unfold_locales (simp add: program_constraints_def)

interpretation contributor_keys:
  keyed_table contributor_constraints
    "\<lambda>r. Some (member_program_id r, member_github_username r)" "''contributors_pkey''"
  by unfold_locales (simp add: contributor_constraints_def)

interpretation payout_ids: keyed_table payout_constraints "\<lambda>r. Some (payout_id r)" "''payouts_pkey''"
  by unfold_locales (simp add: payout_constraints_def)

interpretation payout_prs:
  keyed_table payout_constraints "\<lambda>r. Some (payout_program_id r, payout_pr_number r)"
    "''payouts_program_id_pr_number_key''"
  by unfold_locales (simp add: payout_constraints_def)

interpretation webhook_ids:
  keyed_table webhook_constraints "\<lambda>r. Some (hook_id r)" "''webhook_events_pkey''"
  by unfold_locales (simp add: webhook_constraints_def)

interpretation deliveries:
  keyed_table webhook_constraints hook_delivery_id "''idx_webhook_events_delivery_id''"
  by unfold_locales (simp add: webhook_constraints_def)

end
