(* ===== verification/Concurrency.thy ===== *)
theory Concurrency
  imports Io
begin

text \<open>
  Many requests at once. A service is a pool of requests, each with what is left of its
  handler; requests arrive, advance by one atomic action each in any order, and can be dropped
  in the middle, as axum does when the client goes away. The rely-guarantee predicate
  \<open>obeys\<close> states what a handler does while others interfere, and the locale \<open>service\<close> carries
  it to every reachable state.
\<close>

section \<open>Rely and guarantee\<close>

text \<open>
  \<open>obeys rely guar w m\<close>: from \<open>w\<close>, as long as the others move by \<open>rely\<close>, every action of \<open>m\<close> is
  a step of \<open>guar\<close>.
\<close>

inductive obeys ::
  "('w \<Rightarrow> 'w \<Rightarrow> bool) \<Rightarrow> ('w \<Rightarrow> 'w \<Rightarrow> bool) \<Rightarrow> 'w \<Rightarrow> ('w, 'a) io \<Rightarrow> bool"
  for rely guar :: "'w \<Rightarrow> 'w \<Rightarrow> bool" where
  obeys_Return [simp]: "obeys rely guar w (Return x)"
| obeys_Atomic: "(\<And>u. rely w u \<Longrightarrow> guar u (snd (f u))) \<Longrightarrow>
     (\<And>u. rely w u \<Longrightarrow> obeys rely guar (snd (f u)) (fst (f u))) \<Longrightarrow>
     obeys rely guar w (Atomic f)"

inductive_cases obeys_AtomicE: "obeys rely guar w (Atomic f)"

lemma steps_in_obeys: "steps_in guar m \<Longrightarrow> obeys rely guar w m"
  by (induction arbitrary: w rule: steps_in.induct) (auto intro: obeys_Atomic)

lemma obeys_weaken:
  "obeys rely guar w m \<Longrightarrow> (\<And>u v. guar u v \<Longrightarrow> guar' u v) \<Longrightarrow> obeys rely guar' w m"
  by (induction rule: obeys.induct) (auto intro: obeys_Atomic)

lemma steps_in_weaken:
  "steps_in may m \<Longrightarrow> (\<And>u v. may u v \<Longrightarrow> may' u v) \<Longrightarrow> steps_in may' m"
  by (induction rule: steps_in.induct) (auto intro: acts)

context interference
begin

lemma obeys_rely: "may w w' \<Longrightarrow> obeys may guar w m \<Longrightarrow> obeys may guar w' m"
  by (cases m) (auto elim!: obeys_AtomicE intro!: obeys_Atomic intro: may_trans)

lemma obeys_bind:
  "obeys may guar w m \<Longrightarrow>
     (\<And>x w'. interleaved may m w x w' \<Longrightarrow> obeys may guar w' (k x)) \<Longrightarrow>
     obeys may guar w (bind_io m k)"
proof (induction rule: obeys.induct)
  case (obeys_Return w x)
  then show ?case by (auto intro: interleaved.answered)
next
  case (obeys_Atomic w f)
  have "obeys may guar (snd (f u)) (bind_io (fst (f u)) k)" if "may w u" for u
  proof (rule obeys_Atomic(3) [OF that])
    fix x w'
    assume "interleaved may (fst (f u)) (snd (f u)) x w'"
    then have "interleaved may (Atomic f) u x w'" by (intro interleaved.own) auto
    with that have "interleaved may (Atomic f) w x w'" by (rule interleaved.other)
    then show "obeys may guar w' (k x)" by (rule obeys_Atomic(4))
  qed
  then show ?case
    using obeys_Atomic(1) by (auto intro!: obeys.obeys_Atomic)
qed

lemma obeys_try:
  assumes "obeys may guar w m"
    and "\<And>x w'. interleaved may m w (Inr x) w' \<Longrightarrow> obeys may guar w' (k x)"
  shows "obeys may guar w (try_io m k)"
  unfolding try_io_def
  by (rule obeys_bind [OF assms(1)]) (auto intro: assms(2) split: sum.split)

lemma obeys_act: "(\<And>u. may w u \<Longrightarrow> guar u (snd (f u))) \<Longrightarrow> obeys may guar w (act f)"
  unfolding act_def by (rule obeys_Atomic) auto

end

section \<open>A service\<close>

datatype ('req, 'w, 'a) service_state =
  ServiceState (service_world: 'w) (service_pool: "('req \<times> ('w, 'a) io) list")
    (service_received: "'req list")

inductive service_step ::
  "('req \<Rightarrow> ('w, 'a) io) \<Rightarrow> ('req, 'w, 'a) service_state \<Rightarrow> ('req, 'w, 'a) service_state \<Rightarrow> bool"
  for handler :: "'req \<Rightarrow> ('w, 'a) io" where
  arrives: "service_step handler (ServiceState w pool reqs)
     (ServiceState w (pool @ [(req, handler req)]) (reqs @ [req]))"
| advances: "i < length pool \<Longrightarrow> pool ! i = (req, Atomic f) \<Longrightarrow> f w = (m, w') \<Longrightarrow>
     service_step handler (ServiceState w pool reqs) (ServiceState w' (pool[i := (req, m)]) reqs)"
| dropped: "i < length pool \<Longrightarrow>
     service_step handler (ServiceState w pool reqs)
       (ServiceState w (take i pool @ drop (Suc i) pool) reqs)"

inductive service_reaches ::
  "('req \<Rightarrow> ('w, 'a) io) \<Rightarrow> 'w \<Rightarrow> ('req, 'w, 'a) service_state \<Rightarrow> bool"
  for handler :: "'req \<Rightarrow> ('w, 'a) io" and w0 :: 'w where
  service_starts: "service_reaches handler w0 (ServiceState w0 [] [])"
| service_moves: "service_reaches handler w0 s \<Longrightarrow> service_step handler s s' \<Longrightarrow>
     service_reaches handler w0 s'"

inductive_cases service_stepE: "service_step handler s s'"

text \<open>
  The contract of a service: its handlers obey a guarantee each (it can depend on the request)
  and every guarantee is a step the others rely on.
\<close>

locale service = interference may
  for may :: "'w \<Rightarrow> 'w \<Rightarrow> bool" +
  fixes handler :: "'req \<Rightarrow> ('w, 'a) io" and guar :: "'req \<Rightarrow> 'w \<Rightarrow> 'w \<Rightarrow> bool"
  assumes handler_obeys: "obeys may (guar req) w (handler req)"
    and guar_may: "guar req u v \<Longrightarrow> may u v"
begin

definition pool_ok :: "'w \<Rightarrow> ('req, 'w, 'a) service_state \<Rightarrow> bool" where
  "pool_ok w0 s \<longleftrightarrow> may w0 (service_world s) \<and>
     (\<forall>(req, m) \<in> set (service_pool s). req \<in> set (service_received s) \<and>
        obeys may (guar req) (service_world s) m \<and>
        (\<forall>x w. interleaved may m (service_world s) x w \<longrightarrow>
           interleaved may (handler req) w0 x w))"

lemma advance_guar:
  assumes "pool_ok w0 (ServiceState w pool reqs)" "i < length pool" "pool ! i = (req, Atomic f)"
    and "f w = (m, w')"
  shows "guar req w w'" "obeys may (guar req) w' m"
proof -
  have "(req, Atomic f) \<in> set pool" using assms(2,3) by (metis nth_mem)
  then have "obeys may (guar req) w (Atomic f)" using assms(1) by (auto simp: pool_ok_def)
  then show "guar req w w'" "obeys may (guar req) w' m"
    using assms(4) may_refl [of w] by (force elim!: obeys_AtomicE)+
qed

lemma pool_ok_step: "pool_ok w0 s \<Longrightarrow> service_step handler s s' \<Longrightarrow> pool_ok w0 s'"
proof (erule service_stepE)
  fix w pool reqs req
  assume "pool_ok w0 s" "s = ServiceState w pool reqs"
    "s' = ServiceState w (pool @ [(req, handler req)]) (reqs @ [req])"
  then show "pool_ok w0 s'"
    by (auto simp: pool_ok_def handler_obeys intro: interleaved.other)
next
  fix i pool req f w m w' reqs
  assume ok: "pool_ok w0 s" and s: "s = ServiceState w pool reqs"
    and s': "s' = ServiceState w' (pool[i := (req, m)]) reqs"
    and i: "i < length pool" "pool ! i = (req, Atomic f)" and f: "f w = (m, w')"
  from ok s i f have guar: "guar req w w'" "obeys may (guar req) w' m"
    using advance_guar by blast+
  then have may: "may w w'" by (auto intro: guar_may)
  have "(req, Atomic f) \<in> set pool" using i by (metis nth_mem)
  then have here: "req \<in> set reqs" using ok s by (auto simp: pool_ok_def)
  from \<open>(req, Atomic f) \<in> set pool\<close>
  have own: "interleaved may (handler req) w0 x v" if "interleaved may m w' x v" for x v
    using ok s that f by (fastforce simp: pool_ok_def intro: interleaved.own)
  have other: "r \<in> set reqs \<and> obeys may (guar r) w' n \<and>
      (\<forall>x v. interleaved may n w' x v \<longrightarrow> interleaved may (handler r) w0 x v)"
    if "(r, n) \<in> set pool" for r n
  proof -
    from ok s that have "r \<in> set reqs" "obeys may (guar r) w n"
      and run: "\<And>x v. interleaved may n w x v \<Longrightarrow> interleaved may (handler r) w0 x v"
      by (auto simp: pool_ok_def)
    with may show ?thesis by (auto intro: obeys_rely run interleaved.other)
  qed
  have "r \<in> set reqs \<and> obeys may (guar r) w' n \<and>
      (\<forall>x v. interleaved may n w' x v \<longrightarrow> interleaved may (handler r) w0 x v)"
    if "(r, n) \<in> set (pool[i := (req, m)])" for r n
  proof -
    from that have "(r, n) \<in> set pool \<or> (r, n) = (req, m)"
      using set_update_subset_insert by fastforce
    with other own guar(2) here show ?thesis by auto
  qed
  moreover have "may w0 w'" using ok s may by (auto simp: pool_ok_def intro: may_trans)
  ultimately show "pool_ok w0 s'" using s' by (auto simp: pool_ok_def)
next
  fix i pool w reqs
  assume "pool_ok w0 s" "s = ServiceState w pool reqs"
    "s' = ServiceState w (take i pool @ drop (Suc i) pool) reqs"
  moreover have "set (take i pool @ drop (Suc i) pool) \<subseteq> set pool"
    by (auto dest: in_set_takeD in_set_dropD)
  ultimately show "pool_ok w0 s'"
    by (simp add: pool_ok_def) blast
qed

lemma reaches_pool_ok: "service_reaches handler w0 s \<Longrightarrow> pool_ok w0 s"
proof (induction rule: service_reaches.induct)
  case service_starts
  then show ?case by (simp add: pool_ok_def may_refl)
next
  case (service_moves s s')
  then show ?case by (blast intro: pool_ok_step)
qed

text \<open>What a reachable state has: the world moved by allowed steps only.\<close>

lemma reaches_may: "service_reaches handler w0 s \<Longrightarrow> may w0 (service_world s)"
  using reaches_pool_ok by (simp add: pool_ok_def)

text \<open>An answered request was run among others that keep to the allowed steps.\<close>

lemma answered_interleaved:
  assumes "service_reaches handler w0 s" "(req, Return x) \<in> set (service_pool s)"
  shows "interleaved may (handler req) w0 x (service_world s)"
  using reaches_pool_ok [OF assms(1)] assms(2) interleaved.answered
  unfolding pool_ok_def by fastforce

text \<open>
  Every step that changes the world is the next action of one request of the pool, which was
  received and keeps to its guarantee.
\<close>

lemma step_by:
  assumes "service_reaches handler w0 s" "service_step handler s s'"
    and "service_world s' \<noteq> service_world s"
  shows "\<exists>i req f. i < length (service_pool s) \<and> service_pool s ! i = (req, Atomic f) \<and>
     s' = ServiceState (snd (f (service_world s)))
       ((service_pool s)[i := (req, fst (f (service_world s)))]) (service_received s) \<and>
     req \<in> set (service_received s) \<and> guar req (service_world s) (service_world s')"
  using assms(2)
proof (cases rule: service_step.cases)
  case (advances i pool req f w m w' reqs)
  then have "guar req w w'" "(req, Atomic f) \<in> set pool"
    using reaches_pool_ok [OF assms(1)] advance_guar by (metis, metis nth_mem)
  moreover from this(2) have "req \<in> set reqs"
    using reaches_pool_ok [OF assms(1)] advances(1) by (auto simp: pool_ok_def)
  ultimately show ?thesis
    using advances by (intro exI [of _ i] exI [of _ req] exI [of _ f]) simp
qed (use assms(3) in auto)

lemma step_guar:
  assumes "service_reaches handler w0 s" "service_step handler s s'"
  shows "service_world s' = service_world s \<or>
     (\<exists>req \<in> set (service_received s). guar req (service_world s) (service_world s'))"
  using step_by [OF assms] by blast

text \<open>Steps in a row, from a reachable state.\<close>

lemma steps_may:
  assumes "(service_step handler)\<^sup>*\<^sup>* s s'" "service_reaches handler w0 s"
  shows "service_reaches handler w0 s' \<and> may (service_world s) (service_world s')"
  using assms
proof (induction rule: rtranclp_induct)
  case (step u v)
  then have u: "service_reaches handler w0 u" "may (service_world s) (service_world u)" by auto
  from step_guar [OF u(1) step(2)] have "may (service_world u) (service_world v)"
    by (auto simp: may_refl intro: guar_may)
  with u step(2) show ?case by (auto intro: service_moves may_trans)
qed (simp add: may_refl)

text \<open>
  Induction over what was received: a fact about the requests received and the world that
  holds at the start, survives more requests, and survives every guaranteed step of a request
  received, holds in every reachable state.
\<close>

lemma reaches_induct:
  assumes "service_reaches handler w0 s"
    and start: "holds [] w0"
    and more: "\<And>reqs req w. holds reqs w \<Longrightarrow> holds (reqs @ [req]) w"
    and step: "\<And>reqs req u v. holds reqs u \<Longrightarrow> req \<in> set reqs \<Longrightarrow> guar req u v \<Longrightarrow> holds reqs v"
  shows "holds (service_received s) (service_world s)"
  using assms(1)
proof (induction rule: service_reaches.induct)
  case (service_moves s s')
  from service_moves(2) show ?case
  proof (cases rule: service_step.cases)
    case (arrives w pool reqs req)
    with service_moves(3) show ?thesis by (auto intro: more)
  next
    case (advances i pool req f w m w' reqs)
    with service_moves step_guar [OF service_moves(1,2)] show ?thesis
      by (auto intro: step)
  qed (use service_moves in auto)
qed (simp add: start)

end

lemma reaches_steps:
  "(service_step handler)\<^sup>*\<^sup>* s s' \<Longrightarrow> service_reaches handler w0 s \<Longrightarrow> service_reaches handler w0 s'"
  by (induction rule: rtranclp_induct) (auto intro: service_moves)

text \<open>A request that runs with nobody interfering is answered by steps in a row.\<close>

lemma advances_alone:
  "run_io m w = (x, w') \<Longrightarrow>
     (service_step handler)\<^sup>*\<^sup>* (ServiceState w (pool @ [(req, m)]) reqs)
       (ServiceState w' (pool @ [(req, Return x)]) reqs)"
proof (induction m arbitrary: w)
  case (Return y)
  then show ?case by simp
next
  case (Atomic f)
  obtain m1 w1 where f: "f w = (m1, w1)" by (cases "f w")
  have "service_step handler (ServiceState w (pool @ [(req, Atomic f)]) reqs)
      (ServiceState w1 ((pool @ [(req, Atomic f)])[length pool := (req, m1)]) reqs)"
    using f by (intro advances [where f = f and req = req and w' = w1]) auto
  then have "service_step handler (ServiceState w (pool @ [(req, Atomic f)]) reqs)
      (ServiceState w1 (pool @ [(req, m1)]) reqs)"
    by simp
  moreover from f have "m1 \<in> Basic_BNFs.fsts (f w)" by simp
  moreover have "run_io m1 w1 = (x, w')" using Atomic.prems f by simp
  ultimately show ?case
    using Atomic.IH [OF rangeI] by (blast intro: converse_rtranclp_into_rtranclp)
qed

lemma steps_alone:
  assumes "run_io (handler req) w = (x, w')"
  shows "(service_step handler)\<^sup>*\<^sup>* (ServiceState w pool reqs)
     (ServiceState w' (pool @ [(req, Return x)]) (reqs @ [req]))"
  using arrives [of handler w pool reqs req] advances_alone [where handler = handler, OF assms]
  by (blast intro: converse_rtranclp_into_rtranclp)

lemma reaches_alone:
  assumes "service_reaches handler w0 (ServiceState w pool reqs)"
    and "run_io (handler req) w = (x, w')"
  shows "service_reaches handler w0 (ServiceState w' (pool @ [(req, Return x)]) (reqs @ [req]))"
  using steps_alone [where handler = handler and req = req, OF assms(2)] assms(1)
  by (rule reaches_steps)

end
