(* ===== verification/Sql.thy ===== *)
theory Sql
  imports Database Concurrency
begin

text \<open>
  The SQL statements of \<open>crates/gateway/src/attestation.rs\<close> and \<open>crates/api/src/routes\<close>, each a
  function on the tables, the world they run in, and how every one of them moves the tables:
  the schema's constraints keep holding, no row is deleted, and the rows of the contributors,
  payouts and webhook events never change (\<open>evolves\<close>).
\<close>

section \<open>The world\<close>

datatype fault = FailsBefore string | FailsAfter string

record engine =
  fault_at :: "nat \<Rightarrow> fault option"
  clock_at :: "nat \<Rightarrow> timestamp"
  uuid_at :: "nat \<Rightarrow> uuid"
  refusal_text :: "string \<Rightarrow> string"
  range_text :: string

record world =
  db :: tables
  db_engine :: engine
  query_count :: nat
  uuid_count :: nat
  counters :: "string \<Rightarrow> nat"

text \<open>\<open>sqlx::Error\<close>: a database error that names a constraint, or any other, with its text.\<close>

datatype db_error = ConstraintViolated string | QueryFailed string

fun db_error_text :: "db_error \<Rightarrow> string" where
  "db_error_text (ConstraintViolated t) = t"
| "db_error_text (QueryFailed t) = t"

type_synonym 'a sql = "engine \<Rightarrow> timestamp \<Rightarrow> tables \<Rightarrow> (db_error + 'a) \<times> tables"

definition statement :: "'a sql \<Rightarrow> (world, db_error + 'a) io" where
  "statement q = act (\<lambda>w.
     let n = query_count w;
         eng = db_engine w;
         (r, t) = q eng (clock_at eng n) (db w);
         w = w\<lparr>query_count := Suc n\<rparr>
     in case fault_at eng n of
          None \<Rightarrow> (r, w\<lparr>db := t\<rparr>)
        | Some (FailsBefore msg) \<Rightarrow> (Inl (QueryFailed msg), w)
        | Some (FailsAfter msg) \<Rightarrow> (Inl (QueryFailed msg), w\<lparr>db := t\<rparr>))"

text \<open>\<open>Uuid::new_v4\<close>, and \<open>counter!(name).increment(1)\<close> of the metrics.\<close>

definition new_uuid :: "(world, uuid) io" where
  "new_uuid = act (\<lambda>w.
     (uuid_at (db_engine w) (uuid_count w), w\<lparr>uuid_count := Suc (uuid_count w)\<rparr>))"

definition count :: "string \<Rightarrow> (world, unit) io" where
  "count name = act (\<lambda>w. ((), w\<lparr>counters := (counters w)(name := Suc (counters w name))\<rparr>))"

section \<open>Reads\<close>

definition reading :: "(tables \<Rightarrow> 'a) \<Rightarrow> 'a sql" where
  "reading f eng now t = (Inr (f t), t)"

definition select_one :: "unit sql" where
  "select_one = reading (\<lambda>_. ())"

definition select_active_program :: "string \<Rightarrow> (uuid \<times> i64) option sql" where
  "select_active_program repo = reading (\<lambda>t.
     map_option (\<lambda>r. (row_id r, row_on_chain_program_id r))
       (find (\<lambda>r. row_github_repo r = repo \<and> row_status r = ''active'') (programs t)))"

definition select_contributor :: "uuid \<Rightarrow> string \<Rightarrow> string option sql" where
  "select_contributor program_id github_username = reading (\<lambda>t.
     map_option member_stellar_address
       (find (\<lambda>r. member_program_id r = program_id \<and> member_github_username r = github_username)
         (contributors t)))"

definition select_payout_id :: "uuid \<Rightarrow> i64 \<Rightarrow> uuid option sql" where
  "select_payout_id program_id pr_number = reading (\<lambda>t.
     map_option payout_id
       (find (\<lambda>r. payout_program_id r = program_id \<and> payout_pr_number r = pr_number)
         (payouts t)))"

definition select_delivery :: "string \<Rightarrow> uuid option sql" where
  "select_delivery delivery_id = reading (\<lambda>t.
     map_option hook_id (find (\<lambda>r. hook_delivery_id r = Some delivery_id) (webhook_events t)))"

definition program_by_id :: "uuid \<Rightarrow> tables \<Rightarrow> program_row option" where
  "program_by_id program_id t = find (\<lambda>r. row_id r = program_id) (programs t)"

definition select_status :: "uuid \<Rightarrow> string option sql" where
  "select_status program_id = reading (\<lambda>t. map_option row_status (program_by_id program_id t))"

definition select_reward :: "uuid \<Rightarrow> i64 option sql" where
  "select_reward program_id =
     reading (\<lambda>t. map_option row_reward_per_point (program_by_id program_id t))"

definition select_program :: "uuid \<Rightarrow> program_row option sql" where
  "select_program program_id = reading (program_by_id program_id)"

definition select_program_id :: "uuid \<Rightarrow> uuid option sql" where
  "select_program_id program_id =
     reading (\<lambda>t. map_option row_id (program_by_id program_id t))"

text \<open>\<open>ORDER BY\<close>; rows with equal keys stay in the order of the table.\<close>

definition select_programs :: "program_row list sql" where
  "select_programs = reading (\<lambda>t. sort_key (\<lambda>r. - row_created_at r) (programs t))"

definition select_payouts :: "uuid \<Rightarrow> payout_row list sql" where
  "select_payouts program_id = reading (\<lambda>t.
     sort_key (\<lambda>r. - payout_created_at r)
       (filter (\<lambda>r. payout_program_id r = program_id) (payouts t)))"

definition select_contributors :: "uuid \<Rightarrow> contributor_row list sql" where
  "select_contributors program_id = reading (\<lambda>t.
     sort_key member_registered_at
       (filter (\<lambda>r. member_program_id r = program_id) (contributors t)))"

section \<open>Writes\<close>

definition inserted ::
  "engine \<Rightarrow> tables \<Rightarrow> ('r list \<Rightarrow> tables) \<Rightarrow> string + 'r list \<Rightarrow> (db_error + unit) \<times> tables" where
  "inserted eng t store res =
     (case res of
        Inl name \<Rightarrow> (Inl (ConstraintViolated (refusal_text eng name)), t)
      | Inr rows \<Rightarrow> (Inr (), store rows))"

definition insert_program ::
  "uuid \<Rightarrow> i64 \<Rightarrow> string \<Rightarrow> string \<Rightarrow> i64 \<Rightarrow> i64 option \<Rightarrow> unit sql" where
  "insert_program new_id on_chain repo maintainer reward cap eng now t =
     inserted eng t (\<lambda>rows. t\<lparr>programs := rows\<rparr>)
       (insert_row (program_constraints t)
         \<lparr>row_id = new_id, row_on_chain_program_id = on_chain, row_github_repo = repo,
          row_maintainer_address = maintainer, row_reward_per_point = reward,
          row_escrow_balance = 0, row_milestone_cap = cap, row_milestone_spent = 0,
          row_status = ''active'', row_created_at = now\<rparr> (programs t))"

definition insert_contributor :: "uuid \<Rightarrow> string \<Rightarrow> string \<Rightarrow> unit sql" where
  "insert_contributor program_id github_username stellar_address eng now t =
     inserted eng t (\<lambda>rows. t\<lparr>contributors := rows\<rparr>)
       (insert_row (contributor_constraints t)
         \<lparr>member_program_id = program_id, member_github_username = github_username,
          member_stellar_address = stellar_address, member_registered_at = now\<rparr>
         (contributors t))"

definition insert_payout ::
  "uuid \<Rightarrow> uuid \<Rightarrow> i64 \<Rightarrow> string \<Rightarrow> string \<Rightarrow> i32 \<Rightarrow> i64 \<Rightarrow> string option \<Rightarrow> unit sql" where
  "insert_payout new_id program_id pr user address points amount tx eng now t =
     inserted eng t (\<lambda>rows. t\<lparr>payouts := rows\<rparr>)
       (insert_row (payout_constraints t)
         \<lparr>payout_id = new_id, payout_program_id = program_id, payout_pr_number = pr,
          payout_github_username = user, payout_stellar_address = address,
          payout_points = points, payout_amount = amount, payout_tx_hash = tx,
          payout_created_at = now\<rparr> (payouts t))"

definition insert_webhook_event ::
  "uuid \<Rightarrow> string option \<Rightarrow> string \<Rightarrow> string \<Rightarrow> i64 option \<Rightarrow> json \<Rightarrow> string \<Rightarrow> string option
   \<Rightarrow> unit sql" where
  "insert_webhook_event new_id delivery event_type repo pr payload status_text message eng now t =
     inserted eng t (\<lambda>rows. t\<lparr>webhook_events := rows\<rparr>)
       (insert_row (webhook_constraints t)
         \<lparr>hook_id = new_id, hook_delivery_id = delivery, hook_event_type = event_type,
          hook_github_repo = repo, hook_pr_number = pr, hook_payload = payload,
          hook_status = status_text, hook_error_message = message, hook_received_at = now\<rparr>
         (webhook_events t))"

text \<open>An \<open>UPDATE\<close>: all rows that match or, on an error, none; it answers how many matched.\<close>

fun update_rows ::
  "('r \<Rightarrow> bool) \<Rightarrow> ('r \<Rightarrow> db_error + 'r) \<Rightarrow> 'r list \<Rightarrow> db_error + 'r list" where
  "update_rows match change [] = Inr []"
| "update_rows match change (r # rs) =
     (case (if match r then change r else Inr r) of
        Inl e \<Rightarrow> Inl e
      | Inr r' \<Rightarrow> map_sum id (\<lambda>rs'. r' # rs') (update_rows match change rs))"

definition update_programs ::
  "(program_row \<Rightarrow> bool) \<Rightarrow> (program_row \<Rightarrow> db_error + program_row) \<Rightarrow> tables
   \<Rightarrow> (db_error + nat) \<times> tables" where
  "update_programs match change t =
     (case update_rows match change (programs t) of
        Inl e \<Rightarrow> (Inl e, t)
      | Inr rows \<Rightarrow> (Inr (length (filter match (programs t))), t\<lparr>programs := rows\<rparr>))"

definition set_status :: "string \<Rightarrow> string \<Rightarrow> uuid \<Rightarrow> nat sql" where
  "set_status src dst program_id eng now =
     update_programs (\<lambda>r. row_id r = program_id \<and> row_status r = src)
       (\<lambda>r. if dst \<in> {''active'', ''paused''} then Inr (r\<lparr>row_status := dst\<rparr>)
            else Inl (ConstraintViolated (refusal_text eng ''programs_status_check'')))"

definition set_reward :: "i64 \<Rightarrow> uuid \<Rightarrow> nat sql" where
  "set_reward reward program_id eng now =
     update_programs (\<lambda>r. row_id r = program_id)
       (\<lambda>r. if 0 < sint reward then Inr (r\<lparr>row_reward_per_point := reward\<rparr>)
            else Inl (ConstraintViolated (refusal_text eng ''programs_reward_per_point_check'')))"

text \<open>The two bigint expressions of the \<open>UPDATE\<close> that books a payout: either can overflow.\<close>

definition charge_row :: "engine \<Rightarrow> i64 \<Rightarrow> program_row \<Rightarrow> db_error + program_row" where
  "charge_row eng amount r =
     (case (checked_add (row_milestone_spent r) amount,
            checked_sub (row_escrow_balance r) amount) of
        (Some spent, Some left) \<Rightarrow>
          Inr (r\<lparr>row_milestone_spent := spent,
                 row_escrow_balance := (if sint left < 0 then 0 else left)\<rparr>)
      | _ \<Rightarrow> Inl (QueryFailed (range_text eng)))"

definition charge_program :: "i64 \<Rightarrow> uuid \<Rightarrow> nat sql" where
  "charge_program amount program_id eng now =
     update_programs (\<lambda>r. row_id r = program_id) (charge_row eng amount)"

section \<open>How statements move the tables\<close>

definition program_ok :: "program_row \<Rightarrow> bool" where
  "program_ok r \<longleftrightarrow> 0 < sint (row_reward_per_point r) \<and> row_status r \<in> {''active'', ''paused''}"

definition payout_ok :: "payout_row \<Rightarrow> bool" where
  "payout_ok r \<longleftrightarrow> 0 < sint (payout_points r) \<and> 0 < sint (payout_amount r)"

definition schema_ok :: "tables \<Rightarrow> bool" where
  "schema_ok t \<longleftrightarrow>
     list_all program_ok (programs t) \<and> list_all payout_ok (payouts t) \<and>
     program_ids.keyed (programs t) \<and> program_chain_ids.keyed (programs t) \<and>
     program_repos.keyed (programs t) \<and> contributor_keys.keyed (contributors t) \<and>
     payout_ids.keyed (payouts t) \<and> payout_prs.keyed (payouts t) \<and>
     webhook_ids.keyed (webhook_events t) \<and> deliveries.keyed (webhook_events t) \<and>
     (\<forall>r \<in> set (contributors t). \<not> program_missing t (member_program_id r)) \<and>
     (\<forall>r \<in> set (payouts t). \<not> program_missing t (payout_program_id r))"

text \<open>What no statement ever changes of a program.\<close>

definition identity :: "program_row \<Rightarrow> uuid \<times> i64 \<times> string \<times> string \<times> i64 option \<times> timestamp" where
  "identity r = (row_id r, row_on_chain_program_id r, row_github_repo r,
     row_maintainer_address r, row_milestone_cap r, row_created_at r)"

definition tables_evolve :: "tables \<Rightarrow> tables \<Rightarrow> bool" where
  "tables_evolve t t' \<longleftrightarrow>
     (schema_ok t \<longrightarrow> schema_ok t') \<and>
     prefix (map identity (programs t)) (map identity (programs t')) \<and>
     prefix (contributors t) (contributors t') \<and>
     prefix (payouts t) (payouts t') \<and>
     prefix (webhook_events t) (webhook_events t')"

text \<open>The worlds between which the tables move by a relation.\<close>

definition moves :: "(tables \<Rightarrow> tables \<Rightarrow> bool) \<Rightarrow> world \<Rightarrow> world \<Rightarrow> bool" where
  "moves R w w' \<longleftrightarrow> R (db w) (db w') \<and> db_engine w' = db_engine w"

abbreviation evolves :: "world \<Rightarrow> world \<Rightarrow> bool" where
  "evolves \<equiv> moves tables_evolve"

lemma tables_evolve_refl [simp]: "tables_evolve t t"
  by (simp add: tables_evolve_def)

lemma tables_evolve_trans: "tables_evolve t u \<Longrightarrow> tables_evolve u v \<Longrightarrow> tables_evolve t v"
  by (auto simp: tables_evolve_def intro: prefix_order.trans)

interpretation world: interference evolves
  by unfold_locales (auto simp: moves_def intro: tables_evolve_trans)

definition sql_in :: "(tables \<Rightarrow> tables \<Rightarrow> bool) \<Rightarrow> 'a sql \<Rightarrow> bool" where
  "sql_in R q \<longleftrightarrow> reflp R \<and> (\<forall>eng now t. R t (snd (q eng now t)))"

abbreviation sql_safe :: "'a sql \<Rightarrow> bool" where
  "sql_safe \<equiv> sql_in tables_evolve"

lemma steps_in_statement: "sql_in R q \<Longrightarrow> steps_in (moves R) (statement q)"
  unfolding statement_def
  by (rule steps_in_act)
    (auto simp: moves_def sql_in_def reflp_def Let_def split: prod.splits option.splits fault.splits;
      metis snd_conv)

lemma steps_in_new_uuid [simp]: "reflp R \<Longrightarrow> steps_in (moves R) new_uuid"
  unfolding new_uuid_def by (rule steps_in_act) (simp add: moves_def reflp_def)

lemma steps_in_count [simp]: "reflp R \<Longrightarrow> steps_in (moves R) (count name)"
  unfolding count_def by (rule steps_in_act) (simp add: moves_def reflp_def)

lemma reflp_tables_evolve [simp]: "reflp tables_evolve"
  by (simp add: reflp_def)

lemma sql_in_reading [simp]: "reflp R \<Longrightarrow> sql_in R (reading f)"
  by (simp add: sql_in_def reading_def reflp_def)

lemmas reading_defs =
  select_one_def select_active_program_def select_contributor_def select_payout_id_def
  select_delivery_def select_status_def select_reward_def select_program_def
  select_program_id_def select_programs_def select_payouts_def select_contributors_def

lemma sql_in_reads [simp]:
  assumes "reflp R"
  shows "sql_in R select_one" "sql_in R (select_active_program repo)"
    "sql_in R (select_contributor pid user)" "sql_in R (select_payout_id pid pr)"
    "sql_in R (select_delivery d)" "sql_in R (select_status pid)" "sql_in R (select_reward pid)"
    "sql_in R (select_program pid)" "sql_in R (select_program_id pid)" "sql_in R select_programs"
    "sql_in R (select_payouts pid)" "sql_in R (select_contributors pid)"
  using assms by (simp_all add: reading_defs)


section \<open>Every write is safe\<close>

lemma inserted_cases:
  assumes "inserted eng t store res = (v, t')"
  obtains (refused) name where "res = Inl name"
      "v = Inl (ConstraintViolated (refusal_text eng name))" "t' = t"
  | (stored) rows where "res = Inr rows" "v = Inr ()" "t' = store rows"
  using assms by (auto simp: inserted_def split: sum.splits)

lemma inserted_safe:
  "(\<And>rows. res = Inr rows \<Longrightarrow> tables_evolve t (store rows)) \<Longrightarrow>
     tables_evolve t (snd (inserted eng t store res))"
  by (simp add: inserted_def split: sum.split)

lemma program_missing_append [simp]:
  "program_missing (t\<lparr>programs := programs t @ rs\<rparr>) pid \<longleftrightarrow>
     program_missing t pid \<and> \<not> list_ex (\<lambda>r. row_id r = pid) rs"
  "program_missing (t\<lparr>contributors := cs\<rparr>) pid = program_missing t pid"
  "program_missing (t\<lparr>payouts := ps\<rparr>) pid = program_missing t pid"
  "program_missing (t\<lparr>webhook_events := hs\<rparr>) pid = program_missing t pid"
  by (simp_all add: program_missing_def)

lemma insert_program_safe [simp]: "sql_safe (insert_program new_id on_chain repo maintainer reward cap)"
  unfolding sql_in_def insert_program_def
proof (intro conjI reflp_tables_evolve allI inserted_safe)
  fix now t rows
  let ?row = "\<lparr>row_id = new_id, row_on_chain_program_id = on_chain, row_github_repo = repo,
    row_maintainer_address = maintainer, row_reward_per_point = reward, row_escrow_balance = 0,
    row_milestone_cap = cap, row_milestone_spent = 0, row_status = ''active'', row_created_at = now\<rparr>"
  assume ins: "insert_row (program_constraints t) ?row (programs t) = Inr rows"
  then have rows: "rows = programs t @ [?row]" and "program_ok ?row"
    by (auto simp: insert_row_Inr program_constraints_def program_ok_def)
  moreover have "schema_ok (t\<lparr>programs := rows\<rparr>)" if "schema_ok t"
    using that program_ids.insert_keeps_keyed [OF ins] program_repos.insert_keeps_keyed [OF ins]
      program_chain_ids.insert_keeps_keyed [OF ins] \<open>program_ok ?row\<close>
    by (simp add: schema_ok_def rows)
  ultimately show "tables_evolve t (t\<lparr>programs := rows\<rparr>)"
    by (simp add: tables_evolve_def)
qed

lemma insert_contributor_safe [simp]: "sql_safe (insert_contributor program_id user address)"
  unfolding sql_in_def insert_contributor_def
proof (intro conjI reflp_tables_evolve allI inserted_safe)
  fix now t rows
  let ?row = "\<lparr>member_program_id = program_id, member_github_username = user,
    member_stellar_address = address, member_registered_at = now\<rparr>"
  assume ins: "insert_row (contributor_constraints t) ?row (contributors t) = Inr rows"
  then have rows: "rows = contributors t @ [?row]" and "\<not> program_missing t program_id"
    by (auto simp: insert_row_Inr contributor_constraints_def)
  moreover have "schema_ok (t\<lparr>contributors := rows\<rparr>)" if "schema_ok t"
    using that contributor_keys.insert_keeps_keyed [OF ins] \<open>\<not> program_missing t program_id\<close>
    by (simp add: schema_ok_def rows ball_Un)
  ultimately show "tables_evolve t (t\<lparr>contributors := rows\<rparr>)"
    by (simp add: tables_evolve_def)
qed

lemma insert_payout_safe [simp]:
  "sql_safe (insert_payout new_id program_id pr user address points amount tx)"
  unfolding sql_in_def insert_payout_def
proof (intro conjI reflp_tables_evolve allI inserted_safe)
  fix now t rows
  let ?row = "\<lparr>payout_id = new_id, payout_program_id = program_id, payout_pr_number = pr,
    payout_github_username = user, payout_stellar_address = address, payout_points = points,
    payout_amount = amount, payout_tx_hash = tx, payout_created_at = now\<rparr>"
  assume ins: "insert_row (payout_constraints t) ?row (payouts t) = Inr rows"
  then have rows: "rows = payouts t @ [?row]" and "payout_ok ?row" "\<not> program_missing t program_id"
    by (auto simp: insert_row_Inr payout_constraints_def payout_ok_def)
  moreover have "schema_ok (t\<lparr>payouts := rows\<rparr>)" if "schema_ok t"
    using that payout_ids.insert_keeps_keyed [OF ins] payout_prs.insert_keeps_keyed [OF ins]
      \<open>payout_ok ?row\<close> \<open>\<not> program_missing t program_id\<close>
    by (simp add: schema_ok_def rows ball_Un)
  ultimately show "tables_evolve t (t\<lparr>payouts := rows\<rparr>)"
    by (simp add: tables_evolve_def)
qed

lemma insert_webhook_event_safe [simp]:
  "sql_safe (insert_webhook_event new_id delivery event_type repo pr payload status_text message)"
  unfolding sql_in_def insert_webhook_event_def
proof (intro conjI reflp_tables_evolve allI inserted_safe)
  fix now t rows
  let ?row = "\<lparr>hook_id = new_id, hook_delivery_id = delivery, hook_event_type = event_type,
    hook_github_repo = repo, hook_pr_number = pr, hook_payload = payload,
    hook_status = status_text, hook_error_message = message, hook_received_at = now\<rparr>"
  assume ins: "insert_row (webhook_constraints t) ?row (webhook_events t) = Inr rows"
  then have rows: "rows = webhook_events t @ [?row]" by (auto simp: insert_row_Inr)
  moreover have "schema_ok (t\<lparr>webhook_events := rows\<rparr>)" if "schema_ok t"
    using that webhook_ids.insert_keeps_keyed [OF ins] deliveries.insert_keeps_keyed [OF ins]
    by (simp add: schema_ok_def)
  ultimately show "tables_evolve t (t\<lparr>webhook_events := rows\<rparr>)"
    by (simp add: tables_evolve_def)
qed

text \<open>An update whose change keeps the identity and the checks of a row is safe.\<close>

lemma map_sum_Inr [simp]: "map_sum f g v = Inr y \<longleftrightarrow> (\<exists>x. v = Inr x \<and> y = g x)"
  by (cases v) auto

lemma update_rows_map:
  "update_rows match change rs = Inr rs' \<Longrightarrow>
     (\<And>r r'. match r \<Longrightarrow> change r = Inr r' \<Longrightarrow> f r' = f r) \<Longrightarrow> map f rs' = map f rs"
  by (induction rs arbitrary: rs') (auto split: sum.splits if_splits)

lemma update_rows_all:
  "update_rows match change rs = Inr rs' \<Longrightarrow> list_all P rs \<Longrightarrow>
     (\<And>r r'. match r \<Longrightarrow> change r = Inr r' \<Longrightarrow> P r \<Longrightarrow> P r') \<Longrightarrow> list_all P rs'"
  by (induction rs arbitrary: rs') (auto split: sum.splits if_splits)

lemma keyed_by_identity:
  "program_ids.keyed rs \<longleftrightarrow> distinct (map fst (map identity rs))"
  "program_chain_ids.keyed rs \<longleftrightarrow> distinct (map (fst \<circ> snd) (map identity rs))"
  "program_repos.keyed rs \<longleftrightarrow> distinct (map (fst \<circ> snd \<circ> snd) (map identity rs))"
  by (simp_all add: program_ids.keyed_def program_chain_ids.keyed_def program_repos.keyed_def
      map_filter_def identity_def comp_def)

lemma program_missing_identity:
  "program_missing t pid \<longleftrightarrow> pid \<notin> fst ` set (map identity (programs t))"
  by (auto simp: program_missing_def identity_def list_ex_iff image_iff)

lemma update_programs_safe:
  assumes "\<And>r r'. match r \<Longrightarrow> change r = Inr r' \<Longrightarrow> identity r' = identity r"
    and "\<And>r r'. match r \<Longrightarrow> change r = Inr r' \<Longrightarrow> program_ok r \<Longrightarrow> program_ok r'"
  shows "tables_evolve t (snd (update_programs match change t))"
proof (cases "update_rows match change (programs t)")
  case (Inl e)
  then show ?thesis by (simp add: update_programs_def)
next
  case (Inr rows)
  let ?t = "t\<lparr>programs := rows\<rparr>"
  have same: "map identity rows = map identity (programs t)"
    by (rule update_rows_map [OF Inr assms(1)])
  then have "program_missing ?t pid = program_missing t pid" for pid
    by (simp add: program_missing_identity del: set_map)
  moreover have "list_all program_ok rows" if "list_all program_ok (programs t)"
    using Inr that by (rule update_rows_all) (rule assms(2))
  ultimately have "schema_ok ?t" if "schema_ok t"
    using that same by (simp add: schema_ok_def keyed_by_identity del: map_map)
  with same Inr show ?thesis by (simp add: update_programs_def tables_evolve_def)
qed

lemma updates_safe [simp]:
  "sql_safe (set_status src dst pid)" "sql_safe (set_reward reward pid)"
  "sql_safe (charge_program amount pid)"
  unfolding sql_in_def set_status_def set_reward_def charge_program_def
  by (intro conjI reflp_tables_evolve allI update_programs_safe;
      auto simp: identity_def program_ok_def charge_row_def split: if_splits option.splits)+


section \<open>Bookkeeping\<close>

text \<open>
  What the administrator controls of a program, and the steps that leave it, the contributors
  and the payouts alone: reads, webhook events, and the booking of a payout on its program.
\<close>

definition registry :: "program_row \<Rightarrow> (uuid \<times> i64 \<times> string \<times> string \<times> i64 option \<times> timestamp) \<times> i64 \<times> string"
  where "registry r = (identity r, row_reward_per_point r, row_status r)"

definition quiet :: "tables \<Rightarrow> tables \<Rightarrow> bool" where
  "quiet t t' \<longleftrightarrow> tables_evolve t t' \<and> contributors t' = contributors t \<and>
     payouts t' = payouts t \<and> map registry (programs t') = map registry (programs t)"

definition logging :: "(tables \<Rightarrow> tables \<Rightarrow> bool) \<Rightarrow> bool" where
  "logging R \<longleftrightarrow> reflp R \<and>
     (\<forall>new_id delivery event_type repo pr payload st message.
        sql_in R (insert_webhook_event new_id delivery event_type repo pr payload st message))"

definition bookkeeping :: "(tables \<Rightarrow> tables \<Rightarrow> bool) \<Rightarrow> bool" where
  "bookkeeping R \<longleftrightarrow> logging R \<and> (\<forall>amount pid. sql_in R (charge_program amount pid))"

lemma logging_reflp [simp]: "logging R \<Longrightarrow> reflp R"
  by (simp add: logging_def)

lemma bookkeeping_logging [simp]: "bookkeeping R \<Longrightarrow> logging R"
  by (simp add: bookkeeping_def)

lemma bookkeeping_evolve [simp]: "bookkeeping tables_evolve"
  by (simp add: bookkeeping_def logging_def)

lemma sql_in_conj:
  "sql_in R q \<Longrightarrow> reflp S \<Longrightarrow> (\<And>eng now t. S t (snd (q eng now t))) \<Longrightarrow>
     (\<And>t t'. R t t' \<Longrightarrow> S t t' \<Longrightarrow> T t t') \<Longrightarrow> sql_in T q"
  by (auto simp: sql_in_def reflp_def)

lemma charge_program_frame:
  "contributors (snd (charge_program amount pid eng now t)) = contributors t"
  "payouts (snd (charge_program amount pid eng now t)) = payouts t"
  "webhook_events (snd (charge_program amount pid eng now t)) = webhook_events t"
  "map registry (programs (snd (charge_program amount pid eng now t))) = map registry (programs t)"
proof -
  have keeps: "map registry rows = map registry (programs t)"
    if "update_rows (\<lambda>r. row_id r = pid) (charge_row eng amount) (programs t) = Inr rows" for rows
    by (rule update_rows_map [OF that])
      (auto simp: charge_row_def registry_def identity_def split: option.splits if_splits)
  show "contributors (snd (charge_program amount pid eng now t)) = contributors t"
    "payouts (snd (charge_program amount pid eng now t)) = payouts t"
    "webhook_events (snd (charge_program amount pid eng now t)) = webhook_events t"
    "map registry (programs (snd (charge_program amount pid eng now t))) = map registry (programs t)"
    using keeps by (simp_all add: charge_program_def update_programs_def split: sum.split)
qed

lemma insert_webhook_event_frame:
  "programs (snd (insert_webhook_event i d ty repo pr pay st msg eng now t)) = programs t"
  "contributors (snd (insert_webhook_event i d ty repo pr pay st msg eng now t)) = contributors t"
  "payouts (snd (insert_webhook_event i d ty repo pr pay st msg eng now t)) = payouts t"
  by (simp_all add: insert_webhook_event_def inserted_def split: sum.split)

text \<open>The steps that only add events to the log.\<close>

definition log_only :: "tables \<Rightarrow> tables \<Rightarrow> bool" where
  "log_only t t' \<longleftrightarrow> tables_evolve t t' \<and> programs t' = programs t \<and>
     contributors t' = contributors t \<and> payouts t' = payouts t"

lemma logging_log_only [simp]: "logging log_only"
proof -
  let ?S = "\<lambda>t t'. programs t' = programs t \<and> contributors t' = contributors t \<and> payouts t' = payouts t"
  have S: "reflp ?S" by (simp add: reflp_def)
  have "sql_in log_only (insert_webhook_event i d ty repo pr payload st msg)"
    for i d ty repo pr payload st msg
    by (rule sql_in_conj [OF insert_webhook_event_safe S])
      (simp_all add: insert_webhook_event_frame log_only_def)
  then show ?thesis by (simp add: logging_def reflp_def log_only_def)
qed

lemma bookkeeping_quiet [simp]: "bookkeeping quiet"
proof -
  let ?S = "\<lambda>t t'. contributors t' = contributors t \<and> payouts t' = payouts t \<and>
    map registry (programs t') = map registry (programs t)"
  have S: "reflp ?S" by (simp add: reflp_def)
  have "sql_in quiet (insert_webhook_event i d ty repo pr pay st msg)" for i d ty repo pr pay st msg
    by (rule sql_in_conj [OF insert_webhook_event_safe S])
      (simp_all add: insert_webhook_event_frame quiet_def)
  moreover have "sql_in quiet (charge_program amount pid)" for amount pid
    by (rule sql_in_conj [OF updates_safe(3) S]) (simp_all add: charge_program_frame quiet_def)
  ultimately show ?thesis by (simp add: bookkeeping_def logging_def reflp_def quiet_def)
qed

end
