(* ===== verification/Webhook.thy ===== *)
theory Webhook
  imports Json
begin

text \<open>
  \<open>crates/gateway/src/webhook.rs\<close>: the HMAC check of a delivery and the reading of a merge, and
  the request headers the gateway looks at. The cryptography and the text parsers are crates
  the gateway calls; they are the fields of \<open>library\<close>.
\<close>

record library =
  hex_decode :: "string \<Rightarrow> string option"
  hmac_sha256 :: "string \<Rightarrow> string \<Rightarrow> string option"
  parse_json :: "string \<Rightarrow> string + json"
  utf8_lossy :: "string \<Rightarrow> string"
  shape_error :: "json \<Rightarrow> string"

text \<open>
  \<open>hmac_sha256 key body\<close> is the digest, nothing when \<open>new_from_slice\<close> refuses the key;
  \<open>parse_json\<close> is \<open>from_slice\<close>, with the text of its error; \<open>shape_error\<close> the text of the error
  of \<open>from_value\<close> on a value of the wrong shape.
\<close>

definition verify_github_signature ::
  "library \<Rightarrow> string \<Rightarrow> string \<Rightarrow> string \<Rightarrow> waveflow_error + unit" where
  "verify_github_signature lib secret body signature_header =
     (if take 7 signature_header \<noteq> ''sha256='' then Inl (WebhookError ''missing sha256 prefix'')
      else let provided_hex = drop 7 signature_header in
      (case hex_decode lib provided_hex of
         None \<Rightarrow> Inl (WebhookError ''invalid signature hex'')
       | Some provided \<Rightarrow>
      (case hmac_sha256 lib secret body of
         None \<Rightarrow> Inl (WebhookError ''invalid webhook secret'')
       | Some expected \<Rightarrow>
           if length provided \<noteq> length expected \<or> provided \<noteq> expected
           then Inl (UnauthorizedError ''invalid webhook signature'')
           else Inr ())))"

lemma verify_github_signature_iff:
  "verify_github_signature lib secret body header = Inr () \<longleftrightarrow>
     (\<exists>hex digest. header = ''sha256='' @ hex \<and> hex_decode lib hex = Some digest \<and>
        hmac_sha256 lib secret body = Some digest)"
proof -
  have prefix: "take (length p) h = p \<longleftrightarrow> (\<exists>t. h = p @ t)" for p h :: string
    by (metis append_eq_conv_conj append_take_drop_id)
  have "take 7 header = ''sha256='' \<longleftrightarrow> (\<exists>hex. header = ''sha256='' @ hex)"
    using prefix [of "''sha256=''" header] by (simp add: eval_nat_numeral)
  then show ?thesis
    by (auto simp: verify_github_signature_def Let_def split: option.splits)
qed

record merge_attestation =
  merge_github_repo :: string
  merge_github_username :: string
  merge_pr_number :: u64
  merge_points :: u32

definition parse_merge_event ::
  "github_pull_request_event \<Rightarrow> waveflow_error + merge_attestation" where
  "parse_merge_event payload =
     (if event_action payload \<noteq> ''closed''
      then Inl (ValidationError ''ignored non-closed action'')
      else if \<not> pr_merged (event_pull_request payload)
      then Inl (ValidationError ''PR not merged'')
      else if ref_name (pr_base (event_pull_request payload))
              \<noteq> default_branch (event_repository payload)
      then Inl (ValidationError ''PR not merged to default branch'')
      else Inr
       \<lparr>merge_github_repo = full_name (event_repository payload),
        merge_github_username = user_login (pr_user (event_pull_request payload)),
        merge_pr_number = event_number payload,
        merge_points = 1\<rparr>)"

definition merged_to_default :: "github_pull_request_event \<Rightarrow> bool" where
  "merged_to_default e \<longleftrightarrow>
     event_action e = ''closed'' \<and> pr_merged (event_pull_request e) \<and>
     ref_name (pr_base (event_pull_request e)) = default_branch (event_repository e)"

lemma parse_merge_event_Inr:
  "parse_merge_event e = Inr m \<longleftrightarrow> merged_to_default e \<and>
     m = \<lparr>merge_github_repo = full_name (event_repository e),
          merge_github_username = user_login (pr_user (event_pull_request e)),
          merge_pr_number = event_number e, merge_points = 1\<rparr>"
  by (auto simp: parse_merge_event_def merged_to_default_def)

lemma parse_merge_event_Inl:
  "parse_merge_event e = Inl x \<Longrightarrow> \<not> merged_to_default e \<and> (\<exists>t. x = ValidationError t)"
  by (auto simp: parse_merge_event_def merged_to_default_def split: if_splits)

section \<open>Headers\<close>

text \<open>
  A request's headers: names in lower case with raw bytes. \<open>get\<close> finds the first of a name,
  \<open>to_str\<close> reads it when every byte is visible ASCII or a tab.
\<close>

type_synonym headers = "(string \<times> string) list"

definition visible_ascii :: "char \<Rightarrow> bool" where
  "visible_ascii c \<longleftrightarrow>
     (32 \<le> (of_char c :: nat) \<and> (of_char c :: nat) < 127) \<or> (of_char c :: nat) = 9"

definition header_str :: "string \<Rightarrow> headers \<Rightarrow> string option" where
  "header_str name hs =
     (case map_of hs name of
        None \<Rightarrow> None
      | Some v \<Rightarrow> if list_all visible_ascii v then Some v else None)"

end
