(* ===== verification/Attestation.thy ===== *)
theory Attestation
  imports Sql Webhook
begin

text \<open>
  \<open>crates/gateway/src/attestation.rs\<close>: one definition per function, each a handler over the
  shared world. \<open>async\<close> functions that answer a \<open>WaveFlowResult\<close> are \<open>waveflow_error + 'a\<close>
  actions; \<open>submit_attestation\<close> awaits nothing and is a plain function.
\<close>

type_synonym 'a handler = "(world, waveflow_error + 'a) io"

text \<open>\<open>map_err(|e| WaveFlowError::Database(e.to_string()))\<close>.\<close>

definition or_database_error :: "(world, db_error + 'a) io \<Rightarrow> 'a handler" where
  "or_database_error = answer_map (map_sum (\<lambda>e. DatabaseError (db_error_text e)) id)"

text \<open>The same with a conflict for a violated constraint.\<close>

definition or_conflict :: "string \<Rightarrow> (world, db_error + 'a) io \<Rightarrow> 'a handler" where
  "or_conflict message = answer_map (map_sum (\<lambda>e.
     case e of ConstraintViolated _ \<Rightarrow> ConflictError message
     | QueryFailed t \<Rightarrow> DatabaseError t) id)"

definition ok_or_else :: "'a option \<Rightarrow> waveflow_error \<Rightarrow> waveflow_error + 'a" where
  "ok_or_else v e = (case v of None \<Rightarrow> Inl e | Some x \<Rightarrow> Inr x)"

section \<open>Integer conversions\<close>

text \<open>\<open>i64::try_from\<close> of a \<open>u64\<close> and of an \<open>i128\<close>, \<open>i32::try_from\<close> of a \<open>u32\<close>.\<close>

definition i64_of_u64 :: "u64 \<Rightarrow> i64 option" where
  "i64_of_u64 n = signed_of (uint n)"

definition i64_of_i128 :: "i128 \<Rightarrow> i64 option" where
  "i64_of_i128 n = signed_of (sint n)"

definition i32_of_u32 :: "u32 \<Rightarrow> i32 option" where
  "i32_of_u32 n = signed_of (uint n)"

definition i64_MAX :: i64 where
  "i64_MAX = 0x7FFFFFFFFFFFFFFF"

text \<open>\<open>i64::try_from(n).unwrap_or(i64::MAX)\<close>.\<close>

definition i64_clamped :: "u64 \<Rightarrow> i64" where
  "i64_clamped n = (case i64_of_u64 n of None \<Rightarrow> i64_MAX | Some m \<Rightarrow> m)"

section \<open>Reading the registry\<close>

definition resolve_program_id :: "string \<Rightarrow> (uuid \<times> u64) handler" where
  "resolve_program_id github_repo =
     try_io (or_database_error (statement (select_active_program github_repo))) (\<lambda>row.
     Return (map_sum id (\<lambda>(new_id, on_chain). (new_id, on_chain))
       (ok_or_else row (NotFoundError (''no active program for repo '' @ github_repo)))))"

definition not_registered :: "string \<Rightarrow> uuid \<Rightarrow> string" where
  "not_registered github_username program_id =
     ''contributor '' @ github_username @ '' not registered for program '' @ program_id"

definition resolve_contributor_address :: "uuid \<Rightarrow> string \<Rightarrow> string handler" where
  "resolve_contributor_address program_id github_username =
     try_io (or_database_error (statement (select_contributor program_id github_username))) (\<lambda>row.
     Return (ok_or_else row (NotFoundError (not_registered github_username program_id))))"

definition fetch_payout_id :: "uuid \<Rightarrow> u64 \<Rightarrow> uuid option handler" where
  "fetch_payout_id program_id pr_number =
     or_database_error (statement (select_payout_id program_id (i64_clamped pr_number)))"

definition payout_exists :: "uuid \<Rightarrow> u64 \<Rightarrow> bool handler" where
  "payout_exists program_id pr_number =
     try_io (fetch_payout_id program_id pr_number) (\<lambda>row. Return (Inr (row \<noteq> None)))"

definition delivery_id_seen :: "string \<Rightarrow> bool handler" where
  "delivery_id_seen delivery_id =
     try_io (or_database_error (statement (select_delivery delivery_id))) (\<lambda>row.
     Return (Inr (row \<noteq> None)))"

definition load_program_status :: "uuid \<Rightarrow> string handler" where
  "load_program_status program_id =
     try_io (or_database_error (statement (select_status program_id))) (\<lambda>row.
     Return (ok_or_else row (NotFoundError (''program '' @ program_id @ '' not found''))))"

definition load_reward_per_point :: "uuid \<Rightarrow> i128 handler" where
  "load_reward_per_point program_id =
     try_io (or_database_error (statement (select_reward program_id))) (\<lambda>row.
     Return (map_sum id i128_from_i64
       (ok_or_else row (NotFoundError (''program '' @ program_id @ '' not found'')))))"

section \<open>The attestation\<close>

definition build_attestation :: "u64 \<Rightarrow> merge_attestation \<Rightarrow> attestation_request" where
  "build_attestation on_chain_program_id merge =
     \<lparr>attested_program_id = on_chain_program_id,
      attested_github_username = merge_github_username merge,
      attested_pr_number = merge_pr_number merge,
      attested_points = merge_points merge\<rparr>"

definition submit_attestation ::
  "string \<Rightarrow> string option \<Rightarrow> string option \<Rightarrow> attestation_request \<Rightarrow> waveflow_error + string" where
  "submit_attestation rpc_url contract_id secret_key attestation =
     (let ids = decimal (unat (attested_program_id attestation)) @ ''-'' @
            decimal (unat (attested_pr_number attestation))
      in case (contract_id, secret_key) of
           (Some contract, Some key) \<Rightarrow> Inr (''simulated-tx-'' @ ids)
         | _ \<Rightarrow> Inr (''dry-run-'' @ ids))"

section \<open>Writing the books\<close>

definition increment_milestone_spent :: "uuid \<Rightarrow> i128 \<Rightarrow> unit handler" where
  "increment_milestone_spent program_id amount =
     try_io (Return (ok_or_else (i64_of_i128 amount) (InternalError ''amount overflow'')))
       (\<lambda>amount_i64.
     try_io (or_database_error (statement (charge_program amount_i64 program_id))) (\<lambda>_.
     Return (Inr ())))"

definition persist_payout ::
  "uuid \<Rightarrow> merge_attestation \<Rightarrow> string \<Rightarrow> i128 \<Rightarrow> string \<Rightarrow> uuid handler" where
  "persist_payout program_id merge stellar_address amount tx_hash =
     bind_io new_uuid (\<lambda>new_id.
     try_io (Return (ok_or_else (i64_of_i128 amount) (InternalError ''amount overflow'')))
       (\<lambda>amount_i64.
     try_io (Return (ok_or_else (i64_of_u64 (merge_pr_number merge))
         (InternalError ''pr_number overflow''))) (\<lambda>pr_number.
     try_io (or_conflict
         (''PR '' @ decimal (unat (merge_pr_number merge)) @ '' already processed for program '' @
          program_id)
         (statement (insert_payout new_id program_id pr_number (merge_github_username merge)
            stellar_address (case i32_of_u32 (merge_points merge) of None \<Rightarrow> 1 | Some n \<Rightarrow> n)
            amount_i64 (Some tx_hash)))) (\<lambda>_.
     Return (Inr new_id)))))"

definition claim_delivery_id :: "string \<Rightarrow> string \<Rightarrow> unit handler" where
  "claim_delivery_id delivery_id event_type =
     bind_io new_uuid (\<lambda>new_id.
     or_conflict (''duplicate delivery '' @ delivery_id)
       (statement (insert_webhook_event new_id (Some delivery_id) event_type ''pending'' None
          (JObject []) ''processing'' None)))"

definition persist_webhook_event ::
  "string option \<Rightarrow> string \<Rightarrow> string \<Rightarrow> u64 option \<Rightarrow> json \<Rightarrow> string \<Rightarrow> string option
   \<Rightarrow> unit handler" where
  "persist_webhook_event delivery_id event_type github_repo pr_number payload status_text message =
     bind_io new_uuid (\<lambda>new_id.
     or_database_error
       (statement (insert_webhook_event new_id delivery_id event_type github_repo
          (map_option i64_clamped pr_number) payload status_text message)))"

section \<open>Conversions\<close>

lemma i64_of_u64_Some [simp]: "i64_of_u64 n = Some m \<longleftrightarrow> sint m = uint n"
  by (simp add: i64_of_u64_def)

lemma i64_of_u64_None [simp]: "i64_of_u64 n = None \<longleftrightarrow> 2 ^ 63 \<le> uint n"
  by (auto simp: i64_of_u64_def fits_signed_def not_less intro: order_trans [OF _ uint_ge_0])

lemma i64_of_i128_from_i64 [simp]: "i64_of_i128 (i128_from_i64 r) = Some r"
  by (simp add: i64_of_i128_def)

lemma uint_sint_nonneg: "0 \<le> sint n \<Longrightarrow> uint n = sint n" for n :: i64
proof -
  assume nonneg: "0 \<le> sint n"
  have "uint n = sint n mod 2 ^ 64" by (simp add: uint_sint take_bit_eq_mod)
  with nonneg sint_i64_bounds [of n] show ?thesis by simp
qed

text \<open>The product of a point count and a bigint reward always fits an \<open>i128\<close>.\<close>

lemma payout_no_overflow:
  "sint (i128_from_u32 points * i128_from_i64 reward) = uint points * sint reward"
proof -
  let ?p = "uint points * sint reward"
  have points: "0 \<le> uint points" "uint points < 2 ^ 32"
    using uint_ge_0 [of points] uint_lt2p [of points] by simp_all
  have reward: "\<bar>sint reward\<bar> \<le> 2 ^ 63" using sint_i64_bounds [of reward] by (simp add: abs_le_iff)
  have "\<bar>?p\<bar> = uint points * \<bar>sint reward\<bar>" using points(1) by (simp add: abs_mult)
  also have "\<dots> \<le> 2 ^ 32 * 2 ^ 63" using points reward by (intro mult_mono) simp_all
  finally have "fits_signed LENGTH(128) ?p" by (simp add: fits_signed_def abs_le_iff)
  then have fits: "sint (word_of_int ?p :: i128) = ?p" by (rule sint_word_of_int_fits)
  have "i128_from_u32 points * i128_from_i64 reward = word_of_int ?p"
    unfolding i128_from_u32_def i128_from_i64_def by (rule wi_hom_mult)
  with fits show ?thesis by simp
qed

lemma one_point: "i128_from_u32 1 * i128_from_i64 reward = i128_from_i64 reward"
  using payout_no_overflow [of 1 reward] by (simp add: word_eq_sint)

text \<open>The transaction hash names the program and the pull request.\<close>

lemma submit_attestation_inject:
  assumes "submit_attestation rpc contract key (build_attestation chain merge) = Inr tx"
    and "submit_attestation rpc contract key (build_attestation chain' merge') = Inr tx"
  shows "chain = chain' \<and> merge_pr_number merge = merge_pr_number merge'"
proof -
  let ?ids = "\<lambda>c m. decimal (unat c) @ CHR ''-'' # decimal (unat (merge_pr_number m))"
  have same: "?ids chain merge = ?ids chain' merge'"
    using assms
    by (auto simp: submit_attestation_def build_attestation_def Let_def split: option.splits)
  have "\<not> is_digit (CHR ''-'')" by (simp add: is_digit_def)
  from decimal_split [OF same this] have "unat chain = unat chain'"
    "unat (merge_pr_number merge) = unat (merge_pr_number merge')"
    by simp_all
  then show ?thesis by (simp add: word_unat_eq_iff)
qed

section \<open>What the functions can do\<close>

lemma steps_in_or [intro]:
  "steps_in may m \<Longrightarrow> steps_in may (or_database_error m)"
  "steps_in may m \<Longrightarrow> steps_in may (or_conflict message m)"
  unfolding or_database_error_def or_conflict_def by (auto intro: steps_in_map)

lemmas handler_steps = steps_in_try steps_in_bind steps_in_or steps_in_statement

named_theorems handler_safe \<open>every action of a handler is a step of the shared world\<close>

lemma attestation_steps [handler_safe]:
  assumes "logging R"
  shows "steps_in (moves R) (resolve_program_id repo)"
    "steps_in (moves R) (resolve_contributor_address pid user)"
    "steps_in (moves R) (fetch_payout_id pid pr)"
    "steps_in (moves R) (delivery_id_seen delivery)"
    "steps_in (moves R) (load_program_status pid)"
    "steps_in (moves R) (load_reward_per_point pid)"
    "steps_in (moves R) (claim_delivery_id delivery event_type)"
    "steps_in (moves R) (persist_webhook_event del event_type repo prn payload st message)"
    "steps_in (moves R) (payout_exists pid pr)"
  using assms
  unfolding resolve_program_id_def resolve_contributor_address_def fetch_payout_id_def
    delivery_id_seen_def load_program_status_def load_reward_per_point_def payout_exists_def
    claim_delivery_id_def persist_webhook_event_def logging_def
  by (auto intro!: handler_steps steps_in_new_uuid)

lemma increment_steps [handler_safe]:
  "bookkeeping R \<Longrightarrow> steps_in (moves R) (increment_milestone_spent pid amount)"
  unfolding increment_milestone_spent_def bookkeeping_def by (auto intro!: handler_steps)

lemma persist_payout_safe [handler_safe]:
  "steps_in evolves (persist_payout pid merge address amount tx)"
  unfolding persist_payout_def by (auto intro!: handler_steps)

end
