(* ===== verification/Shared_Config.thy ===== *)
theory Shared_Config
  imports Shared_Types
begin

text \<open>
  \<open>AppConfig::from_env\<close> of \<open>crates/shared/src/config.rs\<close> over an explicit environment, and the
  port each service listens on. The environment is a map: a variable that is unset or not valid
  Unicode is absent, which is when \<open>env::var\<close> answers \<open>Err\<close>.
\<close>

type_synonym environment = "string \<rightharpoonup> string"

section \<open>str::trim\<close>

text \<open>The Unicode white space characters, as their UTF-8 bytes.\<close>

definition utf8 :: "nat list \<Rightarrow> string" where
  "utf8 = map char_of"

definition white_space :: "string list" where
  "white_space = map utf8
     ([[9], [10], [11], [12], [13], [32], [0xC2, 0x85], [0xC2, 0xA0], [0xE1, 0x9A, 0x80]] @
      map (\<lambda>b. [0xE2, 0x80, b])
        [0x80, 0x81, 0x82, 0x83, 0x84, 0x85, 0x86, 0x87, 0x88, 0x89, 0x8A, 0xA8, 0xA9, 0xAF] @
      [[0xE2, 0x81, 0x9F], [0xE3, 0x80, 0x80]])"

lemma white_space_not_Nil: "w \<in> set white_space \<Longrightarrow> w \<noteq> []"
  by (auto simp: white_space_def utf8_def)

definition strip_prefix :: "string list \<Rightarrow> string \<Rightarrow> string option" where
  "strip_prefix ws s =
     map_option (\<lambda>w. drop (length w) s) (find (\<lambda>w. take (length w) s = w \<and> w \<noteq> []) ws)"

lemma strip_prefix_shorter: "strip_prefix ws s = Some t \<Longrightarrow> length t < length s"
  by (auto simp: strip_prefix_def find_Some_iff)
    (metis diff_less length_greater_0_conv take_eq_Nil)

lemma strip_prefix_suffix: "strip_prefix ws s = Some t \<Longrightarrow> \<exists>w \<in> set ws. s = w @ t"
  by (auto simp: strip_prefix_def find_Some_iff)
    (metis append_take_drop_id nth_mem)

function trim_start :: "string list \<Rightarrow> string \<Rightarrow> string" where
  "trim_start ws s = (case strip_prefix ws s of None \<Rightarrow> s | Some t \<Rightarrow> trim_start ws t)"
  by auto
termination
  by (relation "measure (length \<circ> snd)") (auto dest: strip_prefix_shorter)

declare trim_start.simps [simp del]

definition trim :: "string \<Rightarrow> string" where
  "trim s = rev (trim_start (map rev white_space) (rev (trim_start white_space s)))"

lemma trim_start_done: "strip_prefix ws (trim_start ws s) = None"
  by (induction ws s rule: trim_start.induct) (subst trim_start.simps, auto split: option.split)

lemma trim_start_suffix: "\<exists>u. s = u @ trim_start ws s"
proof (induction ws s rule: trim_start.induct)
  case (1 ws s)
  show ?case
  proof (cases "strip_prefix ws s")
    case None
    then show ?thesis by (subst trim_start.simps) simp
  next
    case (Some t)
    with 1 obtain u where "t = u @ trim_start ws t" by blast
    moreover from Some obtain w where "s = w @ t" using strip_prefix_suffix by blast
    ultimately have "s = (w @ u) @ trim_start ws t" by simp
    with Some show ?thesis by (subst trim_start.simps) auto
  qed
qed

lemma trim_part: "\<exists>u v. s = u @ trim s @ v"
proof -
  obtain u where u: "s = u @ trim_start white_space s" using trim_start_suffix by blast
  obtain v where "rev (trim_start white_space s) =
      v @ trim_start (map rev white_space) (rev (trim_start white_space s))"
    using trim_start_suffix by blast
  then have "trim_start white_space s = trim s @ rev v"
    by (metis rev_append rev_rev_ident trim_def)
  with u show ?thesis by metis
qed

text \<open>A trimmed text ends in no white space.\<close>

lemma trim_end:
  assumes "w \<in> set white_space"
  shows "trim s \<noteq> v @ w"
proof
  assume "trim s = v @ w"
  then have "trim_start (map rev white_space) (rev (trim_start white_space s)) = rev w @ rev v"
    by (simp add: trim_def rev_swap)
  then have "strip_prefix (map rev white_space) (rev w @ rev v) = None"
    by (metis trim_start_done)
  with assms white_space_not_Nil [OF assms] show False
    by (auto simp: strip_prefix_def find_None_iff)
qed

text \<open>A text that begins and ends with a graphic character is trimmed already.\<close>

definition graphic :: "char \<Rightarrow> bool" where
  "graphic c \<longleftrightarrow> 33 \<le> (of_char c :: nat) \<and> (of_char c :: nat) < 127"

lemma white_edges: "list_all (\<lambda>w. \<not> graphic (hd w) \<and> \<not> graphic (last w)) white_space"
  by (simp add: white_space_def utf8_def graphic_def)

lemma trim_start_graphic:
  assumes "s \<noteq> []" "graphic (hd s)" "\<And>w. w \<in> set ws \<Longrightarrow> \<not> graphic (hd w)"
  shows "trim_start ws s = s"
proof -
  have "\<not> (take (length w) s = w \<and> w \<noteq> [])" if "w \<in> set ws" for w
  proof
    assume "take (length w) s = w \<and> w \<noteq> []"
    then have "hd w = hd s" by (metis hd_take length_greater_0_conv)
    with assms(2) assms(3) [OF that] show False by simp
  qed
  then have "strip_prefix ws s = None" by (auto simp: strip_prefix_def find_None_iff)
  then show ?thesis by (simp add: trim_start.simps)
qed

lemma trim_graphic:
  assumes "s \<noteq> []" "graphic (hd s)" "graphic (last s)"
  shows "trim s = s"
proof -
  have "trim_start white_space s = s"
    using assms white_edges by (intro trim_start_graphic) (auto simp: list_all_iff)
  moreover have "trim_start (map rev white_space) (rev s) = rev s"
    using assms white_edges by (intro trim_start_graphic) (auto simp: list_all_iff hd_rev)
  ultimately show ?thesis by (simp add: trim_def)
qed

section \<open>str::parse of a u16\<close>

fun parse_digits :: "nat \<Rightarrow> string \<Rightarrow> nat option" where
  "parse_digits n [] = Some n"
| "parse_digits n (c # cs) =
     (if is_digit c \<and> 10 * n + digit_value c < 65536
      then parse_digits (10 * n + digit_value c) cs else None)"

definition parse_u16 :: "string \<Rightarrow> u16 option" where
  "parse_u16 s =
     map_option of_nat
       (case s of
          [] \<Rightarrow> None
        | c # cs \<Rightarrow> if c = CHR ''+'' then (if cs = [] then None else parse_digits 0 cs)
                   else parse_digits 0 s)"

abbreviation read_digits :: "nat \<Rightarrow> string \<Rightarrow> nat" where
  "read_digits \<equiv> foldl (\<lambda>n c. 10 * n + digit_value c)"

lemma read_digits_grow: "m \<le> read_digits m s"
proof (induction s arbitrary: m)
  case (Cons d s)
  have "m \<le> 10 * m + digit_value d" by simp
  also have "\<dots> \<le> read_digits m (d # s)" using Cons.IH by simp
  finally show ?case .
qed simp

lemma parse_digits_eq:
  "n < 65536 \<Longrightarrow> parse_digits n s =
     (if list_all is_digit s \<and> read_digits n s < 65536 then Some (read_digits n s) else None)"
proof (induction s arbitrary: n)
  case (Cons c s)
  show ?case
  proof (cases "10 * n + digit_value c < 65536")
    case True
    with Cons.IH [OF True] show ?thesis by simp
  next
    case False
    with read_digits_grow [of "10 * n + digit_value c" s] show ?thesis by simp
  qed
qed simp

text \<open>The number a text stands for: decimal digits, with an optional plus sign.\<close>

definition text_number :: "string \<Rightarrow> nat option" where
  "text_number s =
     (let ds = (if take 1 s = ''+'' then drop 1 s else s)
      in if ds \<noteq> [] \<and> list_all is_digit ds then Some (number_of ds) else None)"

definition port_number :: "string \<Rightarrow> u16 option" where
  "port_number s =
     (case text_number s of None \<Rightarrow> None
      | Some n \<Rightarrow> if n < 65536 then Some (of_nat n) else None)"

lemma parse_u16_reads:
  "parse_u16 s = (case text_number s of None \<Rightarrow> None
     | Some n \<Rightarrow> if n < 65536 then Some (of_nat n) else None)"
  by (cases s)
    (auto simp: parse_u16_def text_number_def parse_digits_eq number_of_def is_digit_def
      simp del: parse_digits.simps)

lemma decimal_not_Nil: "decimal n \<noteq> []"
  by (subst decimal.simps) simp

lemma text_number_decimal: "text_number (decimal n) = Some n"
proof -
  have digits: "list_all is_digit (decimal n)" using decimal_digits by (simp add: list_all_iff)
  moreover have "\<not> is_digit (CHR ''+'')" by (simp add: is_digit_def)
  ultimately have "take 1 (decimal n) \<noteq> ''+''"
    by (cases "decimal n") auto
  with digits decimal_not_Nil [of n] show ?thesis by (simp add: text_number_def)
qed

section \<open>config.rs\<close>

record app_config =
  database_url :: string
  github_webhook_secret :: string
  soroban_rpc_url :: string
  network_passphrase :: string
  escrow_contract_id :: "string option"
  gateway_secret_key :: "string option"
  api_admin_keys :: "string list"
  gateway_port :: u16
  api_port :: u16

definition or_else :: "'a option \<Rightarrow> 'a option \<Rightarrow> 'a option" where
  "or_else a b = (case a of None \<Rightarrow> b | Some x \<Rightarrow> Some x)"

definition unwrap_or :: "'a option \<Rightarrow> 'a \<Rightarrow> 'a" where
  "unwrap_or v d = (case v of None \<Rightarrow> d | Some x \<Rightarrow> x)"

definition admin_keys :: "string \<Rightarrow> string list" where
  "admin_keys s = filter (\<lambda>k. k \<noteq> []) (map trim (split_at (CHR '','') s))"

definition from_env :: "environment \<Rightarrow> waveflow_error + app_config" where
  "from_env var =
     (case var ''DATABASE_URL'' of
        None \<Rightarrow> Inl (ConfigError ''DATABASE_URL is required'')
      | Some db_url \<Rightarrow>
     (case var ''GITHUB_WEBHOOK_SECRET'' of
        None \<Rightarrow> Inl (ConfigError ''GITHUB_WEBHOOK_SECRET is required'')
      | Some secret \<Rightarrow> Inr
        \<lparr>database_url = db_url,
         github_webhook_secret = secret,
         soroban_rpc_url =
           unwrap_or (var ''SOROBAN_RPC_URL'') ''https://soroban-testnet.stellar.org'',
         network_passphrase =
           unwrap_or (var ''NETWORK_PASSPHRASE'') ''Test SDF Network ; September 2015'',
         escrow_contract_id = var ''ESCROW_CONTRACT_ID'',
         gateway_secret_key = var ''GATEWAY_SECRET_KEY'',
         api_admin_keys = admin_keys (unwrap_or (var ''API_ADMIN_KEYS'') []),
         gateway_port =
           unwrap_or (Option.bind (or_else (var ''GATEWAY_PORT'') (var ''PORT'')) parse_u16) 8080,
         api_port = unwrap_or (Option.bind (var ''API_PORT'') parse_u16) 8081\<rparr>))"

text \<open>The port of the API's \<open>main\<close>: \<open>PORT\<close> when it parses, else the configured one.\<close>

definition api_listen_port :: "environment \<Rightarrow> app_config \<Rightarrow> u16" where
  "api_listen_port var config = unwrap_or (Option.bind (var ''PORT'') parse_u16) (api_port config)"

text \<open>The port of the gateway's \<open>main\<close>.\<close>

definition gateway_listen_port :: "app_config \<Rightarrow> u16" where
  "gateway_listen_port config = gateway_port config"

section \<open>The keys\<close>

lemma admin_keys_well_formed:
  assumes "k \<in> set (admin_keys s)"
  shows "k \<noteq> [] \<and> CHR '','' \<notin> set k \<and> (\<forall>w \<in> set white_space. \<forall>v. k \<noteq> v @ w)"
proof -
  from assms obtain p where p: "p \<in> set (split_at (CHR '','') s)" "k = trim p" "k \<noteq> []"
    by (auto simp: admin_keys_def)
  obtain u v where "p = u @ k @ v" using trim_part p(2) by blast
  with split_at_parts [OF p(1)] have "CHR '','' \<notin> set k" by auto
  with p trim_end show ?thesis by auto
qed

lemma admin_keys_Nil: "admin_keys s = [] \<longleftrightarrow> (\<forall>p \<in> set (split_at (CHR '','') s). trim p = [])"
  by (auto simp: admin_keys_def filter_empty_conv)

end
