(* ===== verification/Gateway.thy ===== *)
theory Gateway
  imports Attestation Shared_Config
begin

text \<open>
  The gateway: \<open>crates/gateway/src/routes.rs\<close> with its handlers in full, the warnings of
  \<open>startup.rs\<close>, and the state of \<open>state.rs\<close> (the configuration; the pool is the world). Every
  handler is a \<open>(world, response) io\<close>, so the awaits of the source are the points where other
  requests move the world. Log lines are not modelled.
\<close>

section \<open>Responses\<close>

datatype response = Response (status_code: u16) (response_body: json)

text \<open>\<open>StatusCode::from_u16\<close>: the codes from 100 to 999.\<close>

definition status_from_u16 :: "u16 \<Rightarrow> u16 option" where
  "status_from_u16 n = (if 100 \<le> n \<and> n < 1000 then Some n else None)"

definition map_error :: "waveflow_error \<Rightarrow> response" where
  "map_error err =
     Response (unwrap_or (status_from_u16 (http_status_code err)) 500)
       (JObject [(''error'', JString (error_text err))])"

fun json_option :: "string option \<Rightarrow> json" where
  "json_option None = JNull"
| "json_option (Some s) = JString s"

section \<open>Health\<close>

definition database_ok :: "(world, bool) io" where
  "database_ok = answer_map (\<lambda>r. case r of Inl _ \<Rightarrow> False | Inr _ \<Rightarrow> True) (statement select_one)"

definition gateway_ready :: "app_config \<Rightarrow> (world, response) io" where
  "gateway_ready config =
     bind_io database_ok (\<lambda>db_ok.
     let config_ok = github_webhook_secret config \<noteq> [];
         ready = (db_ok \<and> config_ok)
     in Return (Response (if ready then 200 else 503)
          (JObject [(''service'', JString ''waveflow-gateway''), (''ready'', JBool ready),
             (''database'', JBool db_ok), (''webhook_secret_configured'', JBool config_ok)])))"

definition gateway_health :: "(world, response) io" where
  "gateway_health =
     bind_io database_ok (\<lambda>db_ok.
     Return (Response (if db_ok then 200 else 503)
       (JObject [(''service'', JString ''waveflow-gateway''), (''database'', JBool db_ok)])))"

text \<open>\<open>validate_gateway_config\<close>: the warnings it logs, in order, and its result.\<close>

definition validate_gateway_config :: "app_config \<Rightarrow> string list \<times> (waveflow_error + unit)" where
  "validate_gateway_config config =
     ((if github_webhook_secret config = []
      then [''GITHUB_WEBHOOK_SECRET is empty; webhook signature verification will reject all deliveries'']
      else []) @
     (if escrow_contract_id config \<noteq> None \<and> gateway_secret_key config = None
      then [''ESCROW_CONTRACT_ID is set but GATEWAY_SECRET_KEY is missing; chain submission stays in dry-run mode'']
      else []), Inr ())"

section \<open>Processing a merge\<close>

definition already_processed :: "uuid option \<Rightarrow> uuid \<Rightarrow> u64 \<Rightarrow> json" where
  "already_processed existing program_id pr_number = JObject
     [(''status'', JString ''already_processed''), (''payout_id'', json_option existing),
      (''program_id'', JString program_id), (''pr_number'', JNumber (PosInt pr_number))]"

definition processed :: "uuid \<Rightarrow> string \<Rightarrow> uuid \<Rightarrow> json" where
  "processed new_payout tx_hash program_id = JObject
     [(''status'', JString ''processed''), (''payout_id'', JString new_payout),
      (''tx_hash'', JString tx_hash), (''program_id'', JString program_id)]"

text \<open>The lookup of the contributor, counting the ones that are not registered.\<close>

definition contributor_of_merge :: "uuid \<Rightarrow> merge_attestation \<Rightarrow> string handler" where
  "contributor_of_merge program_uuid merge =
     bind_io (resolve_contributor_address program_uuid (merge_github_username merge)) (\<lambda>r.
     case r of
       Inr addr \<Rightarrow> Return (Inr addr)
     | Inl (NotFoundError _) \<Rightarrow>
         bind_io (count ''waveflow_gateway_contributor_not_found_total'') (\<lambda>_.
         Return (Inl (NotFoundError
           (not_registered (merge_github_username merge) program_uuid))))
     | Inl err \<Rightarrow> Return (Inl err))"

text \<open>From the attestation to the answer: the part of \<open>process_merge\<close> that pays.\<close>

definition pay_merge ::
  "app_config \<Rightarrow> uuid \<Rightarrow> u64 \<Rightarrow> merge_attestation \<Rightarrow> string \<Rightarrow> json \<Rightarrow> string option
   \<Rightarrow> json handler" where
  "pay_merge config program_uuid on_chain_program_id merge stellar_address raw_payload delivery_id =
     (let attestation = build_attestation on_chain_program_id merge in
     try_io (Return (submit_attestation (soroban_rpc_url config) (escrow_contract_id config)
         (gateway_secret_key config) attestation)) (\<lambda>tx_hash.
     try_io (load_reward_per_point program_uuid) (\<lambda>reward_per_point.
     let amount = i128_from_u32 (merge_points merge) * reward_per_point in
     try_io (persist_payout program_uuid merge stellar_address amount tx_hash) (\<lambda>new_payout.
     try_io (increment_milestone_spent program_uuid amount) (\<lambda>_.
     try_io (persist_webhook_event delivery_id ''pull_request'' (merge_github_repo merge)
         (Some (merge_pr_number merge)) raw_payload ''processed'' None) (\<lambda>_.
     Return (Inr (processed new_payout tx_hash program_uuid))))))))"

definition process_merge ::
  "app_config \<Rightarrow> github_pull_request_event \<Rightarrow> json \<Rightarrow> string option \<Rightarrow> json handler" where
  "process_merge config event raw_payload delivery_id =
     try_io (Return (parse_merge_event event)) (\<lambda>merge.
     try_io (resolve_program_id (merge_github_repo merge)) (\<lambda>(program_uuid, on_chain_program_id).
     try_io (load_program_status program_uuid) (\<lambda>program_status.
     if program_status = ''paused'' then Return (Inl (ValidationError ''program is paused''))
     else
     try_io (payout_exists program_uuid (merge_pr_number merge)) (\<lambda>paid.
     if paid then
       try_io (fetch_payout_id program_uuid (merge_pr_number merge)) (\<lambda>existing.
       Return (Inr (already_processed existing program_uuid (merge_pr_number merge))))
     else
     try_io (contributor_of_merge program_uuid merge) (\<lambda>stellar_address.
     pay_merge config program_uuid on_chain_program_id merge stellar_address raw_payload
       delivery_id)))))"

section \<open>The webhook\<close>

definition event_type_of :: "headers \<Rightarrow> string" where
  "event_type_of hs = unwrap_or (header_str ''x-github-event'' hs) ''unknown''"

definition repository_name :: "json \<Rightarrow> string" where
  "repository_name payload =
     unwrap_or (Option.bind (Option.bind (json_get ''repository'' payload) (json_get ''full_name''))
       json_str) ''unknown''"

text \<open>The answer to a delivery whose signature was refused.\<close>

definition reject_delivery ::
  "library \<Rightarrow> headers \<Rightarrow> string \<Rightarrow> waveflow_error \<Rightarrow> (world, response) io" where
  "reject_delivery lib hs body err =
     bind_io (count ''waveflow_gateway_webhook_rejected_total'') (\<lambda>_.
     let raw_payload = (case parse_json lib body of
           Inr v \<Rightarrow> v
         | Inl _ \<Rightarrow> JObject [(''raw'', JString (utf8_lossy lib body))])
     in bind_io (persist_webhook_event (header_str ''x-github-delivery'' hs) (event_type_of hs)
          ''unknown'' None raw_payload ''rejected'' (Some ''invalid webhook signature'')) (\<lambda>_.
     Return (map_error err)))"

text \<open>The answer to a merge that failed: ignored when it was not one to pay, else an error.\<close>

definition conclude_failure ::
  "string option \<Rightarrow> string \<Rightarrow> json \<Rightarrow> waveflow_error \<Rightarrow> (world, response) io" where
  "conclude_failure delivery_id event_type payload err =
     (let repo = repository_name payload;
          pr = Option.bind (json_get ''number'' payload) json_u64
      in case err of
        ValidationError _ \<Rightarrow>
          bind_io (count ''waveflow_gateway_webhook_ignored_total'') (\<lambda>_.
          bind_io (persist_webhook_event delivery_id event_type repo pr payload ''ignored''
              (Some (error_text err))) (\<lambda>_.
          Return (Response 200 (JObject [(''status'', JString ''ignored''),
            (''reason'', JString (error_text err))]))))
      | _ \<Rightarrow>
          bind_io (count ''waveflow_gateway_webhook_failed_total'') (\<lambda>_.
          bind_io (persist_webhook_event delivery_id event_type repo pr payload ''failed''
              (Some (error_text err))) (\<lambda>_.
          Return (map_error err))))"

text \<open>What is done with a delivery that was authenticated and not seen before.\<close>

definition handle_delivery ::
  "library \<Rightarrow> app_config \<Rightarrow> string \<Rightarrow> string option \<Rightarrow> string \<Rightarrow> (world, response) io" where
  "handle_delivery lib config event_type delivery_id body =
     (case parse_json lib body of
        Inl err \<Rightarrow> Return (map_error (WebhookError (''invalid JSON: '' @ err)))
      | Inr payload \<Rightarrow>
        if event_type \<noteq> ''pull_request'' then
          bind_io (persist_webhook_event delivery_id event_type ''unknown'' None payload ''ignored''
              (Some ''unsupported event type'')) (\<lambda>_.
          Return (Response 200 (JObject [(''status'', JString ''ignored'')])))
        else
        (case decode_event payload of
           None \<Rightarrow> Return (map_error (WebhookError
             (''invalid pull_request payload: '' @ shape_error lib payload)))
         | Some pr_event \<Rightarrow>
             bind_io (process_merge config pr_event payload delivery_id) (\<lambda>r.
             case r of
               Inr answer \<Rightarrow>
                 bind_io (count ''waveflow_gateway_payout_success_total'') (\<lambda>_.
                 Return (Response 200 answer))
             | Inl err \<Rightarrow> conclude_failure delivery_id event_type payload err)))"

definition duplicate_delivery :: "string \<Rightarrow> response" where
  "duplicate_delivery delivery = Response 200
     (JObject [(''status'', JString ''duplicate_delivery''), (''delivery_id'', JString delivery)])"

text \<open>A delivery with an id: refused when the id was seen, claimed otherwise.\<close>

definition once_per_delivery ::
  "string option \<Rightarrow> string \<Rightarrow> (world, response) io \<Rightarrow> (world, response) io" where
  "once_per_delivery delivery_id event_type rest =
     (case delivery_id of
        None \<Rightarrow> rest
      | Some delivery \<Rightarrow>
          bind_io (delivery_id_seen delivery) (\<lambda>seen.
          if case_sum (\<lambda>_. False) id seen then Return (duplicate_delivery delivery)
          else bind_io (claim_delivery_id delivery event_type) (\<lambda>claim.
          case claim of
            Inl err \<Rightarrow> Return (map_error err)
          | Inr _ \<Rightarrow> rest)))"

definition github_webhook ::
  "library \<Rightarrow> app_config \<Rightarrow> headers \<Rightarrow> string \<Rightarrow> (world, response) io" where
  "github_webhook lib config hs body =
     bind_io (count ''waveflow_gateway_webhook_total'') (\<lambda>_.
     let signature = unwrap_or (header_str ''x-hub-signature-256'' hs) [] in
     case verify_github_signature lib (github_webhook_secret config) body signature of
       Inl err \<Rightarrow> reject_delivery lib hs body err
     | Inr _ \<Rightarrow>
         let event_type = event_type_of hs;
             delivery_id = header_str ''x-github-delivery'' hs
         in once_per_delivery delivery_id event_type
              (handle_delivery lib config event_type delivery_id body))"

section \<open>The router\<close>

text \<open>\<open>router\<close>: the three routes, each with what axum extracts for its handler.\<close>

datatype gateway_route = PostWebhook headers string | GetReady | GetHealth

fun gateway_router :: "library \<Rightarrow> app_config \<Rightarrow> gateway_route \<Rightarrow> (world, response) io" where
  "gateway_router lib config GetHealth = gateway_health"
| "gateway_router lib config GetReady = gateway_ready config"
| "gateway_router lib config (PostWebhook hs body) = github_webhook lib config hs body"

section \<open>Every gateway handler stays inside the schema\<close>

lemma health_safe [handler_safe]:
  assumes "reflp R"
  shows "steps_in (moves R) database_ok" "steps_in (moves R) (gateway_ready config)"
    "steps_in (moves R) gateway_health"
  using assms unfolding gateway_ready_def gateway_health_def database_ok_def Let_def
  by (auto intro!: steps_in_bind steps_in_map steps_in_statement)

lemma contributor_of_merge_steps [handler_safe]:
  "logging R \<Longrightarrow> steps_in (moves R) (contributor_of_merge pid merge)"
  unfolding contributor_of_merge_def
  by (auto intro!: steps_in_bind handler_safe split: sum.split waveflow_error.split)

lemma failure_steps [handler_safe]:
  assumes "logging R"
  shows "steps_in (moves R) (conclude_failure delivery event_type payload err)"
    "steps_in (moves R) (reject_delivery lib hs body err)"
  using assms unfolding conclude_failure_def reject_delivery_def Let_def
  by (cases err; auto intro!: steps_in_bind handler_safe)+

lemma pay_merge_safe [handler_safe]:
  "steps_in evolves (pay_merge config pid chain merge address payload delivery)"
  unfolding pay_merge_def Let_def by (intro steps_in_try handler_safe returns) simp_all

lemma process_merge_safe [handler_safe]:
  "steps_in evolves (process_merge config event payload delivery)"
  unfolding process_merge_def
  by (auto intro!: steps_in_try handler_safe)

lemma handle_delivery_safe [handler_safe]:
  "steps_in evolves (handle_delivery lib config event_type delivery body)"
  unfolding handle_delivery_def
  by (auto intro!: steps_in_bind handler_safe split: sum.split option.split)

lemma github_webhook_safe [handler_safe]: "steps_in evolves (github_webhook lib config hs body)"
  unfolding github_webhook_def once_per_delivery_def Let_def
  by (auto intro!: steps_in_bind handler_safe split: sum.split option.split)

end
