(* ===== verification/Api.thy ===== *)
theory Api
  imports Gateway
begin

text \<open>
  The API service of \<open>crates/api\<close>: the start-up check, the key check of \<open>middleware.rs\<close>, the
  public routes of \<open>routes/mod.rs\<close>, the admin routes of \<open>routes/admin.rs\<close>, and the two routers
  as \<open>main.rs\<close> assembles them. A request enters the model after axum has matched its path and
  extracted its arguments: a path id that is no uuid or a body that does not deserialise is
  answered by axum and reaches no handler.

  Where a Rust name is taken by the contract, the definition carries the suffix \<open>_route\<close>.
\<close>

section \<open>startup.rs\<close>

definition run_startup_checks :: "app_config \<Rightarrow> unit handler" where
  "run_startup_checks config =
     (if database_url config = [] then Return (Inl (ConfigError ''DATABASE_URL missing''))
      else answer_map (map_sum (\<lambda>e. DatabaseError (''database unreachable: '' @ db_error_text e)) id)
        (statement select_one))"

section \<open>Rows and records\<close>

text \<open>\<open>as u64\<close> and \<open>as u32\<close> of a signed value keep the bits, as the words do.\<close>

definition program_record_of :: "program_row \<Rightarrow> program_record" where
  "program_record_of r =
     \<lparr>record_id = row_id r,
      record_on_chain_program_id = row_on_chain_program_id r,
      record_github_repo = row_github_repo r,
      record_maintainer_address = row_maintainer_address r,
      record_reward_per_point = i128_from_i64 (row_reward_per_point r),
      record_escrow_balance = i128_from_i64 (row_escrow_balance r),
      record_milestone_cap = map_option i128_from_i64 (row_milestone_cap r),
      record_milestone_spent = i128_from_i64 (row_milestone_spent r),
      record_status = (if row_status r = ''paused'' then RecordPaused else RecordActive),
      record_created_at = row_created_at r\<rparr>"

definition payout_record_of :: "payout_row \<Rightarrow> payout_record" where
  "payout_record_of r =
     \<lparr>payout_record_id = payout_id r,
      payout_record_program_id = payout_program_id r,
      payout_record_pr_number = payout_pr_number r,
      payout_record_github_username = payout_github_username r,
      payout_record_stellar_address = payout_stellar_address r,
      payout_record_points = payout_points r,
      payout_record_amount = i128_from_i64 (payout_amount r),
      payout_record_tx_hash = payout_tx_hash r,
      payout_record_created_at = payout_created_at r\<rparr>"

definition contributor_record_of :: "contributor_row \<Rightarrow> contributor_record" where
  "contributor_record_of r =
     \<lparr>contributor_program_id = member_program_id r,
      contributor_github_username = member_github_username r,
      contributor_stellar_address = member_stellar_address r,
      contributor_registered_at = member_registered_at r\<rparr>"

section \<open>Answers\<close>

datatype api_body =
    Message json
  | Programs "program_record list"
  | OneProgram program_record
  | Payouts "payout_record list"
  | Contributors "contributor_record list"
  | ProgramCreated uuid
  | ContributorCreated uuid string

datatype api_response = ApiResponse (api_status: u16) (api_body: api_body)

text \<open>\<open>ApiError::into_response\<close>, and a route that answers \<open>Result<_, ApiError>\<close>.\<close>

definition api_error_response :: "waveflow_error \<Rightarrow> api_response" where
  "api_error_response err =
     ApiResponse (unwrap_or (status_from_u16 (http_status_code err)) 500)
       (Message (JObject [(''error'', JString (error_text err))]))"

definition respond :: "api_response handler \<Rightarrow> (world, api_response) io" where
  "respond m = answer_map (case_sum api_error_response id) m"

section \<open>Public routes\<close>

definition api_health :: "(world, api_response) io" where
  "api_health =
     bind_io (count ''waveflow_api_health_checks_total'') (\<lambda>_.
     bind_io database_ok (\<lambda>db_ok.
     Return (ApiResponse (if db_ok then 200 else 503)
       (Message (JObject [(''service'', JString ''waveflow-api''), (''database'', JBool db_ok)])))))"

definition api_ready :: "app_config \<Rightarrow> (world, api_response) io" where
  "api_ready config =
     bind_io database_ok (\<lambda>db_ok.
     let ready = (db_ok \<and> api_admin_keys config \<noteq> [])
     in Return (ApiResponse (if ready then 200 else 503)
          (Message (JObject [(''service'', JString ''waveflow-api''), (''ready'', JBool ready),
             (''database'', JBool db_ok),
             (''admin_key_configured'', JBool (api_admin_keys config \<noteq> []))]))))"

definition list_programs :: "api_response handler" where
  "list_programs =
     try_io (or_database_error (statement select_programs)) (\<lambda>rows.
     Return (Inr (ApiResponse 200 (Programs (map program_record_of rows)))))"

definition program_not_found :: "uuid \<Rightarrow> waveflow_error" where
  "program_not_found program_id = NotFoundError (''program '' @ program_id @ '' not found'')"

definition get_program_route :: "uuid \<Rightarrow> api_response handler" where
  "get_program_route program_id =
     try_io (or_database_error (statement (select_program program_id))) (\<lambda>row.
     try_io (Return (ok_or_else row (program_not_found program_id))) (\<lambda>row.
     Return (Inr (ApiResponse 200 (OneProgram (program_record_of row))))))"

definition list_payouts :: "uuid \<Rightarrow> api_response handler" where
  "list_payouts program_id =
     try_io (or_database_error (statement (select_payouts program_id))) (\<lambda>rows.
     Return (Inr (ApiResponse 200 (Payouts (map payout_record_of rows)))))"

definition list_contributors :: "uuid \<Rightarrow> api_response handler" where
  "list_contributors program_id =
     try_io (or_database_error (statement (select_program_id program_id))) (\<lambda>known.
     if known = None then Return (Inl (program_not_found program_id))
     else
     try_io (or_database_error (statement (select_contributors program_id))) (\<lambda>rows.
     Return (Inr (ApiResponse 200 (Contributors (map contributor_record_of rows))))))"

section \<open>Admin routes\<close>

record create_program_request =
  create_on_chain_program_id :: u64
  create_github_repo :: string
  create_maintainer_address :: string
  create_reward_per_point :: i64
  create_milestone_cap :: "i64 option"

definition create_program_route :: "create_program_request \<Rightarrow> api_response handler" where
  "create_program_route body =
     (if \<not> validate_github_repo (create_github_repo body)
      then Return (Inl (ValidationError ''invalid github_repo slug''))
      else if sint (create_reward_per_point body) \<le> 0
      then Return (Inl (ValidationError ''reward_per_point must be positive''))
      else if \<not> validate_stellar_address (create_maintainer_address body)
      then Return (Inl (ValidationError ''invalid maintainer stellar address''))
      else
      bind_io new_uuid (\<lambda>new_id.
      try_io (or_conflict (''program already exists for repo '' @ create_github_repo body)
        (statement (insert_program new_id (i64_clamped (create_on_chain_program_id body))
          (create_github_repo body) (create_maintainer_address body)
          (create_reward_per_point body) (create_milestone_cap body)))) (\<lambda>_.
      Return (Inr (ApiResponse 201 (ProgramCreated new_id))))))"

text \<open>\<open>pause_program\<close> and \<open>resume_program\<close> of the admin routes.\<close>

definition pause_program :: "uuid \<Rightarrow> api_response handler" where
  "pause_program program_id =
     try_io (or_database_error (statement (set_status ''active'' ''paused'' program_id)))
       (\<lambda>rows_affected.
     if rows_affected = 0
     then Return (Inl (NotFoundError (''active program '' @ program_id @ '' not found'')))
     else Return (Inr (ApiResponse 200 (Message
       (JObject [(''id'', JString program_id), (''status'', JString ''paused'')])))))"

definition resume_program :: "uuid \<Rightarrow> api_response handler" where
  "resume_program program_id =
     try_io (or_database_error (statement (set_status ''paused'' ''active'' program_id)))
       (\<lambda>rows_affected.
     if rows_affected = 0
     then Return (Inl (NotFoundError (''paused program '' @ program_id @ '' not found'')))
     else Return (Inr (ApiResponse 200 (Message
       (JObject [(''id'', JString program_id), (''status'', JString ''active'')])))))"

text \<open>An \<open>i64\<close> as a JSON number.\<close>

definition json_i64 :: "i64 \<Rightarrow> json" where
  "json_i64 n = JNumber (if sint n < 0 then NegInt n else PosInt n)"

definition update_ratio :: "uuid \<Rightarrow> i64 \<Rightarrow> api_response handler" where
  "update_ratio program_id reward_per_point =
     (if sint reward_per_point \<le> 0
      then Return (Inl (ValidationError ''reward_per_point must be positive''))
      else
      try_io (or_database_error (statement (set_reward reward_per_point program_id)))
        (\<lambda>rows_affected.
      if rows_affected = 0 then Return (Inl (program_not_found program_id))
      else Return (Inr (ApiResponse 200 (Message (JObject [(''id'', JString program_id),
        (''reward_per_point'', json_i64 reward_per_point)]))))))"

record register_contributor_request =
  register_program_id :: uuid
  register_github_username :: string
  register_stellar_address :: string

definition register_contributor_route ::
  "register_contributor_request \<Rightarrow> api_response handler" where
  "register_contributor_route body =
     (if register_github_username body = [] \<or> register_stellar_address body = []
      then Return (Inl (ValidationError ''username and address required''))
      else if \<not> validate_stellar_address (register_stellar_address body)
      then Return (Inl (ValidationError ''invalid stellar public key''))
      else
      try_io (or_database_error (statement (select_program_id (register_program_id body))))
        (\<lambda>known.
      if known = None then Return (Inl (program_not_found (register_program_id body)))
      else
      try_io (or_conflict ''contributor already registered''
        (statement (insert_contributor (register_program_id body)
          (register_github_username body) (register_stellar_address body)))) (\<lambda>_.
      Return (Inr (ApiResponse 201 (ContributorCreated (register_program_id body)
        (register_github_username body)))))))"

section \<open>The routers\<close>

datatype public_request =
    Health | Ready | ListPrograms | GetProgram uuid | ListPayouts uuid | ListContributors uuid

datatype admin_request =
    PostProgram create_program_request
  | PostPause uuid
  | PostResume uuid
  | PostRatio uuid i64
  | PostContributor register_contributor_request

datatype api_request = Public public_request | Protected admin_request

fun public_router :: "app_config \<Rightarrow> public_request \<Rightarrow> (world, api_response) io" where
  "public_router config Health = api_health"
| "public_router config Ready = api_ready config"
| "public_router config ListPrograms = respond list_programs"
| "public_router config (GetProgram pid) = respond (get_program_route pid)"
| "public_router config (ListPayouts pid) = respond (list_payouts pid)"
| "public_router config (ListContributors pid) = respond (list_contributors pid)"

fun admin_router :: "admin_request \<Rightarrow> (world, api_response) io" where
  "admin_router (PostProgram body) = respond (create_program_route body)"
| "admin_router (PostPause pid) = respond (pause_program pid)"
| "admin_router (PostResume pid) = respond (resume_program pid)"
| "admin_router (PostRatio pid reward) = respond (update_ratio pid reward)"
| "admin_router (PostContributor body) = respond (register_contributor_route body)"

definition authorized_key :: "app_config \<Rightarrow> headers \<Rightarrow> bool" where
  "authorized_key config hs =
     (case header_str ''x-api-key'' hs of
        None \<Rightarrow> False
      | Some key \<Rightarrow> list_ex (\<lambda>k. k = key) (api_admin_keys config))"

definition require_admin_key ::
  "app_config \<Rightarrow> headers \<Rightarrow> (world, api_response) io \<Rightarrow> (world, api_response) io" where
  "require_admin_key config hs next =
     (if api_admin_keys config = []
      then Return (ApiResponse 500
        (Message (JObject [(''error'', JString ''API_ADMIN_KEYS not configured'')])))
      else if \<not> authorized_key config hs
      then Return (ApiResponse 401
        (Message (JObject [(''error'', JString ''invalid or missing x-api-key'')])))
      else next)"

fun api_service :: "app_config \<Rightarrow> headers \<Rightarrow> api_request \<Rightarrow> (world, api_response) io" where
  "api_service config hs (Public req) = public_router config req"
| "api_service config hs (Protected req) = require_admin_key config hs (admin_router req)"

section \<open>Every API handler stays inside the schema\<close>

lemma steps_in_respond: "steps_in may m \<Longrightarrow> steps_in may (respond m)"
  unfolding respond_def by (rule steps_in_map)

lemma run_startup_checks_safe [handler_safe]:
  "reflp R \<Longrightarrow> steps_in (moves R) (run_startup_checks config)"
  unfolding run_startup_checks_def by (auto intro!: steps_in_map steps_in_statement)

lemmas route_defs =
  list_programs_def get_program_route_def list_payouts_def list_contributors_def
  create_program_route_def pause_program_def resume_program_def update_ratio_def
  register_contributor_route_def

lemma public_router_steps [handler_safe]:
  "reflp R \<Longrightarrow> steps_in (moves R) (public_router config req)"
  by (cases req)
    (auto simp: api_health_def api_ready_def route_defs Let_def
      intro!: steps_in_respond handler_steps handler_safe steps_in_count)

text \<open>
  What the registration of programs and contributors lets in: repository slugs and Stellar
  addresses of the right form, and no empty user name.
\<close>

definition vetted :: "tables \<Rightarrow> bool" where
  "vetted t \<longleftrightarrow>
     (\<forall>p \<in> set (programs t). validate_github_repo (row_github_repo p) \<and>
        validate_stellar_address (row_maintainer_address p)) \<and>
     (\<forall>c \<in> set (contributors t). member_github_username c \<noteq> [] \<and>
        validate_stellar_address (member_stellar_address c))"

text \<open>It depends on no more of a program than its identity.\<close>

lemma vetted_identity:
  assumes "map identity (programs t') = map identity (programs t)" "contributors t' = contributors t"
  shows "vetted t' \<longleftrightarrow> vetted t"
proof -
  have "(\<forall>p \<in> set (programs u). validate_github_repo (row_github_repo p) \<and>
        validate_stellar_address (row_maintainer_address p)) \<longleftrightarrow>
      list_all (\<lambda>(_, _, repo, maintainer, _). validate_github_repo repo \<and>
        validate_stellar_address maintainer) (map identity (programs u))" for u :: tables
    by (simp add: list_all_iff identity_def)
  then show ?thesis unfolding vetted_def using assms by (simp only:)
qed

lemma vetted_append:
  "vetted (t\<lparr>programs := programs t @ [p]\<rparr>) \<longleftrightarrow> vetted t \<and>
     validate_github_repo (row_github_repo p) \<and> validate_stellar_address (row_maintainer_address p)"
  "vetted (t\<lparr>contributors := contributors t @ [c]\<rparr>) \<longleftrightarrow> vetted t \<and>
     member_github_username c \<noteq> [] \<and> validate_stellar_address (member_stellar_address c)"
  by (simp_all add: vetted_def, blast+)

text \<open>The admin routes write programs and contributors, and only such ones; nothing else.\<close>

definition administrative :: "tables \<Rightarrow> tables \<Rightarrow> bool" where
  "administrative t t' \<longleftrightarrow> tables_evolve t t' \<and> payouts t' = payouts t \<and>
     webhook_events t' = webhook_events t \<and> (vetted t \<longrightarrow> vetted t')"

lemma reflp_administrative [simp]: "reflp administrative"
  by (simp add: reflp_def administrative_def)

lemma sql_in_administrative [simp]:
  "validate_github_repo repo \<Longrightarrow> validate_stellar_address maintainer \<Longrightarrow>
     sql_in administrative (insert_program new_id on_chain repo maintainer reward cap)"
  "username \<noteq> [] \<Longrightarrow> validate_stellar_address address \<Longrightarrow>
     sql_in administrative (insert_contributor pid username address)"
proof -
  let ?S = "\<lambda>t t'. payouts t' = payouts t \<and> webhook_events t' = webhook_events t \<and>
    (vetted t \<longrightarrow> vetted t')"
  have S: "reflp ?S" by (simp add: reflp_def)
  show "sql_in administrative (insert_program new_id on_chain repo maintainer reward cap)"
    if "validate_github_repo repo" "validate_stellar_address maintainer"
    by (rule sql_in_conj [OF insert_program_safe S])
      (use that in \<open>simp_all add: administrative_def insert_program_def inserted_def insert_row_Inr
        vetted_append split: sum.split\<close>)
  show "sql_in administrative (insert_contributor pid username address)"
    if "username \<noteq> []" "validate_stellar_address address"
    by (rule sql_in_conj [OF insert_contributor_safe S])
      (use that in \<open>simp_all add: administrative_def insert_contributor_def inserted_def insert_row_Inr
        vetted_append split: sum.split\<close>)
qed

lemma update_programs_administrative:
  assumes "\<And>r r'. match r \<Longrightarrow> change r = Inr r' \<Longrightarrow> identity r' = identity r"
  shows "payouts (snd (update_programs match change t)) = payouts t \<and>
    webhook_events (snd (update_programs match change t)) = webhook_events t \<and>
    (vetted t \<longrightarrow> vetted (snd (update_programs match change t)))"
proof (cases "update_rows match change (programs t)")
  case (Inr rows)
  then have "map identity rows = map identity (programs t)"
    by (rule update_rows_map) (rule assms)
  then have "vetted (t\<lparr>programs := rows\<rparr>) \<longleftrightarrow> vetted t" by (intro vetted_identity) simp_all
  with Inr show ?thesis by (simp add: update_programs_def)
qed (simp add: update_programs_def)

lemma sql_in_administrative_updates [simp]:
  "sql_in administrative (set_status src dst pid)" "sql_in administrative (set_reward reward pid)"
proof -
  let ?S = "\<lambda>t t'. payouts t' = payouts t \<and> webhook_events t' = webhook_events t \<and>
    (vetted t \<longrightarrow> vetted t')"
  have S: "reflp ?S" by (simp add: reflp_def)
  have "?S t (snd (set_status src dst pid eng now t))" "?S t (snd (set_reward reward pid eng now t))"
    for eng now t
    unfolding set_status_def set_reward_def
    by (rule update_programs_administrative; auto simp: identity_def split: if_splits)+
  then show "sql_in administrative (set_status src dst pid)" "sql_in administrative (set_reward reward pid)"
    by (auto intro!: sql_in_conj [OF updates_safe(1) S] sql_in_conj [OF updates_safe(2) S]
        simp: administrative_def)
qed

lemma admin_router_steps [handler_safe]: "steps_in (moves administrative) (admin_router req)"
  by (cases req)
    (auto simp: route_defs intro!: steps_in_respond handler_steps steps_in_new_uuid)

end
