(* ===== verification/Services.thy ===== *)
theory Services
  imports Api
begin

text \<open>
  The two services on one database: every request with its handler, and what each request may
  do to the shared tables while all the others run (\<open>allowed\<close>). The locale \<open>service\<close> is
  interpreted on them, so its consequences hold in every reachable state of any number of
  overlapping webhook deliveries and API requests.
\<close>

datatype request = Webhook headers string | GatewayReady | GatewayHealth | ApiCall headers api_request

datatype answer = FromGateway response | FromApi api_response

fun handle_request ::
  "library \<Rightarrow> app_config \<Rightarrow> app_config \<Rightarrow> request \<Rightarrow> (world, answer) io" where
  "handle_request lib gateway api (Webhook hs body) =
     answer_map FromGateway (gateway_router lib gateway (PostWebhook hs body))"
| "handle_request lib gateway api GatewayReady =
     answer_map FromGateway (gateway_router lib gateway GetReady)"
| "handle_request lib gateway api GatewayHealth =
     answer_map FromGateway (gateway_router lib gateway GetHealth)"
| "handle_request lib gateway api (ApiCall hs req) = answer_map FromApi (api_service api hs req)"

section \<open>Facts that last\<close>

definition known_program :: "tables \<Rightarrow> uuid \<Rightarrow> u64 \<Rightarrow> string \<Rightarrow> bool" where
  "known_program t pid on_chain repo \<longleftrightarrow>
     (\<exists>p \<in> set (programs t). row_id p = pid \<and> row_on_chain_program_id p = on_chain \<and>
        row_github_repo p = repo)"

definition registered :: "tables \<Rightarrow> uuid \<Rightarrow> string \<Rightarrow> string \<Rightarrow> bool" where
  "registered t pid username address \<longleftrightarrow>
     (\<exists>c \<in> set (contributors t). member_program_id c = pid \<and>
        member_github_username c = username \<and> member_stellar_address c = address)"

lemma known_program_identity:
  "known_program t pid on_chain repo \<longleftrightarrow>
     (\<exists>i \<in> set (map identity (programs t)). fst i = pid \<and> fst (snd i) = on_chain \<and>
        fst (snd (snd i)) = repo)"
  by (simp add: known_program_def identity_def)

lemma lasting:
  assumes "tables_evolve t t'"
  shows "known_program t pid on_chain repo \<Longrightarrow> known_program t' pid on_chain repo"
    and "registered t pid username address \<Longrightarrow> registered t' pid username address"
    and "r \<in> set (payouts t) \<Longrightarrow> r \<in> set (payouts t')"
    and "h \<in> set (webhook_events t) \<Longrightarrow> h \<in> set (webhook_events t')"
  using assms set_mono_prefix
  unfolding tables_evolve_def known_program_identity registered_def by blast+

section \<open>Why a payout row may be there\<close>

definition signature_of :: "headers \<Rightarrow> string" where
  "signature_of hs = unwrap_or (header_str ''x-hub-signature-256'' hs) []"

definition authentic_merge ::
  "library \<Rightarrow> app_config \<Rightarrow> headers \<Rightarrow> string \<Rightarrow> github_pull_request_event \<Rightarrow> bool" where
  "authentic_merge lib config hs body e \<longleftrightarrow>
     verify_github_signature lib (github_webhook_secret config) body (signature_of hs) = Inr () \<and>
     event_type_of hs = ''pull_request'' \<and>
     (\<exists>payload. parse_json lib body = Inr payload \<and> decode_event payload = Some e) \<and>
     merged_to_default e"

definition justified ::
  "library \<Rightarrow> app_config \<Rightarrow> headers \<Rightarrow> string \<Rightarrow> tables \<Rightarrow> payout_row \<Rightarrow> bool" where
  "justified lib config hs body t r \<longleftrightarrow>
     (\<exists>e on_chain. authentic_merge lib config hs body e \<and>
        known_program t (payout_program_id r) on_chain (full_name (event_repository e)) \<and>
        sint (payout_pr_number r) = uint (event_number e) \<and>
        payout_github_username r = user_login (pr_user (event_pull_request e)) \<and>
        registered t (payout_program_id r) (payout_github_username r) (payout_stellar_address r) \<and>
        payout_points r = 1 \<and>
        (case submit_attestation (soroban_rpc_url config) (escrow_contract_id config)
            (gateway_secret_key config)
            (build_attestation on_chain
              \<lparr>merge_github_repo = full_name (event_repository e),
               merge_github_username = user_login (pr_user (event_pull_request e)),
               merge_pr_number = event_number e, merge_points = 1\<rparr>) of
           Inr tx \<Rightarrow> payout_tx_hash r = Some tx
         | Inl _ \<Rightarrow> False))"

lemma justified_lasts: "tables_evolve t t' \<Longrightarrow> justified lib config hs body t r \<Longrightarrow>
     justified lib config hs body t' r"
  unfolding justified_def by (blast intro: lasting)

text \<open>What a request may do to the tables.\<close>

fun allowed_tables :: "library \<Rightarrow> app_config \<Rightarrow> app_config \<Rightarrow> request \<Rightarrow> tables \<Rightarrow> tables \<Rightarrow> bool" where
  "allowed_tables lib gateway api (Webhook hs body) t t' \<longleftrightarrow>
     tables_evolve t t' \<and> contributors t' = contributors t \<and>
     map registry (programs t') = map registry (programs t) \<and>
     (\<forall>r \<in> set (payouts t'). r \<in> set (payouts t) \<or> justified lib gateway hs body t' r)"
| "allowed_tables lib gateway api (ApiCall hs (Protected req)) t t' \<longleftrightarrow>
     administrative t t' \<and> (t' = t \<or> authorized_key api hs)"
| "allowed_tables lib gateway api _ t t' \<longleftrightarrow> t' = t"

abbreviation allowed :: "library \<Rightarrow> app_config \<Rightarrow> app_config \<Rightarrow> request \<Rightarrow> world \<Rightarrow> world \<Rightarrow> bool" where
  "allowed lib gateway api req \<equiv> moves (allowed_tables lib gateway api req)"

lemma allowed_evolves: "allowed lib gateway api req u v \<Longrightarrow> evolves u v"
  by (cases "(lib, gateway, api, req, db u, db v)" rule: allowed_tables.cases)
    (auto simp: moves_def administrative_def)

lemma quiet_allowed: "moves quiet u v \<Longrightarrow> allowed lib gateway api (Webhook hs body) u v"
  by (auto simp: moves_def quiet_def)

section \<open>Answers of the database\<close>

text \<open>What an interleaved statement answered: its result at one point of the run, or a fault.\<close>

lemma interleaved_statement:
  assumes "interleaved evolves (statement q) w r w''"
  obtains u v now where "evolves w u" "evolves v w''" "db_engine u = db_engine w"
    "db_engine v = db_engine w"
    "(r, db v) = q (db_engine w) now (db u) \<or>
     (\<exists>msg. r = Inl (QueryFailed msg)) \<and> db v \<in> {db u, snd (q (db_engine w) now (db u))}"
proof -
  from assms obtain u v where may: "evolves w u" "evolves v w''"
    and at: "(let n = query_count u; eng = db_engine u; (r, t) = q eng (clock_at eng n) (db u);
         w = u\<lparr>query_count := Suc n\<rparr>
       in case fault_at eng n of None \<Rightarrow> (r, w\<lparr>db := t\<rparr>)
          | Some (FailsBefore msg) \<Rightarrow> (Inl (QueryFailed msg), w)
          | Some (FailsAfter msg) \<Rightarrow> (Inl (QueryFailed msg), w\<lparr>db := t\<rparr>)) = (r, v)"
    unfolding statement_def by (rule world.interleaved_act)
  have eng: "db_engine u = db_engine w" using may(1) by (simp add: moves_def)
  let ?now = "clock_at (db_engine w) (query_count u)"
  obtain r1 t1 where "q (db_engine w) ?now (db u) = (r1, t1)" by fastforce
  then have "db_engine v = db_engine w" "(r, db v) = q (db_engine w) ?now (db u) \<or>
     (\<exists>msg. r = Inl (QueryFailed msg)) \<and> db v \<in> {db u, snd (q (db_engine w) ?now (db u))}"
    using at eng by (auto simp: Let_def split: option.splits fault.splits)
  with that may eng show thesis by blast
qed

lemma interleaved_reading:
  assumes "interleaved evolves (statement (reading f)) w (Inr x) w''"
  obtains u where "evolves w u" "evolves u w''" "x = f (db u)"
proof -
  from assms obtain u v now where "evolves w u" "evolves v w''"
    "db_engine u = db_engine w" "db_engine v = db_engine w"
    "(Inr x, db v) = reading f (db_engine w) now (db u) \<or>
     (\<exists>msg. Inr x = Inl (QueryFailed msg)) \<and> db v \<in> {db u, snd (reading f (db_engine w) now (db u))}"
    by (rule interleaved_statement)
  moreover from this have "db v = db u" "x = f (db u)" by (auto simp: reading_def)
  ultimately show thesis using that by (auto simp: moves_def)
qed

lemma interleaved_map:
  assumes "interleaved evolves (answer_map f m) w y w''"
  obtains x w' where "interleaved evolves m w x w'" "y = f x" "evolves w' w''"
proof -
  from assms obtain x w' where "interleaved evolves m w x w'"
      "interleaved evolves (Return (f x)) w' y w''"
    unfolding answer_map_def by (rule interleaved_bind)
  with that show thesis by (auto dest: world.interleaved_Return)
qed

lemma map_sum_id_Inr: "Inr x = map_sum g id v \<longleftrightarrow> v = Inr x"
  by (cases v) auto

lemma interleaved_or_database:
  assumes "interleaved evolves (or_database_error m) w (Inr x) w''"
  obtains w' where "interleaved evolves m w (Inr x) w'" "evolves w' w''"
  using assms that unfolding or_database_error_def
  by (auto elim!: interleaved_map simp: map_sum_id_Inr)

lemma interleaved_or_conflict:
  assumes "interleaved evolves (or_conflict message m) w (Inr x) w''"
  obtains w' where "interleaved evolves m w (Inr x) w'" "evolves w' w''"
  using assms that unfolding or_conflict_def
  by (auto elim!: interleaved_map simp: map_sum_id_Inr)

lemma interleaved_then_return:
  assumes "interleaved evolves (try_io m (\<lambda>x. Return (k x))) w (Inr y) w''"
  obtains x w' where "interleaved evolves m w (Inr x) w'" "k x = Inr y" "evolves w' w''"
  using assms by (auto elim!: interleaved_try dest: world.interleaved_Return)

lemma read_then_return:
  assumes "interleaved evolves
      (try_io (or_database_error (statement (reading f))) (\<lambda>x. Return (k x))) w (Inr y) w''"
  obtains u where "evolves w u" "evolves u w''" "k (f (db u)) = Inr y"
proof -
  from assms obtain x w' where x: "interleaved evolves (or_database_error (statement (reading f))) w
      (Inr x) w'" "k x = Inr y" "evolves w' w''"
    by (rule interleaved_then_return)
  from x(1) obtain w1 where w1: "interleaved evolves (statement (reading f)) w (Inr x) w1"
      "evolves w1 w'"
    by (rule interleaved_or_database)
  from w1(1) obtain u where u: "evolves w u" "evolves u w1" "x = f (db u)"
    by (rule interleaved_reading)
  have "evolves u w''"
    using world.may_trans [OF world.may_trans [OF u(2) w1(2)] x(3)] .
  with u x(2) show thesis by (intro that) auto
qed

lemma find_in_set: "find P xs = Some x \<Longrightarrow> x \<in> set xs \<and> P x"
  by (auto simp: find_Some_iff)

lemma ok_or_else_Inr [simp]: "ok_or_else v e = Inr x \<longleftrightarrow> v = Some x"
  by (simp add: ok_or_else_def split: option.split)

lemma resolved_program:
  assumes "interleaved evolves (resolve_program_id repo) w (Inr (pid, on_chain)) w'"
  shows "known_program (db w') pid on_chain repo"
proof -
  obtain u where "evolves u w'" "map_option (\<lambda>r. (row_id r, row_on_chain_program_id r))
      (find (\<lambda>r. row_github_repo r = repo \<and> row_status r = ''active'') (programs (db u))) =
      Some (pid, on_chain)"
    using assms unfolding resolve_program_id_def select_active_program_def
    by (auto elim!: read_then_return)
  then have "known_program (db u) pid on_chain repo"
    by (auto simp: known_program_def dest!: find_in_set)
  with \<open>evolves u w'\<close> show ?thesis by (auto simp: moves_def intro: lasting)
qed

lemma resolved_contributor:
  assumes "interleaved evolves (resolve_contributor_address pid username) w (Inr address) w'"
  shows "registered (db w') pid username address"
proof -
  obtain u where "evolves u w'" "map_option member_stellar_address
      (find (\<lambda>r. member_program_id r = pid \<and> member_github_username r = username)
        (contributors (db u))) = Some address"
    using assms unfolding resolve_contributor_address_def select_contributor_def
    by (auto elim!: read_then_return)
  then have "registered (db u) pid username address"
    by (auto simp: registered_def dest!: find_in_set)
  with \<open>evolves u w'\<close> show ?thesis by (auto simp: moves_def intro: lasting)
qed

lemma contributor_of_merge_registered:
  assumes "interleaved evolves (contributor_of_merge pid merge) w (Inr address) w'"
  shows "registered (db w') pid (merge_github_username merge) address"
proof -
  from assms obtain r w1 where r: "interleaved evolves
      (resolve_contributor_address pid (merge_github_username merge)) w r w1"
    and rest: "interleaved evolves
      (case r of
         Inr addr \<Rightarrow> Return (Inr addr)
       | Inl (NotFoundError _) \<Rightarrow>
           bind_io (count ''waveflow_gateway_contributor_not_found_total'') (\<lambda>_.
           Return (Inl (NotFoundError (not_registered (merge_github_username merge) pid))))
       | Inl err \<Rightarrow> Return (Inl err)) w1 (Inr address) w'"
    unfolding contributor_of_merge_def by (rule interleaved_bind)
  from rest have "r = Inr address" "evolves w1 w'"
    by (auto split: sum.splits waveflow_error.splits elim!: interleaved_bind
        dest!: world.interleaved_Return)
  with r resolved_contributor show ?thesis by (auto simp: moves_def intro: lasting)
qed

section \<open>The webhook keeps to what it may do\<close>

lemma world_obeys_quiet:
  "steps_in (moves quiet) m \<Longrightarrow> obeys evolves (allowed lib gateway api (Webhook hs body)) w m"
  by (rule steps_in_obeys) (erule steps_in_weaken, rule quiet_allowed)

text \<open>What a payout insertion adds.\<close>

lemma insert_payout_adds:
  assumes "r \<in> set (payouts (snd (insert_payout i pid pr username address points amount tx eng now t)))"
  shows "r \<in> set (payouts t) \<or>
    r = \<lparr>payout_id = i, payout_program_id = pid, payout_pr_number = pr,
         payout_github_username = username, payout_stellar_address = address,
         payout_points = points, payout_amount = amount, payout_tx_hash = tx,
         payout_created_at = now\<rparr>"
  using assms
  by (auto simp: insert_payout_def inserted_def insert_row_Inr split: sum.splits)

lemma insert_payout_frame:
  "programs (snd (insert_payout i pid pr username address points amount tx eng now t)) = programs t"
  "contributors (snd (insert_payout i pid pr username address points amount tx eng now t)) =
     contributors t"
  by (simp_all add: insert_payout_def inserted_def split: sum.split)

text \<open>The merge a delivery carries, and the facts its payout rests on.\<close>

definition merge_of :: "github_pull_request_event \<Rightarrow> merge_attestation" where
  "merge_of e = \<lparr>merge_github_repo = full_name (event_repository e),
     merge_github_username = user_login (pr_user (event_pull_request e)),
     merge_pr_number = event_number e, merge_points = 1\<rparr>"

definition payable ::
  "library \<Rightarrow> app_config \<Rightarrow> headers \<Rightarrow> string \<Rightarrow> github_pull_request_event \<Rightarrow> uuid \<Rightarrow> u64 \<Rightarrow> string
   \<Rightarrow> tables \<Rightarrow> bool" where
  "payable lib config hs body e pid on_chain address t \<longleftrightarrow>
     authentic_merge lib config hs body e \<and>
     known_program t pid on_chain (full_name (event_repository e)) \<and>
     registered t pid (user_login (pr_user (event_pull_request e))) address"

lemma payable_lasts:
  "tables_evolve t t' \<Longrightarrow> payable lib config hs body e pid on_chain address t \<Longrightarrow>
     payable lib config hs body e pid on_chain address t'"
  unfolding payable_def by (blast intro: lasting)

lemma payout_statement_obeys:
  assumes pay: "payable lib gateway hs body e pid on_chain address (db w)"
    and tx: "submit_attestation (soroban_rpc_url gateway) (escrow_contract_id gateway)
       (gateway_secret_key gateway) (build_attestation on_chain (merge_of e)) = Inr tx"
    and pr: "sint pr = uint (event_number e)"
  shows "obeys evolves (allowed lib gateway api (Webhook hs body)) w
    (statement (insert_payout i pid pr (user_login (pr_user (event_pull_request e))) address 1
       amount (Some tx)))"
proof -
  let ?q = "insert_payout i pid pr (user_login (pr_user (event_pull_request e))) address 1 amount
    (Some tx)"
  have step: "allowed_tables lib gateway api (Webhook hs body) t (snd (?q eng now t))"
    if "tables_evolve (db w) t" for eng now t
  proof -
    have evo: "tables_evolve t (snd (?q eng now t))"
      using insert_payout_safe unfolding sql_in_def by blast
    with that have "payable lib gateway hs body e pid on_chain address (snd (?q eng now t))"
      using payable_lasts [OF tables_evolve_trans pay] by blast
    then have "justified lib gateway hs body (snd (?q eng now t)) r"
      if "r \<in> set (payouts (snd (?q eng now t)))" "r \<notin> set (payouts t)" for r
      using insert_payout_adds [OF that(1)] that(2) tx pr
      unfolding justified_def payable_def merge_of_def
      by (intro exI [of _ e] exI [of _ on_chain]) auto
    with evo show ?thesis by (auto simp: insert_payout_frame)
  qed
  have same: "allowed_tables lib gateway api (Webhook hs body) t t" for t by auto
  show ?thesis
    unfolding statement_def
    by (rule world.obeys_act)
      (use step same in \<open>auto simp: moves_def Let_def split: prod.splits option.splits fault.splits;
         metis snd_conv\<close>)
qed

lemma obeys_answer_map: "obeys evolves guar w m \<Longrightarrow> obeys evolves guar w (answer_map f m)"
  unfolding answer_map_def by (rule world.obeys_bind) auto

lemma payable_later:
  "payable lib config hs body e pid on_chain address (db w) \<Longrightarrow> evolves w w' \<Longrightarrow>
     payable lib config hs body e pid on_chain address (db w')"
  by (auto simp: moves_def intro: payable_lasts)

lemma one_point_i32 [simp]: "i32_of_u32 1 = Some 1"
  by (simp add: i32_of_u32_def)

lemma obeys_try_return:
  "(\<And>x. v = Inr x \<Longrightarrow> obeys evolves guar w (k x)) \<Longrightarrow>
     obeys evolves guar w (try_io (Return v) k)"
  by (cases v) (simp_all add: try_io_def)

lemma persist_payout_obeys:
  assumes pay: "payable lib gateway hs body e pid on_chain address (db w)"
    and tx: "submit_attestation (soroban_rpc_url gateway) (escrow_contract_id gateway)
       (gateway_secret_key gateway) (build_attestation on_chain (merge_of e)) = Inr tx"
  shows "obeys evolves (allowed lib gateway api (Webhook hs body)) w
    (persist_payout pid (merge_of e) address amount tx)"
  unfolding persist_payout_def
proof (rule world.obeys_bind, goal_cases)
  case 1
  show ?case by (rule world_obeys_quiet) simp
next
  case (2 i w1)
  then have "evolves w w1" by (rule world.interleaved_may) simp
  then have pay1: "payable lib gateway hs body e pid on_chain address (db w1)"
    using pay payable_later by blast
  note paid = payout_statement_obeys [OF pay1 tx]
  have fields: "merge_points (merge_of e) = 1" "merge_pr_number (merge_of e) = event_number e"
    "merge_github_username (merge_of e) = user_login (pr_user (event_pull_request e))"
    by (simp_all add: merge_of_def)
  show ?case
  proof (intro obeys_try_return world.obeys_try, goal_cases)
    case (1 amount_i64 pr)
    from 1(2) have "sint pr = uint (event_number e)" by (simp add: fields)
    then show ?case
      unfolding fields or_conflict_def one_point_i32 option.case by (intro obeys_answer_map paid)
  qed (rule obeys_Return)
qed

lemma pay_merge_obeys:
  assumes pay: "payable lib gateway hs body e pid on_chain address (db w)"
  shows "obeys evolves (allowed lib gateway api (Webhook hs body)) w
    (pay_merge gateway pid on_chain (merge_of e) address payload delivery)"
  unfolding pay_merge_def Let_def
proof (intro obeys_try_return world.obeys_try, goal_cases)
  case (1 tx)
  show ?case by (rule world_obeys_quiet) (simp add: handler_safe)
next
  case (2 tx reward w1)
  from 2(2) have "evolves w w1" by (rule world.interleaved_may) (simp add: handler_safe)
  from payable_later [OF pay this] 2(1) show ?case by (rule persist_payout_obeys)
qed (auto intro!: world_obeys_quiet handler_safe)

lemma process_merge_obeys:
  assumes auth: "verify_github_signature lib (github_webhook_secret gateway) body (signature_of hs) = Inr ()"
    "event_type_of hs = ''pull_request''" "parse_json lib body = Inr payload"
    "decode_event payload = Some e"
  shows "obeys evolves (allowed lib gateway api (Webhook hs body)) w
    (process_merge gateway e raw delivery)"
  unfolding process_merge_def
proof (intro obeys_try_return world.obeys_try, goal_cases)
  case (1 merge)
  show ?case by (rule world_obeys_quiet) (simp add: handler_safe)
next
  case (2 merge r w1)
  then have merge: "merge = merge_of e" "merged_to_default e"
    by (auto simp: parse_merge_event_Inr merge_of_def)
  obtain pid on_chain where r: "r = (pid, on_chain)" by (cases r)
  have known: "known_program (db w1) pid on_chain (full_name (event_repository e))"
    using resolved_program [of "merge_github_repo merge" w pid on_chain w1] 2(2)
    by (simp add: r merge merge_of_def)
  have pays: "obeys evolves (allowed lib gateway api (Webhook hs body)) w3
      (pay_merge gateway pid on_chain merge address raw delivery)"
    if "evolves w1 w2" "interleaved evolves (contributor_of_merge pid merge) w2 (Inr address) w3"
    for w2 w3 address
  proof -
    have "evolves w2 w3" using that(2) by (rule world.interleaved_may) (simp add: handler_safe)
    with that(1) have "tables_evolve (db w1) (db w3)"
      using world.may_trans by (auto simp: moves_def)
    then have "known_program (db w3) pid on_chain (full_name (event_repository e))"
      using known by (rule lasting)
    with contributor_of_merge_registered [OF that(2)] auth merge
    show ?thesis
      by (auto simp: payable_def authentic_merge_def merge_of_def
          intro!: pay_merge_obeys [unfolded merge_of_def])
  qed
  have quiet: "obeys evolves (allowed lib gateway api (Webhook hs body)) v m"
    if "steps_in (moves quiet) m" for v and m :: "'x handler"
    using that by (rule world_obeys_quiet)
  show ?case
    unfolding r prod.case
  proof (intro world.obeys_try, goal_cases)
    case 1
    show ?case by (rule quiet) (simp add: handler_safe)
  next
    case (2 program_status w2)
    then have w2: "evolves w1 w2" by (rule world.interleaved_may) (simp add: handler_safe)
    have branch: "obeys evolves (allowed lib gateway api (Webhook hs body)) w3
        (if paid then
           try_io (fetch_payout_id pid (merge_pr_number merge)) (\<lambda>existing.
           Return (Inr (already_processed existing pid (merge_pr_number merge))))
         else
           try_io (contributor_of_merge pid merge) (\<lambda>stellar_address.
           pay_merge gateway pid on_chain merge stellar_address raw delivery))"
      if "evolves w1 w3" for w3 paid
    proof (cases paid)
      case True
      then show ?thesis by (auto intro!: quiet steps_in_try handler_safe)
    next
      case False
      then show ?thesis
        by (auto intro!: world.obeys_try pays [OF that])
          (rule quiet, simp add: handler_safe)
    qed
    show ?case
    proof (cases "program_status = ''paused''")
      case False
      have "obeys evolves (allowed lib gateway api (Webhook hs body)) w2
          (try_io (payout_exists pid (merge_pr_number merge)) (\<lambda>paid.
             if paid then
               try_io (fetch_payout_id pid (merge_pr_number merge)) (\<lambda>existing.
               Return (Inr (already_processed existing pid (merge_pr_number merge))))
             else
               try_io (contributor_of_merge pid merge) (\<lambda>stellar_address.
               pay_merge gateway pid on_chain merge stellar_address raw delivery)))"
      proof (rule world.obeys_try, goal_cases)
        case 1
        show ?case by (rule quiet) (simp add: handler_safe)
      next
        case (2 paid w3)
        then have "evolves w2 w3" by (rule world.interleaved_may) (simp add: handler_safe)
        from branch [OF world.may_trans [OF w2 this]] show ?case .
      qed
      with False show ?thesis by simp
    qed simp
  qed
qed

text \<open>The whole webhook.\<close>

lemma handle_delivery_obeys:
  assumes "verify_github_signature lib (github_webhook_secret gateway) body (signature_of hs) = Inr ()"
  shows "obeys evolves (allowed lib gateway api (Webhook hs body)) w
    (handle_delivery lib gateway (event_type_of hs) delivery body)"
proof (cases "parse_json lib body")
  case (Inr payload)
  have rest: "obeys evolves (allowed lib gateway api (Webhook hs body)) w'
      (case r of
         Inr answer \<Rightarrow> bind_io (count ''waveflow_gateway_payout_success_total'') (\<lambda>_.
           Return (Response 200 answer))
       | Inl err \<Rightarrow> conclude_failure delivery ev payload err)" for r w' ev
    by (cases r) (auto intro!: world_obeys_quiet steps_in_bind handler_safe)
  show ?thesis
  proof (cases "event_type_of hs = ''pull_request''")
    case True
    with Inr rest show ?thesis
      unfolding handle_delivery_def
      by (cases "decode_event payload")
        (auto intro!: world.obeys_bind process_merge_obeys assms)
  next
    case False
    with Inr show ?thesis
      unfolding handle_delivery_def
      by (auto intro!: world_obeys_quiet steps_in_bind handler_safe)
  qed
qed (simp add: handle_delivery_def)

lemma github_webhook_obeys:
  "obeys evolves (allowed lib gateway api (Webhook hs body)) w (github_webhook lib gateway hs body)"
proof -
  let ?obeys = "obeys evolves (allowed lib gateway api (Webhook hs body))"
  have once: "?obeys v (once_per_delivery delivery (event_type_of hs)
      (handle_delivery lib gateway (event_type_of hs) delivery body))"
    if auth: "verify_github_signature lib (github_webhook_secret gateway) body (signature_of hs) = Inr ()"
    for v delivery
    unfolding once_per_delivery_def
    by (auto split: option.split sum.split intro!: world.obeys_bind handle_delivery_obeys [OF auth])
      (rule world_obeys_quiet, simp add: handler_safe)+
  have "?obeys w (count ''waveflow_gateway_webhook_total'')" by (rule world_obeys_quiet) simp
  then show ?thesis
    unfolding github_webhook_def Let_def
    by (rule world.obeys_bind)
      (auto split: sum.split simp flip: signature_of_def intro!: once,
       rule world_obeys_quiet, simp add: handler_safe)
qed

section \<open>The services as one\<close>

lemma api_service_obeys:
  "obeys evolves (allowed lib gateway api (ApiCall hs req)) w (api_service api hs req)"
proof (cases req)
  case (Public r)
  have "steps_in (moves (=)) (public_router api r)" by (simp add: handler_safe reflp_def)
  then show ?thesis
    unfolding Public api_service.simps
    by (intro steps_in_obeys) (erule steps_in_weaken, auto simp: moves_def)
next
  case (Protected r)
  have "steps_in (moves administrative) (admin_router r)" by (simp add: handler_safe)
  then have "steps_in (allowed lib gateway api (ApiCall hs req)) (admin_router r)"
    if "authorized_key api hs"
    by (rule steps_in_weaken) (use that Protected in \<open>auto simp: moves_def\<close>)
  then show ?thesis
    by (auto simp: Protected require_admin_key_def intro: steps_in_obeys)
qed

lemma handle_request_obeys:
  "obeys evolves (allowed lib gateway api req) w (handle_request lib gateway api req)"
proof -
  have reads: "obeys evolves (allowed lib gateway api r) w (answer_map f m)"
    if "steps_in (moves (=)) m" "r = GatewayReady \<or> r = GatewayHealth"
    for r f and m :: "(world, response) io"
    using that(2) by (intro obeys_answer_map steps_in_obeys steps_in_weaken [OF that(1)])
      (auto simp: moves_def)
  show ?thesis
    by (cases req)
      (simp_all add: reads health_safe reflp_def,
       auto intro!: obeys_answer_map github_webhook_obeys api_service_obeys)
qed

interpretation services: service evolves "handle_request lib gateway api" "allowed lib gateway api"
  for lib gateway api
  by unfold_locales (auto intro: handle_request_obeys allowed_evolves)

text \<open>No request lets an unchecked program or contributor into the registry.\<close>

lemma allowed_vetted:
  assumes "allowed lib gateway api req u v" "vetted (db u)"
  shows "vetted (db v)"
proof -
  have same: "vetted t' \<longleftrightarrow> vetted t"
    if "map registry (programs t') = map registry (programs t)" "contributors t' = contributors t" for t t'
  proof (rule vetted_identity [OF _ that(2)])
    have "map fst (map registry (programs t')) = map fst (map registry (programs t))"
      using that(1) by (rule arg_cong)
    then show "map identity (programs t') = map identity (programs t)"
      by (simp add: registry_def comp_def)
  qed
  from assms have "vetted (db v) \<or> map registry (programs (db v)) = map registry (programs (db u)) \<and>
      contributors (db v) = contributors (db u)"
    by (cases "(lib, gateway, api, req, db u, db v)" rule: allowed_tables.cases)
      (auto simp: moves_def administrative_def)
  with same [of "db v" "db u"] assms(2) show ?thesis by blast
qed

lemma reaches_vetted:
  "service_reaches (handle_request lib gateway api) w0 s \<Longrightarrow> vetted (db w0) \<Longrightarrow>
     vetted (db (service_world s))"
  by (rule services.reaches_induct [where holds = "\<lambda>_ w. vetted (db w)"])
    (auto intro: allowed_vetted)

text \<open>Every payout of a reachable state has its delivery.\<close>

lemma reaches_justified:
  assumes "service_reaches (handle_request lib gateway api) w0 s" and "payouts (db w0) = []"
  shows "\<forall>r \<in> set (payouts (db (service_world s))). \<exists>hs body.
     Webhook hs body \<in> set (service_received s) \<and>
     justified lib gateway hs body (db (service_world s)) r"
  using assms(1)
proof (rule services.reaches_induct)
  show "\<forall>r \<in> set (payouts (db w0)). \<exists>hs body. Webhook hs body \<in> set [] \<and>
      justified lib gateway hs body (db w0) r"
    using assms(2) by simp
next
  fix reqs :: "request list" and req u v
  assume before: "\<forall>r \<in> set (payouts (db u)). \<exists>hs body. Webhook hs body \<in> set reqs \<and>
      justified lib gateway hs body (db u) r"
    and req: "req \<in> set reqs" and step: "allowed lib gateway api req u v"
  have evolves: "tables_evolve (db u) (db v)"
    using allowed_evolves [OF step] by (simp add: moves_def)
  show "\<forall>r \<in> set (payouts (db v)). \<exists>hs body. Webhook hs body \<in> set reqs \<and>
      justified lib gateway hs body (db v) r"
  proof
    fix r
    assume r: "r \<in> set (payouts (db v))"
    consider "r \<in> set (payouts (db u))" | hs body where "req = Webhook hs body"
        "justified lib gateway hs body (db v) r"
      using step r
      by (cases "(lib, gateway, api, req, db u, db v)" rule: allowed_tables.cases)
        (auto simp: moves_def administrative_def)
    then show "\<exists>hs body. Webhook hs body \<in> set reqs \<and> justified lib gateway hs body (db v) r"
      using before req justified_lasts [OF evolves] by cases blast+
  qed
qed fastforce

lemma justifiedE:
  assumes "justified lib gateway hs body t r"
  obtains e chain tx where "authentic_merge lib gateway hs body e"
    "known_program t (payout_program_id r) chain (full_name (event_repository e))"
    "sint (payout_pr_number r) = uint (event_number e)" "payout_points r = 1"
    "submit_attestation (soroban_rpc_url gateway) (escrow_contract_id gateway)
       (gateway_secret_key gateway) (build_attestation chain (merge_of e)) = Inr tx"
    "payout_tx_hash r = Some tx"
proof -
  from assms obtain e chain where "authentic_merge lib gateway hs body e"
    "known_program t (payout_program_id r) chain (full_name (event_repository e))"
    "sint (payout_pr_number r) = uint (event_number e)" "payout_points r = 1"
    "case submit_attestation (soroban_rpc_url gateway) (escrow_contract_id gateway)
       (gateway_secret_key gateway) (build_attestation chain (merge_of e)) of
       Inr tx \<Rightarrow> payout_tx_hash r = Some tx | Inl _ \<Rightarrow> False"
    unfolding justified_def merge_of_def by blast
  with that show thesis
    by (cases "submit_attestation (soroban_rpc_url gateway) (escrow_contract_id gateway)
       (gateway_secret_key gateway) (build_attestation chain (merge_of e))") simp_all
qed

text \<open>Payouts of one program's pull request with one transaction hash are one payout.\<close>

lemma justified_hashes:
  assumes "justified lib gateway hs body t r" "justified lib gateway hs' body' t r'" "schema_ok t"
    and "r \<in> set (payouts t)" "r' \<in> set (payouts t)" "payout_tx_hash r = payout_tx_hash r'"
  shows "r = r'"
proof -
  let ?submit = "\<lambda>chain e. submit_attestation (soroban_rpc_url gateway) (escrow_contract_id gateway)
    (gateway_secret_key gateway) (build_attestation chain (merge_of e))"
  obtain e chain tx where e: "known_program t (payout_program_id r) chain (full_name (event_repository e))"
      "sint (payout_pr_number r) = uint (event_number e)" "?submit chain e = Inr tx"
      "payout_tx_hash r = Some tx"
    using assms(1) by (rule justifiedE)
  obtain e' chain' tx' where e': "known_program t (payout_program_id r') chain' (full_name (event_repository e'))"
      "sint (payout_pr_number r') = uint (event_number e')" "?submit chain' e' = Inr tx'"
      "payout_tx_hash r' = Some tx'"
    using assms(2) by (rule justifiedE)
  have "tx = tx'" using e(4) e'(4) assms(6) by simp
  with e(3) e'(3) have same: "chain = chain'" "event_number e = event_number e'"
    using submit_attestation_inject [of _ _ _ chain "merge_of e" tx chain' "merge_of e'"]
    by (auto simp: merge_of_def)
  from same(1) e(1) e'(1) program_chain_ids.keyed_unique [of "programs t"] assms(3)
  have "payout_program_id r = payout_program_id r'"
    unfolding known_program_def schema_ok_def by fastforce
  moreover have "payout_pr_number r = payout_pr_number r'"
  proof -
    have "sint (payout_pr_number r) = sint (payout_pr_number r')" using same(2) e(2) e'(2) by simp
    then show ?thesis by (simp only: word_eq_sint)
  qed
  ultimately show ?thesis
    using payout_prs.keyed_unique [of "payouts t" r r'] assms(3-5) by (simp add: schema_ok_def)
qed

end
