(* ===== verification/Gateway_Runs.thy ===== *)
theory Gateway_Runs
  imports Services
begin

text \<open>
  Handlers run alone on a database that does not fail: what each action of the gateway answers
  and leaves, as rewrite rules, and with them the whole course of a first delivery, with and
  without a delivery id.
\<close>

section \<open>A database that does not fail\<close>

definition reliable :: "world \<Rightarrow> bool" where
  "reliable w \<longleftrightarrow> (\<forall>n. fault_at (db_engine w) n = None)"

definition tick :: "world \<Rightarrow> world" where
  "tick w = w\<lparr>query_count := Suc (query_count w)\<rparr>"

definition db_now :: "world \<Rightarrow> timestamp" where
  "db_now w = clock_at (db_engine w) (query_count w)"

definition next_uuid :: "world \<Rightarrow> uuid" where
  "next_uuid w = uuid_at (db_engine w) (uuid_count w)"

definition drew_uuid :: "world \<Rightarrow> world" where
  "drew_uuid w = w\<lparr>uuid_count := Suc (uuid_count w)\<rparr>"

definition counted :: "string \<Rightarrow> world \<Rightarrow> world" where
  "counted name w = w\<lparr>counters := (counters w)(name := Suc (counters w name))\<rparr>"

definition with_db :: "tables \<Rightarrow> world \<Rightarrow> world" where
  "with_db t w = w\<lparr>db := t\<rparr>"

lemmas world_moves = tick_def drew_uuid_def counted_def with_db_def

lemma world_moves_simps [simp]:
  "reliable (tick w) = reliable w" "reliable (drew_uuid w) = reliable w"
  "reliable (counted name w) = reliable w" "reliable (with_db t w) = reliable w"
  "db (tick w) = db w" "db (drew_uuid w) = db w" "db (counted name w) = db w" "db (with_db t w) = t"
  "next_uuid (tick w) = next_uuid w" "next_uuid (counted name w) = next_uuid w"
  "next_uuid (with_db t w) = next_uuid w"
  by (simp_all add: reliable_def world_moves next_uuid_def)

lemma with_db_tick [simp]:
  "with_db t (tick w) = tick (with_db t w)" "with_db t (with_db u w) = with_db t w"
  by (simp_all add: world_moves)

lemma run_new_uuid [simp]: "run_io new_uuid w = (next_uuid w, drew_uuid w)"
  by (simp add: new_uuid_def next_uuid_def drew_uuid_def)

lemma run_count [simp]: "run_io (count name) w = ((), counted name w)"
  by (simp add: count_def counted_def)

lemma run_statement:
  "reliable w \<Longrightarrow> run_io (statement q) w =
     (fst (q (db_engine w) (db_now w) (db w)),
      tick (with_db (snd (q (db_engine w) (db_now w) (db w))) w))"
  by (simp add: statement_def reliable_def Let_def db_now_def tick_def with_db_def split: prod.split)

lemma with_db_same: "with_db (db w) w = w"
  by (simp add: with_db_def)

lemma run_reading [simp]:
  "reliable w \<Longrightarrow> run_io (statement (reading f)) w = (Inr (f (db w)), tick w)"
  by (simp add: run_statement reading_def with_db_same)

lemma run_or [simp]:
  "run_io (or_database_error m) w =
     map_prod (map_sum (\<lambda>e. DatabaseError (db_error_text e)) id) id (run_io m w)"
  "run_io (or_conflict message m) w =
     map_prod (map_sum (case_db_error (\<lambda>_. ConflictError message) DatabaseError) id) id
       (run_io m w)"
  by (simp_all add: or_database_error_def or_conflict_def)

section \<open>The actions of the gateway\<close>

definition active_program :: "tables \<Rightarrow> string \<Rightarrow> program_row option" where
  "active_program t repo =
     find (\<lambda>r. row_github_repo r = repo \<and> row_status r = ''active'') (programs t)"

definition contributor_address :: "tables \<Rightarrow> uuid \<Rightarrow> string \<Rightarrow> string option" where
  "contributor_address t pid username = map_option member_stellar_address
     (find (\<lambda>r. member_program_id r = pid \<and> member_github_username r = username) (contributors t))"

definition payout_of :: "tables \<Rightarrow> uuid \<Rightarrow> i64 \<Rightarrow> uuid option" where
  "payout_of t pid pr = map_option payout_id
     (find (\<lambda>r. payout_program_id r = pid \<and> payout_pr_number r = pr) (payouts t))"

lemma run_reads:
  assumes "reliable w"
  shows "run_io (resolve_program_id repo) w =
      (case active_program (db w) repo of
         None \<Rightarrow> (Inl (NotFoundError (''no active program for repo '' @ repo)), tick w)
       | Some p \<Rightarrow> (Inr (row_id p, row_on_chain_program_id p), tick w))"
    and "run_io (load_program_status pid) w =
      (case program_by_id pid (db w) of
         None \<Rightarrow> (Inl (NotFoundError (''program '' @ pid @ '' not found'')), tick w)
       | Some p \<Rightarrow> (Inr (row_status p), tick w))"
    and "run_io (load_reward_per_point pid) w =
      (case program_by_id pid (db w) of
         None \<Rightarrow> (Inl (NotFoundError (''program '' @ pid @ '' not found'')), tick w)
       | Some p \<Rightarrow> (Inr (i128_from_i64 (row_reward_per_point p)), tick w))"
    and "run_io (resolve_contributor_address pid username) w =
      (case contributor_address (db w) pid username of
         None \<Rightarrow> (Inl (NotFoundError (not_registered username pid)), tick w)
       | Some a \<Rightarrow> (Inr a, tick w))"
    and "run_io (fetch_payout_id pid pr) w =
      (Inr (payout_of (db w) pid (i64_clamped pr)), tick w)"
    and "run_io (payout_exists pid pr) w =
      (Inr (payout_of (db w) pid (i64_clamped pr) \<noteq> None), tick w)"
    and "run_io (delivery_id_seen delivery) w =
      (Inr (find (\<lambda>r. hook_delivery_id r = Some delivery) (webhook_events (db w)) \<noteq> None), tick w)"
  using assms
  by (auto simp: run_try resolve_program_id_def load_program_status_def load_reward_per_point_def
      resolve_contributor_address_def fetch_payout_id_def payout_exists_def delivery_id_seen_def
      active_program_def payout_of_def contributor_address_def
      reading_defs ok_or_else_def split: option.split)

lemma run_contributor_of_merge:
  "reliable w \<Longrightarrow> contributor_address (db w) pid (merge_github_username merge) = Some a \<Longrightarrow>
     run_io (contributor_of_merge pid merge) w = (Inr a, tick w)"
  by (simp add: contributor_of_merge_def run_reads)

text \<open>The events a gateway request leaves in the log.\<close>

definition hook_row ::
  "world \<Rightarrow> string option \<Rightarrow> string \<Rightarrow> string \<Rightarrow> i64 option \<Rightarrow> json \<Rightarrow> string \<Rightarrow> string option
   \<Rightarrow> webhook_row" where
  "hook_row w delivery event_type repo pr payload st message =
     \<lparr>hook_id = next_uuid w, hook_delivery_id = delivery, hook_event_type = event_type,
      hook_github_repo = repo, hook_pr_number = pr, hook_payload = payload, hook_status = st,
      hook_error_message = message, hook_received_at = db_now (drew_uuid w)\<rparr>"

definition logged :: "webhook_row \<Rightarrow> world \<Rightarrow> world" where
  "logged h w = tick (with_db ((db w)\<lparr>webhook_events := webhook_events (db w) @ [h]\<rparr>) (drew_uuid w))"

definition log_refusal :: "world \<Rightarrow> string option \<Rightarrow> string option" where
  "log_refusal w delivery =
     (if list_ex (\<lambda>h. hook_id h = next_uuid w) (webhook_events (db w))
      then Some (refusal_text (db_engine w) ''webhook_events_pkey'')
      else if delivery \<noteq> None \<and> list_ex (\<lambda>h. hook_delivery_id h = delivery) (webhook_events (db w))
      then Some (refusal_text (db_engine w) ''idx_webhook_events_delivery_id'')
      else None)"

lemma db_engine_moves [simp]:
  "db_engine (tick w) = db_engine w" "db_engine (drew_uuid w) = db_engine w"
  "db_engine (counted name w) = db_engine w" "db_engine (with_db t w) = db_engine w"
  by (simp_all add: world_moves)

lemma run_persist_webhook_event:
  assumes "reliable w"
  shows "run_io (persist_webhook_event delivery event_type repo pr payload st message) w =
    (case log_refusal w delivery of
       Some text \<Rightarrow> (Inl (DatabaseError text), tick (drew_uuid w))
     | None \<Rightarrow> (Inr (), logged (hook_row w delivery event_type repo (map_option i64_clamped pr)
         payload st message) w))"
  using assms
  by (simp add: persist_webhook_event_def run_statement insert_webhook_event_def inserted_def
      insert_row_def webhook_constraints_def taken_def log_refusal_def hook_row_def logged_def
      with_db_same [of "drew_uuid w", simplified])

lemma run_claim_delivery_id:
  assumes "reliable w"
  shows "run_io (claim_delivery_id delivery event_type) w =
    (case log_refusal w (Some delivery) of
       Some text \<Rightarrow> (Inl (ConflictError (''duplicate delivery '' @ delivery)), tick (drew_uuid w))
     | None \<Rightarrow> (Inr (), logged (hook_row w (Some delivery) event_type ''pending'' None
         (JObject []) ''processing'' None) w))"
  using assms
  by (simp add: claim_delivery_id_def run_statement insert_webhook_event_def inserted_def
      insert_row_def webhook_constraints_def taken_def log_refusal_def hook_row_def logged_def
      with_db_same [of "drew_uuid w", simplified])

section \<open>Paying\<close>

definition paid_row ::
  "world \<Rightarrow> uuid \<Rightarrow> i64 \<Rightarrow> string \<Rightarrow> string \<Rightarrow> i64 \<Rightarrow> string \<Rightarrow> payout_row" where
  "paid_row w pid pr username address amount tx =
     \<lparr>payout_id = next_uuid w, payout_program_id = pid, payout_pr_number = pr,
      payout_github_username = username, payout_stellar_address = address, payout_points = 1,
      payout_amount = amount, payout_tx_hash = Some tx, payout_created_at = db_now (drew_uuid w)\<rparr>"

text \<open>The row of a first payout clashes with nothing.\<close>

definition unpaid :: "world \<Rightarrow> program_row \<Rightarrow> i64 \<Rightarrow> bool" where
  "unpaid w p pr \<longleftrightarrow> p \<in> set (programs (db w)) \<and> 0 < sint (row_reward_per_point p) \<and>
     payout_of (db w) (row_id p) pr = None \<and>
     \<not> list_ex (\<lambda>r. payout_id r = next_uuid w) (payouts (db w))"

lemma unpaid_insert:
  assumes "unpaid w p pr"
  shows "insert_row (payout_constraints (db w))
      (paid_row w (row_id p) pr username address (row_reward_per_point p) tx) (payouts (db w)) =
    Inr (payouts (db w) @ [paid_row w (row_id p) pr username address (row_reward_per_point p) tx])"
  using assms
  by (auto simp: insert_row_Inr payout_constraints_def paid_row_def unpaid_def taken_def
      payout_of_def find_None_iff list_ex_iff program_missing_def)

lemma run_persist_payout:
  assumes "reliable w" and "unpaid w p pr" and "i64_of_u64 (merge_pr_number merge) = Some pr"
    and "merge_points merge = 1"
  shows "run_io (persist_payout (row_id p) merge address
      (i128_from_i64 (row_reward_per_point p)) tx) w =
    (Inr (next_uuid w),
     tick (with_db ((db w)\<lparr>payouts := payouts (db w) @
       [paid_row w (row_id p) pr (merge_github_username merge) address (row_reward_per_point p) tx]\<rparr>)
       (drew_uuid w)))"
proof -
  have row: "\<lparr>payout_id = next_uuid w, payout_program_id = row_id p, payout_pr_number = pr,
      payout_github_username = merge_github_username merge, payout_stellar_address = address,
      payout_points = 1, payout_amount = row_reward_per_point p, payout_tx_hash = Some tx,
      payout_created_at = db_now (drew_uuid w)\<rparr> =
    paid_row w (row_id p) pr (merge_github_username merge) address (row_reward_per_point p) tx"
    by (simp add: paid_row_def)
  show ?thesis
    using assms(1,3,4)
    by (simp add: persist_payout_def run_try ok_or_else_def run_statement insert_payout_def
        inserted_def row unpaid_insert [OF assms(2)] del: i64_of_u64_Some)
qed

definition chargeable :: "program_row \<Rightarrow> bool" where
  "chargeable p \<longleftrightarrow>
     sint (row_milestone_spent p) + sint (row_reward_per_point p) < 2 ^ 63 \<and>
     - (2 ^ 63) \<le> sint (row_escrow_balance p) - sint (row_reward_per_point p)"

definition charged :: "program_row \<Rightarrow> program_row" where
  "charged p =
     (let left = word_of_int (sint (row_escrow_balance p) - sint (row_reward_per_point p))
      in p\<lparr>row_milestone_spent := word_of_int (sint (row_milestone_spent p) + sint (row_reward_per_point p)),
           row_escrow_balance := (if sint left < 0 then 0 else left)\<rparr>)"

lemma charge_row_chargeable:
  assumes "chargeable p" "0 < sint (row_reward_per_point p)"
  shows "charge_row eng (row_reward_per_point p) p = Inr (charged p)"
proof -
  have spent: "fits_signed LENGTH(64) (sint (row_milestone_spent p) + sint (row_reward_per_point p))"
    using assms sint_i64_bounds [of "row_milestone_spent p"]
    by (simp add: fits_signed_def chargeable_def)
  have left: "fits_signed LENGTH(64) (sint (row_escrow_balance p) - sint (row_reward_per_point p))"
    using assms sint_i64_bounds [of "row_escrow_balance p"]
    by (simp add: fits_signed_def chargeable_def)
  show ?thesis
    using spent left by (simp add: charge_row_def checked_simps signed_of_def charged_def Let_def)
qed

text \<open>Row ids are keys: the update of one program changes one row.\<close>

lemma update_rows_one:
  assumes "\<And>r. r \<in> set rs \<Longrightarrow> match r \<Longrightarrow> r = p" and "change p = Inr p'"
  shows "update_rows match change rs = Inr (map (\<lambda>r. if match r then p' else r) rs)"
  using assms(1)
proof (induction rs)
  case (Cons r rs)
  then have "match r \<Longrightarrow> r = p" by simp
  with Cons assms(2) show ?case by (cases "match r") auto
qed simp

lemma charge_one:
  assumes "program_ids.keyed (programs t)" "p \<in> set (programs t)" "chargeable p"
    and "0 < sint (row_reward_per_point p)"
  shows "charge_program (row_reward_per_point p) (row_id p) eng time t =
    (Inr (length (filter (\<lambda>r. row_id r = row_id p) (programs t))),
     t\<lparr>programs := map (\<lambda>r. if row_id r = row_id p then charged p else r) (programs t)\<rparr>)"
proof -
  have "update_rows (\<lambda>r. row_id r = row_id p) (charge_row eng (row_reward_per_point p)) (programs t) =
      Inr (map (\<lambda>r. if row_id r = row_id p then charged p else r) (programs t))"
    using program_ids.keyed_unique [OF assms(1) _ assms(2)] charge_row_chargeable [OF assms(3,4)]
    by (intro update_rows_one) auto
  then show ?thesis by (simp add: charge_program_def update_programs_def)
qed

text \<open>The tables after a payout was stored and booked.\<close>

definition paid_tables :: "tables \<Rightarrow> program_row \<Rightarrow> payout_row \<Rightarrow> tables" where
  "paid_tables t p r = t\<lparr>payouts := payouts t @ [r],
     programs := map (\<lambda>r. if row_id r = row_id p then charged p else r) (programs t)\<rparr>"

definition paid_world :: "world \<Rightarrow> program_row \<Rightarrow> payout_row \<Rightarrow> world" where
  "paid_world w p r = tick (tick (with_db (paid_tables (db w) p r) (drew_uuid w)))"

lemma run_pay_merge:
  assumes rel: "reliable w" and keyed: "program_ids.keyed (programs (db w))"
    and p: "unpaid (tick w) p pr" "chargeable p"
    and merge: "i64_of_u64 (merge_pr_number merge) = Some pr" "merge_points merge = 1"
    and tx: "submit_attestation (soroban_rpc_url config) (escrow_contract_id config)
       (gateway_secret_key config) (build_attestation chain merge) = Inr tx"
  shows "run_io (pay_merge config (row_id p) chain merge address payload delivery) w =
    (let r = paid_row (tick w) (row_id p) pr (merge_github_username merge) address
               (row_reward_per_point p) tx;
         w2 = paid_world (tick w) p r
     in case log_refusal w2 delivery of
          Some text \<Rightarrow> (Inl (DatabaseError text), tick (drew_uuid w2))
        | None \<Rightarrow> (Inr (processed (next_uuid w) tx (row_id p)),
            logged (hook_row w2 delivery ''pull_request'' (merge_github_repo merge)
              (Some pr) payload ''processed'' None) w2))"
proof -
  have mem: "p \<in> set (programs (db w))" and pos: "0 < sint (row_reward_per_point p)"
    using p(1) by (auto simp: unpaid_def)
  have found: "program_by_id (row_id p) (db w) = Some p"
    using program_ids.keyed_find [OF keyed mem] by (simp add: program_by_id_def)
  have reward: "i128_from_u32 (merge_points merge) * i128_from_i64 (row_reward_per_point p) =
      i128_from_i64 (row_reward_per_point p)"
    using merge(2) by (simp add: one_point)
  have clamp: "i64_clamped (merge_pr_number merge) = pr"
    using merge(1) by (simp add: i64_clamped_def del: i64_of_u64_Some)
  let ?t = "(db w)\<lparr>payouts := payouts (db w) @ [paid_row (tick w) (row_id p) pr
      (merge_github_username merge) address (row_reward_per_point p) tx]\<rparr>"
  have booked: "charge_program (row_reward_per_point p) (row_id p) eng time ?t =
      (Inr (length (filter (\<lambda>r. row_id r = row_id p) (programs (db w)))),
       paid_tables (db w) p (paid_row (tick w) (row_id p) pr
         (merge_github_username merge) address (row_reward_per_point p) tx))" for eng time
    using charge_one [of ?t p eng time] keyed mem p(2) pos by (simp add: paid_tables_def)
  have rel1: "reliable (tick w)" using rel by simp
  show ?thesis
    unfolding pay_merge_def Let_def
    by (simp add: run_try run_reads found rel tx reward run_persist_payout [OF rel1 p(1) merge]
        increment_milestone_spent_def ok_or_else_def run_statement booked
        run_persist_webhook_event clamp paid_world_def
        split: option.split del: i64_of_u64_Some)
qed

section \<open>A first delivery\<close>

lemma merge_of_fields:
  "merge_github_repo (merge_of e) = full_name (event_repository e)"
  "merge_pr_number (merge_of e) = event_number e" "merge_points (merge_of e) = 1"
  "merge_github_username (merge_of e) = user_login (pr_user (event_pull_request e))"
  by (simp_all add: merge_of_def)

definition merge_ready :: "world \<Rightarrow> github_pull_request_event \<Rightarrow> program_row \<Rightarrow> string \<Rightarrow> i64 \<Rightarrow> bool" where
  "merge_ready w e p address pr \<longleftrightarrow>
     active_program (db w) (full_name (event_repository e)) = Some p \<and>
     contributor_address (db w) (row_id p) (user_login (pr_user (event_pull_request e))) =
       Some address \<and>
     i64_of_u64 (event_number e) = Some pr \<and> unpaid w p pr"

definition merge_due :: "world \<Rightarrow> github_pull_request_event \<Rightarrow> program_row \<Rightarrow> string \<Rightarrow> i64 \<Rightarrow> bool" where
  "merge_due w e p address pr \<longleftrightarrow> merge_ready w e p address pr \<and> chargeable p"

lemma merge_ready_same:
  "programs (db v) = programs (db w) \<Longrightarrow> contributors (db v) = contributors (db w) \<Longrightarrow>
     payouts (db v) = payouts (db w) \<Longrightarrow> next_uuid v = next_uuid w \<Longrightarrow>
     merge_ready v e p address pr = merge_ready w e p address pr"
  by (simp add: merge_ready_def unpaid_def active_program_def contributor_address_def payout_of_def)

lemma merge_due_same:
  "programs (db v) = programs (db w) \<Longrightarrow> contributors (db v) = contributors (db w) \<Longrightarrow>
     payouts (db v) = payouts (db w) \<Longrightarrow> next_uuid v = next_uuid w \<Longrightarrow>
     merge_due v e p address pr = merge_due w e p address pr"
  unfolding merge_due_def by (simp only: merge_ready_same [of v w])

lemma merge_ready_moves [simp]:
  "merge_ready (tick w) = merge_ready w" "merge_ready (counted name w) = merge_ready w"
  by (intro ext merge_ready_same; simp)+

lemma merge_due_moves [simp]:
  "merge_due (tick w) = merge_due w" "merge_due (counted name w) = merge_due w"
  by (intro ext merge_due_same; simp)+

text \<open>The row the payout of a due merge gets, paid after four reads.\<close>

definition due_row :: "world \<Rightarrow> github_pull_request_event \<Rightarrow> program_row \<Rightarrow> string \<Rightarrow> i64 \<Rightarrow> string \<Rightarrow> payout_row" where
  "due_row w e p address pr tx =
     paid_row (tick (tick (tick (tick (tick w))))) (row_id p) pr
       (user_login (pr_user (event_pull_request e))) address (row_reward_per_point p) tx"

definition due_world :: "world \<Rightarrow> github_pull_request_event \<Rightarrow> program_row \<Rightarrow> string \<Rightarrow> i64 \<Rightarrow> string \<Rightarrow> world" where
  "due_world w e p address pr tx =
     paid_world (tick (tick (tick (tick (tick w))))) p (due_row w e p address pr tx)"

definition due_tx :: "app_config \<Rightarrow> program_row \<Rightarrow> github_pull_request_event \<Rightarrow> string \<Rightarrow> bool" where
  "due_tx config p e tx \<longleftrightarrow>
     submit_attestation (soroban_rpc_url config) (escrow_contract_id config)
       (gateway_secret_key config) (build_attestation (row_on_chain_program_id p) (merge_of e)) =
     Inr tx"

text \<open>A merge that is ready runs into its payment after four reads.\<close>

lemma run_up_to_payment:
  assumes rel: "reliable w" and keyed: "program_ids.keyed (programs (db w))"
    and ready: "merge_ready w e p address pr" and merge: "merged_to_default e"
  shows "run_io (process_merge config e payload delivery) w =
    run_io (pay_merge config (row_id p) (row_on_chain_program_id p) (merge_of e) address payload
      delivery) (tick (tick (tick (tick w))))"
proof -
  have parsed: "parse_merge_event e = Inr (merge_of e)"
    using merge by (simp add: parse_merge_event_Inr merge_of_def)
  have p: "active_program (db w) (full_name (event_repository e)) = Some p"
    using ready by (simp add: merge_ready_def)
  then have "p \<in> set (programs (db w))" "row_status p = ''active''"
    by (auto simp: active_program_def find_Some_iff)
  with program_ids.keyed_find [OF keyed] have found: "program_by_id (row_id p) (db w) = Some p"
    by (simp add: program_by_id_def)
  have clamp: "i64_clamped (event_number e) = pr"
    using ready by (simp add: merge_ready_def i64_clamped_def del: i64_of_u64_Some)
  have unpaid: "payout_of (db w) (row_id p) pr = None"
    using ready by (simp add: merge_ready_def unpaid_def)
  have contributor: "run_io (contributor_of_merge (row_id p) (merge_of e)) (tick (tick (tick w))) =
      (Inr address, tick (tick (tick (tick w))))"
    using run_contributor_of_merge [of "tick (tick (tick w))" "row_id p" "merge_of e" address]
      rel ready by (simp add: merge_of_fields merge_ready_def)
  show ?thesis
    unfolding process_merge_def
    by (simp add: run_try parsed run_reads rel p found \<open>row_status p = ''active''\<close> merge_of_fields
        clamp unpaid contributor split: prod.split)
qed

lemma run_process_merge:
  assumes rel: "reliable w" and keyed: "program_ids.keyed (programs (db w))"
    and due: "merge_due w e p address pr" and merge: "merged_to_default e"
    and tx: "due_tx config p e tx"
  shows "run_io (process_merge config e payload delivery) w =
    (let w2 = due_world w e p address pr tx
     in case log_refusal w2 delivery of
          Some text \<Rightarrow> (Inl (DatabaseError text), tick (drew_uuid w2))
        | None \<Rightarrow> (Inr (processed (next_uuid w) tx (row_id p)),
            logged (hook_row w2 delivery ''pull_request'' (full_name (event_repository e))
              (Some pr) payload ''processed'' None) w2))"
proof -
  let ?v = "tick (tick (tick (tick w)))"
  have ready: "merge_ready w e p address pr" using due by (simp add: merge_due_def)
  then have unpaid: "unpaid (tick ?v) p pr" "chargeable p"
    using due by (simp_all add: merge_due_def merge_ready_def unpaid_def)
  have pr: "i64_of_u64 (event_number e) = Some pr" using ready unfolding merge_ready_def by blast
  show ?thesis
    unfolding run_up_to_payment [OF rel keyed ready merge]
    using run_pay_merge [of ?v p pr "merge_of e" config "row_on_chain_program_id p" tx address
        payload delivery] rel keyed unpaid pr tx
    by (cases "log_refusal (due_world w e p address pr tx) delivery")
      (simp_all add: merge_of_fields due_tx_def due_row_def due_world_def Let_def
        del: i64_of_u64_Some)
qed

section \<open>The delivery as a whole\<close>

lemma drew_uuid_moves [simp]:
  "drew_uuid (tick w) = tick (drew_uuid w)"
  "drew_uuid (counted name w) = counted name (drew_uuid w)"
  "drew_uuid (with_db t w) = with_db t (drew_uuid w)"
  by (simp_all add: world_moves)

lemma due_world_facts:
  "db (due_world w e p address pr tx) = paid_tables (db w) p (due_row w e p address pr tx)"
  "next_uuid (due_world w e p address pr tx) = next_uuid (drew_uuid w)"
  "reliable (due_world w e p address pr tx) = reliable w"
  by (simp_all add: due_world_def paid_world_def)

lemma log_refusal_due:
  "log_refusal (due_world w e p address pr tx) None = None \<longleftrightarrow>
     \<not> list_ex (\<lambda>h. hook_id h = next_uuid (drew_uuid w)) (webhook_events (db w))"
  by (simp add: log_refusal_def due_world_facts paid_tables_def)

lemma charged_identity [simp]: "identity (charged p) = identity p" "row_id (charged p) = row_id p"
  by (simp_all add: charged_def identity_def Let_def)

lemma paid_program:
  assumes "program_ids.keyed (programs t)" "p \<in> set (programs t)"
  shows "program_by_id (row_id p) (paid_tables t p r) = Some (charged p)"
proof -
  let ?rows = "map (\<lambda>r. if row_id r = row_id p then charged p else r) (programs t)"
  have "identity (if row_id r = row_id p then charged p else r) = identity r"
    if "r \<in> set (programs t)" for r
    using program_ids.keyed_unique [OF assms(1) that assms(2)] by auto
  then have "map identity ?rows = map identity (programs t)" by simp
  then have "program_ids.keyed ?rows" using assms(1) by (simp only: keyed_by_identity)
  moreover have "charged p \<in> set ?rows" using assms(2) by force
  ultimately have "find (\<lambda>y. Some (row_id y) = Some (row_id p)) ?rows = Some (charged p)"
    using program_ids.keyed_find [of ?rows "charged p" "row_id p"] by simp
  then show ?thesis by (simp add: program_by_id_def paid_tables_def)
qed

lemma run_answered:
  "run_io (process_merge config e payload delivery) w = (Inr answer, w') \<Longrightarrow>
     parse_json lib body = Inr payload \<Longrightarrow> decode_event payload = Some e \<Longrightarrow>
     run_io (handle_delivery lib config ''pull_request'' delivery body) w =
       (Response 200 answer, counted ''waveflow_gateway_payout_success_total'' w')"
  by (simp add: handle_delivery_def)

text \<open>What is answered, and left in the log, when the database refuses the last write.\<close>

lemma run_failed:
  assumes "run_io (process_merge config e payload delivery) w = (Inl (DatabaseError text), w1)"
    and "parse_json lib body = Inr payload" "decode_event payload = Some e" "reliable w1"
  shows "\<exists>w'. run_io (handle_delivery lib config ''pull_request'' delivery body) w =
      (map_error (DatabaseError text), w') \<and> reliable w' \<and> payouts (db w') = payouts (db w1) \<and>
      programs (db w') = programs (db w1) \<and> contributors (db w') = contributors (db w1) \<and>
      prefix (webhook_events (db w1)) (webhook_events (db w'))"
proof -
  let ?v = "counted ''waveflow_gateway_webhook_failed_total'' w1"
  have rel: "reliable ?v" using assms(4) by simp
  show ?thesis
    using assms(1-3)
    by (simp add: handle_delivery_def conclude_failure_def Let_def run_persist_webhook_event [OF rel]
        logged_def split: option.split)
      (use assms(4) in simp)
qed

lemma run_once_new:
  assumes "reliable w" and "log_refusal w (Some d) = None"
  shows "run_io (once_per_delivery (Some d) ty rest) w =
    run_io rest (logged (hook_row (tick w) (Some d) ty ''pending'' None (JObject [])
      ''processing'' None) (tick w))"
proof -
  have fresh: "find (\<lambda>r. hook_delivery_id r = Some d) (webhook_events (db w)) = None"
    using assms(2) by (auto simp: log_refusal_def find_None_iff list_ex_iff split: if_splits)
  have "log_refusal (tick w) (Some d) = log_refusal w (Some d)" by (simp add: log_refusal_def)
  then have "log_refusal (tick w) (Some d) = None" using assms(2) by simp
  with assms(1) fresh show ?thesis
    by (simp add: once_per_delivery_def run_reads run_claim_delivery_id)
qed

lemma run_once_seen:
  assumes "reliable w" and "h \<in> set (webhook_events (db w))" "hook_delivery_id h = Some d"
  shows "run_io (once_per_delivery (Some d) ty rest) w = (duplicate_delivery d, tick w)"
proof -
  have "find (\<lambda>r. hook_delivery_id r = Some d) (webhook_events (db w)) \<noteq> None"
    using assms(2,3) by (auto simp: find_None_iff)
  with assms(1) show ?thesis by (simp add: once_per_delivery_def run_reads)
qed

lemma run_authentic:
  assumes "authentic_merge lib config hs body e"
  shows "run_io (github_webhook lib config hs body) w =
    run_io (once_per_delivery (header_str ''x-github-delivery'' hs) ''pull_request''
      (handle_delivery lib config ''pull_request'' (header_str ''x-github-delivery'' hs) body))
      (counted ''waveflow_gateway_webhook_total'' w)"
  using assms by (simp add: authentic_merge_def github_webhook_def Let_def flip: signature_of_def)

lemma authentic_payload:
  assumes "authentic_merge lib config hs body e"
  obtains payload where "parse_json lib body = Inr payload" "decode_event payload = Some e"
    "merged_to_default e"
  using assms that by (auto simp: authentic_merge_def)

text \<open>The world after a merge was paid and answered: one payout, one charge, one row in the log.\<close>

definition answered_world ::
  "world \<Rightarrow> github_pull_request_event \<Rightarrow> program_row \<Rightarrow> string \<Rightarrow> i64 \<Rightarrow> string \<Rightarrow> json \<Rightarrow> world" where
  "answered_world w e p address pr tx payload =
     (let w1 = counted ''waveflow_gateway_webhook_total'' w;
          w2 = due_world w1 e p address pr tx
      in counted ''waveflow_gateway_payout_success_total''
           (logged (hook_row w2 None ''pull_request'' (full_name (event_repository e)) (Some pr)
              payload ''processed'' None) w2))"

lemma run_first_delivery:
  assumes "reliable w" and "schema_ok (db w)" and "authentic_merge lib config hs body e"
    and "merge_due w e p address pr" and "due_tx config p e tx"
    and "header_str ''x-github-delivery'' hs = None"
    and "\<not> list_ex (\<lambda>h. hook_id h = next_uuid (drew_uuid w)) (webhook_events (db w))"
    and "parse_json lib body = Inr payload"
  shows "run_io (github_webhook lib config hs body) w =
    (Response 200 (processed (next_uuid w) tx (row_id p)), answered_world w e p address pr tx payload)"
proof -
  let ?w = "counted ''waveflow_gateway_webhook_total'' w"
  obtain payload' where "parse_json lib body = Inr payload'" "decode_event payload' = Some e"
    and merged: "merged_to_default e"
    by (rule authentic_payload [OF assms(3)])
  with assms(8) have payload: "parse_json lib body = Inr payload" "decode_event payload = Some e"
    by simp_all
  have keyed: "program_ids.keyed (programs (db w))" using assms(2) by (simp add: schema_ok_def)
  have "log_refusal (due_world ?w e p address pr tx) None = None"
    unfolding log_refusal_due using assms(7) by simp
  with run_process_merge [of ?w e p address pr config tx payload None] assms(1,4,5) keyed merged
  have "run_io (process_merge config e payload None) ?w =
      (Inr (processed (next_uuid w) tx (row_id p)),
       logged (hook_row (due_world ?w e p address pr tx) None ''pull_request''
         (full_name (event_repository e)) (Some pr) payload ''processed'' None)
         (due_world ?w e p address pr tx))"
    by (simp add: Let_def)
  from run_answered [OF this payload] show ?thesis
    using assms(6) by (simp add: run_authentic [OF assms(3)] once_per_delivery_def answered_world_def Let_def)
qed

lemma answered_world_facts:
  assumes "schema_ok (db w)" "p \<in> set (programs (db w))"
  shows "payouts (db (answered_world w e p address pr tx payload)) = payouts (db w) @
      [due_row (counted ''waveflow_gateway_webhook_total'' w) e p address pr tx]"
    and "program_by_id (row_id p) (db (answered_world w e p address pr tx payload)) = Some (charged p)"
    and "contributors (db (answered_world w e p address pr tx payload)) = contributors (db w)"
proof -
  have "program_ids.keyed (programs (db w))" using assms(1) by (simp add: schema_ok_def)
  from paid_program [OF this assms(2)]
  show "program_by_id (row_id p) (db (answered_world w e p address pr tx payload)) = Some (charged p)"
    by (simp add: answered_world_def Let_def logged_def due_world_facts program_by_id_def paid_tables_def)
qed (simp_all add: answered_world_def Let_def logged_def due_world_facts paid_tables_def)

lemma merge_due_program: "merge_ready w e p address pr \<Longrightarrow> p \<in> set (programs (db w))"
  "merge_due w e p address pr \<Longrightarrow> p \<in> set (programs (db w))"
  by (simp_all add: merge_due_def merge_ready_def unpaid_def)

lemma log_refusal_recorded:
  assumes "h \<in> set (webhook_events (db w))" "hook_delivery_id h = Some d"
  obtains msg where "log_refusal w (Some d) = Some msg"
proof -
  have "list_ex (\<lambda>h. hook_delivery_id h = Some d) (webhook_events (db w))"
    using assms by (auto simp: list_ex_iff)
  then have "log_refusal w (Some d) \<noteq> None" by (simp add: log_refusal_def)
  with that show thesis by auto
qed

text \<open>A delivery whose id is in the log is answered as a duplicate, for ever.\<close>

lemma redelivered:
  assumes "authentic_merge lib config hs body e" "header_str ''x-github-delivery'' hs = Some d"
    and "h \<in> set (webhook_events (db w))" "hook_delivery_id h = Some d"
    and "evolves w v" "reliable v"
  shows "\<exists>v'. run_io (github_webhook lib config hs body) v = (duplicate_delivery d, v') \<and> db v' = db v"
proof -
  have "h \<in> set (webhook_events (db v))"
    using assms(3,5) by (auto simp: moves_def dest: lasting(4))
  then show ?thesis
    using run_once_seen [of "counted ''waveflow_gateway_webhook_total'' v" h d] assms(2,4,6)
    by (simp add: run_authentic [OF assms(1)])
qed

end
