(* ===== verification/Service_Answers.thy ===== *)
theory Service_Answers
  imports Gateway_Runs
begin

text \<open>
  What an answer says about the run it came from, whatever the other requests did in between:
  the elimination rules for interleaved handlers, and with them the meaning of the answers of
  the webhook.
\<close>

lemma interleaved_try_Inr:
  assumes "interleaved evolves (try_io m k) w (Inr y) w''"
  obtains x w' where "interleaved evolves m w (Inr x) w'" "interleaved evolves (k x) w' (Inr y) w''"
  using assms by (auto elim!: interleaved_try dest!: world.interleaved_Return)

lemma interleaved_return_Inr:
  "interleaved evolves (try_io (Return v) k) w (Inr y) w'' \<Longrightarrow>
     \<exists>x. v = Inr x \<and> interleaved evolves (k x) w (Inr y) w''"
  by (cases v) (auto simp: try_io_def dest: world.interleaved_Return)

lemma interleaved_wrote:
  assumes "interleaved evolves (statement q) w (Inr x) w''"
  obtains u v time where "evolves w u" "(Inr x, db v) = q (db_engine w) time (db u)" "evolves v w''"
  using assms by (auto elim!: interleaved_statement)

section \<open>Delivery ids\<close>

definition recorded :: "string \<Rightarrow> tables \<Rightarrow> bool" where
  "recorded d t \<longleftrightarrow> (\<exists>h \<in> set (webhook_events t). hook_delivery_id h = Some d)"

lemma recorded_lasts: "evolves u v \<Longrightarrow> recorded d (db u) \<Longrightarrow> recorded d (db v)"
  unfolding recorded_def moves_def by (blast intro: lasting)

lemma insert_webhook_event_Inr:
  assumes "(Inr x, t') = insert_webhook_event i delivery ty repo pr payload st msg eng time t"
  shows "delivery = Some d \<Longrightarrow> \<not> recorded d t \<and> recorded d t'"
  using assms
  by (fastforce simp: insert_webhook_event_def inserted_def insert_row_Inr webhook_constraints_def
      taken_def recorded_def list_ex_iff split: sum.splits)

lemma claimed:
  assumes "interleaved evolves (claim_delivery_id d ty) w (Inr x) w''"
  shows "\<not> recorded d (db w)" "recorded d (db w'')"
proof -
  from assms obtain i w1 where w1: "interleaved evolves new_uuid w i w1" "interleaved evolves
      (or_conflict (''duplicate delivery '' @ d) (statement (insert_webhook_event i (Some d) ty
        ''pending'' None (JObject []) ''processing'' None))) w1 (Inr x) w''"
    unfolding claim_delivery_id_def by (rule interleaved_bind)
  from w1(2) obtain w2 where w2: "interleaved evolves (statement (insert_webhook_event i (Some d) ty
        ''pending'' None (JObject []) ''processing'' None)) w1 (Inr x) w2" "evolves w2 w''"
    by (rule interleaved_or_conflict)
  from w2(1) obtain u v time where u: "evolves w1 u" and
    row: "(Inr x, db v) = insert_webhook_event i (Some d) ty
        ''pending'' None (JObject []) ''processing'' None (db_engine w1) time (db u)" and v: "evolves v w2"
    by (rule interleaved_wrote)
  have inserted: "\<not> recorded d (db u)" "recorded d (db v)"
    using insert_webhook_event_Inr [OF row] by simp_all
  have "evolves w w1" by (rule world.interleaved_may [OF w1(1)]) simp
  then have "evolves w u" using u by (rule world.may_trans)
  with inserted(1) show "\<not> recorded d (db w)" using recorded_lasts by blast
  from world.may_trans [OF v w2(2)] inserted(2) show "recorded d (db w'')" by (rule recorded_lasts)
qed

text \<open>A delivery whose id is recorded only ever adds to the log, whatever the others do.\<close>

lemma duplicate_obeys:
  assumes "recorded d (db w)"
  shows "obeys evolves (moves log_only) w (once_per_delivery (Some d) ty rest)"
proof -
  have log: "obeys evolves (moves log_only) v m" if "steps_in (moves log_only) m"
    for v and m :: "'x handler"
    using that by (rule steps_in_obeys)
  have refused: "obeys evolves (moves log_only) v
      (bind_io (claim_delivery_id d ty) (\<lambda>claim.
       case claim of Inl err \<Rightarrow> Return (map_error err) | Inr _ \<Rightarrow> rest))"
    if "evolves w v" for v
  proof (rule world.obeys_bind)
    show "obeys evolves (moves log_only) v (claim_delivery_id d ty)"
      by (rule log) (simp add: handler_safe)
  next
    fix r v'
    assume "interleaved evolves (claim_delivery_id d ty) v r v'"
    with recorded_lasts [OF that assms] obtain err where "r = Inl err"
      using claimed(1) by (cases r) blast+
    then show "obeys evolves (moves log_only) v'
        (case r of Inl err \<Rightarrow> Return (map_error err) | Inr _ \<Rightarrow> rest)" by simp
  qed
  show ?thesis
    unfolding once_per_delivery_def option.case
  proof (rule world.obeys_bind)
    show "obeys evolves (moves log_only) w (delivery_id_seen d)"
      by (rule log) (simp add: handler_safe)
  next
    fix seen v
    assume "interleaved evolves (delivery_id_seen d) w seen v"
    then have "evolves w v" by (rule world.interleaved_may) (simp add: handler_safe)
    then show "obeys evolves (moves log_only) v
        (if case_sum (\<lambda>_. False) id seen then Return (duplicate_delivery d)
         else bind_io (claim_delivery_id d ty) (\<lambda>claim.
           case claim of Inl err \<Rightarrow> Return (map_error err) | Inr _ \<Rightarrow> rest))"
      using refused by simp
  qed
qed

lemma github_webhook_duplicate:
  assumes "recorded d (db w)" "header_str ''x-github-delivery'' hs = Some d"
  shows "obeys evolves (moves log_only) w (github_webhook lib config hs body)"
  unfolding github_webhook_def Let_def
proof (rule world.obeys_bind)
  show "obeys evolves (moves log_only) w (count ''waveflow_gateway_webhook_total'')"
    by (rule steps_in_obeys) (simp add: reflp_def log_only_def)
next
  fix x v
  assume "interleaved evolves (count ''waveflow_gateway_webhook_total'') w x v"
  then have "evolves w v" by (rule world.interleaved_may) simp
  then have "recorded d (db v)" using assms(1) by (rule recorded_lasts)
  from duplicate_obeys [OF this] show "obeys evolves (moves log_only) v
      (case verify_github_signature lib (github_webhook_secret config) body
          (unwrap_or (header_str ''x-hub-signature-256'' hs) []) of
         Inl err \<Rightarrow> reject_delivery lib hs body err
       | Inr _ \<Rightarrow> once_per_delivery (header_str ''x-github-delivery'' hs) (event_type_of hs)
           (handle_delivery lib config (event_type_of hs) (header_str ''x-github-delivery'' hs) body))"
    by (auto simp: assms(2) handler_safe split: sum.split intro: steps_in_obeys)
qed

text \<open>A delivery whose signature is refused adds nothing but its refusal to the log.\<close>

definition refusals_only :: "tables \<Rightarrow> tables \<Rightarrow> bool" where
  "refusals_only t t' \<longleftrightarrow> log_only t t' \<and>
     (\<forall>h \<in> set (webhook_events t'). h \<in> set (webhook_events t) \<or>
        hook_status h = ''rejected'' \<and> hook_error_message h = Some ''invalid webhook signature'')"

lemma reflp_refusals_only [simp]: "reflp refusals_only"
  using logging_log_only by (simp add: reflp_def refusals_only_def logging_def)

lemma sql_in_refusals_only:
  "sql_in refusals_only (insert_webhook_event i d ty repo pr payload ''rejected''
     (Some ''invalid webhook signature''))"
proof -
  have "sql_in log_only (insert_webhook_event i d ty repo pr payload ''rejected''
      (Some ''invalid webhook signature''))"
    using logging_log_only by (simp add: logging_def)
  then show ?thesis
    by (auto simp: sql_in_def refusals_only_def reflp_def insert_webhook_event_def inserted_def
        insert_row_Inr split: sum.splits)
qed

lemma refused_steps:
  assumes "verify_github_signature lib (github_webhook_secret config) body (signature_of hs) = Inl err"
  shows "steps_in (moves refusals_only) (github_webhook lib config hs body)"
  using assms
  unfolding github_webhook_def reject_delivery_def persist_webhook_event_def signature_of_def
  by (auto simp: Let_def intro!: steps_in_bind steps_in_new_uuid steps_in_count steps_in_or
      steps_in_statement sql_in_refusals_only)

lemma persisted:
  assumes "interleaved evolves (persist_webhook_event (Some d) ty repo pr payload st msg) w (Inr x) w''"
  shows "\<not> recorded d (db w)"
proof -
  from assms obtain i w1 where w1: "interleaved evolves new_uuid w i w1" "interleaved evolves
      (or_database_error (statement (insert_webhook_event i (Some d) ty repo
        (map_option i64_clamped pr) payload st msg))) w1 (Inr x) w''"
    unfolding persist_webhook_event_def by (rule interleaved_bind)
  from w1(2) obtain w2 where w2: "interleaved evolves (statement (insert_webhook_event i (Some d) ty repo
        (map_option i64_clamped pr) payload st msg)) w1 (Inr x) w2" "evolves w2 w''"
    by (rule interleaved_or_database)
  from w2(1) obtain u v time where u: "evolves w1 u" and
    row: "(Inr x, db v) = insert_webhook_event i (Some d) ty repo
        (map_option i64_clamped pr) payload st msg (db_engine w1) time (db u)" and "evolves v w2"
    by (rule interleaved_wrote)
  have "evolves w w1" by (rule world.interleaved_may [OF w1(1)]) simp
  then have "evolves w u" using u by (rule world.may_trans)
  then show ?thesis using recorded_lasts insert_webhook_event_Inr [OF row] by blast
qed

section \<open>Payouts\<close>

lemma insert_payout_Inr:
  "(Inr x, t') = insert_payout i pid pr username address points amount tx eng time t \<Longrightarrow>
     \<exists>r \<in> set (payouts t'). payout_id r = i \<and> payout_program_id r = pid \<and> payout_pr_number r = pr \<and>
       payout_stellar_address r = address \<and> payout_amount r = amount \<and> payout_tx_hash r = tx"
  by (auto simp: insert_payout_def inserted_def insert_row_Inr split: sum.splits)

lemma persisted_payout:
  assumes "interleaved evolves (persist_payout pid merge address amount tx) w (Inr i) w''"
  shows "\<exists>r \<in> set (payouts (db w'')). payout_id r = i \<and> payout_program_id r = pid \<and>
    sint (payout_pr_number r) = uint (merge_pr_number merge) \<and>
    payout_stellar_address r = address \<and> payout_tx_hash r = Some tx"
proof -
  from assms obtain j w1 where "interleaved evolves
    (try_io (Return (ok_or_else (i64_of_i128 amount) (InternalError ''amount overflow'')))
       (\<lambda>amount_i64.
     try_io (Return (ok_or_else (i64_of_u64 (merge_pr_number merge))
         (InternalError ''pr_number overflow''))) (\<lambda>pr_number.
     try_io (or_conflict
         (''PR '' @ decimal (unat (merge_pr_number merge)) @ '' already processed for program '' @ pid)
         (statement (insert_payout j pid pr_number (merge_github_username merge) address
            (case i32_of_u32 (merge_points merge) of None \<Rightarrow> 1 | Some n \<Rightarrow> n)
            amount_i64 (Some tx)))) (\<lambda>_.
     Return (Inr j))))) w1 (Inr i) w''"
    unfolding persist_payout_def by (rule interleaved_bind)
  then obtain a pr where pr: "sint pr = uint (merge_pr_number merge)" and
    rest: "interleaved evolves (try_io (or_conflict
         (''PR '' @ decimal (unat (merge_pr_number merge)) @ '' already processed for program '' @ pid)
         (statement (insert_payout j pid pr (merge_github_username merge) address
            (case i32_of_u32 (merge_points merge) of None \<Rightarrow> 1 | Some n \<Rightarrow> n) a (Some tx))))
       (\<lambda>_. Return (Inr j))) w1 (Inr i) w''"
    by (auto dest!: interleaved_return_Inr)
  from rest obtain x w2 where x: "interleaved evolves (or_conflict
         (''PR '' @ decimal (unat (merge_pr_number merge)) @ '' already processed for program '' @ pid)
         (statement (insert_payout j pid pr (merge_github_username merge) address
            (case i32_of_u32 (merge_points merge) of None \<Rightarrow> 1 | Some n \<Rightarrow> n) a (Some tx))))
         w1 (Inr x) w2" and last: "interleaved evolves (Return (Inr j :: waveflow_error + uuid)) w2 (Inr i) w''"
    by (rule interleaved_try_Inr)
  from last have "j = i" "evolves w2 w''" by (auto dest: world.interleaved_Return)
  from x obtain w3 where w3: "interleaved evolves
         (statement (insert_payout j pid pr (merge_github_username merge) address
            (case i32_of_u32 (merge_points merge) of None \<Rightarrow> 1 | Some n \<Rightarrow> n) a (Some tx)))
         w1 (Inr x) w3" "evolves w3 w2"
    by (rule interleaved_or_conflict)
  from w3(1) obtain u v time where "evolves w1 u" and
    row: "(Inr x, db v) = insert_payout j pid pr (merge_github_username merge) address
       (case i32_of_u32 (merge_points merge) of None \<Rightarrow> 1 | Some n \<Rightarrow> n) a (Some tx)
       (db_engine w1) time (db u)" and v: "evolves v w3"
    by (rule interleaved_wrote)
  have "evolves v w''"
    using world.may_trans [OF world.may_trans [OF v w3(2)] \<open>evolves w2 w''\<close>] .
  moreover from insert_payout_Inr [OF row] have "\<exists>r \<in> set (payouts (db v)). payout_id r = j \<and>
      payout_program_id r = pid \<and> payout_pr_number r = pr \<and> payout_stellar_address r = address \<and>
      payout_tx_hash r = Some tx" by blast
  ultimately show ?thesis
    using pr \<open>j = i\<close> unfolding moves_def by (blast dest: lasting(3))
qed

section \<open>The answer processed\<close>

text \<open>What the tables hold when a merge was answered as processed.\<close>

definition paid_as :: "tables \<Rightarrow> uuid \<Rightarrow> string \<Rightarrow> uuid \<Rightarrow> bool" where
  "paid_as t i tx pid \<longleftrightarrow>
     (\<exists>r \<in> set (payouts t). payout_id r = i \<and> payout_program_id r = pid \<and> payout_tx_hash r = Some tx)"

lemma paid_as_lasts: "evolves u v \<Longrightarrow> paid_as (db u) i tx pid \<Longrightarrow> paid_as (db v) i tx pid"
  unfolding paid_as_def moves_def by (blast dest: lasting(3))

lemma processed_inject [simp]:
  "processed i tx pid = processed i' tx' pid' \<longleftrightarrow> i = i' \<and> tx = tx' \<and> pid = pid'"
  "already_processed existing pid' pr \<noteq> processed i tx pid"
  by (auto simp: processed_def already_processed_def)

text \<open>
  \<open>yields P m Q\<close>: a success of the handler, run among others from a world with \<open>P\<close>, answers an
  \<open>x\<close> and leaves a world with \<open>Q x\<close>.
\<close>

definition yields :: "(world \<Rightarrow> bool) \<Rightarrow> 'a handler \<Rightarrow> ('a \<Rightarrow> world \<Rightarrow> bool) \<Rightarrow> bool" where
  "yields P m Q \<longleftrightarrow>
     (\<forall>w x w'. P w \<longrightarrow> interleaved evolves m w (Inr x) w' \<longrightarrow> Q x w')"

lemma yields_try:
  "yields P m R \<Longrightarrow> (\<And>x. yields (R x) (k x) Q) \<Longrightarrow> yields P (try_io m k) Q"
  unfolding yields_def by (blast elim: interleaved_try_Inr)

lemma yields_return:
  "(\<And>x u w. v = Inr x \<Longrightarrow> P u \<Longrightarrow> evolves u w \<Longrightarrow> Q x w) \<Longrightarrow> yields P (Return v) Q"
  unfolding yields_def by (blast dest: world.interleaved_Return)

lemma yields_pure:
  "(\<And>x. v = Inr x \<Longrightarrow> yields P (k x) Q) \<Longrightarrow> yields P (try_io (Return v) k) Q"
  unfolding yields_def by (blast dest: interleaved_return_Inr)

lemma yields_keep:
  "steps_in evolves m \<Longrightarrow> (\<And>u v. evolves u v \<Longrightarrow> P u \<Longrightarrow> P v) \<Longrightarrow> yields P m (\<lambda>_. P)"
  unfolding yields_def by (blast dest: world.interleaved_may)

definition claimed_by :: "string option \<Rightarrow> world \<Rightarrow> bool" where
  "claimed_by delivery w \<longleftrightarrow> (\<forall>d. delivery = Some d \<longrightarrow> recorded d (db w))"

lemma claimed_by_lasts: "evolves u v \<Longrightarrow> claimed_by delivery u \<Longrightarrow> claimed_by delivery v"
  unfolding claimed_by_def by (blast dest: recorded_lasts)

lemma claimed_paid_lasts:
  "evolves u v \<Longrightarrow> claimed_by delivery u \<and> paid_as (db u) i tx pid \<Longrightarrow>
     claimed_by delivery v \<and> paid_as (db v) i tx pid"
  by (blast dest: claimed_by_lasts paid_as_lasts)

text \<open>An answer \<open>processed\<close> is true, and only deliveries without an id get it.\<close>

definition truthful :: "string option \<Rightarrow> json \<Rightarrow> world \<Rightarrow> bool" where
  "truthful delivery answer w \<longleftrightarrow>
     (\<forall>i tx pid. answer = processed i tx pid \<longrightarrow> delivery = None \<and> paid_as (db w) i tx pid)"

lemma persist_payout_yields:
  "yields (claimed_by delivery) (persist_payout pid merge address amount tx)
     (\<lambda>i w. claimed_by delivery w \<and> paid_as (db w) i tx pid)"
  unfolding yields_def paid_as_def
  by (blast dest: persisted_payout
      claimed_by_lasts [OF world.interleaved_may [OF _ persist_payout_safe]])

lemma persist_webhook_event_yields:
  "yields (\<lambda>w. claimed_by delivery w \<and> paid_as (db w) i tx pid)
     (persist_webhook_event delivery ty repo pr payload st msg)
     (\<lambda>_ w. delivery = None \<and> paid_as (db w) i tx pid)"
  unfolding yields_def
proof (intro allI impI)
  fix w x w'
  assume before: "claimed_by delivery w \<and> paid_as (db w) i tx pid"
    and run: "interleaved evolves (persist_webhook_event delivery ty repo pr payload st msg) w (Inr x) w'"
  from run have "evolves w w'" by (rule world.interleaved_may) (simp add: handler_safe)
  then have "paid_as (db w') i tx pid" using before paid_as_lasts by blast
  moreover have "delivery = None"
    using before run persisted by (cases delivery) (auto simp: claimed_by_def)
  ultimately show "delivery = None \<and> paid_as (db w') i tx pid" by simp
qed

lemma pay_merge_yields:
  "yields (claimed_by delivery) (pay_merge config pid chain merge address payload delivery)
     (truthful delivery)"
  unfolding pay_merge_def Let_def
  by (intro yields_pure yields_try [OF yields_keep] yields_try [OF persist_payout_yields]
      yields_try [OF yields_keep [OF _ claimed_paid_lasts]]
      yields_try [OF persist_webhook_event_yields] yields_return handler_safe bookkeeping_evolve
      bookkeeping_logging)
    (auto intro: claimed_by_lasts paid_as_lasts simp: truthful_def)

lemma process_merge_yields:
  "yields (claimed_by delivery) (process_merge config e payload delivery) (truthful delivery)"
proof -
  have keep: "yields (claimed_by delivery) m (\<lambda>_. claimed_by delivery)"
    if "steps_in evolves m" for m :: "'a handler"
    by (rule yields_keep [OF that claimed_by_lasts])
  show ?thesis
    unfolding process_merge_def
    by (auto intro!: yields_pure yields_try [OF keep] pay_merge_yields handler_safe yields_return
        simp: truthful_def)
qed

section \<open>The answers of the webhook\<close>

definition answers :: "(world \<Rightarrow> bool) \<Rightarrow> (world, 'a) io \<Rightarrow> ('a \<Rightarrow> world \<Rightarrow> bool) \<Rightarrow> bool" where
  "answers P m Q \<longleftrightarrow> (\<forall>w x w'. P w \<longrightarrow> interleaved evolves m w x w' \<longrightarrow> Q x w')"

lemma answers_bind:
  "answers P m R \<Longrightarrow> (\<And>x. answers (R x) (k x) Q) \<Longrightarrow> answers P (bind_io m k) Q"
  unfolding answers_def by (blast elim: interleaved_bind)

lemma answers_return: "(\<And>u w. P u \<Longrightarrow> evolves u w \<Longrightarrow> Q x w) \<Longrightarrow> answers P (Return x) Q"
  unfolding answers_def by (blast dest: world.interleaved_Return)

lemma answers_keep:
  "steps_in evolves m \<Longrightarrow> (\<And>u v. evolves u v \<Longrightarrow> P u \<Longrightarrow> P v) \<Longrightarrow> answers P m (\<lambda>_. P)"
  unfolding answers_def by (blast dest: world.interleaved_may)

lemma answers_any: "(\<And>x w. Q x w) \<Longrightarrow> answers P m Q"
  unfolding answers_def by blast

lemma answers_weaken:
  "answers P m R \<Longrightarrow> (\<And>x w. R x w \<Longrightarrow> Q x w) \<Longrightarrow> answers P m Q"
  unfolding answers_def by blast

definition truthful_response :: "string option \<Rightarrow> response \<Rightarrow> world \<Rightarrow> bool" where
  "truthful_response delivery r w \<longleftrightarrow>
     (\<forall>i tx pid. response_body r = processed i tx pid \<longrightarrow>
        delivery = None \<and> paid_as (db w) i tx pid)"

lemma other_bodies [simp]:
  "response_body (map_error err) \<noteq> processed i tx pid"
  "response_body (duplicate_delivery d) \<noteq> processed i tx pid"
  "JObject [(''status'', v)] \<noteq> processed i tx pid"
  "JObject [(''status'', v), x] \<noteq> processed i tx pid"
  by (simp_all add: map_error_def duplicate_delivery_def processed_def)

lemma conclude_failure_truthful:
  "answers P (conclude_failure delivery ty payload err) (truthful_response d)"
  unfolding conclude_failure_def Let_def
  by (cases err)
    (auto intro!: answers_bind [OF answers_any [where Q = "\<lambda>_ _. True"]] answers_return
      simp: truthful_response_def)

lemma process_merge_answers:
  "answers (claimed_by delivery) (process_merge config e payload delivery)
     (\<lambda>r w. \<forall>answer. r = Inr answer \<longrightarrow> truthful delivery answer w)"
  using process_merge_yields unfolding answers_def yields_def by blast

lemma handle_delivery_truthful:
  "answers (claimed_by delivery) (handle_delivery lib config ty delivery body)
     (truthful_response delivery)"
proof -
  have paid: "answers (truthful delivery answer)
      (bind_io (count ''waveflow_gateway_payout_success_total'') (\<lambda>_.
         Return (Response 200 answer))) (truthful_response delivery)" for answer
  proof -
    have last: "truthful delivery answer u \<Longrightarrow> evolves u w \<Longrightarrow> truthful delivery answer w" for u w
      unfolding truthful_def by (blast dest: paid_as_lasts)
    have "answers (truthful delivery answer) (count ''waveflow_gateway_payout_success_total'')
        (\<lambda>_. truthful delivery answer)"
      by (rule answers_keep) (auto intro: last)
    moreover have "truthful_response delivery (Response 200 answer) = truthful delivery answer"
      by (simp add: fun_eq_iff truthful_response_def truthful_def)
    ultimately show ?thesis by (auto intro!: answers_bind answers_return intro: last)
  qed
  have ignored: "answers P (bind_io m (\<lambda>_. Return (Response 200 (JObject [(''status'', v)]))))
      (truthful_response delivery)" for P v and m :: "unit handler"
    by (rule answers_bind [OF answers_any [where Q = "\<lambda>_ _. True"]])
      (auto intro!: answers_return simp: truthful_response_def)
  show ?thesis
    unfolding handle_delivery_def
    by (auto split: sum.split option.split simp: truthful_response_def [of _ "map_error _"]
        intro!: answers_return answers_bind [OF process_merge_answers] paid conclude_failure_truthful ignored)
qed

lemma claim_answers:
  "answers P (claim_delivery_id d ty) (\<lambda>r w. \<forall>x. r = Inr x \<longrightarrow> claimed_by (Some d) w)"
  unfolding answers_def claimed_by_def by (auto dest: claimed(2))

lemma github_webhook_truthful:
  "answers (\<lambda>_. True) (github_webhook lib config hs body)
     (truthful_response (header_str ''x-github-delivery'' hs))"
proof -
  have rejected: "answers P (reject_delivery lib hs body err) (truthful_response d)" for P err d
    unfolding reject_delivery_def Let_def
    by (auto intro!: answers_bind [OF answers_any [where Q = "\<lambda>_ _. True"]] answers_return
        simp: truthful_response_def)
  have once: "answers (\<lambda>_. True) (once_per_delivery d ty (handle_delivery lib config ty d body))
      (truthful_response d)" for d ty
  proof (cases d)
    case None
    have "answers (claimed_by None) (handle_delivery lib config ty None body) (truthful_response None)"
      by (rule handle_delivery_truthful)
    moreover have "claimed_by None = (\<lambda>_. True)" by (simp add: claimed_by_def fun_eq_iff)
    ultimately show ?thesis by (simp add: None once_per_delivery_def)
  next
    case (Some delivery)
    have rest: "answers (\<lambda>w. \<forall>x. r = Inr x \<longrightarrow> claimed_by (Some delivery) w)
        (case r of Inl err \<Rightarrow> Return (map_error err)
         | Inr _ \<Rightarrow> handle_delivery lib config ty (Some delivery) body)
        (truthful_response (Some delivery))" for r
      by (cases r) (auto intro!: answers_return handle_delivery_truthful simp: truthful_response_def)
    show ?thesis
      unfolding Some once_per_delivery_def
      by (auto intro!: answers_bind [OF answers_any [where Q = "\<lambda>_ _. True"]] answers_return
          answers_bind [OF claim_answers] rest simp: truthful_response_def)
  qed
  show ?thesis
    unfolding github_webhook_def Let_def
    by (rule answers_bind [OF answers_any [where Q = "\<lambda>_ _. True"]])
      (auto intro!: rejected once split: sum.split)
qed

end
