(* ===== verification/Ledger.thy ===== *)
theory Ledger
  imports Concurrency
begin

text \<open>
  Two more things a handler is held to whatever the others do: what it can answer (\<open>returns\<close>),
  and what its actions do to a value of the world (\<open>pays\<close>): it may lower the value only by what
  it raised it before. The locale \<open>ledger\<close> carries the latter to every reachable state of a
  service, requests dropped in the middle included.
\<close>

section \<open>Answers of a kind\<close>

inductive returns :: "('a \<Rightarrow> bool) \<Rightarrow> ('w, 'a) io \<Rightarrow> bool" for Q :: "'a \<Rightarrow> bool" where
  returns_Return: "Q x \<Longrightarrow> returns Q (Return x)"
| returns_Atomic: "(\<And>w. returns Q (fst (f w))) \<Longrightarrow> returns Q (Atomic f)"

inductive_simps returns_simps [simp]: "returns Q (Return x)" "returns Q (Atomic f)"

lemma returns_act: "(\<And>w. Q (fst (f w))) \<Longrightarrow> returns Q (act f)"
  by (simp add: act_def)

lemma returns_bind: "returns P m \<Longrightarrow> (\<And>x. P x \<Longrightarrow> returns Q (k x)) \<Longrightarrow> returns Q (bind_io m k)"
  by (induction rule: returns.induct) auto

lemma returns_any: "(\<And>x. Q x) \<Longrightarrow> returns Q m"
proof (induction m)
  case (Atomic f)
  have "fst (f w) \<in> Basic_BNFs.fsts (f w)" for w by (cases "f w") simp
  then have "returns Q (fst (f w))" for w by (rule Atomic.IH [OF rangeI]) (rule Atomic.prems)
  then show ?case by simp
qed simp

lemma returns_weaken: "returns P m \<Longrightarrow> (\<And>x. P x \<Longrightarrow> Q x) \<Longrightarrow> returns Q m"
  by (induction rule: returns.induct) auto

lemma returns_map: "returns (\<lambda>x. Q (f x)) m \<Longrightarrow> returns Q (answer_map f m)"
  unfolding answer_map_def by (erule returns_bind) simp

lemma returns_then: "(\<And>x. returns Q (k x)) \<Longrightarrow> returns Q (bind_io m k)"
  by (rule returns_bind [OF returns_any [of "\<lambda>_. True"]]) auto

lemma interleaved_returns: "interleaved others m w x w' \<Longrightarrow> returns Q m \<Longrightarrow> Q x"
  by (induction rule: interleaved.induct) (simp, metis fst_conv returns_simps(2), simp)

section \<open>Values\<close>

text \<open>
  \<open>pays value q c m\<close>: with a credit of \<open>c\<close>, the handler's actions lower the value by no more
  than the credit, which the actions that raise the value extend; an answer \<open>x\<close> leaves a
  credit of \<open>q x\<close>.
\<close>

inductive pays :: "('w \<Rightarrow> int) \<Rightarrow> ('a \<Rightarrow> int) \<Rightarrow> int \<Rightarrow> ('w, 'a) io \<Rightarrow> bool"
  for val :: "'w \<Rightarrow> int" and q :: "'a \<Rightarrow> int" where
  pays_Return: "0 \<le> q x \<Longrightarrow> q x \<le> c \<Longrightarrow> pays val q c (Return x)"
| pays_Atomic: "0 \<le> c \<Longrightarrow>
     (\<And>w. \<exists>c'. val w + c' \<le> val (snd (f w)) + c \<and> pays val q c' (fst (f w))) \<Longrightarrow>
     pays val q c (Atomic f)"

inductive_cases pays_AtomicE: "pays val q c (Atomic f)"

lemma pays_credit: "pays val q c m \<Longrightarrow> 0 \<le> c"
  by (induction rule: pays.induct) auto

lemma pays_more: "pays val q c m \<Longrightarrow> c \<le> c' \<Longrightarrow> pays val q c' m"
proof (induction arbitrary: c' rule: pays.induct)
  case (pays_Atomic c f)
  show ?case
  proof (rule pays.pays_Atomic)
    fix w
    from pays_Atomic.IH [of w] obtain d where "val w + d \<le> val (snd (f w)) + c"
        "pays val q d (fst (f w))" by blast
    with pays_Atomic.prems show "\<exists>d. val w + d \<le> val (snd (f w)) + c' \<and> pays val q d (fst (f w))"
      by force
  qed (use pays_Atomic in auto)
qed (auto intro: pays_Return)

lemma pays_bind:
  "pays val q c m \<Longrightarrow> (\<And>x. 0 \<le> q x \<Longrightarrow> pays val r (q x) (k x)) \<Longrightarrow> pays val r c (bind_io m k)"
proof (induction rule: pays.induct)
  case (pays_Return x c)
  then show ?case by (auto intro: pays_more)
next
  case (pays_Atomic c f)
  have "\<exists>d. val w + d \<le> val (snd (f w)) + c \<and> pays val r d (bind_io (fst (f w)) k)" for w
    using pays_Atomic.IH [of w] pays_Atomic.prems by blast
  then show ?case using pays_Atomic.hyps by (auto intro!: pays.pays_Atomic)
qed

lemma pays_try:
  "pays val q c m \<Longrightarrow> (\<And>e. 0 \<le> q (Inl e) \<Longrightarrow> r (Inl e) = 0) \<Longrightarrow>
     (\<And>x. 0 \<le> q (Inr x) \<Longrightarrow> pays val r (q (Inr x)) (k x)) \<Longrightarrow> pays val r c (try_io m k)"
  unfolding try_io_def
  by (rule pays_bind) (auto split: sum.split intro: pays_Return)

lemma pays_map:
  "pays val q c m \<Longrightarrow> (\<And>x. 0 \<le> q x \<Longrightarrow> 0 \<le> r (f x) \<and> r (f x) \<le> q x) \<Longrightarrow>
     pays val r c (answer_map f m)"
  unfolding answer_map_def by (rule pays_bind) (auto intro: pays_Return)

lemma pays_act:
  "0 \<le> c \<Longrightarrow> (\<And>w. 0 \<le> q (fst (f w)) \<and> val w + q (fst (f w)) \<le> val (snd (f w)) + c) \<Longrightarrow>
     pays val q c (act f)"
  unfolding act_def by (rule pays_Atomic) (auto intro: pays_Return)

lemma steps_pay:
  "steps_in (\<lambda>w w'. val w \<le> val w') m \<Longrightarrow> 0 \<le> c \<Longrightarrow> (\<And>x. 0 \<le> q x \<and> q x \<le> c) \<Longrightarrow>
     pays val q c m"
proof (induction rule: steps_in.induct)
  case (acts f)
  then show ?case by (intro pays_Atomic) force+
qed (auto intro: pays_Return)

section \<open>A service that keeps its books\<close>

locale ledger =
  fixes val :: "'w \<Rightarrow> int" and handler :: "'req \<Rightarrow> ('w, 'a) io"
  assumes handler_pays: "pays val (\<lambda>_. 0) 0 (handler req)"
begin

text \<open>The requests in the pool have credits that the world's value covers.\<close>

definition covered :: "'w \<Rightarrow> ('req, 'w, 'a) service_state \<Rightarrow> int list \<Rightarrow> bool" where
  "covered w0 s cs \<longleftrightarrow> val w0 + sum_list cs \<le> val (service_world s) \<and>
     list_all2 (\<lambda>c (req, m). pays val (\<lambda>_. 0) c m) cs (service_pool s)"

lemma covered_nonneg: "covered w0 s cs \<Longrightarrow> c \<in> set cs \<Longrightarrow> 0 \<le> c"
  by (auto simp: covered_def list_all2_conv_all_nth in_set_conv_nth split: prod.splits)
    (metis pays_credit prod.collapse)

lemma sum_list_remove:
  "i < length cs \<Longrightarrow> sum_list (take i cs @ drop (Suc i) cs) = sum_list cs - (cs ! i :: int)"
  using arg_cong [OF id_take_nth_drop, of i cs sum_list] by simp

lemma covered_step:
  assumes "covered w0 s cs" "service_step handler s s'"
  shows "\<exists>cs'. covered w0 s' cs'"
  using assms(2)
proof (cases rule: service_step.cases)
  case (arrives w pool reqs req)
  with assms(1) have "covered w0 s' (cs @ [0])"
    by (auto simp: covered_def handler_pays intro: list_all2_appendI)
  then show ?thesis ..
next
  case (advances i pool req f w m w' reqs)
  have len: "length cs = length pool"
    using assms(1) advances(1) by (auto simp: covered_def dest: list_all2_lengthD)
  have "pays val (\<lambda>_. 0) (cs ! i) (Atomic f)"
    using assms(1) advances(1,3,4) by (auto simp: covered_def dest: list_all2_nthD2)
  then obtain c where c: "val w + c \<le> val w' + cs ! i" "pays val (\<lambda>_. 0) c m"
    using advances(5) by (elim pays_AtomicE) (metis fst_conv snd_conv)
  have "sum_list (cs[i := c]) = sum_list cs + c - cs ! i"
    using advances(3) len sum_list_remove [of i cs] by (simp add: upd_conv_take_nth_drop)
  then have "covered w0 s' (cs[i := c])"
    using assms(1) advances(1,2) c by (auto simp: covered_def intro: list_all2_update_cong)
  then show ?thesis ..
next
  case (dropped i pool w reqs)
  have len: "length cs = length pool"
    using assms(1) dropped(1) by (auto simp: covered_def dest: list_all2_lengthD)
  with covered_nonneg [OF assms(1)] dropped(3)
  have "sum_list (take i cs @ drop (Suc i) cs) \<le> sum_list cs"
    by (simp add: sum_list_remove del: sum_list_append)
  then have "covered w0 s' (take i cs @ drop (Suc i) cs)"
    using assms(1) dropped(1,2)
    by (auto simp: covered_def simp del: sum_list_append
        intro!: list_all2_appendI list_all2_takeI list_all2_dropI)
  then show ?thesis ..
qed

lemma reaches_covered: "service_reaches handler w0 s \<Longrightarrow> \<exists>cs. covered w0 s cs"
proof (induction rule: service_reaches.induct)
  case service_starts
  have "covered w0 (ServiceState w0 [] []) []" by (simp add: covered_def)
  then show ?case ..
qed (blast dest: covered_step)

lemma reaches_value: "service_reaches handler w0 s \<Longrightarrow> val w0 \<le> val (service_world s)"
proof -
  assume "service_reaches handler w0 s"
  then obtain cs where cs: "covered w0 s cs" using reaches_covered by blast
  then have "0 \<le> sum_list cs" by (simp add: covered_nonneg sum_list_nonneg)
  with cs show ?thesis by (simp add: covered_def)
qed

end

end
