(* ===== verification/Service_Ledger.thy ===== *)
theory Service_Ledger
  imports Services Ledger
begin

text \<open>
  Every request of the two services keeps the books of a program, in the sense of \<open>Ledger\<close>: the
  milestone counter may only grow by what payouts were stored.
\<close>

section \<open>The books of a program\<close>

text \<open>What was paid out for a program, what was booked on it, and the difference.\<close>

definition paid_out :: "uuid \<Rightarrow> tables \<Rightarrow> int" where
  "paid_out pid t =
     sum_list (map (sint \<circ> payout_amount) (filter (\<lambda>r. payout_program_id r = pid) (payouts t)))"

definition spent_of :: "program_row list \<Rightarrow> uuid \<Rightarrow> int" where
  "spent_of rows pid =
     (case find (\<lambda>r. row_id r = pid) rows of None \<Rightarrow> 0 | Some r \<Rightarrow> sint (row_milestone_spent r))"

definition surplus :: "uuid \<Rightarrow> tables \<Rightarrow> int" where
  "surplus pid t = paid_out pid t - spent_of (programs t) pid"

abbreviation richer :: "uuid \<Rightarrow> tables \<Rightarrow> tables \<Rightarrow> bool" where
  "richer pid t t' \<equiv> surplus pid t \<le> surplus pid t'"

lemma spent_of_Cons:
  "spent_of (r # rows) pid =
     (if row_id r = pid then sint (row_milestone_spent r) else spent_of rows pid)"
  by (simp add: spent_of_def)

lemma spent_of_append:
  "spent_of (rows @ [r]) pid =
     spent_of rows pid +
     (if list_ex (\<lambda>r. row_id r = pid) rows then 0 else spent_of [r] pid)"
  by (induction rows) (simp_all add: spent_of_def)

lemma update_rows_spent:
  assumes "update_rows match change rows = Inr rows'"
    and "\<And>r r'. match r \<Longrightarrow> change r = Inr r' \<Longrightarrow> row_id r' = row_id r \<and>
       sint (row_milestone_spent r') \<le> sint (row_milestone_spent r) + d (row_id r)"
    and "0 \<le> d pid"
  shows "spent_of rows' pid \<le> spent_of rows pid + d pid"
  using assms(1,3)
proof (induction rows arbitrary: rows')
  case (Cons r rows)
  from Cons.prems(1) obtain r' rest where "rows' = r' # rest" "update_rows match change rows = Inr rest"
    and "(if match r then change r else Inr r) = Inr r'"
    by (auto split: sum.splits if_splits)
  moreover from this have "row_id r' = row_id r \<and>
      (row_id r = pid \<longrightarrow> sint (row_milestone_spent r') \<le> sint (row_milestone_spent r) + d pid)"
    using assms(2) [of r r'] Cons.prems(2) by (cases "match r") auto
  ultimately show ?case using Cons.IH Cons.prems(2) by (auto simp: spent_of_Cons)
qed (simp add: spent_of_def)

lemma update_programs_surplus:
  assumes "\<And>r r'. match r \<Longrightarrow> change r = Inr r' \<Longrightarrow> row_id r' = row_id r \<and>
       sint (row_milestone_spent r') \<le> sint (row_milestone_spent r) + d (row_id r)"
    and "0 \<le> d pid"
  shows "surplus pid t \<le> surplus pid (snd (update_programs match change t)) + d pid"
proof (cases "update_rows match change (programs t)")
  case (Inl e)
  then show ?thesis using assms(2) by (simp add: update_programs_def)
next
  case (Inr rows)
  from update_rows_spent [where d = d and pid = pid, OF Inr assms] Inr show ?thesis
    by (simp add: update_programs_def surplus_def paid_out_def)
qed

lemma charge_surplus:
  "surplus pid t \<le> surplus pid (snd (charge_program amount i eng time t)) +
    (if i = pid then \<bar>sint amount\<bar> else 0)"
  unfolding charge_program_def
  by (rule update_programs_surplus [where d = "\<lambda>k. if i = k then \<bar>sint amount\<bar> else 0"])
    (auto simp: charge_row_def checked_simps split: option.splits)

lemma update_richer [simp]:
  "sql_in (richer pid) (set_status src dst i)" "sql_in (richer pid) (set_reward reward i)"
proof -
  have "richer pid t (snd (set_status src dst i eng time t))"
    "richer pid t (snd (set_reward reward i eng time t))" for eng time t
    unfolding set_status_def set_reward_def
    by (rule update_programs_surplus [where d = "\<lambda>_. 0" and pid = pid, simplified];
        force split: if_splits)+
  then show "sql_in (richer pid) (set_status src dst i)" "sql_in (richer pid) (set_reward reward i)"
    by (simp_all add: sql_in_def reflp_def)
qed

lemma insert_richer [simp]:
  "sql_in (richer pid) (insert_program i chain repo maintainer reward cap)"
  "sql_in (richer pid) (insert_contributor i username address)"
  "sql_in (richer pid) (insert_webhook_event j delivery ty rep pr payload st msg)"
proof -
  have "richer pid t (snd (insert_program i chain repo maintainer reward cap eng time t))" for eng time t
    by (auto simp: insert_program_def inserted_def insert_row_Inr surplus_def paid_out_def
        spent_of_append split: sum.split) (simp add: spent_of_def)
  moreover have "richer pid t (snd (insert_contributor i username address eng time t))" for eng time t
    by (simp add: insert_contributor_def inserted_def surplus_def paid_out_def split: sum.split)
  moreover have "richer pid t (snd (insert_webhook_event j delivery ty rep pr payload st msg eng time t))"
    for eng time t
    by (simp add: insert_webhook_event_def inserted_def surplus_def paid_out_def split: sum.split)
  ultimately show "sql_in (richer pid) (insert_program i chain repo maintainer reward cap)"
    "sql_in (richer pid) (insert_contributor i username address)"
    "sql_in (richer pid) (insert_webhook_event j delivery ty rep pr payload st msg)"
    by (simp_all add: sql_in_def reflp_def)
qed

lemma logging_richer [simp]: "logging (richer pid)"
  by (simp add: logging_def reflp_def)

lemma insert_payout_surplus:
  assumes "insert_payout j i pr username address points amount tx eng time t = (res, t')"
  shows "res = Inr () \<and> 0 < sint amount \<and>
      surplus pid t + (if i = pid then sint amount else 0) = surplus pid t' \<or>
    (\<exists>e. res = Inl e) \<and> t' = t"
  using assms
  by (auto simp: insert_payout_def inserted_def insert_row_Inr payout_constraints_def surplus_def
      paid_out_def split: sum.splits)

section \<open>No booking without a payout\<close>

abbreviation books :: "uuid \<Rightarrow> world \<Rightarrow> int" where
  "books pid w \<equiv> surplus pid (db w)"

text \<open>Handlers that never lower the surplus.\<close>

lemma richer_pays:
  assumes "steps_in (moves (richer pid)) m" "0 \<le> c" "\<And>x. 0 \<le> q x \<and> q x \<le> c"
  shows "pays (books pid) q c m"
  using steps_in_weaken [OF assms(1)] assms(2,3) by (intro steps_pay) (auto simp: moves_def)

lemma statement_pays:
  assumes "0 \<le> c" "\<And>e. q (Inl e) = 0"
    and "\<And>eng time t r t'. sql eng time t = (r, t') \<Longrightarrow>
       0 \<le> q r \<and> surplus pid t + q r \<le> surplus pid t' + c"
  shows "pays (books pid) q c (statement sql)"
  unfolding statement_def
proof (rule pays_act [OF assms(1)])
  fix w :: world
  let ?n = "query_count w" and ?eng = "db_engine w"
  obtain r t where sql: "sql ?eng (clock_at ?eng ?n) (db w) = (r, t)" by fastforce
  from assms(3) [OF this] assms(1,2)
  show "0 \<le> q (fst (let n = query_count w; eng = db_engine w; (r, t) = sql eng (clock_at eng n) (db w);
         w = w\<lparr>query_count := Suc n\<rparr>
       in case fault_at eng n of None \<Rightarrow> (r, w\<lparr>db := t\<rparr>)
          | Some (FailsBefore msg) \<Rightarrow> (Inl (QueryFailed msg), w)
          | Some (FailsAfter msg) \<Rightarrow> (Inl (QueryFailed msg), w\<lparr>db := t\<rparr>))) \<and>
      books pid w + q (fst (let n = query_count w; eng = db_engine w;
         (r, t) = sql eng (clock_at eng n) (db w); w = w\<lparr>query_count := Suc n\<rparr>
       in case fault_at eng n of None \<Rightarrow> (r, w\<lparr>db := t\<rparr>)
          | Some (FailsBefore msg) \<Rightarrow> (Inl (QueryFailed msg), w)
          | Some (FailsAfter msg) \<Rightarrow> (Inl (QueryFailed msg), w\<lparr>db := t\<rparr>)))
      \<le> books pid (snd (let n = query_count w; eng = db_engine w;
         (r, t) = sql eng (clock_at eng n) (db w); w = w\<lparr>query_count := Suc n\<rparr>
       in case fault_at eng n of None \<Rightarrow> (r, w\<lparr>db := t\<rparr>)
          | Some (FailsBefore msg) \<Rightarrow> (Inl (QueryFailed msg), w)
          | Some (FailsAfter msg) \<Rightarrow> (Inl (QueryFailed msg), w\<lparr>db := t\<rparr>))) + c"
    by (auto simp: Let_def sql split: option.split fault.split)
qed

text \<open>The two steps that pay: the payout earns the credit, the booking spends it.\<close>

abbreviation credit :: "uuid \<Rightarrow> uuid \<Rightarrow> i128 \<Rightarrow> waveflow_error + 'a \<Rightarrow> int" where
  "credit pid i amount \<equiv> case_sum (\<lambda>_. 0) (\<lambda>_. if i = pid then sint amount else 0)"

lemma i64_of_i128_Some [simp]: "i64_of_i128 n = Some m \<longleftrightarrow> sint m = sint n"
  by (simp add: i64_of_i128_def)

lemma pays_try_return:
  "0 \<le> c \<Longrightarrow> (\<And>e. r (Inl e) = 0) \<Longrightarrow> (\<And>x. v = Inr x \<Longrightarrow> pays val r c (k x)) \<Longrightarrow>
     pays val r c (try_io (Return v) k)"
  by (cases v) (auto simp: try_io_def intro: pays_Return)

lemma persist_payout_pays:
  "pays (books pid) (credit pid i amount) 0 (persist_payout i merge address amount tx)"
proof -
  have insert: "pays (books pid) (case_sum (\<lambda>_. 0) (\<lambda>_. if i = pid then sint amount else 0)) 0
      (or_conflict msg (statement (insert_payout j i pr username address points a tx')))"
    if "sint a = sint amount" for msg j pr username points a tx'
    unfolding or_conflict_def
  proof (rule pays_map)
    have "0 \<le> case_sum (\<lambda>_. 0) (\<lambda>_. if i = pid then sint amount else 0) r \<and>
        surplus pid t + case_sum (\<lambda>_. 0) (\<lambda>_. if i = pid then sint amount else 0) r \<le> surplus pid t' + 0"
      if "insert_payout j i pr username address points a tx' eng time t = (r, t')"
      for eng time t and r :: "db_error + unit" and t'
      using insert_payout_surplus [OF that, of pid] \<open>sint a = sint amount\<close> by auto
    then show "pays (books pid) (case_sum (\<lambda>_. 0) (\<lambda>_. if i = pid then sint amount else 0)) 0
        (statement (insert_payout j i pr username address points a tx'))"
      by (intro statement_pays) simp_all
  qed (auto split: sum.split)
  show ?thesis
    unfolding persist_payout_def
  proof (rule pays_bind)
    show "pays (books pid) (\<lambda>_. 0) 0 new_uuid" by (rule richer_pays) (simp_all add: reflp_def)
  next
    fix j
    show "pays (books pid) (credit pid i amount) 0
      (try_io (Return (ok_or_else (i64_of_i128 amount) (InternalError ''amount overflow'')))
       (\<lambda>amount_i64.
     try_io (Return (ok_or_else (i64_of_u64 (merge_pr_number merge))
         (InternalError ''pr_number overflow''))) (\<lambda>pr_number.
     try_io (or_conflict
         (''PR '' @ decimal (unat (merge_pr_number merge)) @ '' already processed for program '' @ i)
         (statement (insert_payout j i pr_number (merge_github_username merge) address
            (case i32_of_u32 (merge_points merge) of None \<Rightarrow> 1 | Some n \<Rightarrow> n)
            amount_i64 (Some tx)))) (\<lambda>_.
     Return (Inr j)))))"
      by (intro pays_try_return pays_try [OF insert] pays_Return) simp_all
  qed
qed

lemma increment_pays:
  "0 \<le> (if i = pid then sint amount else 0) \<Longrightarrow>
     pays (books pid) (\<lambda>_. 0) (if i = pid then sint amount else 0) (increment_milestone_spent i amount)"
proof -
  assume pos: "0 \<le> (if i = pid then sint amount else 0)"
  have "pays (books pid) (\<lambda>_. 0) (if i = pid then sint amount else 0)
      (or_database_error (statement (charge_program a i)))" if a: "sint a = sint amount" for a
    unfolding or_database_error_def
  proof (rule pays_map)
    have "surplus pid t \<le> surplus pid t' + (if i = pid then sint amount else 0)"
      if "charge_program a i eng time t = (r, t')" for eng time t r t'
      using charge_surplus [of pid t a i eng time] that pos a by (auto split: if_splits)
    then show "pays (books pid) (\<lambda>_. 0) (if i = pid then sint amount else 0)
        (statement (charge_program a i))"
      using pos by (intro statement_pays) auto
  qed simp
  then show ?thesis
    unfolding increment_milestone_spent_def
    by (intro pays_try_return pos pays_try [where q = "\<lambda>_. 0"]) (auto intro: pays_Return)
qed

section \<open>Every handler settles its books\<close>

definition settled :: "uuid \<Rightarrow> (world, 'a) io \<Rightarrow> bool" where
  "settled pid m \<longleftrightarrow> pays (books pid) (\<lambda>_. 0) 0 m"

lemma settled_rules:
  "settled pid (Return x)"
  "settled pid m \<Longrightarrow> (\<And>x. settled pid (k x)) \<Longrightarrow> settled pid (bind_io m k)"
  "settled pid m' \<Longrightarrow> (\<And>x. settled pid (k' x)) \<Longrightarrow> settled pid (try_io m' k')"
  "(\<And>x. settled pid (k'' x)) \<Longrightarrow> settled pid (try_io (Return v) k'')"
  "settled pid m \<Longrightarrow> settled pid (answer_map f m)"
  unfolding settled_def
  by (auto intro: pays_Return pays_bind pays_map intro!: pays_try [where q = "\<lambda>_. 0"] pays_try_return)

lemma settled_steps: "steps_in (moves (richer pid)) m \<Longrightarrow> settled pid m"
  unfolding settled_def by (rule richer_pays) simp_all

lemma settled_reads: "steps_in (moves (=)) m \<Longrightarrow> settled pid m"
  by (rule settled_steps) (erule steps_in_weaken, simp add: moves_def)

lemma settled_leaves:
  "settled pid (count name)"
  "settled pid (resolve_program_id repo)"
  "settled pid (load_program_status i)"
  "settled pid (load_reward_per_point i)"
  "settled pid (payout_exists i pr)"
  "settled pid (fetch_payout_id i pr)"
  "settled pid (contributor_of_merge i merge)"
  "settled pid (persist_webhook_event delivery ty rep prn payload st msg)"
  "settled pid (claim_delivery_id d ty)"
  "settled pid (delivery_id_seen d)"
  "settled pid (conclude_failure delivery ty payload err)"
  "settled pid (reject_delivery lib hs body err)"
  by (rule settled_steps, simp add: handler_safe)+

lemmas settled_intros = settled_rules(1,2,4) settled_rules(3) settled_leaves

lemma pay_merge_settled: "settled pid (pay_merge config i chain merge address payload delivery)"
proof -
  have booked: "pays (books pid) (\<lambda>_. 0) (credit pid i amount (Inr j :: waveflow_error + uuid))
      (try_io (increment_milestone_spent i amount) (\<lambda>_.
       try_io (persist_webhook_event delivery ''pull_request'' (merge_github_repo merge)
         (Some (merge_pr_number merge)) payload ''processed'' None) (\<lambda>_.
       Return (Inr (processed j tx i)))))"
    if "0 \<le> credit pid i amount (Inr j :: waveflow_error + uuid)" for amount j tx
  proof (rule pays_try [where q = "\<lambda>_. 0"])
    show "pays (books pid) (\<lambda>_. 0) (credit pid i amount (Inr j :: waveflow_error + uuid))
        (increment_milestone_spent i amount)"
      using increment_pays [of i pid amount] that by simp
  next
    fix x
    have "settled pid (try_io (persist_webhook_event delivery ''pull_request'' (merge_github_repo merge)
         (Some (merge_pr_number merge)) payload ''processed'' None) (\<lambda>_.
         Return (Inr (processed j tx i))))"
      by (intro settled_rules settled_steps handler_safe) simp_all
    then show "pays (books pid) (\<lambda>_. 0) 0
        (try_io (persist_webhook_event delivery ''pull_request'' (merge_github_repo merge)
         (Some (merge_pr_number merge)) payload ''processed'' None) (\<lambda>_.
         Return (Inr (processed j tx i))))"
      by (simp add: settled_def)
  qed simp
  have paid: "settled pid (try_io (persist_payout i merge address amount tx) (\<lambda>j.
       try_io (increment_milestone_spent i amount) (\<lambda>_.
       try_io (persist_webhook_event delivery ''pull_request'' (merge_github_repo merge)
         (Some (merge_pr_number merge)) payload ''processed'' None) (\<lambda>_.
       Return (Inr (processed j tx i))))))" for amount tx
    unfolding settled_def
    by (rule pays_try [OF persist_payout_pays], rule refl, rule booked)
  show ?thesis
    unfolding pay_merge_def Let_def
    by (rule settled_rules(4), rule settled_rules(3), rule settled_leaves, rule paid)
qed

lemma process_merge_settled: "settled pid (process_merge config e payload delivery)"
  unfolding process_merge_def
  by (auto intro!: settled_intros pay_merge_settled)

lemma handle_delivery_settled: "settled pid (handle_delivery lib config ty delivery body)"
  unfolding handle_delivery_def
  by (auto intro!: settled_intros process_merge_settled split: sum.split option.split)

lemma github_webhook_settled: "settled pid (github_webhook lib config hs body)"
  unfolding github_webhook_def once_per_delivery_def Let_def
  by (auto intro!: settled_intros handle_delivery_settled split: sum.split option.split)

lemma api_service_settled: "settled pid (api_service config hs req)"
proof -
  have "settled pid (admin_router r)" for r
    by (cases r)
      (auto simp: route_defs reflp_def intro!: settled_steps steps_in_respond handler_steps
        steps_in_new_uuid)
  moreover have "settled pid (public_router config r)" for r
    by (rule settled_reads) (simp add: handler_safe reflp_def)
  ultimately show ?thesis
    by (cases req) (auto simp: require_admin_key_def intro: settled_rules(1))
qed

lemma handle_request_settled: "settled pid (handle_request lib gateway api req)"
proof -
  have reads: "settled pid (gateway_ready gateway)" "settled pid gateway_health"
    by (rule settled_reads, rule health_safe, simp add: reflp_def)+
  show ?thesis
    by (cases req)
      (auto intro!: settled_rules(5) github_webhook_settled api_service_settled reads)
qed

interpretation books: ledger "books pid" "handle_request lib gateway api" for pid lib gateway api
  by unfold_locales (use handle_request_settled in \<open>simp add: settled_def\<close>)

end
