(* ===== verification/Api_Runs.thy ===== *)
theory Api_Runs
  imports Gateway_Runs
begin

text \<open>
  The API routes run alone on a database that does not fail: what creating, reading, pausing and
  resuming a program answers and leaves in the tables.
\<close>

section \<open>Creating a program\<close>

definition valid_program :: "create_program_request \<Rightarrow> bool" where
  "valid_program body \<longleftrightarrow> validate_github_repo (create_github_repo body) \<and>
     0 < sint (create_reward_per_point body) \<and>
     validate_stellar_address (create_maintainer_address body)"

definition new_program :: "world \<Rightarrow> create_program_request \<Rightarrow> program_row" where
  "new_program w body =
     \<lparr>row_id = next_uuid w, row_on_chain_program_id = i64_clamped (create_on_chain_program_id body),
      row_github_repo = create_github_repo body,
      row_maintainer_address = create_maintainer_address body,
      row_reward_per_point = create_reward_per_point body, row_escrow_balance = 0,
      row_milestone_cap = create_milestone_cap body, row_milestone_spent = 0,
      row_status = ''active'', row_created_at = db_now (drew_uuid w)\<rparr>"

text \<open>The three keys a new program can clash with.\<close>

definition clashes :: "program_row \<Rightarrow> program_row list \<Rightarrow> bool" where
  "clashes r rows \<longleftrightarrow> (\<exists>p \<in> set rows. row_id p = row_id r \<or>
     row_on_chain_program_id p = row_on_chain_program_id r \<or> row_github_repo p = row_github_repo r)"

lemma insert_program_row:
  assumes "program_ok r" "row_status r = ''active''"
  shows "insert_row (program_constraints t) r (programs t) = Inr rows \<longleftrightarrow>
     \<not> clashes r (programs t) \<and> rows = programs t @ [r]"
  using assms
  by (auto simp: insert_row_Inr program_constraints_def program_ok_def taken_def clashes_def
      list_ex_iff)

lemma run_create_program:
  assumes "reliable w" "valid_program body"
  shows "run_io (create_program_route body) w =
    (if clashes (new_program w body) (programs (db w))
     then (Inl (ConflictError (''program already exists for repo '' @ create_github_repo body)),
           tick (drew_uuid w))
     else (Inr (ApiResponse 201 (ProgramCreated (next_uuid w))),
           tick (with_db ((db w)\<lparr>programs := programs (db w) @ [new_program w body]\<rparr>)
             (drew_uuid w))))"
proof -
  let ?r = "new_program w body"
  have row: "program_ok ?r" "row_status ?r = ''active''"
    using assms(2) by (simp_all add: program_ok_def new_program_def valid_program_def)
  have shape: "\<lparr>row_id = next_uuid w,
      row_on_chain_program_id = i64_clamped (create_on_chain_program_id body),
      row_github_repo = create_github_repo body,
      row_maintainer_address = create_maintainer_address body,
      row_reward_per_point = create_reward_per_point body, row_escrow_balance = 0,
      row_milestone_cap = create_milestone_cap body, row_milestone_spent = 0,
      row_status = ''active'', row_created_at = db_now (drew_uuid w)\<rparr> = ?r"
    by (simp add: new_program_def)
  have valid: "validate_github_repo (create_github_repo body)"
    "\<not> sint (create_reward_per_point body) \<le> 0"
    "validate_stellar_address (create_maintainer_address body)"
    using assms(2) by (simp_all add: valid_program_def)
  show ?thesis
  proof (cases "insert_row (program_constraints (db w)) ?r (programs (db w))")
    case (Inl name)
    then have "clashes ?r (programs (db w))" using insert_program_row [OF row] by force
    with assms(1) valid Inl show ?thesis
      by (simp add: create_program_route_def run_try run_statement insert_program_def inserted_def
          shape with_db_same [of "drew_uuid w", simplified])
  next
    case (Inr rows)
    then have "\<not> clashes ?r (programs (db w))" "rows = programs (db w) @ [?r]"
      using insert_program_row [OF row] by blast+
    with assms(1) valid Inr show ?thesis
      by (simp add: create_program_route_def run_try run_statement insert_program_def inserted_def
          shape)
  qed
qed

lemma run_invalid_program:
  "\<not> valid_program body \<Longrightarrow>
     \<exists>t. run_io (create_program_route body) w = (Inl (ValidationError t), w)"
  by (auto simp: create_program_route_def valid_program_def not_less)

lemma run_respond [simp]:
  "run_io (respond m) w = map_prod (case_sum api_error_response id) id (run_io m w)"
  by (simp add: respond_def)

lemma api_error_code [simp]:
  "api_error_response err =
     ApiResponse (http_status_code err) (Message (JObject [(''error'', JString (error_text err))]))"
proof -
  have "status_from_u16 (http_status_code err) = Some (http_status_code err)"
    by (cases err) (simp_all add: status_from_u16_def)
  then show ?thesis by (simp add: api_error_response_def unwrap_or_def)
qed

lemma valid_when_created:
  assumes "run_io (admin_router (PostProgram body)) w = (ApiResponse 201 reply, w')"
  shows "valid_program body"
proof (rule ccontr)
  assume "\<not> valid_program body"
  from run_invalid_program [OF this, of w] assms show False by auto
qed

text \<open>The stored on-chain id, read back as a \<open>u64\<close>.\<close>

lemma i64_clamped_value: "uint (i64_clamped n) = min (uint n) (2 ^ 63 - 1)"
proof (cases "i64_of_u64 n")
  case None
  then have "2 ^ 63 \<le> uint n" by simp
  moreover have "i64_clamped n = i64_MAX" by (simp only: i64_clamped_def None option.case)
  ultimately show ?thesis by (simp add: i64_MAX_def)
next
  case (Some m)
  then have "sint m = uint n" by simp
  moreover from this have "0 \<le> sint m" by simp
  ultimately have "uint m = uint n" by (simp add: uint_sint_nonneg)
  moreover have "uint n < 2 ^ 63" using \<open>sint m = uint n\<close> sint_i64_bounds [of m] by simp
  moreover have "i64_clamped n = m" by (simp only: i64_clamped_def Some option.case)
  ultimately show ?thesis by simp
qed

lemma i128_from_i64_0 [simp]: "i128_from_i64 0 = 0"
  by (simp add: i128_from_i64_def)

section \<open>Reading a program\<close>

lemma run_get_program:
  "reliable w \<Longrightarrow> program_by_id pid (db w) = Some p \<Longrightarrow>
     run_io (get_program_route pid) w =
       (Inr (ApiResponse 200 (OneProgram (program_record_of p))), tick w)"
  by (simp add: get_program_route_def select_program_def run_try ok_or_else_def)

lemma find_append_new: "(\<And>x. x \<in> set xs \<Longrightarrow> \<not> P x) \<Longrightarrow> P y \<Longrightarrow> find P (xs @ [y]) = Some y"
  by (induction xs) auto

lemma new_program_found:
  "\<not> clashes (new_program w body) (programs (db w)) \<Longrightarrow>
     program_by_id (next_uuid w) ((db w)\<lparr>programs := programs (db w) @ [new_program w body]\<rparr>) =
       Some (new_program w body)"
  unfolding program_by_id_def
  by (simp, rule find_append_new) (auto simp: clashes_def new_program_def)

section \<open>Pausing and resuming\<close>

definition with_status :: "string \<Rightarrow> uuid \<Rightarrow> tables \<Rightarrow> tables" where
  "with_status st pid t = t\<lparr>programs :=
     map (\<lambda>r. if row_id r = pid then r\<lparr>row_status := st\<rparr> else r) (programs t)\<rparr>"

lemma distinct_one: "set xs = {p} \<Longrightarrow> distinct xs \<Longrightarrow> xs = [p]"
  by (cases xs) (auto simp: subset_singleton_iff)

lemma set_status_one:
  assumes "program_ids.keyed (programs t)" "program_by_id pid t = Some p" "row_status p = src"
    and "dst \<in> {''active'', ''paused''}"
  shows "set_status src dst pid eng time t = (Inr 1, with_status dst pid t)"
proof -
  have p: "p \<in> set (programs t)" "row_id p = pid"
    using assms(2) by (auto simp: program_by_id_def find_Some_iff)
  have unique: "r = p" if "r \<in> set (programs t)" "row_id r = pid" for r
    using program_ids.keyed_unique [OF assms(1) that(1) p(1)] that(2) p(2) by simp
  let ?match = "\<lambda>r. row_id r = pid \<and> row_status r = src"
  have "update_rows ?match (\<lambda>r. if dst \<in> {''active'', ''paused''} then Inr (r\<lparr>row_status := dst\<rparr>)
        else Inl (ConstraintViolated (refusal_text eng ''programs_status_check''))) (programs t) =
      Inr (map (\<lambda>r. if ?match r then p\<lparr>row_status := dst\<rparr> else r) (programs t))"
  proof (rule update_rows_one)
    fix r
    assume "r \<in> set (programs t)" "?match r"
    then show "r = p" using unique [of r] by simp
  qed (use assms(4) in simp)
  moreover have "map (\<lambda>r. if ?match r then p\<lparr>row_status := dst\<rparr> else r) (programs t) =
      programs (with_status dst pid t)"
  proof -
    have "(if ?match r then p\<lparr>row_status := dst\<rparr> else r) =
        (if row_id r = pid then r\<lparr>row_status := dst\<rparr> else r)" if "r \<in> set (programs t)" for r
      using unique [OF that] assms(3) by (cases "row_id r = pid") auto
    then show ?thesis by (simp add: with_status_def cong: map_cong)
  qed
  moreover have "filter ?match (programs t) = [p]"
  proof -
    have "distinct (programs t)"
      using assms(1) distinct_map [of row_id "programs t"]
      by (simp add: program_ids.keyed_def map_filter_def comp_def)
    moreover have "{r \<in> set (programs t). ?match r} = {p}" using unique p assms(3) by blast
    ultimately have "set (filter ?match (programs t)) = {p}" "distinct (filter ?match (programs t))"
      by simp_all
    then show ?thesis by (rule distinct_one)
  qed
  ultimately show ?thesis by (simp add: set_status_def update_programs_def with_status_def)
qed

lemma run_pause:
  assumes "reliable w" "program_ids.keyed (programs (db w))" "program_by_id pid (db w) = Some p"
    and "row_status p = ''active''"
  shows "run_io (pause_program pid) w = (Inr (ApiResponse 200 (Message
      (JObject [(''id'', JString pid), (''status'', JString ''paused'')]))),
    tick (with_db (with_status ''paused'' pid (db w)) w))"
  using set_status_one [OF assms(2-4)] assms(1)
  by (simp add: pause_program_def run_try run_statement)

lemma run_resume:
  assumes "reliable w" "program_ids.keyed (programs (db w))" "program_by_id pid (db w) = Some p"
    and "row_status p = ''paused''"
  shows "run_io (resume_program pid) w = (Inr (ApiResponse 200 (Message
      (JObject [(''id'', JString pid), (''status'', JString ''active'')]))),
    tick (with_db (with_status ''active'' pid (db w)) w))"
  using set_status_one [OF assms(2-4)] assms(1)
  by (simp add: resume_program_def run_try run_statement)

lemma with_status_identity:
  "map identity (programs (with_status st pid t)) = map identity (programs t)"
  by (simp add: with_status_def identity_def)

lemma with_status_keyed: "program_ids.keyed (programs t) \<Longrightarrow>
    program_ids.keyed (programs (with_status st pid t))"
  by (simp only: keyed_by_identity with_status_identity)

lemma with_status_found:
  assumes "program_by_id pid t = Some p"
  shows "program_by_id pid (with_status st pid t) = Some (p\<lparr>row_status := st\<rparr>)"
proof -
  have "find (\<lambda>r. row_id r = pid) (map (\<lambda>r. if row_id r = pid then r\<lparr>row_status := st\<rparr> else r) rows) =
      map_option (\<lambda>r. r\<lparr>row_status := st\<rparr>) (find (\<lambda>r. row_id r = pid) rows)" for rows
    by (induction rows) auto
  from this [of "programs t"] assms show ?thesis
    unfolding program_by_id_def with_status_def by simp
qed

text \<open>Setting the status back restores the tables.\<close>

lemma with_status_back:
  assumes "program_ids.keyed (programs t)" "program_by_id pid t = Some p" "row_status p = st"
  shows "with_status st pid (with_status other pid t) = t"
proof -
  have "(if row_id r = pid then r\<lparr>row_status := st\<rparr> else r) = r" if "r \<in> set (programs t)" for r
  proof (cases "row_id r = pid")
    case True
    moreover have "p \<in> set (programs t)" "row_id p = pid"
      using assms(2) by (auto simp: program_by_id_def find_Some_iff)
    ultimately have "r = p"
      using program_ids.keyed_unique [OF assms(1) that] by simp
    with assms(3) show ?thesis by (cases p) simp
  qed simp
  then have "map (\<lambda>r. if row_id r = pid then r\<lparr>row_status := st\<rparr> else r) (programs t) = programs t"
    by (simp cong: map_cong)
  then show ?thesis by (simp add: with_status_def comp_def if_distrib cong: map_cong if_cong)
qed

text \<open>No repository of a paused program has an active program.\<close>

lemma paused_not_active:
  assumes "program_repos.keyed (programs t)" "program_by_id pid t = Some p"
  shows "active_program (with_status ''paused'' pid t) (row_github_repo p) = None"
proof -
  have p: "p \<in> set (programs t)" "row_id p = pid"
    using assms(2) by (auto simp: program_by_id_def find_Some_iff)
  show ?thesis
  proof (cases "active_program (with_status ''paused'' pid t) (row_github_repo p)")
    case (Some r')
    then have "r' \<in> set (programs (with_status ''paused'' pid t))" and
      r': "row_github_repo r' = row_github_repo p" "row_status r' = ''active''"
      by (auto simp: active_program_def dest!: find_in_set)
    then obtain r where r: "r \<in> set (programs t)"
      "r' = (if row_id r = pid then r\<lparr>row_status := ''paused''\<rparr> else r)"
      by (auto simp: with_status_def)
    then have "row_id r \<noteq> pid" "r' = r" using r'(2) by (auto split: if_splits)
    with program_repos.keyed_unique [OF assms(1) r(1) p(1)] r'(1) p(2) show ?thesis by simp
  qed
qed

lemma run_not_active:
  assumes "reliable w" "merged_to_default e" "active_program (db w) (full_name (event_repository e)) = None"
  shows "run_io (process_merge config e payload delivery) w =
    (Inl (NotFoundError (''no active program for repo '' @ full_name (event_repository e))), tick w)"
proof -
  have "parse_merge_event e = Inr (merge_of e)"
    using assms(2) by (simp add: parse_merge_event_Inr merge_of_def)
  then show ?thesis
    using assms(1,3) by (simp add: process_merge_def run_try run_reads merge_of_fields)
qed

end
