(* ===== verification/Service_Kinds.thy ===== *)
theory Service_Kinds
  imports Service_Ledger Api_Runs
begin

text \<open>
  The answer every request gets, whatever the database answers: the status code and the body of
  each route in full, the errors it can report, and that a row listed for a program is a row of
  that program.
\<close>

section \<open>The kinds\<close>

text \<open>An answer that reports an error of the shared enum: the code and the text of that error.\<close>

definition error_answer :: "(waveflow_error \<Rightarrow> bool) \<Rightarrow> u16 \<Rightarrow> json \<Rightarrow> bool" where
  "error_answer P c j \<longleftrightarrow>
     (\<exists>err. P err \<and> c = http_status_code err \<and> j = JObject [(''error'', JString (error_text err))])"

definition database_error :: "waveflow_error \<Rightarrow> bool" where
  "database_error err \<longleftrightarrow> (\<exists>t. err = DatabaseError t)"

definition missing_program :: "uuid \<Rightarrow> waveflow_error \<Rightarrow> bool" where
  "missing_program pid err \<longleftrightarrow>
     err = NotFoundError (''program '' @ pid @ '' not found'') \<or> database_error err"

text \<open>The webhook: a refused signature, else what the payload calls for.\<close>

definition ignored_body :: "waveflow_error \<Rightarrow> json" where
  "ignored_body err =
     JObject [(''status'', JString ''ignored''), (''reason'', JString (error_text err))]"

definition merge_kind :: "github_pull_request_event \<Rightarrow> u16 \<Rightarrow> json \<Rightarrow> bool" where
  "merge_kind e c j \<longleftrightarrow>
     (if merged_to_default e then
        c = 200 \<and>
          ((\<exists>i tx pid. j = JObject [(''status'', JString ''processed''), (''payout_id'', JString i),
              (''tx_hash'', JString tx), (''program_id'', JString pid)]) \<or>
           (\<exists>i pid. j = JObject [(''status'', JString ''already_processed''), (''payout_id'', i),
              (''program_id'', JString pid), (''pr_number'', JNumber (PosInt (event_number e)))]) \<or>
           j = ignored_body (ValidationError ''program is paused'')) \<or>
        error_answer (\<lambda>err. http_status_code err \<in> {404, 409, 500}) c j
      else c = 200 \<and> (\<exists>t \<in> {''ignored non-closed action'', ''PR not merged'',
             ''PR not merged to default branch''}. j = ignored_body (ValidationError t)))"

definition delivery_kind :: "library \<Rightarrow> headers \<Rightarrow> string \<Rightarrow> u16 \<Rightarrow> json \<Rightarrow> bool" where
  "delivery_kind lib hs body c j \<longleftrightarrow>
     (case parse_json lib body of
        Inl e \<Rightarrow> error_answer (\<lambda>err. err = WebhookError (''invalid JSON: '' @ e)) c j
      | Inr payload \<Rightarrow>
          if event_type_of hs \<noteq> ''pull_request''
          then c = 200 \<and> j = JObject [(''status'', JString ''ignored'')]
          else case decode_event payload of
              None \<Rightarrow> error_answer (\<lambda>err. \<exists>t. err = WebhookError (''invalid pull_request payload: '' @ t)) c j
            | Some e \<Rightarrow> merge_kind e c j)"

fun webhook_kind :: "library \<Rightarrow> app_config \<Rightarrow> headers \<Rightarrow> string \<Rightarrow> response \<Rightarrow> bool" where
  "webhook_kind lib config hs body (Response c j) \<longleftrightarrow>
     (case verify_github_signature lib (github_webhook_secret config) body (signature_of hs) of
        Inl err \<Rightarrow> error_answer (\<lambda>e. e = err) c j
      | Inr _ \<Rightarrow> delivery_kind lib hs body c j \<or>
          (\<exists>d. header_str ''x-github-delivery'' hs = Some d \<and>
             (c = 200 \<and> j = JObject [(''status'', JString ''duplicate_delivery''),
                (''delivery_id'', JString d)] \<or>
              error_answer (\<lambda>err. database_error err \<or>
                err = ConflictError (''duplicate delivery '' @ d)) c j)))"

text \<open>The probes: 200 exactly when everything they report is in order.\<close>

fun probe_kind :: "string \<Rightarrow> u16 \<Rightarrow> json \<Rightarrow> bool" where
  "probe_kind name c j \<longleftrightarrow>
     (\<exists>ok. c = (if ok then 200 else 503) \<and>
        j = JObject [(''service'', JString name), (''database'', JBool ok)])"

fun ready_kind :: "string \<Rightarrow> string \<Rightarrow> bool \<Rightarrow> u16 \<Rightarrow> json \<Rightarrow> bool" where
  "ready_kind name field configured c j \<longleftrightarrow>
     (\<exists>ok. c = (if ok \<and> configured then 200 else 503) \<and>
        j = JObject [(''service'', JString name), (''ready'', JBool (ok \<and> configured)),
          (''database'', JBool ok), (field, JBool configured)])"

fun public_kind :: "app_config \<Rightarrow> public_request \<Rightarrow> u16 \<Rightarrow> api_body \<Rightarrow> bool" where
  "public_kind config ListPrograms c (Programs ps) \<longleftrightarrow> c = 200"
| "public_kind config ListPrograms c (Message j) \<longleftrightarrow> error_answer database_error c j"
| "public_kind config (GetProgram pid) c (OneProgram p) \<longleftrightarrow> c = 200 \<and> record_id p = pid"
| "public_kind config (GetProgram pid) c (Message j) \<longleftrightarrow>
     error_answer (missing_program pid) c j"
| "public_kind config (ListPayouts pid) c (Payouts ps) \<longleftrightarrow>
     c = 200 \<and> (\<forall>p \<in> set ps. payout_record_program_id p = pid)"
| "public_kind config (ListPayouts pid) c (Message j) \<longleftrightarrow> error_answer database_error c j"
| "public_kind config (ListContributors pid) c (Contributors cs) \<longleftrightarrow>
     c = 200 \<and> (\<forall>p \<in> set cs. contributor_program_id p = pid)"
| "public_kind config (ListContributors pid) c (Message j) \<longleftrightarrow>
     error_answer (missing_program pid) c j"
| "public_kind config Health c (Message j) \<longleftrightarrow> probe_kind ''waveflow-api'' c j"
| "public_kind config Ready c (Message j) \<longleftrightarrow>
     ready_kind ''waveflow-api'' ''admin_key_configured'' (api_admin_keys config \<noteq> []) c j"
| "public_kind _ _ _ _ \<longleftrightarrow> False"

text \<open>What the registration accepts; \<open>valid_program\<close> is what the creation accepts.\<close>

definition valid_contributor :: "register_contributor_request \<Rightarrow> bool" where
  "valid_contributor body \<longleftrightarrow> register_github_username body \<noteq> [] \<and>
     validate_stellar_address (register_stellar_address body)"

fun admin_error :: "admin_request \<Rightarrow> waveflow_error \<Rightarrow> bool" where
  "admin_error (PostProgram body) err \<longleftrightarrow>
     (if valid_program body
      then database_error err \<or>
        err = ConflictError (''program already exists for repo '' @ create_github_repo body)
      else \<exists>t. err = ValidationError t)"
| "admin_error (PostContributor body) err \<longleftrightarrow>
     (if valid_contributor body
      then missing_program (register_program_id body) err \<or>
        err = ConflictError ''contributor already registered''
      else \<exists>t. err = ValidationError t)"
| "admin_error (PostPause pid) err \<longleftrightarrow>
     database_error err \<or> err = NotFoundError (''active program '' @ pid @ '' not found'')"
| "admin_error (PostResume pid) err \<longleftrightarrow>
     database_error err \<or> err = NotFoundError (''paused program '' @ pid @ '' not found'')"
| "admin_error (PostRatio pid reward) err \<longleftrightarrow>
     (if 0 < sint reward then missing_program pid err
      else err = ValidationError ''reward_per_point must be positive'')"

fun admin_success :: "admin_request \<Rightarrow> u16 \<Rightarrow> api_body \<Rightarrow> bool" where
  "admin_success (PostProgram body) c (ProgramCreated i) \<longleftrightarrow> c = 201 \<and> valid_program body"
| "admin_success (PostContributor body) c (ContributorCreated i name) \<longleftrightarrow>
     c = 201 \<and> valid_contributor body \<and> i = register_program_id body \<and>
     name = register_github_username body"
| "admin_success (PostPause pid) c (Message j) \<longleftrightarrow>
     c = 200 \<and> j = JObject [(''id'', JString pid), (''status'', JString ''paused'')]"
| "admin_success (PostResume pid) c (Message j) \<longleftrightarrow>
     c = 200 \<and> j = JObject [(''id'', JString pid), (''status'', JString ''active'')]"
| "admin_success (PostRatio pid reward) c (Message j) \<longleftrightarrow> c = 200 \<and> 0 < sint reward \<and>
     j = JObject [(''id'', JString pid), (''reward_per_point'', json_i64 reward)]"
| "admin_success _ _ _ \<longleftrightarrow> False"

definition admin_kind :: "admin_request \<Rightarrow> u16 \<Rightarrow> api_body \<Rightarrow> bool" where
  "admin_kind r c body \<longleftrightarrow> admin_success r c body \<or>
     (\<exists>j. body = Message j \<and> error_answer (admin_error r) c j)"

text \<open>The key check in front of the admin routes.\<close>

fun api_kind :: "app_config \<Rightarrow> headers \<Rightarrow> api_request \<Rightarrow> api_response \<Rightarrow> bool" where
  "api_kind config hs (Public r) (ApiResponse c body) \<longleftrightarrow> public_kind config r c body"
| "api_kind config hs (Protected r) (ApiResponse c body) \<longleftrightarrow>
     (if api_admin_keys config = []
      then c = 500 \<and> body = Message (JObject [(''error'', JString ''API_ADMIN_KEYS not configured'')])
      else if \<not> authorized_key config hs
      then c = 401 \<and> body = Message (JObject [(''error'', JString ''invalid or missing x-api-key'')])
      else admin_kind r c body)"

fun answer_kind :: "library \<Rightarrow> app_config \<Rightarrow> app_config \<Rightarrow> request \<Rightarrow> answer \<Rightarrow> bool" where
  "answer_kind lib gateway api (Webhook hs body) (FromGateway r) \<longleftrightarrow>
     webhook_kind lib gateway hs body r"
| "answer_kind lib gateway api GatewayHealth (FromGateway (Response c j)) \<longleftrightarrow>
     probe_kind ''waveflow-gateway'' c j"
| "answer_kind lib gateway api GatewayReady (FromGateway (Response c j)) \<longleftrightarrow>
     ready_kind ''waveflow-gateway'' ''webhook_secret_configured''
       (github_webhook_secret gateway \<noteq> []) c j"
| "answer_kind lib gateway api (ApiCall hs req) (FromApi r) \<longleftrightarrow> api_kind api hs req r"
| "answer_kind _ _ _ _ _ \<longleftrightarrow> False"

section \<open>Errors\<close>

lemma status_from_error [simp]: "status_from_u16 (http_status_code err) = Some (http_status_code err)"
  by (cases err) (simp_all add: status_from_u16_def)

lemma map_error_answer:
  "map_error err = Response (http_status_code err) (JObject [(''error'', JString (error_text err))])"
  by (simp add: map_error_def unwrap_or_def)

lemma error_answerI:
  "P err \<Longrightarrow> error_answer P (http_status_code err) (JObject [(''error'', JString (error_text err))])"
  by (auto simp: error_answer_def)

lemma database_error_simps [simp]:
  "database_error (DatabaseError t)" "\<not> database_error (NotFoundError t)"
  "\<not> database_error (ValidationError t)" "\<not> database_error (ConflictError t)"
  by (simp_all add: database_error_def)

lemma missing_program_simps [simp]:
  "missing_program pid (program_not_found pid)" "missing_program pid (DatabaseError t)"
  by (simp_all add: missing_program_def program_not_found_def)

lemma missing_program_database: "database_error err \<Longrightarrow> missing_program pid err"
  by (simp add: missing_program_def)

text \<open>What a fallible handler of the API answers: a success of a kind or an error of a kind.\<close>

definition outcomes ::
  "(u16 \<Rightarrow> api_body \<Rightarrow> bool) \<Rightarrow> (waveflow_error \<Rightarrow> bool) \<Rightarrow> waveflow_error + api_response \<Rightarrow> bool" where
  "outcomes good bad r \<longleftrightarrow>
     (case r of Inl err \<Rightarrow> bad err | Inr (ApiResponse c body) \<Rightarrow> good c body)"

lemma outcomes_simps [simp]:
  "outcomes good bad (Inl err) \<longleftrightarrow> bad err"
  "outcomes good bad (Inr (ApiResponse c body)) \<longleftrightarrow> good c body"
  by (simp_all add: outcomes_def)

lemma respond_kind:
  assumes "returns (outcomes good bad) m"
    and "\<And>c body. good c body \<Longrightarrow> Q (ApiResponse c body)"
    and "\<And>c j. error_answer bad c j \<Longrightarrow> Q (ApiResponse c (Message j))"
  shows "returns Q (respond m)"
  unfolding respond_def
proof (rule returns_map, rule returns_weaken [OF assms(1)])
  fix r
  assume r: "outcomes good bad r"
  show "Q (case_sum api_error_response id r)"
  proof (cases r)
    case (Inl err)
    with r assms(3) show ?thesis
      by (simp add: api_error_response_def unwrap_or_def error_answerI)
  next
    case (Inr a)
    with r assms(2) show ?thesis by (cases a) simp
  qed
qed

text \<open>What a handler can leave with, or go on with, at each \<open>?\<close>.\<close>

definition fails_with ::
  "(waveflow_error \<Rightarrow> bool) \<Rightarrow> ('a \<Rightarrow> bool) \<Rightarrow> waveflow_error + 'a \<Rightarrow> bool" where
  "fails_with bad P r \<longleftrightarrow> (case r of Inl err \<Rightarrow> bad err | Inr x \<Rightarrow> P x)"

lemma returns_try:
  assumes "returns (fails_with bad P) m"
    and "\<And>err. bad err \<Longrightarrow> Q (Inl err)"
    and "\<And>x. P x \<Longrightarrow> returns Q (k x)"
  shows "returns Q (try_io m k)"
  unfolding try_io_def
  by (rule returns_bind [OF assms(1)]) (use assms in \<open>auto simp: fails_with_def split: sum.splits\<close>)

lemma statement_kind:
  assumes "\<And>eng time t x. fst (q eng time t) = Inr x \<Longrightarrow> P x"
  shows "returns (\<lambda>r. \<forall>x. r = Inr x \<longrightarrow> P x) (statement q)"
  unfolding statement_def
proof (rule returns_act)
  fix w :: world
  let ?n = "query_count w" and ?eng = "db_engine w"
  obtain r t where sql: "q ?eng (clock_at ?eng ?n) (db w) = (r, t)" by fastforce
  with assms [of ?eng "clock_at ?eng ?n" "db w"] have "\<forall>x. r = Inr x \<longrightarrow> P x" by simp
  then show "\<forall>x. fst (let n = query_count w; eng = db_engine w;
         (r, t) = q eng (clock_at eng n) (db w); w = w\<lparr>query_count := Suc n\<rparr>
       in case fault_at eng n of None \<Rightarrow> (r, w\<lparr>db := t\<rparr>)
          | Some (FailsBefore msg) \<Rightarrow> (Inl (QueryFailed msg), w)
          | Some (FailsAfter msg) \<Rightarrow> (Inl (QueryFailed msg), w\<lparr>db := t\<rparr>)) = Inr x \<longrightarrow> P x"
    by (auto simp: Let_def sql split: option.split fault.split)
qed

lemma or_database_kind:
  assumes "\<And>eng time t x. fst (q eng time t) = Inr x \<Longrightarrow> P x"
  shows "returns (fails_with database_error P) (or_database_error (statement q))"
  unfolding or_database_error_def
proof (rule returns_map, rule returns_weaken [OF statement_kind [where P = P, OF assms]])
  fix r :: "db_error + 'a"
  assume "\<forall>x. r = Inr x \<longrightarrow> P x"
  then show "fails_with database_error P (map_sum (\<lambda>e. DatabaseError (db_error_text e)) id r)"
    by (cases r) (auto simp: fails_with_def)
qed

lemma or_conflict_kind:
  "returns (fails_with (\<lambda>err. database_error err \<or> err = ConflictError msg) (\<lambda>_. True)) (or_conflict msg m)"
  unfolding or_conflict_def
proof (intro returns_map returns_any)
  fix r :: "db_error + 'a"
  show "fails_with (\<lambda>err. database_error err \<or> err = ConflictError msg) (\<lambda>_. True)
      (map_sum (\<lambda>e. case e of ConstraintViolated _ \<Rightarrow> ConflictError msg
         | QueryFailed t \<Rightarrow> DatabaseError t) id r)"
    by (cases r) (auto simp: fails_with_def split: db_error.split)
qed

lemma read_kind:
  "(\<And>t. P (f t)) \<Longrightarrow>
     returns (fails_with database_error P) (or_database_error (statement (reading f)))"
  by (rule or_database_kind) (auto simp: reading_def)

section \<open>The public routes\<close>

lemma list_kinds:
  "returns (outcomes (public_kind config ListPrograms) database_error) list_programs"
  "returns (outcomes (public_kind config (ListPayouts pid)) database_error) (list_payouts pid)"
  unfolding list_programs_def list_payouts_def select_programs_def select_payouts_def
  by (rule returns_try [OF read_kind [where P = "\<lambda>_. True"]], simp_all)
    (rule returns_try [OF read_kind [where P = "\<lambda>rows. \<forall>r \<in> set rows. payout_program_id r = pid"]],
      auto simp: payout_record_of_def)

lemma get_program_kind:
  "returns (outcomes (public_kind config (GetProgram pid))
     (missing_program pid)) (get_program_route pid)"
proof -
  have found: "\<forall>p. program_by_id pid t = Some p \<longrightarrow> row_id p = pid" for t
    by (auto simp: program_by_id_def find_Some_iff)
  show ?thesis
    unfolding get_program_route_def select_program_def
    by (rule returns_try
          [OF read_kind [where P = "\<lambda>row. \<forall>p. row = Some p \<longrightarrow> row_id p = pid"]])
      (auto simp: found try_io_def ok_or_else_def program_record_of_def
        intro: missing_program_database split: option.split)
qed

lemma list_contributors_kind:
  "returns (outcomes (public_kind config (ListContributors pid))
     (missing_program pid)) (list_contributors pid)"
proof -
  have rows: "returns (outcomes (public_kind config (ListContributors pid))
        (missing_program pid))
      (try_io (or_database_error (statement (select_contributors pid))) (\<lambda>rows.
       Return (Inr (ApiResponse 200 (Contributors (map contributor_record_of rows))))))"
    unfolding select_contributors_def
    by (rule returns_try [OF read_kind [where P = "\<lambda>rows. \<forall>r \<in> set rows. member_program_id r = pid"]])
      (auto simp: contributor_record_of_def intro: missing_program_database)
  show ?thesis
    unfolding list_contributors_def select_program_id_def
    by (rule returns_try [OF read_kind [where P = "\<lambda>_. True"]])
      (auto simp: rows intro: missing_program_database)
qed

lemma probe_kinds:
  "returns (api_kind config hs (Public Health)) api_health"
  "returns (api_kind config hs (Public Ready)) (api_ready config)"
  "returns (\<lambda>r. answer_kind lib gateway api GatewayHealth (FromGateway r)) gateway_health"
  "returns (\<lambda>r. answer_kind lib gateway api GatewayReady (FromGateway r)) (gateway_ready gateway)"
  unfolding api_health_def api_ready_def gateway_health_def gateway_ready_def Let_def
  by (auto intro!: returns_then)

lemma public_router_kind: "returns (api_kind config hs (Public r)) (public_router config r)"
proof (cases r)
  case ListPrograms
  then show ?thesis by (auto intro!: respond_kind [OF list_kinds(1)])
next
  case (ListPayouts pid)
  then show ?thesis by (auto intro!: respond_kind [OF list_kinds(2)])
next
  case (GetProgram pid)
  then show ?thesis by (auto intro!: respond_kind [OF get_program_kind])
next
  case (ListContributors pid)
  then show ?thesis by (auto intro!: respond_kind [OF list_contributors_kind])
qed (simp_all add: probe_kinds)

section \<open>The admin routes\<close>

abbreviation administers :: "admin_request \<Rightarrow> api_response handler \<Rightarrow> bool" where
  "administers r m \<equiv> returns (outcomes (admin_success r) (admin_error r)) m"

lemma administers_kind:
  "administers r m \<Longrightarrow>
     returns (\<lambda>a. case a of ApiResponse c body \<Rightarrow> admin_kind r c body) (respond m)"
  by (erule respond_kind) (auto simp: admin_kind_def)

lemma any_database_kind:
  "returns (fails_with database_error (\<lambda>_. True)) (or_database_error (statement q))"
  by (rule or_database_kind) simp

lemma create_program_kind: "administers (PostProgram body) (create_program_route body)"
proof (cases "valid_program body")
  case True
  then have guards: "validate_github_repo (create_github_repo body)"
    "\<not> sint (create_reward_per_point body) \<le> 0"
    "validate_stellar_address (create_maintainer_address body)"
    by (auto simp: valid_program_def)
  with True show ?thesis
    unfolding create_program_route_def
    by (simp del: append_Cons) (auto intro!: returns_then returns_try [OF or_conflict_kind])
next
  case False
  then show ?thesis
    unfolding create_program_route_def by (auto simp: valid_program_def)
qed

lemma status_kinds:
  "administers (PostPause pid) (pause_program pid)"
  "administers (PostResume pid) (resume_program pid)"
  unfolding pause_program_def resume_program_def
  by (auto intro!: returns_try [OF any_database_kind])

lemma update_ratio_kind: "administers (PostRatio pid reward) (update_ratio pid reward)"
  unfolding update_ratio_def
  by (auto intro!: returns_try [OF any_database_kind] missing_program_database)

lemma register_contributor_kind:
  "administers (PostContributor body) (register_contributor_route body)"
proof (cases "valid_contributor body")
  case True
  then have guards: "register_github_username body \<noteq> []" "register_stellar_address body \<noteq> []"
    "validate_stellar_address (register_stellar_address body)"
    by (auto simp: valid_contributor_def validate_stellar_address_def)
  from True have insert: "administers (PostContributor body)
      (try_io (or_conflict ''contributor already registered'' m) (\<lambda>_. Return (Inr (ApiResponse 201
         (ContributorCreated (register_program_id body) (register_github_username body))))))"
    for m :: "(world, db_error + unit) io"
    by (intro returns_try [OF or_conflict_kind]) (auto intro: missing_program_database)
  from True guards show ?thesis
    unfolding register_contributor_route_def select_program_id_def
    by (auto intro!: returns_try [OF read_kind [where P = "\<lambda>_. True"]] insert missing_program_database)
next
  case False
  then show ?thesis
    unfolding register_contributor_route_def by (auto simp: valid_contributor_def)
qed

lemma admin_router_kind:
  "returns (\<lambda>a. case a of ApiResponse c body \<Rightarrow> admin_kind r c body) (admin_router r)"
  by (cases r)
    (simp_all add: administers_kind create_program_kind status_kinds
      update_ratio_kind register_contributor_kind)

lemma api_service_kind: "returns (api_kind config hs req) (api_service config hs req)"
proof (cases req)
  case (Protected r)
  have "returns (api_kind config hs (Protected r)) (admin_router r)"
    if "api_admin_keys config \<noteq> []" "authorized_key config hs"
    by (rule returns_weaken [OF admin_router_kind [of r]]) (use that in \<open>auto split: api_response.splits\<close>)
  with Protected show ?thesis by (auto simp: require_admin_key_def)
qed (simp add: public_router_kind)

section \<open>The webhook\<close>

text \<open>What the processing of a merge can come to.\<close>

definition merge_trouble :: "waveflow_error \<Rightarrow> bool" where
  "merge_trouble err \<longleftrightarrow> http_status_code err \<in> {404, 409, 500}"

lemma merge_trouble_simps [simp]:
  "merge_trouble (NotFoundError t)" "merge_trouble (InternalError t)" "merge_trouble (ConflictError t)"
  "merge_trouble (DatabaseError t)" "merge_trouble (ConfigError t)" "merge_trouble (ChainError t)"
  by (simp_all add: merge_trouble_def)

abbreviation mergeable :: "('a \<Rightarrow> bool) \<Rightarrow> 'a handler \<Rightarrow> bool" where
  "mergeable P m \<equiv> returns (fails_with merge_trouble P) m"

lemma mergeable_simps [simp]:
  "fails_with merge_trouble P (Inr x) \<longleftrightarrow> P x" "fails_with merge_trouble P (Inl err) \<longleftrightarrow> merge_trouble err"
  by (simp_all add: fails_with_def)

lemma mergeable_try:
  "mergeable (\<lambda>_. True) m \<Longrightarrow> (\<And>x. mergeable P (k x)) \<Longrightarrow> mergeable P (try_io m k)"
  by (erule returns_try) simp_all

lemma mergeable_or:
  "mergeable (\<lambda>_. True) (or_database_error m)" "mergeable (\<lambda>_. True) (or_conflict msg m)"
proof -
  have "fails_with merge_trouble (\<lambda>_. True) (map_sum (\<lambda>e. DatabaseError (db_error_text e)) id r)"
    "fails_with merge_trouble (\<lambda>_. True) (map_sum (\<lambda>e. case e of ConstraintViolated _ \<Rightarrow> ConflictError msg
       | QueryFailed t \<Rightarrow> DatabaseError t) id r)" for r :: "db_error + 'a"
    by (cases r; auto split: db_error.split)+
  then show "mergeable (\<lambda>_. True) (or_database_error m)" "mergeable (\<lambda>_. True) (or_conflict msg m)"
    unfolding or_database_error_def or_conflict_def
    by - (rule returns_map, rule returns_any, simp)+
qed

lemma mergeable_ok_or_else [simp]:
  "fails_with merge_trouble (\<lambda>_. True) (ok_or_else v err) \<longleftrightarrow> v = None \<longrightarrow> merge_trouble err"
  "fails_with merge_trouble (\<lambda>_. True) (map_sum id f (ok_or_else v err)) \<longleftrightarrow>
     v = None \<longrightarrow> merge_trouble err"
  by (auto simp: ok_or_else_def split: option.split)

lemmas mergeable_rules = mergeable_try mergeable_or returns_then

lemma attestation_mergeable:
  "mergeable (\<lambda>_. True) (resolve_program_id repo)"
  "mergeable (\<lambda>_. True) (resolve_contributor_address i username)"
  "mergeable (\<lambda>_. True) (fetch_payout_id i pr)"
  "mergeable (\<lambda>_. True) (payout_exists i pr)"
  "mergeable (\<lambda>_. True) (load_program_status i)"
  "mergeable (\<lambda>_. True) (load_reward_per_point i)"
  "mergeable (\<lambda>_. True) (increment_milestone_spent i amount)"
  "mergeable (\<lambda>_. True) (persist_webhook_event del ty repo prn payload st message)"
  "mergeable (\<lambda>_. True) (persist_payout i merge address amount tx)"
  unfolding resolve_program_id_def resolve_contributor_address_def fetch_payout_id_def
    payout_exists_def load_program_status_def load_reward_per_point_def
    increment_milestone_spent_def persist_webhook_event_def persist_payout_def
  by (auto intro!: mergeable_rules)

lemma contributor_of_merge_mergeable: "mergeable (\<lambda>_. True) (contributor_of_merge i merge)"
  unfolding contributor_of_merge_def
  by (rule returns_bind [OF attestation_mergeable(2)])
    (auto intro!: returns_then split: sum.split waveflow_error.split)

definition merge_body :: "u64 \<Rightarrow> json \<Rightarrow> bool" where
  "merge_body pr j \<longleftrightarrow>
     (\<exists>i tx pid. j = JObject [(''status'', JString ''processed''), (''payout_id'', JString i),
        (''tx_hash'', JString tx), (''program_id'', JString pid)]) \<or>
     (\<exists>i pid. j = JObject [(''status'', JString ''already_processed''), (''payout_id'', i),
        (''program_id'', JString pid), (''pr_number'', JNumber (PosInt pr))])"

lemma pay_merge_kind:
  "mergeable (merge_body pr) (pay_merge config pid chain merge address payload delivery)"
proof -
  have "mergeable (\<lambda>_. True) (Return (submit_attestation url contract key attestation))"
    for url contract key attestation
    by (auto simp: submit_attestation_def Let_def split: option.split)
  then show ?thesis
    unfolding pay_merge_def Let_def
    by (auto intro!: mergeable_try attestation_mergeable simp: merge_body_def processed_def)
qed

definition merge_outcome :: "github_pull_request_event \<Rightarrow> waveflow_error + json \<Rightarrow> bool" where
  "merge_outcome e r \<longleftrightarrow>
     (if merged_to_default e
      then r = Inl (ValidationError ''program is paused'') \<or>
        fails_with merge_trouble (merge_body (event_number e)) r
      else \<exists>t \<in> {''ignored non-closed action'', ''PR not merged'', ''PR not merged to default branch''}.
        r = Inl (ValidationError t))"

lemma process_merge_kind: "returns (merge_outcome e) (process_merge config e payload delivery)"
proof (cases "merged_to_default e")
  case False
  then show ?thesis
    by (auto simp: process_merge_def parse_merge_event_def merged_to_default_def merge_outcome_def
        try_io_def)
next
  case True
  let ?goes = "returns (merge_outcome e)"
  have comes: "?goes m" if "mergeable (merge_body (event_number e)) m" for m
    by (rule returns_weaken [OF that]) (simp add: merge_outcome_def True)
  have step: "?goes (try_io m k)" if "mergeable (\<lambda>_. True) m" "\<And>x. ?goes (k x)"
    for m :: "'b handler" and k
    by (rule returns_try [OF that(1)]) (simp_all add: that(2) merge_outcome_def True)
  have paid: "mergeable (merge_body (event_number e))
      (try_io (fetch_payout_id pid (event_number e)) (\<lambda>existing.
       Return (Inr (already_processed existing pid (event_number e)))))" for pid
    by (rule mergeable_try [OF attestation_mergeable(3)])
      (simp add: merge_body_def already_processed_def)
  have pay: "mergeable (merge_body (event_number e))
      (try_io (contributor_of_merge pid merge) (\<lambda>address.
       pay_merge config pid chain merge address payload delivery))" for pid merge chain
    by (rule mergeable_try [OF contributor_of_merge_mergeable pay_merge_kind])
  obtain merge where merge: "parse_merge_event e = Inr merge" "merge_pr_number merge = event_number e"
    using True by (auto simp: parse_merge_event_Inr)
  have goes: "?goes (if paid then
         try_io (fetch_payout_id pid (merge_pr_number merge)) (\<lambda>existing.
         Return (Inr (already_processed existing pid (merge_pr_number merge))))
       else
         try_io (contributor_of_merge pid merge) (\<lambda>address.
         pay_merge config pid chain merge address payload delivery))" for paid pid chain
    using paid pay merge(2) by (simp add: comes)
  have paused: "merge_outcome e (Inl (ValidationError ''program is paused''))"
    by (simp add: merge_outcome_def True)
  have read: "try_io (Return (Inr merge)) k = k merge" for k :: "merge_attestation \<Rightarrow> json handler"
    by (simp add: try_io_def)
  show ?thesis
    unfolding process_merge_def merge(1) read
    by (auto intro!: step attestation_mergeable goes simp: paused split: prod.split)
qed

lemma conclude_kind:
  assumes "merge_outcome e (Inl err)"
  shows "returns (\<lambda>r. case r of Response c j \<Rightarrow> merge_kind e c j)
     (conclude_failure delivery ty payload err)"
proof (cases "\<exists>t. err = ValidationError t")
  case True
  with assms show ?thesis
    by (auto simp: conclude_failure_def Let_def merge_outcome_def merge_kind_def ignored_body_def
        merge_trouble_def intro!: returns_then split: if_splits)
next
  case False
  with assms have "merged_to_default e" "http_status_code err \<in> {404, 409, 500}"
    by (auto simp: merge_outcome_def merge_trouble_def split: if_splits)
  then have "merge_kind e (http_status_code err) (JObject [(''error'', JString (error_text err))])"
    by (simp add: merge_kind_def error_answerI)
  with False show ?thesis
    by (cases err) (auto simp: conclude_failure_def Let_def map_error_answer intro!: returns_then)
qed

lemma handle_delivery_kind:
  "returns (\<lambda>r. case r of Response c j \<Rightarrow> delivery_kind lib hs body c j)
     (handle_delivery lib config (event_type_of hs) delivery body)"
proof (cases "parse_json lib body")
  case (Inl e)
  then show ?thesis
    by (simp add: handle_delivery_def delivery_kind_def map_error_answer error_answerI
        del: error_text.simps http_status_code.simps append_Cons)
next
  case (Inr payload)
  have answered: "merge_kind e 200 j" if "merge_outcome e (Inr j)" for e j
    using that by (auto simp: merge_outcome_def merge_kind_def merge_body_def split: if_splits)
  have merge: "returns (\<lambda>r. case r of Response c j \<Rightarrow> merge_kind e c j)
      (bind_io (process_merge config e payload delivery) (\<lambda>r.
         case r of
           Inr answer \<Rightarrow> bind_io (count ''waveflow_gateway_payout_success_total'') (\<lambda>_.
             Return (Response 200 answer))
         | Inl err \<Rightarrow> conclude_failure delivery ty payload err))" for e ty
    by (rule returns_bind [OF process_merge_kind])
      (auto intro!: returns_then conclude_kind simp: answered split: sum.split)
  show ?thesis
  proof (cases "event_type_of hs = ''pull_request''")
    case True
    show ?thesis
    proof (cases "decode_event payload")
      case None
      with True Inr show ?thesis
        by (simp add: handle_delivery_def delivery_kind_def map_error_answer error_answerI
            del: error_text.simps http_status_code.simps append_Cons)
    next
      case (Some e)
      with True Inr have kind: "delivery_kind lib hs body = merge_kind e"
        by (intro ext) (simp add: delivery_kind_def)
      from Inr Some True merge [of e "''pull_request''"] show ?thesis
        unfolding kind by (simp add: handle_delivery_def)
    qed
  next
    case False
    with Inr show ?thesis
      by (auto simp: handle_delivery_def delivery_kind_def intro!: returns_then)
  qed
qed

lemma github_webhook_kind: "returns (webhook_kind lib config hs body) (github_webhook lib config hs body)"
proof (cases "verify_github_signature lib (github_webhook_secret config) body (signature_of hs)")
  case (Inl err)
  have refused: "webhook_kind lib config hs body (map_error err)"
    using Inl by (simp add: map_error_answer error_answerI)
  show ?thesis
    unfolding github_webhook_def Let_def signature_of_def [symmetric] Inl
    by (simp add: reject_delivery_def Let_def refused returns_then)
next
  case (Inr u)
  have delivered: "returns (webhook_kind lib config hs body)
      (handle_delivery lib config (event_type_of hs) delivery body)" for delivery
    by (rule returns_weaken [OF handle_delivery_kind]) (use Inr in \<open>auto split: response.splits\<close>)
  have duplicate: "webhook_kind lib config hs body (duplicate_delivery d)"
    if "header_str ''x-github-delivery'' hs = Some d" for d
    using that Inr by (simp add: duplicate_delivery_def)
  have claimed: "returns (webhook_kind lib config hs body)
      (bind_io (claim_delivery_id d ty) (\<lambda>claim.
         case claim of Inl err \<Rightarrow> Return (map_error err)
         | Inr _ \<Rightarrow> handle_delivery lib config (event_type_of hs) delivery body))"
    if d: "header_str ''x-github-delivery'' hs = Some d" for d ty delivery
  proof (rule returns_bind)
    show "returns (fails_with (\<lambda>err. database_error err \<or> err = ConflictError (''duplicate delivery '' @ d))
        (\<lambda>_. True)) (claim_delivery_id d ty)"
      unfolding claim_delivery_id_def by (intro returns_then or_conflict_kind)
  next
    fix claim :: "waveflow_error + unit"
    assume "fails_with (\<lambda>err. database_error err \<or> err = ConflictError (''duplicate delivery '' @ d))
        (\<lambda>_. True) claim"
    with d Inr delivered show "returns (webhook_kind lib config hs body)
        (case claim of Inl err \<Rightarrow> Return (map_error err)
         | Inr _ \<Rightarrow> handle_delivery lib config (event_type_of hs) delivery body)"
      by (auto simp: fails_with_def map_error_answer error_answerI split: sum.splits)
  qed
  have "returns (webhook_kind lib config hs body)
      (once_per_delivery (header_str ''x-github-delivery'' hs) (event_type_of hs)
        (handle_delivery lib config (event_type_of hs) (header_str ''x-github-delivery'' hs) body))"
    unfolding once_per_delivery_def
    by (auto intro!: returns_then delivered claimed duplicate split: option.split)
  then show ?thesis
    unfolding github_webhook_def Let_def signature_of_def [symmetric] Inr
    by (simp add: returns_then)
qed

lemma handle_request_kind:
  "returns (answer_kind lib gateway api req) (handle_request lib gateway api req)"
  by (cases req)
    (auto intro!: returns_map github_webhook_kind api_service_kind probe_kinds simp del: answer_kind.simps(2,3))

end
