(* ===== verification/Service_Demo.thy ===== *)
theory Service_Demo
  imports Services
begin

text \<open>
  A concrete library, configuration and database, and the answers the handlers give on them,
  for the witnesses: one program with a reward of 5 and one registered contributor, and the
  delivery of the repository's fixture \<open>merged_pr.json\<close>.
\<close>

definition demo_event :: github_pull_request_event where
  "demo_event = \<lparr>event_action = ''closed'', event_number = 42,
     event_pull_request = \<lparr>pr_merged = True, pr_user = \<lparr>user_login = ''alice''\<rparr>,
       pr_base = \<lparr>ref_name = ''main''\<rparr>\<rparr>,
     event_repository = \<lparr>full_name = ''StellarRoute/WaveFlow'', default_branch = ''main''\<rparr>\<rparr>"

definition demo_library :: library where
  "demo_library = \<lparr>hex_decode = Some, hmac_sha256 = (\<lambda>key body. Some (key @ body)),
     parse_json = (\<lambda>_. Inr (encode_event demo_event)), utf8_lossy = id,
     shape_error = (\<lambda>_. ''shape'')\<rparr>"

definition demo_config :: app_config where
  "demo_config = \<lparr>database_url = ''postgres'', github_webhook_secret = ''k'',
     soroban_rpc_url = ''rpc'', network_passphrase = ''net'', escrow_contract_id = Some ''C'',
     gateway_secret_key = Some ''S'', api_admin_keys = [''admin''], gateway_port = 8080,
     api_port = 8081\<rparr>"

definition demo_program_row :: program_row where
  "demo_program_row = \<lparr>row_id = ''p1'', row_on_chain_program_id = 1,
     row_github_repo = ''StellarRoute/WaveFlow'', row_maintainer_address = ''M'',
     row_reward_per_point = 5, row_escrow_balance = 3, row_milestone_cap = None,
     row_milestone_spent = 0, row_status = ''active'', row_created_at = 0\<rparr>"

definition demo_tables :: tables where
  "demo_tables = \<lparr>programs = [demo_program_row],
     contributors = [\<lparr>member_program_id = ''p1'', member_github_username = ''alice'',
       member_stellar_address = ''GA'', member_registered_at = 0\<rparr>],
     payouts = [], webhook_events = []\<rparr>"

definition demo_world :: world where
  "demo_world = \<lparr>db = demo_tables,
     db_engine = \<lparr>fault_at = (\<lambda>_. None), clock_at = int, uuid_at = decimal,
       refusal_text = id, range_text = ''bigint out of range''\<rparr>,
     query_count = 0, uuid_count = 0, counters = (\<lambda>_. 0)\<rparr>"

definition demo_payout :: "timestamp \<Rightarrow> uuid \<Rightarrow> payout_row" where
  "demo_payout now i = \<lparr>payout_id = i, payout_program_id = ''p1'', payout_pr_number = 42,
     payout_github_username = ''alice'', payout_stellar_address = ''GA'', payout_points = 1,
     payout_amount = 5, payout_tx_hash = Some ''simulated-tx-1-42'', payout_created_at = now\<rparr>"

definition signed :: headers where
  "signed = [(''x-github-event'', ''pull_request''), (''x-hub-signature-256'', ''sha256=kbody'')]"

lemmas run_simps =
  run_try statement_def new_uuid_def count_def reading_def Let_def
  or_database_error_def or_conflict_def ok_or_else_def unwrap_or_def

lemmas handler_defs =
  github_webhook_def once_per_delivery_def handle_delivery_def process_merge_def pay_merge_def
  contributor_of_merge_def conclude_failure_def reject_delivery_def resolve_program_id_def
  resolve_contributor_address_def fetch_payout_id_def payout_exists_def delivery_id_seen_def
  load_program_status_def load_reward_per_point_def increment_milestone_spent_def
  persist_payout_def claim_delivery_id_def persist_webhook_event_def build_attestation_def
  submit_attestation_def reading_defs program_by_id_def

lemmas insert_defs =
  insert_payout_def insert_webhook_event_def insert_program_def insert_contributor_def
  inserted_def insert_row_def payout_constraints_def webhook_constraints_def
  program_constraints_def contributor_constraints_def program_missing_def taken_def

lemmas update_defs =
  charge_program_def update_programs_def charge_row_def checked_simps set_status_def
  set_reward_def

lemmas demo_defs =
  demo_world_def demo_tables_def demo_program_row_def demo_config_def demo_library_def

lemma demo_decoded: "decode_event (encode_event demo_event) = Some demo_event"
  by (simp add: decode_event_def encode_event_def)

lemma demo_parsed: "parse_merge_event demo_event = Inr (merge_of demo_event)"
  by (simp add: parse_merge_event_def demo_event_def merge_of_def)

lemma signed_headers:
  "header_str ''x-hub-signature-256'' signed = Some ''sha256=kbody''"
  "header_str ''x-github-event'' signed = Some ''pull_request''"
  "header_str ''x-github-delivery'' signed = None"
  by (simp_all add: header_str_def signed_def visible_ascii_def)

lemma signed_accepted:
  "verify_github_signature demo_library ''k'' ''body'' ''sha256=kbody'' = Inr ()"
  by (simp add: verify_github_signature_def demo_library_def)

end
