(* ===== verification/Demo_Runs.thy ===== *)
theory Demo_Runs
  imports Gateway_Runs Service_Demo
begin

text \<open>
  The demonstration, run: the facts of its database the theorems about runs ask for, the
  delivery answered as a reachable state, and a request that changes a reward.
\<close>

lemma demo_schema: "schema_ok (db demo_world)"
  by (simp add: schema_ok_def demo_world_def demo_tables_def demo_program_row_def program_ok_def
      program_ids.keyed_def program_chain_ids.keyed_def program_repos.keyed_def
      contributor_keys.keyed_def payout_ids.keyed_def payout_prs.keyed_def webhook_ids.keyed_def
      deliveries.keyed_def map_filter_def program_missing_def)

lemma demo_reliable: "reliable demo_world"
  by (simp add: reliable_def demo_world_def)

lemma demo_authentic:
  assumes "header_str ''x-hub-signature-256'' hs = Some ''sha256=kbody''"
    and "header_str ''x-github-event'' hs = Some ''pull_request''"
  shows "authentic_merge demo_library demo_config hs ''body'' demo_event"
proof -
  have "signature_of hs = ''sha256=kbody''" using assms(1) by (simp add: signature_of_def unwrap_or_def)
  moreover have "event_type_of hs = ''pull_request''"
    using assms(2) by (simp add: event_type_of_def unwrap_or_def)
  moreover have "github_webhook_secret demo_config = ''k''" by (simp add: demo_config_def)
  moreover have "parse_json demo_library ''body'' = Inr (encode_event demo_event)"
    by (simp add: demo_library_def)
  moreover have "merged_to_default demo_event" by (simp add: merged_to_default_def demo_event_def)
  ultimately show ?thesis
    unfolding authentic_merge_def using signed_accepted demo_decoded by simp
qed

lemma demo_due: "merge_due demo_world demo_event demo_program_row ''GA'' 42"
  "merge_due (drew_uuid demo_world) demo_event demo_program_row ''GA'' 42"
  by (simp_all add: merge_due_def merge_ready_def unpaid_def chargeable_def active_program_def
      contributor_address_def payout_of_def demo_world_def demo_tables_def demo_program_row_def
      demo_event_def drew_uuid_def)

lemma demo_digits:
  "decimal (Suc 0) = ''1''" "decimal 42 = ''42''"
proof -
  have "char_of (49 :: nat) = CHR ''1''" "char_of (50 :: nat) = CHR ''2''" "char_of (52 :: nat) = CHR ''4''"
    by code_simp+
  then show "decimal (Suc 0) = ''1''" "decimal 42 = ''42''"
    by (simp_all add: decimal.simps digit_def)
qed

lemma demo_tx: "due_tx demo_config demo_program_row demo_event ''simulated-tx-1-42''"
  by (simp add: due_tx_def submit_attestation_def build_attestation_def demo_config_def
      demo_program_row_def merge_of_def demo_event_def demo_digits)

lemma demo_free: "\<not> list_ex (\<lambda>h. hook_id h = next_uuid (drew_uuid demo_world))
    (webhook_events (db demo_world))"
  by (simp add: demo_world_def demo_tables_def)

lemma demo_values:
  "payouts (db demo_world) = []" "row_id demo_program_row = ''p1''"
  "row_reward_per_point demo_program_row = 5"
  by (simp_all add: demo_world_def demo_tables_def demo_program_row_def)

text \<open>The delivery of the demonstration, answered, as a reachable state.\<close>

abbreviation demo_service :: "request \<Rightarrow> (world, answer) io" where
  "demo_service \<equiv> handle_request demo_library demo_config demo_config"

definition demo_done :: world where
  "demo_done = answered_world demo_world demo_event demo_program_row ''GA'' 42 ''simulated-tx-1-42''
     (encode_event demo_event)"

definition demo_answer :: answer where
  "demo_answer = FromGateway
     (Response 200 (processed (next_uuid demo_world) ''simulated-tx-1-42'' ''p1''))"

definition demo_state :: "(request, world, answer) service_state" where
  "demo_state = ServiceState demo_done [(Webhook signed ''body'', Return demo_answer)]
     [Webhook signed ''body'']"

lemma demo_reached: "service_reaches demo_service demo_world demo_state"
proof -
  have "parse_json demo_library ''body'' = Inr (encode_event demo_event)"
    by (simp add: demo_library_def)
  from run_first_delivery [OF demo_reliable demo_schema demo_authentic [OF signed_headers(1,2)]
      demo_due(1) demo_tx signed_headers(3) demo_free this]
  have "run_io (demo_service (Webhook signed ''body'')) demo_world = (demo_answer, demo_done)"
    by (simp add: demo_answer_def demo_done_def demo_values)
  from reaches_alone [where handler = demo_service, OF service_starts this]
  show ?thesis by (simp add: demo_state_def)
qed

lemma demo_paid: "\<exists>r. payouts (db demo_done) = [r] \<and> payout_amount r = 5 \<and> payout_program_id r = ''p1'' \<and>
     payout_tx_hash r = Some ''simulated-tx-1-42''"
  using answered_world_facts(1) [OF demo_schema merge_due_program(2) [OF demo_due(1)]]
  by (simp add: demo_done_def demo_values due_row_def paid_row_def)

text \<open>A request that changes a reward, one step after it arrived.\<close>

definition with_key :: headers where
  "with_key = [(''x-api-key'', ''admin'')]"

definition demo_ratio :: request where
  "demo_ratio = ApiCall with_key (Protected (PostRatio ''p1'' 7))"

lemma with_key_authorized: "authorized_key demo_config with_key"
  by (simp add: authorized_key_def with_key_def header_str_def visible_ascii_def demo_config_def)

lemma demo_ratio_step:
  "\<exists>s s'. service_reaches demo_service demo_world s \<and> service_step demo_service s s' \<and>
     map registry (programs (db (service_world s'))) \<noteq> map registry (programs (db (service_world s)))"
proof -
  have handler: "demo_service demo_ratio = answer_map FromApi (respond (update_ratio ''p1'' 7))"
    using with_key_authorized by (simp add: demo_ratio_def require_admin_key_def demo_config_def)
  obtain f where f: "demo_service demo_ratio = Atomic f" "db (snd (f demo_world)) =
      demo_tables\<lparr>programs := [demo_program_row\<lparr>row_reward_per_point := 7\<rparr>]\<rparr>"
    unfolding handler
    by (simp add: update_ratio_def respond_def or_database_error_def answer_map_def try_io_def
        statement_def act_def Let_def demo_world_def set_reward_def update_programs_def
        demo_tables_def demo_program_row_def)
  let ?s = "ServiceState demo_world [(demo_ratio, Atomic f)] [demo_ratio]"
  have "service_reaches demo_service demo_world ?s"
    using service_moves [OF service_starts arrives, of demo_service demo_world demo_ratio] f(1)
    by simp
  moreover have "service_step demo_service ?s
      (ServiceState (snd (f demo_world)) [(demo_ratio, fst (f demo_world))] [demo_ratio])"
    using advances [of 0 "[(demo_ratio, Atomic f)]" demo_ratio f demo_world "fst (f demo_world)"
        "snd (f demo_world)" demo_service "[demo_ratio]"] by simp
  ultimately show ?thesis
    using f(2) by (intro exI conjI) (auto simp: demo_world_def demo_tables_def registry_def
      demo_program_row_def)
qed

definition signed_with_id :: headers where
  "signed_with_id = signed @ [(''x-github-delivery'', ''d1'')]"

lemma signed_with_id_headers:
  "header_str ''x-hub-signature-256'' signed_with_id = Some ''sha256=kbody''"
  "header_str ''x-github-event'' signed_with_id = Some ''pull_request''"
  "header_str ''x-github-delivery'' signed_with_id = Some ''d1''"
  by (simp_all add: header_str_def signed_with_id_def signed_def visible_ascii_def)

end
