(* ===== verification/Registry_Demo.thy ===== *)
theory Registry_Demo
  imports Api_Runs Demo_Runs
begin

text \<open>
  The demonstration from an empty database on: a program is created and a contributor registered
  by admin requests with a key, then the delivery of the fixture is paid. The addresses have the
  form the API asks for, which is spelled out here (\<open>account_address\<close>).
\<close>

definition demo_address :: string where
  "demo_address = ''G'' @ replicate 55 (CHR ''A'')"

definition demo_request :: "u64 \<Rightarrow> string \<Rightarrow> create_program_request" where
  "demo_request chain repo = \<lparr>create_on_chain_program_id = chain, create_github_repo = repo,
     create_maintainer_address = demo_address, create_reward_per_point = 5,
     create_milestone_cap = None\<rparr>"

lemma demo_address_valid: "validate_stellar_address demo_address" "demo_address \<noteq> []"
  by code_simp+

lemma demo_request_valid:
  "valid_program (demo_request chain ''a/b'')" "valid_program (demo_request chain ''c/d'')"
  "valid_program (demo_request chain ''StellarRoute/WaveFlow'')"
proof -
  have "validate_github_repo ''a/b''" "validate_github_repo ''c/d''"
    "validate_github_repo ''StellarRoute/WaveFlow''"
    by code_simp+
  with demo_address_valid show "valid_program (demo_request chain ''a/b'')"
    "valid_program (demo_request chain ''c/d'')" "valid_program (demo_request chain ''StellarRoute/WaveFlow'')"
    by (simp_all add: valid_program_def demo_request_def)
qed

text \<open>The form of an account's address, character by character.\<close>

definition account_address :: "string \<Rightarrow> bool" where
  "account_address a \<longleftrightarrow> length a = 56 \<and> hd a = CHR ''G'' \<and>
     set a \<subseteq> set ''ABCDEFGHIJKLMNOPQRSTUVWXYZ234567''"

lemma stellar_letters: "stellar_char c \<longleftrightarrow> c \<in> set ''ABCDEFGHIJKLMNOPQRSTUVWXYZ234567''"
proof
  have letters: "map char_of ([65..<91] @ [50::nat..<56]) = ''ABCDEFGHIJKLMNOPQRSTUVWXYZ234567''"
    by code_simp
  assume "stellar_char c"
  then have "65 \<le> (of_char c :: nat) \<and> (of_char c :: nat) < 91 \<or> 50 \<le> (of_char c :: nat) \<and> (of_char c :: nat) < 56"
    by (auto simp: stellar_char_def less_eq_char_def)
  then have "(of_char c :: nat) \<in> set ([65..<91] @ [50..<56])"
    unfolding set_append set_upt Un_iff atLeastLessThan_iff .
  then have "char_of (of_char c :: nat) \<in> set (map char_of ([65..<91] @ [50::nat..<56]))"
    unfolding set_map by (rule imageI)
  then show "c \<in> set ''ABCDEFGHIJKLMNOPQRSTUVWXYZ234567''" unfolding letters char_of_char .
next
  have "list_all stellar_char ''ABCDEFGHIJKLMNOPQRSTUVWXYZ234567''" by code_simp
  then show "c \<in> set ''ABCDEFGHIJKLMNOPQRSTUVWXYZ234567'' \<Longrightarrow> stellar_char c"
    unfolding list_all_iff by blast
qed

lemma account_address_iff: "validate_stellar_address a \<longleftrightarrow> account_address a"
proof -
  have "list_all stellar_char a \<longleftrightarrow> set a \<subseteq> set ''ABCDEFGHIJKLMNOPQRSTUVWXYZ234567''"
    unfolding list_all_iff stellar_letters by blast
  moreover have "take 1 a = ''G'' \<longleftrightarrow> hd a = CHR ''G''" if "length a = 56"
    using that by (cases a) simp_all
  ultimately show ?thesis unfolding validate_stellar_address_def account_address_def by blast
qed

section \<open>An empty database\<close>

definition empty_world :: world where
  "empty_world = demo_world\<lparr>db := \<lparr>programs = [], contributors = [], payouts = [], webhook_events = []\<rparr>\<rparr>"

lemma empty_world_facts [simp]:
  "db empty_world = \<lparr>programs = [], contributors = [], payouts = [], webhook_events = []\<rparr>"
  "reliable empty_world" "schema_ok (db empty_world)" "vetted (db empty_world)"
  by (simp_all add: empty_world_def reliable_def demo_world_def schema_ok_def vetted_def
      program_ids.keyed_def program_chain_ids.keyed_def program_repos.keyed_def
      contributor_keys.keyed_def payout_ids.keyed_def payout_prs.keyed_def webhook_ids.keyed_def
      deliveries.keyed_def map_filter_def)

definition create_demo :: request where
  "create_demo = ApiCall with_key (Protected (PostProgram (demo_request 1 ''StellarRoute/WaveFlow'')))"

definition enroll_demo :: request where
  "enroll_demo = ApiCall with_key (Protected (PostContributor
     \<lparr>register_program_id = ''0'', register_github_username = ''alice'',
      register_stellar_address = demo_address\<rparr>))"

definition created_row :: program_row where
  "created_row = new_program empty_world (demo_request 1 ''StellarRoute/WaveFlow'')"

definition enrolled_row :: contributor_row where
  "enrolled_row = \<lparr>member_program_id = ''0'', member_github_username = ''alice'',
     member_stellar_address = demo_address, member_registered_at = 2\<rparr>"

definition created_world :: world where
  "created_world = tick (with_db \<lparr>programs = [created_row], contributors = [], payouts = [],
     webhook_events = []\<rparr> (drew_uuid empty_world))"

definition enrolled_world :: world where
  "enrolled_world = tick (with_db \<lparr>programs = [created_row], contributors = [enrolled_row],
     payouts = [], webhook_events = []\<rparr> (tick created_world))"

lemma uuid_texts: "decimal 0 = ''0''" "decimal (Suc 0) = ''1''" "decimal 2 = ''2''"
  by code_simp+

lemma created_row_fields:
  "row_id created_row = ''0''" "row_github_repo created_row = ''StellarRoute/WaveFlow''"
  "row_status created_row = ''active''" "row_reward_per_point created_row = 5"
  "row_on_chain_program_id created_row = 1" "row_milestone_spent created_row = 0"
  "row_escrow_balance created_row = 0" "row_maintainer_address created_row = demo_address"
  by (simp_all add: created_row_def new_program_def demo_request_def next_uuid_def empty_world_def
      demo_world_def uuid_texts i64_clamped_def i64_of_u64_def signed_of_def fits_signed_def)

lemma run_create_demo:
  "run_io (demo_service create_demo) empty_world =
     (FromApi (ApiResponse 201 (ProgramCreated ''0'')), created_world)"
proof -
  have "next_uuid empty_world = ''0''" by (simp add: next_uuid_def empty_world_def demo_world_def uuid_texts)
  then show ?thesis
    using with_key_authorized run_create_program [OF empty_world_facts(2) demo_request_valid(3), of 1]
    by (simp add: create_demo_def require_admin_key_def clashes_def created_world_def created_row_def
        demo_config_def)
qed

lemma run_enroll_demo:
  "run_io (demo_service enroll_demo) created_world =
     (FromApi (ApiResponse 201 (ContributorCreated ''0'' ''alice'')), enrolled_world)"
proof -
  have rel: "reliable created_world" "reliable (tick created_world)"
    by (simp_all add: created_world_def)
  have tables: "db created_world = \<lparr>programs = [created_row], contributors = [], payouts = [],
      webhook_events = []\<rparr>" "db_now (tick created_world) = 2"
    by (simp_all add: created_world_def db_now_def empty_world_def demo_world_def world_moves)
  have same: "with_db \<lparr>programs = [created_row], contributors = [], payouts = [],
      webhook_events = []\<rparr> created_world = created_world"
    using with_db_same [of created_world] by (simp add: tables(1))
  have insert: "insert_row (contributor_constraints \<lparr>programs = [created_row], contributors = [],
      payouts = [], webhook_events = []\<rparr>) enrolled_row [] = Inr [enrolled_row]"
    by (simp add: insert_row_Inr contributor_constraints_def program_missing_def taken_def
        enrolled_row_def created_row_fields)
  show ?thesis
    using with_key_authorized insert rel demo_address_valid
    by (simp add: enroll_demo_def require_admin_key_def demo_config_def register_contributor_route_def
        run_try run_statement select_program_id_def reading_def program_by_id_def tables same
        created_row_fields insert_contributor_def inserted_def enrolled_row_def [symmetric]
        enrolled_world_def)
qed

section \<open>The delivery\<close>

lemma enrolled_world_facts:
  "reliable enrolled_world" "db enrolled_world = \<lparr>programs = [created_row],
     contributors = [enrolled_row], payouts = [], webhook_events = []\<rparr>"
  by (simp_all add: enrolled_world_def created_world_def)

lemma enrolled_schema: "schema_ok (db enrolled_world)"
  by (simp add: enrolled_world_facts schema_ok_def program_ok_def created_row_fields
      program_ids.keyed_def program_chain_ids.keyed_def program_repos.keyed_def
      contributor_keys.keyed_def payout_ids.keyed_def payout_prs.keyed_def webhook_ids.keyed_def
      deliveries.keyed_def map_filter_def program_missing_def enrolled_row_def)

lemma enrolled_due: "merge_due enrolled_world demo_event created_row demo_address 42"
  by (simp add: merge_due_def merge_ready_def unpaid_def chargeable_def active_program_def
      contributor_address_def payout_of_def enrolled_world_facts created_row_fields enrolled_row_def
      demo_event_def)

lemma enrolled_tx: "due_tx demo_config created_row demo_event ''simulated-tx-1-42''"
  by (simp add: due_tx_def submit_attestation_def build_attestation_def demo_config_def
      created_row_fields merge_of_def demo_event_def demo_digits)

definition enrolled_paid :: world where
  "enrolled_paid = answered_world enrolled_world demo_event created_row demo_address 42
     ''simulated-tx-1-42'' (encode_event demo_event)"

definition enrolled_answer :: answer where
  "enrolled_answer = FromGateway
     (Response 200 (processed (next_uuid enrolled_world) ''simulated-tx-1-42'' ''0''))"

lemma run_enrolled_delivery:
  "run_io (demo_service (Webhook signed ''body'')) enrolled_world = (enrolled_answer, enrolled_paid)"
proof -
  have "parse_json demo_library ''body'' = Inr (encode_event demo_event)"
    by (simp add: demo_library_def)
  moreover have "\<not> list_ex (\<lambda>h. hook_id h = next_uuid (drew_uuid enrolled_world))
      (webhook_events (db enrolled_world))"
    by (simp add: enrolled_world_facts)
  ultimately show ?thesis
    using run_first_delivery [OF enrolled_world_facts(1) enrolled_schema
        demo_authentic [OF signed_headers(1,2)] enrolled_due enrolled_tx signed_headers(3)]
    by (simp add: enrolled_answer_def enrolled_paid_def created_row_fields)
qed

text \<open>The three requests, one after the other, from the empty database.\<close>

definition enrolled_state :: "(request, world, answer) service_state" where
  "enrolled_state = ServiceState enrolled_paid
     [(create_demo, Return (FromApi (ApiResponse 201 (ProgramCreated ''0'')))),
      (enroll_demo, Return (FromApi (ApiResponse 201 (ContributorCreated ''0'' ''alice'')))),
      (Webhook signed ''body'', Return enrolled_answer)]
     [create_demo, enroll_demo, Webhook signed ''body'']"

lemma enrolled_reached: "service_reaches demo_service empty_world enrolled_state"
proof -
  note created = reaches_alone [where handler = demo_service, OF service_starts run_create_demo]
  note enrolled = reaches_alone [where handler = demo_service, OF created run_enroll_demo]
  from reaches_alone [where handler = demo_service, OF enrolled run_enrolled_delivery]
  show ?thesis by (simp add: enrolled_state_def)
qed

lemma enrolled_state_paid:
  "\<exists>r. payouts (db (service_world enrolled_state)) = [r] \<and> payout_stellar_address r = demo_address"
  using answered_world_facts(1) [OF enrolled_schema merge_due_program(2) [OF enrolled_due]]
  by (simp add: enrolled_state_def enrolled_paid_def enrolled_world_facts due_row_def paid_row_def)

end
