(* ===== verification/Service_Properties.thy ===== *)
theory Service_Properties
  imports Service_Answers Service_Kinds Registry_Demo
begin

text \<open>
  What holds in every reachable state of the two services, with any number of overlapping and
  abandoned requests and any faults of the database, and what their answers mean.
\<close>

section \<open>Every reachable state\<close>

text \<open>
  C2. No payout without a merge. From a database without payouts, in every reachable state,
  every row of \<open>payouts\<close> comes from a received delivery whose signature verifies under the
  secret and which reports a pull request merged into the default branch of a registered
  program's repository by its author, a contributor registered for that program with the
  address of the row; the row has the pull request's number, one point and the hash of the
  attestation.
\<close>

theorem payouts_are_justified:
  assumes "service_reaches (handle_request lib gateway api) w0 s" and "payouts (db w0) = []"
  shows "\<forall>r \<in> set (payouts (db (service_world s))). \<exists>hs body.
     Webhook hs body \<in> set (service_received s) \<and>
     justified lib gateway hs body (db (service_world s)) r"
  using assms by (rule reaches_justified)

theorem payouts_are_justified_witness:
  "\<exists>r hs body. r \<in> set (payouts (db (service_world demo_state))) \<and>
     Webhook hs body \<in> set (service_received demo_state) \<and>
     justified demo_library demo_config hs body (db (service_world demo_state)) r"
proof -
  obtain r where "r \<in> set (payouts (db (service_world demo_state)))"
    using demo_paid by (auto simp: demo_state_def)
  with payouts_are_justified [OF demo_reached demo_values(1)] show ?thesis by blast
qed

text \<open>
  C6. Payouts are final. From every reachable state on, whatever steps follow, the table of
  payouts only grows at its end: a row, once stored, by whatever request, is never altered,
  moved or deleted; and a pull request of a program never has two of them.
\<close>

theorem payouts_are_final:
  assumes "service_reaches (handle_request lib gateway api) w0 s" and "schema_ok (db w0)"
    and "(service_step (handle_request lib gateway api))\<^sup>*\<^sup>* s s'"
  shows "prefix (payouts (db (service_world s))) (payouts (db (service_world s'))) \<and>
     (\<forall>r \<in> set (payouts (db (service_world s'))). \<forall>r' \<in> set (payouts (db (service_world s'))).
        payout_program_id r = payout_program_id r' \<and> payout_pr_number r = payout_pr_number r' \<longrightarrow>
        r = r')"
proof -
  have later: "service_reaches (handle_request lib gateway api) w0 s'"
      "tables_evolve (db (service_world s)) (db (service_world s'))"
    using services.steps_may [OF assms(3,1)] by (auto simp: moves_def)
  have "payout_prs.keyed (payouts (db (service_world s')))"
    using services.reaches_may [OF later(1)] assms(2)
    by (auto simp: moves_def tables_evolve_def schema_ok_def)
  then show ?thesis
    using later(2) payout_prs.keyed_unique by (fastforce simp: tables_evolve_def)
qed

text \<open>The demonstration with its delivery answered, and then any other request.\<close>

theorem payouts_are_final_witness:
  "\<exists>r s'. payouts (db (service_world demo_state)) = [r] \<and>
     (service_step demo_service)\<^sup>*\<^sup>* demo_state s' \<and> length (service_pool s') = 2 \<and>
     prefix [r] (payouts (db (service_world s')))"
proof -
  obtain r where r: "payouts (db (service_world demo_state)) = [r]"
    using demo_paid by (auto simp: demo_state_def)
  obtain x w where "run_io (demo_service (Webhook signed_with_id ''body'')) demo_done = (x, w)"
    by (cases "run_io (demo_service (Webhook signed_with_id ''body'')) demo_done")
  from steps_alone [where handler = demo_service and reqs = "[Webhook signed ''body'']"
      and pool = "[(Webhook signed ''body'', Return demo_answer)]", OF this]
  have steps: "(service_step demo_service)\<^sup>*\<^sup>* demo_state (ServiceState w
      [(Webhook signed ''body'', Return demo_answer), (Webhook signed_with_id ''body'', Return x)]
      [Webhook signed ''body'', Webhook signed_with_id ''body''])"
    by (simp add: demo_state_def)
  from payouts_are_final [OF demo_reached demo_schema steps] r steps show ?thesis
    by (intro exI conjI) (assumption, assumption, simp_all)
qed

text \<open>
  C4. Administration needs a key. A step of a reachable state that changes the contributors, or
  any program's identity, reward or status, or adds a program, is the next action of an admin
  request in the pool, one that was received and carried one of the configured keys.
\<close>

theorem registry_changes_need_a_key:
  assumes "service_reaches (handle_request lib gateway api) w0 s"
    and "service_step (handle_request lib gateway api) s s'"
    and "contributors (db (service_world s')) \<noteq> contributors (db (service_world s)) \<or>
      map registry (programs (db (service_world s'))) \<noteq> map registry (programs (db (service_world s)))"
  shows "\<exists>i hs req f. i < length (service_pool s) \<and>
     service_pool s ! i = (ApiCall hs (Protected req), Atomic f) \<and>
     s' = ServiceState (snd (f (service_world s)))
       ((service_pool s)[i := (ApiCall hs (Protected req), fst (f (service_world s)))])
       (service_received s) \<and>
     ApiCall hs (Protected req) \<in> set (service_received s) \<and> authorized_key api hs"
proof -
  have "service_world s' \<noteq> service_world s" using assms(3) by auto
  from services.step_by [OF assms(1,2) this] obtain i req f
    where step: "i < length (service_pool s)" "service_pool s ! i = (req, Atomic f)"
      "s' = ServiceState (snd (f (service_world s)))
         ((service_pool s)[i := (req, fst (f (service_world s)))]) (service_received s)"
      "req \<in> set (service_received s)"
    and moved: "allowed_tables lib gateway api req (db (service_world s)) (db (service_world s'))"
    by (auto simp: moves_def)
  from moved assms(3) obtain hs r where "req = ApiCall hs (Protected r)" "authorized_key api hs"
    by (cases "(lib, gateway, api, req, db (service_world s), db (service_world s'))"
        rule: allowed_tables.cases) auto
  with step show ?thesis by blast
qed

theorem registry_changes_need_a_key_witness:
  "\<exists>s s' i hs req f. service_step demo_service s s' \<and> i < length (service_pool s) \<and>
     service_pool s ! i = (ApiCall hs (Protected req), Atomic f) \<and>
     s' = ServiceState (snd (f (service_world s)))
       ((service_pool s)[i := (ApiCall hs (Protected req), fst (f (service_world s)))])
       (service_received s) \<and> authorized_key demo_config hs"
proof -
  obtain s s' where "service_reaches demo_service demo_world s" "service_step demo_service s s'"
      "map registry (programs (db (service_world s'))) \<noteq> map registry (programs (db (service_world s)))"
    using demo_ratio_step by blast
  with registry_changes_need_a_key [of demo_library demo_config demo_config demo_world s s']
  show ?thesis by blast
qed

text \<open>
  C12. The registry is checked. From tables that pass the checks, in every reachable state every
  program has a slug with one slash between two parts that are not empty and have no space, and a
  maintainer's address of 56 characters, \<open>G\<close> first, all upper case letters or digits from 2 to 7;
  every contributor has a user name and such an address; and so, when the start had no payouts,
  every payout goes to such an address.
\<close>

theorem registry_is_checked:
  assumes "service_reaches (handle_request lib gateway api) w0 s"
    and "vetted (db w0)" and "payouts (db w0) = []"
  shows "(\<forall>p \<in> set (programs (db (service_world s))).
       (\<exists>own name. row_github_repo p = own @ CHR ''/'' # name \<and> own \<noteq> [] \<and> name \<noteq> [] \<and>
          CHR ''/'' \<notin> set (own @ name) \<and> CHR '' '' \<notin> set (own @ name)) \<and>
       account_address (row_maintainer_address p)) \<and>
    (\<forall>c \<in> set (contributors (db (service_world s))). member_github_username c \<noteq> [] \<and>
       account_address (member_stellar_address c)) \<and>
    (\<forall>r \<in> set (payouts (db (service_world s))). account_address (payout_stellar_address r))"
proof -
  have vetted: "vetted (db (service_world s))" by (rule reaches_vetted [OF assms(1,2)])
  have "account_address (payout_stellar_address r)" if "r \<in> set (payouts (db (service_world s)))" for r
  proof -
    from that reaches_justified [OF assms(1,3)] obtain username
      where "registered (db (service_world s)) (payout_program_id r) username (payout_stellar_address r)"
      unfolding justified_def by blast
    with vetted show ?thesis by (auto simp: registered_def vetted_def account_address_iff)
  qed
  with vetted show ?thesis
    unfolding vetted_def validate_github_repo_iff account_address_iff by blast
qed

text \<open>From the empty database: a program, a contributor and a payout, each through its handler.\<close>

theorem registry_is_checked_witness:
  "\<exists>r. payouts (db (service_world enrolled_state)) = [r] \<and>
     payout_stellar_address r = demo_address \<and> account_address demo_address"
proof -
  have "payouts (db empty_world) = []" by simp
  from registry_is_checked [OF enrolled_reached empty_world_facts(4) this] enrolled_state_paid
  show ?thesis by auto
qed

text \<open>
  C22. A refused signature buys nothing. Every action a delivery with a refused signature can
  ever take, in any state and whatever else runs, leaves programs, contributors and payouts
  alone, and adds to the log only events with the status \<open>rejected\<close>.
\<close>

theorem refused_deliveries_only_log:
  assumes "verify_github_signature lib (github_webhook_secret config) body (signature_of hs) = Inl err"
  shows "steps_in (moves refusals_only) (github_webhook lib config hs body)"
  using assms by (rule refused_steps)

definition unsigned :: headers where
  "unsigned = [(''x-github-event'', ''pull_request'')]"

theorem refused_deliveries_only_log_witness:
  "steps_in (moves refusals_only) (github_webhook demo_library demo_config unsigned ''body'')"
proof (rule refused_deliveries_only_log)
  show "verify_github_signature demo_library (github_webhook_secret demo_config) ''body''
      (signature_of unsigned) = Inl (WebhookError ''missing sha256 prefix'')"
    by (simp add: verify_github_signature_def signature_of_def header_str_def unsigned_def unwrap_or_def)
qed

text \<open>
  C25. A transaction hash names one payout. The hash recorded with a payout holds the on-chain id
  of its program and the pull request's number in decimal, separated by a character that is no
  digit: in every reachable state two payouts with the same hash are the same row.
\<close>

theorem transaction_hashes_are_unique:
  assumes "service_reaches (handle_request lib gateway api) w0 s" and "schema_ok (db w0)"
    and "payouts (db w0) = []"
    and "r \<in> set (payouts (db (service_world s)))" "r' \<in> set (payouts (db (service_world s)))"
    and "payout_tx_hash r = payout_tx_hash r'"
  shows "r = r'"
proof -
  have "schema_ok (db (service_world s))"
    using services.reaches_may [OF assms(1)] assms(2) by (simp add: moves_def tables_evolve_def)
  with reaches_justified [OF assms(1,3)] justified_hashes assms(4-6) show ?thesis by metis
qed

theorem transaction_hashes_are_unique_witness:
  "\<exists>r \<in> set (payouts (db (service_world demo_state))).
     payout_tx_hash r = Some ''simulated-tx-1-42'' \<and> r = hd (payouts (db (service_world demo_state)))"
proof -
  obtain r where r: "payouts (db demo_done) = [r]" "payout_tx_hash r = Some ''simulated-tx-1-42''"
    using demo_paid by blast
  then have "r \<in> set (payouts (db (service_world demo_state)))"
    "hd (payouts (db (service_world demo_state))) \<in> set (payouts (db (service_world demo_state)))"
    "payout_tx_hash r = payout_tx_hash (hd (payouts (db (service_world demo_state))))"
    by (simp_all add: demo_state_def)
  with transaction_hashes_are_unique [OF demo_reached demo_schema demo_values(1)] r show ?thesis
    by blast
qed

text \<open>
  C8. Nothing is booked that was not paid out. However the requests interleave, are abandoned or
  are failed by the database, a program's milestone counter grows by no more than the payouts
  stored for it: a booking comes after its payout, once, with its amount.
\<close>

theorem bookings_are_covered:
  assumes "service_reaches (handle_request lib gateway api) w0 s"
  shows "spent_of (programs (db (service_world s))) pid - spent_of (programs (db w0)) pid
    \<le> paid_out pid (db (service_world s)) - paid_out pid (db w0)"
  using books.reaches_value [OF assms, of pid] by (simp add: surplus_def)

theorem bookings_are_covered_witness:
  "spent_of (programs (db (service_world demo_state))) ''p1'' \<le> 5"
proof -
  have "paid_out ''p1'' (db (service_world demo_state)) = 5" "paid_out ''p1'' (db demo_world) = 0"
    "spent_of (programs (db demo_world)) ''p1'' = 0"
    using demo_paid
    by (auto simp: demo_state_def paid_out_def demo_values spent_of_def demo_world_def
        demo_tables_def demo_program_row_def)
  with bookings_are_covered [OF demo_reached, of "''p1''"] show ?thesis by simp
qed

text \<open>
  C27. An id that is in the log blocks its delivery. Once a delivery id is recorded, by whatever
  request, a delivery with this id changes no program, no contributor and no payout, whatever
  the other requests and the database do meanwhile: it only ever adds to the log.
\<close>

theorem recorded_ids_change_nothing:
  assumes "recorded d (db w)" and "header_str ''x-github-delivery'' hs = Some d"
  shows "obeys evolves (moves log_only) w (github_webhook lib config hs body)"
  by (rule github_webhook_duplicate [OF assms])

definition demo_seen :: world where
  "demo_seen = demo_world\<lparr>db := demo_tables\<lparr>webhook_events := [\<lparr>hook_id = ''w'',
     hook_delivery_id = Some ''d1'', hook_event_type = ''ping'', hook_github_repo = ''unknown'',
     hook_pr_number = None, hook_payload = JNull, hook_status = ''rejected'',
     hook_error_message = None, hook_received_at = 0\<rparr>]\<rparr>\<rparr>"

theorem recorded_ids_change_nothing_witness:
  "obeys evolves (moves log_only) demo_seen
     (github_webhook demo_library demo_config signed_with_id ''body'')"
  by (rule recorded_ids_change_nothing [OF _ signed_with_id_headers(3)])
    (simp add: recorded_def demo_seen_def demo_world_def)

text \<open>
  C34. The payouts served are the payouts stored. The record the API serves for a payout of a
  reachable state has the numbers of its row: the casts \<open>as u64\<close> and \<open>as u32\<close> and the widening to
  \<open>i128\<close> lose nothing, since the stored number is one GitHub sent, the points are one, and the
  amount is positive.
\<close>

theorem served_payouts_are_exact:
  assumes "service_reaches (handle_request lib gateway api) w0 s" and "schema_ok (db w0)"
    and "payouts (db w0) = []" and "r \<in> set (payouts (db (service_world s)))"
  shows "int (unat (payout_record_pr_number (payout_record_of r))) = sint (payout_pr_number r) \<and>
    int (unat (payout_record_points (payout_record_of r))) = sint (payout_points r) \<and>
    payout_record_points (payout_record_of r) = 1 \<and>
    sint (payout_record_amount (payout_record_of r)) = sint (payout_amount r) \<and>
    0 < sint (payout_amount r)"
proof -
  have "schema_ok (db (service_world s))"
    using services.reaches_may [OF assms(1)] assms(2) by (simp add: moves_def tables_evolve_def)
  then have "payout_ok r" using assms(4) by (auto simp: schema_ok_def list_all_iff)
  then have "0 < sint (payout_amount r)" by (simp add: payout_ok_def)
  moreover obtain hs body where "justified lib gateway hs body (db (service_world s)) r"
    using reaches_justified [OF assms(1,3)] assms(4) by blast
  then obtain e :: github_pull_request_event
    where "sint (payout_pr_number r) = uint (event_number e)" "payout_points r = 1"
    by (rule justifiedE) blast
  moreover from this(1) have "uint (payout_pr_number r) = sint (payout_pr_number r)"
    by (intro uint_sint_nonneg) simp
  ultimately show ?thesis by (simp add: payout_record_of_def)
qed

theorem served_payouts_are_exact_witness:
  "\<exists>r. payouts (db (service_world demo_state)) = [r] \<and>
     sint (payout_record_amount (payout_record_of r)) = 5"
proof -
  obtain r where r: "payouts (db demo_done) = [r]" "payout_amount r = 5"
    using demo_paid by blast
  then have "r \<in> set (payouts (db (service_world demo_state)))" by (simp add: demo_state_def)
  from served_payouts_are_exact [OF demo_reached demo_schema demo_values(1) this] r show ?thesis
    by (simp add: demo_state_def)
qed

section \<open>Answers\<close>

text \<open>
  C23. The answer \<open>processed\<close>. When a delivery is answered as processed, the payout it names is
  in the table, with the program and the hash of the answer; and the delivery had no delivery
  id. GitHub sends an id with every delivery, so no delivery of GitHub is ever answered as
  processed: the id was claimed with a row of its own, and the row that reports the success
  violates the unique index.
\<close>

theorem processed_answers_are_true:
  assumes "service_reaches (handle_request lib gateway api) w0 s"
    and "(Webhook hs body, Return (FromGateway (Response code (processed i tx pid))))
      \<in> set (service_pool s)"
  shows "header_str ''x-github-delivery'' hs = None \<and> paid_as (db (service_world s)) i tx pid"
proof -
  have "interleaved evolves (answer_map FromGateway (github_webhook lib gateway hs body)) w0
      (FromGateway (Response code (processed i tx pid))) (service_world s)"
    using services.answered_interleaved [OF assms] by simp
  then obtain w where "interleaved evolves (github_webhook lib gateway hs body) w0
      (Response code (processed i tx pid)) w" and later: "evolves w (service_world s)"
    by (auto elim: interleaved_map)
  with github_webhook_truthful [of lib gateway hs body]
  have "header_str ''x-github-delivery'' hs = None \<and> paid_as (db w) i tx pid"
    by (fastforce simp: answers_def truthful_response_def)
  with paid_as_lasts [OF later] show ?thesis by blast
qed

theorem processed_answers_are_true_witness:
  "header_str ''x-github-delivery'' signed = None \<and>
   paid_as (db (service_world demo_state)) (next_uuid demo_world) ''simulated-tx-1-42'' ''p1''"
  by (rule processed_answers_are_true [OF demo_reached])
    (simp add: demo_state_def demo_answer_def)



end
