(* ===== verification/Gateway_Failures.thy ===== *)
theory Gateway_Failures
  imports Service_Answers
begin

text \<open>
  The runs of the gateway that go wrong on a database that does not fail: a delivery whose
  signature is refused, a payout that cannot be booked, and a merge that was paid before.
\<close>

section \<open>Refused deliveries\<close>

lemma run_rejected:
  assumes "reliable w" and "header_str ''x-github-delivery'' hs = Some d"
    and "verify_github_signature lib (github_webhook_secret config) body (signature_of hs) = Inl err"
    and "log_refusal w (Some d) = None"
  shows "\<exists>w'. run_io (github_webhook lib config hs body) w = (map_error err, w') \<and>
    recorded d (db w') \<and> programs (db w') = programs (db w) \<and>
    contributors (db w') = contributors (db w) \<and> payouts (db w') = payouts (db w)"
proof -
  let ?w = "counted ''waveflow_gateway_webhook_rejected_total''
    (counted ''waveflow_gateway_webhook_total'' w)"
  have "log_refusal ?w (Some d) = None" using assms(4) by (simp add: log_refusal_def split: if_splits)
  moreover have "reliable ?w" using assms(1) by simp
  ultimately show ?thesis
    using assms(2,3)
    by (simp add: github_webhook_def reject_delivery_def Let_def signature_of_def
        run_persist_webhook_event recorded_def logged_def hook_row_def)
qed

section \<open>Paid before\<close>

lemma run_already_paid:
  assumes "reliable w" and "program_ids.keyed (programs (db w))"
    and "authentic_merge lib config hs body e" and "header_str ''x-github-delivery'' hs = None"
    and "active_program (db w) (full_name (event_repository e)) = Some p"
    and "payout_of (db w) (row_id p) (i64_clamped (event_number e)) = Some i"
  shows "\<exists>w'. run_io (github_webhook lib config hs body) w =
      (Response 200 (already_processed (Some i) (row_id p) (event_number e)), w') \<and> db w' = db w"
proof -
  let ?w = "counted ''waveflow_gateway_webhook_total'' w"
  obtain payload where payload: "parse_json lib body = Inr payload" "decode_event payload = Some e"
    and merged: "merged_to_default e"
    by (rule authentic_payload [OF assms(3)])
  have parsed: "parse_merge_event e = Inr (merge_of e)"
    using merged by (simp add: parse_merge_event_Inr merge_of_def)
  have p: "p \<in> set (programs (db w))" "row_status p = ''active''"
    using assms(5) by (auto simp: active_program_def find_Some_iff)
  with program_ids.keyed_find [OF assms(2)] have found: "program_by_id (row_id p) (db w) = Some p"
    by (simp add: program_by_id_def)
  have "run_io (process_merge config e payload None) ?w =
      (Inr (already_processed (Some i) (row_id p) (event_number e)),
       tick (tick (tick (tick ?w))))"
    unfolding process_merge_def
    by (simp add: run_try parsed run_reads assms(1,5,6) found p merge_of_fields)
  from run_answered [OF this payload] show ?thesis
    using assms(4) by (simp add: run_authentic [OF assms(3)] once_per_delivery_def)
qed

lemma payout_of_append:
  assumes "payout_of t pid pr = None" "payout_program_id r = pid" "payout_pr_number r = pr"
    and "payouts t' = payouts t @ [r]"
  shows "payout_of t' pid pr = Some (payout_id r)"
proof -
  have "find P (rows @ [r]) = Some r" if "find P rows = None" "P r" for P and rows :: "payout_row list"
    using that by (induction rows) (auto split: if_splits)
  from this [of "\<lambda>r. payout_program_id r = pid \<and> payout_pr_number r = pr" "payouts t"] assms
  show ?thesis by (auto simp: payout_of_def)
qed

section \<open>Payouts that cannot be booked\<close>

definition overbooked :: "program_row \<Rightarrow> bool" where
  "overbooked p \<longleftrightarrow> 2 ^ 63 \<le> sint (row_milestone_spent p) + sint (row_reward_per_point p)"

lemma update_rows_fails:
  assumes "r \<in> set rs" "match r" "\<And>r. r \<in> set rs \<Longrightarrow> match r \<Longrightarrow> change r = Inl e"
  shows "update_rows match change rs = Inl e"
  using assms
proof (induction rs)
  case (Cons x rs)
  then show ?case by (cases "match x") auto
qed simp

lemma charge_overbooked:
  assumes "program_ids.keyed (programs t)" "p \<in> set (programs t)" "overbooked p"
  shows "charge_program (row_reward_per_point p) (row_id p) eng time t =
    (Inl (QueryFailed (range_text eng)), t)"
proof -
  have "\<not> fits_signed LENGTH(64)
      (sint (row_milestone_spent p) + sint (row_reward_per_point p))"
    using assms(3) by (simp add: overbooked_def fits_signed_def)
  then have "charge_row eng (row_reward_per_point p) p = Inl (QueryFailed (range_text eng))"
    by (simp add: charge_row_def checked_add_def signed_of_def)
  then have "update_rows (\<lambda>r. row_id r = row_id p) (charge_row eng (row_reward_per_point p))
      (programs t) = Inl (QueryFailed (range_text eng))"
    using program_ids.keyed_unique [OF assms(1) _ assms(2)]
    by (intro update_rows_fails [OF assms(2)]) auto
  then show ?thesis by (simp add: charge_program_def update_programs_def)
qed

lemma run_pay_overbooked:
  assumes rel: "reliable w" and keyed: "program_ids.keyed (programs (db w))"
    and p: "unpaid (tick w) p pr" "overbooked p"
    and merge: "i64_of_u64 (merge_pr_number merge) = Some pr" "merge_points merge = 1"
    and tx: "submit_attestation (soroban_rpc_url config) (escrow_contract_id config)
       (gateway_secret_key config) (build_attestation chain merge) = Inr tx"
  shows "\<exists>w'. run_io (pay_merge config (row_id p) chain merge address payload delivery) w =
      (Inl (DatabaseError (range_text (db_engine w))), w') \<and> reliable w' \<and>
    db w' = (db w)\<lparr>payouts := payouts (db w) @ [paid_row (tick w) (row_id p) pr
      (merge_github_username merge) address (row_reward_per_point p) tx]\<rparr>"
proof -
  have mem: "p \<in> set (programs (db w))" using p(1) by (simp add: unpaid_def)
  have found: "program_by_id (row_id p) (db w) = Some p"
    using program_ids.keyed_find [OF keyed mem] by (simp add: program_by_id_def)
  have reward: "i128_from_u32 (merge_points merge) * i128_from_i64 (row_reward_per_point p) =
      i128_from_i64 (row_reward_per_point p)"
    using merge(2) by (simp add: one_point)
  let ?t = "(db w)\<lparr>payouts := payouts (db w) @ [paid_row (tick w) (row_id p) pr
      (merge_github_username merge) address (row_reward_per_point p) tx]\<rparr>"
  have refused: "charge_program (row_reward_per_point p) (row_id p) eng time ?t =
      (Inl (QueryFailed (range_text eng)), ?t)" for eng time
    using charge_overbooked [of ?t p eng time] keyed mem p(2) by simp
  have rel1: "reliable (tick w)" using rel by simp
  show ?thesis
    unfolding pay_merge_def Let_def
    using rel
    by (simp add: run_try run_reads found tx reward run_persist_payout [OF rel1 p(1) merge]
        increment_milestone_spent_def ok_or_else_def run_statement refused
        del: i64_of_u64_Some)
qed

lemma run_overbooked:
  assumes "reliable w" and "schema_ok (db w)" and "authentic_merge lib config hs body e"
    and "merge_ready w e p address pr" and "overbooked p" and "due_tx config p e tx"
    and "header_str ''x-github-delivery'' hs = None"
  shows "\<exists>r w'. run_io (github_webhook lib config hs body) w =
      (map_error (DatabaseError (range_text (db_engine w))), w') \<and> reliable w' \<and>
    payouts (db w') = payouts (db w) @ [r] \<and> programs (db w') = programs (db w) \<and>
    payout_program_id r = row_id p \<and> payout_pr_number r = pr \<and>
    payout_amount r = row_reward_per_point p"
proof -
  let ?w = "counted ''waveflow_gateway_webhook_total'' w"
  let ?v = "tick (tick (tick (tick ?w)))"
  obtain payload where payload: "parse_json lib body = Inr payload" "decode_event payload = Some e"
    and merged: "merged_to_default e"
    by (rule authentic_payload [OF assms(3)])
  have keyed: "program_ids.keyed (programs (db w))" using assms(2) by (simp add: schema_ok_def)
  have ready: "merge_ready ?w e p address pr" using assms(4) by simp
  have unpaid: "unpaid (tick ?v) p pr"
    using ready by (simp add: merge_ready_def unpaid_def)
  have pr: "i64_of_u64 (merge_pr_number (merge_of e)) = Some pr"
    using ready unfolding merge_ready_def merge_of_fields by blast
  have rel: "reliable ?v" and keyed': "program_ids.keyed (programs (db ?v))"
    using assms(1) keyed by simp_all
  from run_pay_overbooked [OF rel keyed' unpaid assms(5) pr merge_of_fields(3)
      assms(6) [unfolded due_tx_def], of address payload None]
  obtain w1 where w1: "run_io (pay_merge config (row_id p) (row_on_chain_program_id p) (merge_of e)
        address payload None) ?v = (Inl (DatabaseError (range_text (db_engine w))), w1)"
      "reliable w1"
      "payouts (db w1) = payouts (db w) @ [paid_row (tick ?v) (row_id p) pr
         (merge_github_username (merge_of e)) address (row_reward_per_point p) tx]"
      "programs (db w1) = programs (db w)"
    by auto
  have "run_io (process_merge config e payload None) ?w =
      (Inl (DatabaseError (range_text (db_engine w))), w1)"
    using run_up_to_payment [of ?w e p address pr config payload None] w1(1) assms(1) keyed ready merged
    by simp
  from run_failed [OF this payload w1(2)] obtain w' where
    w': "run_io (handle_delivery lib config ''pull_request'' None body) ?w =
        (map_error (DatabaseError (range_text (db_engine w))), w')" "reliable w'"
      "payouts (db w') = payouts (db w1)" "programs (db w') = programs (db w1)"
    by blast
  then have "run_io (github_webhook lib config hs body) w =
      (map_error (DatabaseError (range_text (db_engine w))), w')"
    using assms(7) by (simp add: run_authentic [OF assms(3)] once_per_delivery_def)
  then show ?thesis
    using w' w1
    by (intro exI [of _ "paid_row (tick ?v) (row_id p) pr (merge_github_username (merge_of e)) address
          (row_reward_per_point p) tx"] exI [of _ w'])
      (simp add: paid_row_def)
qed

end
