(* ===== verification/Delivery_Properties.thy ===== *)
theory Delivery_Properties
  imports Gateway_Failures Demo_Runs
begin

text \<open>
  The whole course of a delivery on a database that does not fail: what is stored, what is
  answered, and what a later delivery of the same merge finds.
\<close>

text \<open>
  C10. A merge is paid. On a database that does not fail, the delivery of a merge that is due
  (active program, registered author, not paid yet, within the bigint range, fresh uuids) and
  that carries no delivery id is answered with 200 and \<open>processed\<close>; exactly one row is added to
  the payouts, with the program, the pull request, the author's registered address and one
  point's reward, and the program is charged with it.
\<close>

theorem first_delivery_pays:
  assumes "reliable w" and "schema_ok (db w)" and "authentic_merge lib config hs body e"
    and "merge_due w e p address pr" and "due_tx config p e tx"
    and "header_str ''x-github-delivery'' hs = None"
    and "\<not> list_ex (\<lambda>h. hook_id h = next_uuid (drew_uuid w)) (webhook_events (db w))"
  shows "\<exists>r w'. run_io (github_webhook lib config hs body) w =
       (Response 200 (processed (payout_id r) tx (row_id p)), w') \<and>
     payouts (db w') = payouts (db w) @ [r] \<and>
     payout_program_id r = row_id p \<and> payout_pr_number r = pr \<and>
     payout_stellar_address r = address \<and> payout_amount r = row_reward_per_point p \<and>
     program_by_id (row_id p) (db w') = Some (charged p)"
proof -
  obtain payload where "parse_json lib body = Inr payload"
    by (rule authentic_payload [OF assms(3)])
  note run = run_first_delivery [OF assms(1-7) this]
  show ?thesis
    using run answered_world_facts [OF assms(2) merge_due_program(2) [OF assms(4)]]
    by (intro exI conjI) (auto simp: due_row_def paid_row_def)
qed

theorem first_delivery_pays_witness:
  "\<exists>r w'. run_io (github_webhook demo_library demo_config signed ''body'') demo_world =
     (Response 200 (processed (payout_id r) ''simulated-tx-1-42'' ''p1''), w') \<and>
   payouts (db w') = [r] \<and> payout_amount r = 5"
  using first_delivery_pays [OF demo_reliable demo_schema
      demo_authentic [OF signed_headers(1,2)] demo_due(1) demo_tx signed_headers(3) demo_free]
    demo_values
  by fastforce

text \<open>
  C13. A merge is paid and answered as a failure. The same delivery with a delivery id, as GitHub
  sends it, stores the payout and charges the program just the same, but is answered with the
  error 500 of the refused last row; the id stays recorded, so that every later delivery with
  this id, on any later state of the database, is answered as a duplicate and does nothing.
\<close>

theorem delivery_with_id_pays_but_fails:
  assumes "reliable w" and "schema_ok (db w)" and "authentic_merge lib config hs body e"
    and "merge_due (drew_uuid w) e p address pr" and "due_tx config p e tx"
    and "header_str ''x-github-delivery'' hs = Some d" and "log_refusal w (Some d) = None"
  shows "\<exists>msg w'. run_io (github_webhook lib config hs body) w =
       (map_error (DatabaseError msg), w') \<and>
     (\<exists>r. payouts (db w') = payouts (db w) @ [r] \<and> payout_program_id r = row_id p \<and>
        payout_pr_number r = pr \<and> payout_stellar_address r = address \<and>
        payout_amount r = row_reward_per_point p) \<and>
     program_by_id (row_id p) (db w') = Some (charged p) \<and>
     (\<forall>v. evolves w' v \<longrightarrow> reliable v \<longrightarrow>
        (\<exists>v'. run_io (github_webhook lib config hs body) v = (duplicate_delivery d, v') \<and> db v' = db v))"
proof -
  let ?w = "counted ''waveflow_gateway_webhook_total'' w"
  let ?h = "hook_row (tick ?w) (Some d) ''pull_request'' ''pending'' None (JObject []) ''processing'' None"
  let ?c = "logged ?h (tick ?w)"
  note run = run_authentic [OF assms(3)]
  obtain payload where payload: "parse_json lib body = Inr payload" "decode_event payload = Some e"
    and merged: "merged_to_default e"
    by (rule authentic_payload [OF assms(3)])
  have claimed: "db ?c = (db w)\<lparr>webhook_events := webhook_events (db w) @ [?h]\<rparr>" "reliable ?c"
    "hook_delivery_id ?h = Some d"
    using assms(1) by (simp_all add: logged_def hook_row_def)
  have keyed: "program_ids.keyed (programs (db ?c))" and p: "p \<in> set (programs (db ?c))"
    using assms(2,4) by (auto simp: schema_ok_def merge_due_def merge_ready_def unpaid_def claimed)
  have due: "merge_due ?c e p address pr"
    using assms(4) by (subst merge_due_same [of _ "drew_uuid w"]) (simp_all add: claimed, simp add: logged_def)
  let ?r = "due_row ?c e p address pr tx"
  let ?v = "due_world ?c e p address pr tx"
  have facts: "payouts (db ?v) = payouts (db w) @ [?r]"
      "program_by_id (row_id p) (db ?v) = Some (charged p)" "?h \<in> set (webhook_events (db ?v))"
    using paid_program [OF keyed p] by (simp_all add: due_world_facts claimed paid_tables_def)
  obtain msg where "log_refusal ?v (Some d) = Some msg"
    using log_refusal_recorded [OF facts(3) claimed(3)] .
  with run_process_merge [OF claimed(2) keyed due merged assms(5), of payload "Some d"]
  have "run_io (process_merge config e payload (Some d)) ?c =
      (Inl (DatabaseError msg), tick (drew_uuid ?v))" by simp
  from run_failed [OF this payload] claimed(2)
  obtain w' where w': "run_io (handle_delivery lib config ''pull_request'' (Some d) body) ?c =
        (map_error (DatabaseError msg), w')"
      "payouts (db w') = payouts (db ?v)" "programs (db w') = programs (db ?v)"
      "prefix (webhook_events (db ?v)) (webhook_events (db w'))"
    by (auto simp: due_world_facts)
  have "log_refusal ?w (Some d) = log_refusal w (Some d)" by (simp add: log_refusal_def)
  then have "log_refusal ?w (Some d) = None" using assms(7) by simp
  from run_once_new [OF _ this, of "''pull_request''"]
  have first: "run_io (github_webhook lib config hs body) w = (map_error (DatabaseError msg), w')"
    using run [of w] assms(1,6) w'(1) by simp
  have "?h \<in> set (webhook_events (db w'))" using facts(3) w'(4) set_mono_prefix by blast
  note again = redelivered [OF assms(3,6) this claimed(3)]
  have "program_by_id (row_id p) (db w') = Some (charged p)"
    using facts(2) w'(3) by (simp add: program_by_id_def)
  then show ?thesis
    using first again facts(1) w'(2)
    by (intro exI [of _ msg] exI [of _ w'] conjI exI [of _ ?r])
      (auto simp: due_row_def paid_row_def)
qed

theorem delivery_with_id_pays_but_fails_witness:
  "\<exists>msg w'. run_io (github_webhook demo_library demo_config signed_with_id ''body'') demo_world =
     (map_error (DatabaseError msg), w') \<and> length (payouts (db w')) = 1"
proof -
  have fresh: "log_refusal demo_world (Some ''d1'') = None"
    by (simp add: log_refusal_def demo_world_def demo_tables_def)
  have "payouts (db demo_world) = []" by (simp add: demo_world_def demo_tables_def)
  with delivery_with_id_pays_but_fails [OF demo_reliable demo_schema
      demo_authentic [OF signed_with_id_headers(1,2)] demo_due(2) demo_tx
      signed_with_id_headers(3) fresh]
  show ?thesis by fastforce
qed

text \<open>
  C26. A refused delivery blocks the genuine one. A request whose signature is refused is logged
  with the delivery id it claims; from then on, on every later state of the database, the
  genuine delivery with that id, correctly signed, is answered as a duplicate and pays nothing.
\<close>

theorem refused_delivery_blocks_its_id:
  assumes "reliable w" and "header_str ''x-github-delivery'' hs = Some d"
    and "verify_github_signature lib (github_webhook_secret config) body (signature_of hs) = Inl err"
    and "log_refusal w (Some d) = None"
  shows "\<exists>w'. run_io (github_webhook lib config hs body) w = (map_error err, w') \<and>
    payouts (db w') = payouts (db w) \<and>
    (\<forall>v genuine body' e. evolves w' v \<longrightarrow> reliable v \<longrightarrow>
       authentic_merge lib config genuine body' e \<longrightarrow>
       header_str ''x-github-delivery'' genuine = Some d \<longrightarrow>
       (\<exists>v'. run_io (github_webhook lib config genuine body') v = (duplicate_delivery d, v') \<and>
          db v' = db v))"
proof -
  obtain w' where w': "run_io (github_webhook lib config hs body) w = (map_error err, w')"
      "recorded d (db w')" "payouts (db w') = payouts (db w)"
    using run_rejected [OF assms] by blast
  then obtain h where "h \<in> set (webhook_events (db w'))" "hook_delivery_id h = Some d"
    by (auto simp: recorded_def)
  with w' redelivered [of lib config _ _ _ d h w'] show ?thesis by blast
qed

definition forged :: headers where
  "forged = [(''x-github-event'', ''pull_request''), (''x-hub-signature-256'', ''sha256=x''),
     (''x-github-delivery'', ''d1'')]"

theorem refused_delivery_blocks_its_id_witness:
  "\<exists>err w' v'. run_io (github_webhook demo_library demo_config forged ''body'') demo_world =
       (map_error err, w') \<and>
     run_io (github_webhook demo_library demo_config signed_with_id ''body'') w' =
       (duplicate_delivery ''d1'', v') \<and> payouts (db v') = []"
proof -
  have forged: "header_str ''x-github-delivery'' forged = Some ''d1''"
    "verify_github_signature demo_library (github_webhook_secret demo_config) ''body''
       (signature_of forged) = Inl (UnauthorizedError ''invalid webhook signature'')"
    by (simp_all add: signature_of_def header_str_def forged_def visible_ascii_def unwrap_or_def
        verify_github_signature_def demo_library_def demo_config_def)
  have fresh: "log_refusal demo_world (Some ''d1'') = None"
    by (simp add: log_refusal_def demo_world_def demo_tables_def)
  obtain w' where w': "run_io (github_webhook demo_library demo_config forged ''body'') demo_world =
      (map_error (UnauthorizedError ''invalid webhook signature''), w')"
      "payouts (db w') = payouts (db demo_world)"
    and later: "\<And>v genuine body' e. evolves w' v \<Longrightarrow> reliable v \<Longrightarrow>
       authentic_merge demo_library demo_config genuine body' e \<Longrightarrow>
       header_str ''x-github-delivery'' genuine = Some ''d1'' \<Longrightarrow>
       \<exists>v'. run_io (github_webhook demo_library demo_config genuine body') v =
         (duplicate_delivery ''d1'', v') \<and> db v' = db v"
    using refused_delivery_blocks_its_id [OF demo_reliable forged fresh] by blast
  have "evolves demo_world w'"
    by (rule world.run_may [OF github_webhook_safe w'(1)])
  then have "reliable w'" using demo_reliable by (simp add: reliable_def moves_def)
  from later [OF world.may_refl this demo_authentic [OF signed_with_id_headers(1,2)]
      signed_with_id_headers(3)]
  obtain v' where "run_io (github_webhook demo_library demo_config signed_with_id ''body'') w' =
      (duplicate_delivery ''d1'', v')" "db v' = db w'" by blast
  with w' demo_values(1) show ?thesis by metis
qed

text \<open>
  C28. A payout that cannot be booked stays. When the milestone counter of the program would
  leave the bigint range, the payout is stored before the booking fails: the delivery is answered
  with the error 500, the payout is in the table, the program is not charged; and the same
  delivery sent again is answered 200, as processed already, without booking anything.
\<close>

theorem unbookable_payout_stays:
  assumes "reliable w" and "schema_ok (db w)" and "authentic_merge lib config hs body e"
    and "merge_ready w e p address pr" and "overbooked p" and "due_tx config p e tx"
    and "header_str ''x-github-delivery'' hs = None"
  shows "\<exists>r w' w''. run_io (github_webhook lib config hs body) w =
      (map_error (DatabaseError (range_text (db_engine w))), w') \<and>
    payouts (db w') = payouts (db w) @ [r] \<and> payout_program_id r = row_id p \<and>
    payout_amount r = row_reward_per_point p \<and> programs (db w') = programs (db w) \<and>
    run_io (github_webhook lib config hs body) w' =
      (Response 200 (already_processed (Some (payout_id r)) (row_id p) (event_number e)), w'') \<and>
    db w'' = db w'"
proof -
  obtain r w' where w': "run_io (github_webhook lib config hs body) w =
      (map_error (DatabaseError (range_text (db_engine w))), w')" "reliable w'"
      "payouts (db w') = payouts (db w) @ [r]" "programs (db w') = programs (db w)"
      "payout_program_id r = row_id p" "payout_pr_number r = pr"
      "payout_amount r = row_reward_per_point p"
    using run_overbooked [OF assms] by blast
  have keyed: "program_ids.keyed (programs (db w'))"
    using assms(2) w'(4) by (simp add: schema_ok_def)
  have active: "active_program (db w') (full_name (event_repository e)) = Some p"
    using assms(4) w'(4) by (simp add: merge_ready_def active_program_def)
  have clamp: "i64_clamped (event_number e) = pr"
    using assms(4) by (simp add: merge_ready_def i64_clamped_def del: i64_of_u64_Some)
  have none: "payout_of (db w) (row_id p) pr = None"
    using assms(4) by (simp add: merge_ready_def unpaid_def)
  have "payout_of (db w') (row_id p) (i64_clamped (event_number e)) = Some (payout_id r)"
    using payout_of_append [OF none w'(5,6,3)] by (simp add: clamp)
  from run_already_paid [OF w'(2) keyed assms(3,7) active this] w' show ?thesis by blast
qed

definition overbooked_world :: world where
  "overbooked_world = demo_world\<lparr>db := demo_tables\<lparr>programs :=
     [demo_program_row\<lparr>row_milestone_spent := i64_MAX\<rparr>]\<rparr>\<rparr>"

theorem unbookable_payout_stays_witness:
  "\<exists>w'. run_io (github_webhook demo_library demo_config signed ''body'') overbooked_world =
      (map_error (DatabaseError ''bigint out of range''), w') \<and> length (payouts (db w')) = 1 \<and>
    status_code (fst (run_io (github_webhook demo_library demo_config signed ''body'') w')) = 200"
proof -
  let ?p = "demo_program_row\<lparr>row_milestone_spent := i64_MAX\<rparr>"
  have schema: "schema_ok (db overbooked_world)"
    by (simp add: schema_ok_def overbooked_world_def demo_tables_def demo_program_row_def
        program_ok_def program_ids.keyed_def program_chain_ids.keyed_def program_repos.keyed_def
        contributor_keys.keyed_def payout_ids.keyed_def payout_prs.keyed_def webhook_ids.keyed_def
        deliveries.keyed_def map_filter_def program_missing_def)
  have ready: "merge_ready overbooked_world demo_event ?p ''GA'' 42"
    by (simp add: merge_ready_def unpaid_def active_program_def contributor_address_def
        payout_of_def overbooked_world_def demo_tables_def demo_program_row_def demo_event_def)
  have over: "overbooked ?p" by (simp add: overbooked_def i64_MAX_def demo_program_row_def)
  have tx: "due_tx demo_config ?p demo_event ''simulated-tx-1-42''"
    using demo_tx by (simp add: due_tx_def demo_program_row_def)
  have rel: "reliable overbooked_world" by (simp add: overbooked_world_def reliable_def demo_world_def)
  have "payouts (db overbooked_world) = []"
    "range_text (db_engine overbooked_world) = ''bigint out of range''"
    by (simp_all add: overbooked_world_def demo_world_def demo_tables_def)
  moreover obtain r w' w'' where
      "run_io (github_webhook demo_library demo_config signed ''body'') overbooked_world =
        (map_error (DatabaseError (range_text (db_engine overbooked_world))), w')"
      "payouts (db w') = payouts (db overbooked_world) @ [r]"
      "run_io (github_webhook demo_library demo_config signed ''body'') w' =
        (Response 200 (already_processed (Some (payout_id r)) (row_id ?p) (event_number demo_event)), w'')"
    using unbookable_payout_stays [OF rel schema demo_authentic [OF signed_headers(1,2)] ready over tx
      signed_headers(3)] by blast
  ultimately show ?thesis by (intro exI [of _ w']) simp
qed

end
