(* ===== verification/Api_Properties.thy ===== *)
theory Api_Properties
  imports Registry_Demo
begin

text \<open>
  The properties of the API: the key check in front of the admin routes, what creating, pausing
  and resuming a program does, and that the records served are the rows.
\<close>

section \<open>The key check\<close>

text \<open>
  C29. The key check. With a configuration read from the environment, an admin request passes
  exactly when its \<open>x-api-key\<close> header is, without white space around it, one of the non-empty
  comma separated parts of \<open>API_ADMIN_KEYS\<close>: it then runs as its handler runs, to the same answer
  and the same world; otherwise it is answered 500 when there is no key and 401 when there is,
  each with its own text, and nothing in the world changes.
\<close>

theorem admin_routes_need_a_key:
  assumes "from_env var = Inr config"
  shows "(authorized_key config hs \<longleftrightarrow>
      (\<exists>part \<in> set (split_at (CHR '','') (unwrap_or (var ''API_ADMIN_KEYS'') [])).
         trim part \<noteq> [] \<and> header_str ''x-api-key'' hs = Some (trim part))) \<and>
    (authorized_key config hs \<longrightarrow>
      run_io (api_service config hs (Protected req)) w = run_io (admin_router req) w) \<and>
    (\<not> authorized_key config hs \<longrightarrow>
      run_io (api_service config hs (Protected req)) w =
        (if api_admin_keys config = []
         then (ApiResponse 500 (Message (JObject [(''error'', JString ''API_ADMIN_KEYS not configured'')])), w)
         else (ApiResponse 401 (Message (JObject [(''error'', JString ''invalid or missing x-api-key'')])), w)))"
proof -
  have keys: "api_admin_keys config = admin_keys (unwrap_or (var ''API_ADMIN_KEYS'') [])"
    using assms by (auto simp: from_env_def split: option.splits)
  have "authorized_key config hs \<longleftrightarrow>
      (\<exists>k \<in> set (api_admin_keys config). header_str ''x-api-key'' hs = Some k)"
    by (auto simp: authorized_key_def list_ex_iff split: option.split)
  then have "authorized_key config hs \<longleftrightarrow>
      (\<exists>part \<in> set (split_at (CHR '','') (unwrap_or (var ''API_ADMIN_KEYS'') [])).
         trim part \<noteq> [] \<and> header_str ''x-api-key'' hs = Some (trim part))"
    unfolding keys admin_keys_def by auto
  moreover have "api_admin_keys config \<noteq> []" if "authorized_key config hs"
    using that by (auto simp: authorized_key_def split: option.splits)
  ultimately show ?thesis by (auto simp: require_admin_key_def)
qed

definition demo_env :: environment where
  "demo_env = [''DATABASE_URL'' \<mapsto> ''postgres'', ''GITHUB_WEBHOOK_SECRET'' \<mapsto> ''k'',
     ''API_ADMIN_KEYS'' \<mapsto> ''admin,,b'']"

theorem admin_routes_need_a_key_witness:
  "\<exists>config. from_env demo_env = Inr config \<and> authorized_key config with_key \<and>
     run_io (api_service config with_key (Protected (PostPause ''p1''))) demo_world =
       run_io (admin_router (PostPause ''p1'')) demo_world \<and>
     \<not> authorized_key config [] \<and>
     run_io (api_service config [] (Protected (PostPause ''p1''))) demo_world =
       (ApiResponse 401 (Message (JObject [(''error'', JString ''invalid or missing x-api-key'')])), demo_world)"
proof -
  obtain config where config: "from_env demo_env = Inr config"
    by (simp add: from_env_def demo_env_def)
  have trimmed: "trim ''admin'' = ''admin''" by (rule trim_graphic) (simp_all add: graphic_def)
  have part: "''admin'' \<in> set (split_at (CHR '','') (unwrap_or (demo_env ''API_ADMIN_KEYS'') []))"
    by (simp add: demo_env_def unwrap_or_def)
  have header: "header_str ''x-api-key'' with_key = Some ''admin''" "header_str ''x-api-key'' [] = None"
    by (simp_all add: header_str_def with_key_def visible_ascii_def)
  note gate = admin_routes_need_a_key [OF config]
  have "\<exists>part \<in> set (split_at (CHR '','') (unwrap_or (demo_env ''API_ADMIN_KEYS'') [])).
      trim part \<noteq> [] \<and> header_str ''x-api-key'' with_key = Some (trim part)"
    using part trimmed header(1) by (intro bexI [of _ "''admin''"]) simp_all
  then have passes: "authorized_key config with_key" using gate [of with_key] by blast
  then have keys: "api_admin_keys config \<noteq> []"
    by (auto simp: authorized_key_def split: option.splits)
  have "\<not> authorized_key config []" using gate [of "[]"] header(2) by simp
  with passes keys gate [of "[]" "PostPause ''p1''" demo_world]
    gate [of with_key "PostPause ''p1''" demo_world] config
  show ?thesis by auto
qed

section \<open>Programs\<close>

text \<open>
  C30. Creating a program. An invalid request (slug, reward or address) is answered 400 and changes
  nothing; a valid one whose id, on-chain id or repository is taken is answered 409 and changes no
  table; any other is answered 201 with the fresh id, and one active row with the values asked for,
  nothing spent and nothing in escrow is added.
\<close>

theorem program_creation_answers:
  assumes "reliable w" and "run_io (admin_router (PostProgram body)) w = (ApiResponse c reply, w')"
  shows "(\<not> valid_program body \<longrightarrow> c = 400 \<and> w' = w) \<and>
    (valid_program body \<and> clashes (new_program w body) (programs (db w)) \<longrightarrow>
       c = 409 \<and> db w' = db w) \<and>
    (valid_program body \<and> \<not> clashes (new_program w body) (programs (db w)) \<longrightarrow>
       c = 201 \<and> reply = ProgramCreated (next_uuid w) \<and>
       db w' = (db w)\<lparr>programs := programs (db w) @ [new_program w body]\<rparr>)"
proof (cases "valid_program body")
  case True
  from run_create_program [OF assms(1) True] assms(2) True show ?thesis
    by (auto split: if_splits)
next
  case False
  from run_invalid_program [OF False, of w] assms(2) False show ?thesis by auto
qed

definition chain_big :: u64 where
  "chain_big = 0x8000000000000000"

lemma demo_created:
  "run_io (admin_router (PostProgram (demo_request chain_big ''a/b''))) demo_world =
     (ApiResponse 201 (ProgramCreated (next_uuid demo_world)),
      tick (with_db (demo_tables\<lparr>programs := [demo_program_row,
        new_program demo_world (demo_request chain_big ''a/b'')]\<rparr>) (drew_uuid demo_world)))"
proof -
  have clamp: "i64_clamped chain_big = i64_MAX" "i64_MAX \<noteq> 1"
    by (simp_all add: i64_clamped_def i64_of_u64_def signed_of_def fits_signed_def chain_big_def i64_MAX_def)
  have zero: "next_uuid demo_world = ''0''" by code_simp
  have "\<not> clashes (new_program demo_world (demo_request chain_big ''a/b'')) [demo_program_row]"
    using clamp(2) by (simp add: clashes_def new_program_def demo_request_def demo_program_row_def zero clamp(1))
  moreover have "db demo_world = demo_tables" "programs demo_tables = [demo_program_row]"
    by (simp_all add: demo_world_def demo_tables_def)
  ultimately show ?thesis
    by (simp add: run_create_program [OF demo_reliable demo_request_valid(1)])
qed

theorem program_creation_answers_witness:
  "db (snd (run_io (admin_router (PostProgram (demo_request chain_big ''a/b''))) demo_world)) =
     demo_tables\<lparr>programs := [demo_program_row, new_program demo_world (demo_request chain_big ''a/b'')]\<rparr>"
proof -
  have "db demo_world = demo_tables" "programs demo_tables = [demo_program_row]"
    by (simp_all add: demo_world_def demo_tables_def)
  with program_creation_answers [OF demo_reliable demo_created] demo_request_valid(1)
  show ?thesis unfolding demo_created by auto
qed

text \<open>
  C37. Large on-chain ids collide. The on-chain id of a program is a \<open>u64\<close>, its column a bigint:
  every id from \<open>2\<^sup>6\<^sup>3\<close> on is stored as the largest bigint. After one such program was created, any
  other with such an id, for whatever repository, is refused as if its repository were taken.
\<close>

theorem large_chain_ids_collide:
  assumes "reliable w" and "run_io (admin_router (PostProgram first)) w = (ApiResponse 201 reply, w1)"
    and "2 ^ 63 \<le> uint (create_on_chain_program_id first)"
    and "2 ^ 63 \<le> uint (create_on_chain_program_id second)" and "valid_program second"
    and "evolves w1 v" and "reliable v"
  shows "\<exists>v'. run_io (admin_router (PostProgram second)) v =
      (ApiResponse 409 (Message (JObject [(''error'', JString
         (''conflict: program already exists for repo '' @ create_github_repo second))])), v') \<and>
    db v' = db v"
proof -
  have clamp: "i64_clamped n = i64_MAX" if "2 ^ 63 \<le> uint n" for n :: u64
    using that i64_of_u64_None [of n] by (simp add: i64_clamped_def del: i64_of_u64_None)
  have valid: "valid_program first" by (rule valid_when_created [OF assms(2)])
  have new: "new_program w first \<in> set (programs (db w1))"
    using run_create_program [OF assms(1) valid] assms(2) by (auto split: if_splits)
  have "known_program (db w1) (next_uuid w) i64_MAX (create_github_repo first)"
    unfolding known_program_def
    by (rule bexI [OF _ new]) (simp add: new_program_def clamp [OF assms(3)])
  then have "known_program (db v) (next_uuid w) i64_MAX (create_github_repo first)"
    using assms(6) by (auto simp: moves_def intro: lasting)
  then have "clashes (new_program v second) (programs (db v))"
    by (auto simp: known_program_def clashes_def new_program_def clamp [OF assms(4)])
  with run_create_program [OF assms(7,5)] show ?thesis by simp
qed

theorem large_chain_ids_collide_witness:
  "\<exists>w1 v'. run_io (admin_router (PostProgram (demo_request chain_big ''a/b''))) demo_world =
       (ApiResponse 201 (ProgramCreated (next_uuid demo_world)), w1) \<and>
     run_io (admin_router (PostProgram (demo_request (chain_big + 1) ''c/d''))) w1 =
       (ApiResponse 409 (Message (JObject [(''error'', JString
         ''conflict: program already exists for repo c/d'')])), v')"
proof -
  let ?w1 = "snd (run_io (admin_router (PostProgram (demo_request chain_big ''a/b''))) demo_world)"
  have created: "run_io (admin_router (PostProgram (demo_request chain_big ''a/b''))) demo_world =
      (ApiResponse 201 (ProgramCreated (next_uuid demo_world)), ?w1)"
    unfolding demo_created by simp
  have big: "2 ^ 63 \<le> uint (create_on_chain_program_id (demo_request chain_big ''a/b''))"
    "2 ^ 63 \<le> uint (create_on_chain_program_id (demo_request (chain_big + 1) ''c/d''))"
    by (simp_all add: demo_request_def chain_big_def)
  have "reliable ?w1" unfolding demo_created using demo_reliable by simp
  from large_chain_ids_collide [OF demo_reliable created big demo_request_valid(2) world.may_refl this]
  have "\<exists>v'. run_io (admin_router (PostProgram (demo_request (chain_big + 1) ''c/d''))) ?w1 =
       (ApiResponse 409 (Message (JObject [(''error'', JString
         (''conflict: program already exists for repo '' @
          create_github_repo (demo_request (chain_big + 1) ''c/d'')))])), v')" by blast
  then show ?thesis using created by (auto simp: demo_request_def)
qed

text \<open>
  C31. A created program is served back. What the id of a creation reads back, on the database as
  the creation left it, is the program asked for: repository, maintainer, reward and cap as given,
  the on-chain id up to the largest bigint, nothing spent, nothing in escrow, active.
\<close>

theorem created_program_is_served:
  assumes "reliable w"
    and "run_io (admin_router (PostProgram body)) w = (ApiResponse 201 (ProgramCreated i), w')"
  shows "\<exists>rec w''. run_io (public_router config (GetProgram i)) w' =
      (ApiResponse 200 (OneProgram rec), w'') \<and> db w'' = db w' \<and> record_id rec = i \<and>
    uint (record_on_chain_program_id rec) = min (uint (create_on_chain_program_id body)) (2 ^ 63 - 1) \<and>
    record_github_repo rec = create_github_repo body \<and>
    record_maintainer_address rec = create_maintainer_address body \<and>
    sint (record_reward_per_point rec) = sint (create_reward_per_point body) \<and>
    map_option sint (record_milestone_cap rec) = map_option sint (create_milestone_cap body) \<and>
    record_escrow_balance rec = 0 \<and> record_milestone_spent rec = 0 \<and>
    record_status rec = RecordActive"
proof -
  have valid: "valid_program body" by (rule valid_when_created [OF assms(2)])
  from run_create_program [OF assms(1) valid] assms(2)
  have new: "\<not> clashes (new_program w body) (programs (db w))" "i = next_uuid w"
    "db w' = (db w)\<lparr>programs := programs (db w) @ [new_program w body]\<rparr>" "reliable w'"
    using assms(1) by (auto split: if_splits)
  have found: "program_by_id i (db w') = Some (new_program w body)"
    unfolding new(2,3) by (rule new_program_found [OF new(1)])
  show ?thesis
    by (intro exI [of _ "program_record_of (new_program w body)"] exI [of _ "tick w'"])
      (simp add: run_get_program [OF new(4) found, unfolded new(2)] program_record_of_def
        new_program_def new(2) i64_clamped_value option.map_comp comp_def)
qed

theorem created_program_is_served_witness:
  "\<exists>w' rec w''. run_io (admin_router (PostProgram (demo_request chain_big ''a/b''))) demo_world =
       (ApiResponse 201 (ProgramCreated (next_uuid demo_world)), w') \<and>
     run_io (public_router demo_config (GetProgram (next_uuid demo_world))) w' =
       (ApiResponse 200 (OneProgram rec), w'') \<and> record_github_repo rec = ''a/b'' \<and>
     uint (record_on_chain_program_id rec) = 2 ^ 63 - 1"
proof -
  have "min (uint (create_on_chain_program_id (demo_request chain_big ''a/b''))) (2 ^ 63 - 1) = 2 ^ 63 - 1"
    "create_github_repo (demo_request chain_big ''a/b'') = ''a/b''"
    by (simp_all add: demo_request_def chain_big_def)
  with created_program_is_served [OF demo_reliable demo_created, of demo_config] demo_created
  show ?thesis by (metis (no_types))
qed

text \<open>
  C32. Pausing stops the payments, resuming restores them. An active program that is paused is
  answered 200; then no merge of its repository is processed, each fails with 404 before anything
  is written; and resuming it is answered 200 and leaves the database exactly as before.
\<close>

theorem pausing_stops_payments:
  assumes "reliable w" and "schema_ok (db w)" and "program_by_id pid (db w) = Some p"
    and "row_status p = ''active''"
  shows "\<exists>w1 w2. run_io (admin_router (PostPause pid)) w = (ApiResponse 200 (Message
        (JObject [(''id'', JString pid), (''status'', JString ''paused'')])), w1) \<and>
    (\<forall>config e payload delivery. merged_to_default e \<longrightarrow>
       full_name (event_repository e) = row_github_repo p \<longrightarrow>
       (\<exists>w'. run_io (process_merge config e payload delivery) w1 =
          (Inl (NotFoundError (''no active program for repo '' @ row_github_repo p)), w') \<and>
        db w' = db w1)) \<and>
    run_io (admin_router (PostResume pid)) w1 = (ApiResponse 200 (Message
        (JObject [(''id'', JString pid), (''status'', JString ''active'')])), w2) \<and>
    db w2 = db w"
proof -
  let ?w1 = "tick (with_db (with_status ''paused'' pid (db w)) w)"
  have keyed: "program_ids.keyed (programs (db w))" "program_repos.keyed (programs (db w))"
    using assms(2) by (simp_all add: schema_ok_def)
  have rel: "reliable ?w1" and paused: "program_ids.keyed (programs (db ?w1))"
    "program_by_id pid (db ?w1) = Some (p\<lparr>row_status := ''paused''\<rparr>)"
    using assms(1) with_status_keyed [OF keyed(1)] with_status_found [OF assms(3)] by simp_all
  have closed: "run_io (process_merge config e payload delivery) ?w1 =
      (Inl (NotFoundError (''no active program for repo '' @ row_github_repo p)), tick ?w1)"
    if "merged_to_default e" "full_name (event_repository e) = row_github_repo p"
    for config e payload delivery
    using run_not_active [OF rel that(1)] paused_not_active [OF keyed(2) assms(3)] that(2) by simp
  have resumed: "run_io (resume_program pid) ?w1 = (Inr (ApiResponse 200 (Message
      (JObject [(''id'', JString pid), (''status'', JString ''active'')]))),
    tick (with_db (with_status ''active'' pid (db ?w1)) ?w1))"
    by (rule run_resume [OF rel paused]) simp
  have "db (tick (with_db (with_status ''active'' pid (db ?w1)) ?w1)) = db w"
    using with_status_back [OF keyed(1) assms(3,4), of "''paused''"] by simp
  with run_pause [OF assms(1) keyed(1) assms(3,4)] closed resumed show ?thesis
    by (intro exI [of _ ?w1]
        exI [of _ "tick (with_db (with_status ''active'' pid (db ?w1)) ?w1)"]) auto
qed

theorem pausing_stops_payments_witness:
  "\<exists>w1 w' t. run_io (admin_router (PostPause ''p1'')) demo_world = (ApiResponse 200 (Message
       (JObject [(''id'', JString ''p1''), (''status'', JString ''paused'')])), w1) \<and>
     run_io (process_merge demo_config demo_event JNull None) w1 = (Inl (NotFoundError t), w')"
proof -
  have found: "program_by_id ''p1'' (db demo_world) = Some demo_program_row"
    "row_status demo_program_row = ''active''"
    by (simp_all add: program_by_id_def demo_world_def demo_tables_def demo_program_row_def)
  have "merged_to_default demo_event"
    "full_name (event_repository demo_event) = row_github_repo demo_program_row"
    by (simp_all add: merged_to_default_def demo_event_def demo_program_row_def)
  with pausing_stops_payments [OF demo_reliable demo_schema found] show ?thesis by blast
qed

end
