(* ===== verification/Startup.thy ===== *)
theory Startup
  imports Gateway Api
begin

text \<open>
  \<open>main\<close> of the two services, up to the point where they serve: \<open>crates/gateway/src/main.rs\<close> and
  \<open>crates/api/src/main.rs\<close>. The pool, the migrations, the metrics recorder and the listener are
  library calls, arbitrary actions that can fail (record \<open>platform\<close>); their order, what happens
  when one fails, and the configuration, port and body limit the services are left with are the
  code's. The subscriber of the log is not modelled.
\<close>

text \<open>\<open>main\<close> returns an error, with its text, or panics, or goes on to serve.\<close>

datatype start_failure = Failed string | Panicked string

type_synonym 'a starting = "(world, start_failure + 'a) io"

record platform =
  connect_pool :: "string \<Rightarrow> (world, string + unit) io"
  run_migrations :: "(world, string + unit) io"
  install_recorder :: "(world, string + unit) io"
  bind_listener :: "u16 \<Rightarrow> (world, string + unit) io"

record serving =
  serving_config :: app_config
  serving_port :: u16
  body_limit :: nat
  start_warnings :: "string list"

text \<open>\<open>?\<close> with the text of the error, and \<open>expect\<close>.\<close>

definition or_exit :: "('e \<Rightarrow> string) \<Rightarrow> (world, 'e + 'a) io \<Rightarrow> 'a starting" where
  "or_exit show_error = answer_map (map_sum (\<lambda>e. Failed (show_error e)) id)"

definition expect :: "string \<Rightarrow> (world, string + 'a) io \<Rightarrow> 'a starting" where
  "expect message = answer_map (map_sum (\<lambda>e. Panicked (message @ '': '' @ e)) id)"

definition gateway_main :: "platform \<Rightarrow> environment \<Rightarrow> serving starting" where
  "gateway_main os var =
     try_io (or_exit error_text (Return (from_env var))) (\<lambda>config.
     let (warnings, checked) = validate_gateway_config config in
     try_io (or_exit error_text (Return checked)) (\<lambda>_.
     try_io (or_exit id (connect_pool os (database_url config))) (\<lambda>_.
     try_io (or_exit id (run_migrations os)) (\<lambda>_.
     try_io (expect ''metrics recorder'' (install_recorder os)) (\<lambda>_.
     let port = gateway_listen_port config in
     try_io (or_exit id (bind_listener os port)) (\<lambda>_.
     Return (Inr \<lparr>serving_config = config, serving_port = port, body_limit = 256 * 1024,
       start_warnings = warnings\<rparr>)))))))"

definition api_main :: "platform \<Rightarrow> environment \<Rightarrow> serving starting" where
  "api_main os var =
     try_io (or_exit error_text (Return (from_env var))) (\<lambda>config.
     try_io (or_exit id (connect_pool os (database_url config))) (\<lambda>_.
     try_io (or_exit id (run_migrations os)) (\<lambda>_.
     try_io (or_exit error_text (run_startup_checks config)) (\<lambda>_.
     try_io (expect ''metrics recorder'' (install_recorder os)) (\<lambda>_.
     let port = api_listen_port var config in
     try_io (or_exit id (bind_listener os port)) (\<lambda>_.
     Return (Inr \<lparr>serving_config = config, serving_port = port, body_limit = 1024 * 1024,
       start_warnings = []\<rparr>)))))))"

section \<open>A service that serves\<close>

text \<open>What ran on the way: each step answered, from the world the step before left.\<close>

definition served_after :: "platform \<Rightarrow> app_config \<Rightarrow> (world, waveflow_error + unit) io \<Rightarrow> u16
    \<Rightarrow> world \<Rightarrow> world \<Rightarrow> bool" where
  "served_after os config checks port w w' \<longleftrightarrow>
     (\<exists>w1 w2 w3 w4. run_io (connect_pool os (database_url config)) w = (Inr (), w1) \<and>
        run_io (run_migrations os) w1 = (Inr (), w2) \<and> run_io checks w2 = (Inr (), w3) \<and>
        run_io (install_recorder os) w3 = (Inr (), w4) \<and>
        run_io (bind_listener os port) w4 = (Inr (), w'))"

lemma run_or_exit [simp]:
  "run_io (or_exit show_error m) w = map_prod (map_sum (\<lambda>e. Failed (show_error e)) id) id (run_io m w)"
  by (simp add: or_exit_def)

lemma run_expect [simp]:
  "run_io (expect message m) w =
     map_prod (map_sum (\<lambda>e. Panicked (message @ '': '' @ e)) id) id (run_io m w)"
  by (simp add: expect_def)

lemma run_try_Inr:
  "run_io (try_io m k) w = (Inr y, w') \<longleftrightarrow>
     (\<exists>x v. run_io m w = (Inr x, v) \<and> run_io (k x) v = (Inr y, w'))"
  by (auto simp: run_try split: prod.split sum.split)

lemma map_prod_Inr:
  "map_prod (map_sum f id) id p = (Inr y, w) \<longleftrightarrow> p = (Inr y, w)"
  by (cases p; cases "fst p") auto

lemma gateway_checks_pass [simp]: "snd (validate_gateway_config config) = Inr ()"
  by (simp add: validate_gateway_config_def)

lemma gateway_serves:
  "run_io (gateway_main os var) w = (Inr s, w') \<longleftrightarrow>
     (\<exists>config. from_env var = Inr config \<and>
        served_after os config (Return (Inr ())) (gateway_listen_port config) w w' \<and>
        s = \<lparr>serving_config = config, serving_port = gateway_listen_port config,
             body_limit = 256 * 1024, start_warnings = fst (validate_gateway_config config)\<rparr>)"
  unfolding gateway_main_def served_after_def
  by (simp add: run_try_Inr map_prod_Inr Let_def split_beta) blast

lemma api_serves:
  "run_io (api_main os var) w = (Inr s, w') \<longleftrightarrow>
     (\<exists>config. from_env var = Inr config \<and> database_url config \<noteq> [] \<and>
        served_after os config (run_startup_checks config) (api_listen_port var config) w w' \<and>
        s = \<lparr>serving_config = config, serving_port = api_listen_port var config,
             body_limit = 1024 * 1024, start_warnings = []\<rparr>)"
proof -
  have refused: "database_url config \<noteq> []" if "run_io (run_startup_checks config) v = (Inr (), v')" for config v v'
    using that by (auto simp: run_startup_checks_def)
  show ?thesis
    unfolding api_main_def served_after_def
    by (simp add: run_try_Inr map_prod_Inr Let_def) (blast dest: refused)
qed

end
