(* ===== verification/Shared_Properties.thy ===== *)
theory Shared_Properties
  imports Api_Runs Demo_Runs Startup
begin

text \<open>
  The properties of the shared crate, of the start of the services and of the reading of a payload:
  the configuration read from the environment and what the services make of it, and which payloads
  report a merge.
\<close>

section \<open>Configuration\<close>

lemma u16_bound: "unat port < 65536" for port :: u16
proof -
  have "unat port < 2 ^ LENGTH(16)" by (rule unsigned_less)
  then show ?thesis by simp
qed

lemma from_env_required:
  assumes "from_env var = Inr config"
  shows "var ''DATABASE_URL'' = Some (database_url config)"
    and "var ''GITHUB_WEBHOOK_SECRET'' = Some (github_webhook_secret config)"
  using assms by (auto simp: from_env_def split: option.splits)

lemma ports_of_config:
  assumes "from_env var = Inr config"
  shows "gateway_listen_port config =
      (case Option.bind (or_else (var ''GATEWAY_PORT'') (var ''PORT'')) port_number of
         None \<Rightarrow> 8080 | Some n \<Rightarrow> n)"
    and "api_listen_port var config =
      (case or_else (Option.bind (var ''PORT'') port_number) (Option.bind (var ''API_PORT'') port_number) of
         None \<Rightarrow> 8081 | Some n \<Rightarrow> n)"
proof -
  have "parse_u16 = port_number" by (simp add: fun_eq_iff port_number_def parse_u16_reads)
  with assms show "gateway_listen_port config =
      (case Option.bind (or_else (var ''GATEWAY_PORT'') (var ''PORT'')) port_number of
         None \<Rightarrow> 8080 | Some n \<Rightarrow> n)"
    "api_listen_port var config =
      (case or_else (Option.bind (var ''PORT'') port_number) (Option.bind (var ''API_PORT'') port_number) of
         None \<Rightarrow> 8081 | Some n \<Rightarrow> n)"
    by (auto simp: from_env_def gateway_listen_port_def api_listen_port_def unwrap_or_def or_else_def
        split: option.splits)
qed

text \<open>
  C38. The services start on the ports written. A service that serves has bound the port its
  variable's text stands for (decimal digits, optionally after a plus sign, below 65536), and the
  default for any other text: \<open>GATEWAY_PORT\<close> before \<open>PORT\<close> for the gateway, which does not try the
  second when the first is set but unreadable; \<open>PORT\<close> before \<open>API_PORT\<close> for the API, which falls back to
  the second when the first is unreadable, and which does not serve with an empty \<open>DATABASE_URL\<close>.
  The decimal text of every port reads back as that port.
\<close>

theorem services_start_on_ports_written:
  assumes "run_io (gateway_main os var) w = (Inr gateway, w')"
    and "run_io (api_main os' var') v = (Inr api, v')"
  shows "serving_port gateway =
      (case Option.bind (or_else (var ''GATEWAY_PORT'') (var ''PORT'')) port_number of
         None \<Rightarrow> 8080 | Some n \<Rightarrow> n) \<and>
    (\<exists>u. run_io (bind_listener os (serving_port gateway)) u = (Inr (), w')) \<and>
    serving_port api =
      (case or_else (Option.bind (var' ''PORT'') port_number) (Option.bind (var' ''API_PORT'') port_number) of
         None \<Rightarrow> 8081 | Some n \<Rightarrow> n) \<and>
    (\<exists>u. run_io (bind_listener os' (serving_port api)) u = (Inr (), v')) \<and>
    (\<exists>url. var' ''DATABASE_URL'' = Some url \<and> url \<noteq> []) \<and>
    (\<forall>port. port_number (decimal (unat port)) = Some port)"
proof -
  from assms(1) obtain c where c: "from_env var = Inr c" "serving_port gateway = gateway_listen_port c"
      "\<exists>u. run_io (bind_listener os (serving_port gateway)) u = (Inr (), w')"
    by (auto simp: gateway_serves served_after_def) blast
  from assms(2) obtain d where d: "from_env var' = Inr d" "serving_port api = api_listen_port var' d"
      "database_url d \<noteq> []" "\<exists>u. run_io (bind_listener os' (serving_port api)) u = (Inr (), v')"
    by (auto simp: api_serves served_after_def) blast
  have "port_number (decimal (unat port)) = Some port" for port
    using u16_bound [of port] by (simp add: port_number_def text_number_decimal)
  moreover note from_env_required(1) [OF d(1)]
  ultimately show ?thesis
    using c d(2-) ports_of_config(1) [OF c(1)] ports_of_config(2) [OF d(1)] by auto
qed

definition demo_platform :: platform where
  "demo_platform = \<lparr>connect_pool = (\<lambda>_. Return (Inr ())), run_migrations = Return (Inr ()),
     install_recorder = Return (Inr ()), bind_listener = (\<lambda>_. Return (Inr ()))\<rparr>"

definition port_env :: environment where
  "port_env = [''DATABASE_URL'' \<mapsto> ''d'', ''GITHUB_WEBHOOK_SECRET'' \<mapsto> ''s'',
     ''GATEWAY_PORT'' \<mapsto> ''x'', ''PORT'' \<mapsto> ''9000'']"

theorem services_start_on_ports_written_witness:
  "\<exists>gateway api w. run_io (gateway_main demo_platform port_env) demo_world = (Inr gateway, demo_world) \<and>
     run_io (api_main demo_platform port_env) demo_world = (Inr api, w) \<and>
     serving_port gateway = 8080 \<and> serving_port api = 9000"
proof -
  obtain config where config: "from_env port_env = Inr config" "database_url config = ''d''"
    by (simp add: from_env_def port_env_def)
  then obtain gateway where gateway:
      "run_io (gateway_main demo_platform port_env) demo_world = (Inr gateway, demo_world)"
    by (simp add: gateway_serves served_after_def demo_platform_def)
  obtain api w where api: "run_io (api_main demo_platform port_env) demo_world = (Inr api, w)"
    using config
    by (auto simp: api_serves served_after_def demo_platform_def run_startup_checks_def run_statement
        reading_def select_one_def demo_reliable)
  have "port_number ''x'' = None" "port_number ''9000'' = Some 9000"
    by (simp_all add: port_number_def text_number_def is_digit_def number_of_def digit_value_def)
  moreover have "port_env ''GATEWAY_PORT'' = Some ''x''" "port_env ''PORT'' = Some ''9000''"
    by (simp_all add: port_env_def)
  ultimately show ?thesis
    using services_start_on_ports_written [OF gateway api] gateway api by (auto simp: or_else_def)
qed

text \<open>
  C39. An empty secret is accepted. With \<open>GITHUB_WEBHOOK_SECRET\<close> set to the empty text the
  gateway's \<open>main\<close> goes on as with any other secret; when it serves, it has warned that it will
  reject all deliveries, and it accepts every delivery signed with the empty key as genuine.
\<close>

theorem empty_secret_accepts_deliveries:
  assumes "run_io (gateway_main os var) w = (Inr s, w')" and "var ''GITHUB_WEBHOOK_SECRET'' = Some []"
    and "hmac_sha256 lib [] body = Some digest" and "hex_decode lib hex = Some digest"
  shows "''GITHUB_WEBHOOK_SECRET is empty; webhook signature verification will reject all deliveries''
      \<in> set (start_warnings s) \<and>
    verify_github_signature lib (github_webhook_secret (serving_config s)) body (''sha256='' @ hex) = Inr ()"
proof -
  from assms(1) obtain config where config: "from_env var = Inr config" "serving_config s = config"
      "start_warnings s = fst (validate_gateway_config config)"
    by (auto simp: gateway_serves)
  then have "github_webhook_secret config = []"
    using assms(2) from_env_required(2) [of var config] by simp
  with config assms(3,4) show ?thesis
    by (auto simp: validate_gateway_config_def verify_github_signature_iff)
qed

definition empty_env :: environment where
  "empty_env = [''DATABASE_URL'' \<mapsto> ''d'', ''GITHUB_WEBHOOK_SECRET'' \<mapsto> []]"

theorem empty_secret_accepts_deliveries_witness:
  "\<exists>s. run_io (gateway_main demo_platform empty_env) demo_world = (Inr s, demo_world) \<and>
     verify_github_signature demo_library (github_webhook_secret (serving_config s)) ''body''
       (''sha256='' @ ''body'') = Inr ()"
proof -
  have secret: "empty_env ''GITHUB_WEBHOOK_SECRET'' = Some []" by (simp add: empty_env_def)
  have digest: "hmac_sha256 demo_library [] ''body'' = Some ''body''"
    "hex_decode demo_library ''body'' = Some ''body''"
    by (simp_all add: demo_library_def)
  have "\<exists>config. from_env empty_env = Inr config" by (simp add: from_env_def empty_env_def)
  then obtain s where "run_io (gateway_main demo_platform empty_env) demo_world = (Inr s, demo_world)"
    by (auto simp: gateway_serves served_after_def demo_platform_def)
  with empty_secret_accepts_deliveries [OF this secret digest] show ?thesis by blast
qed

section \<open>The payload of a merge\<close>

text \<open>
  C35. The merge a payload reports. GitHub sends an object with the objects \<open>pull_request\<close> (with its
  \<open>user\<close> and \<open>base\<close>) and \<open>repository\<close>, in any order and among any other fields. It is read as a
  merge exactly when \<open>action\<close> is \<open>closed\<close>, \<open>pull_request.merged\<close> is true, and
  \<open>pull_request.base.ref\<close> and \<open>repository.default_branch\<close> are one text; the merge has the
  \<open>repository.full_name\<close>, the \<open>pull_request.user.login\<close>, the \<open>number\<close> and one point.
\<close>

theorem payload_is_read_by_path:
  assumes "object_at [] j" "object_at [''pull_request''] j" "object_at [''repository''] j"
    and "object_at [''pull_request'', ''user''] j" "object_at [''pull_request'', ''base''] j"
  shows "(\<exists>e. decode_event j = Some e \<and> parse_merge_event e = Inr m) \<longleftrightarrow>
    json_at [''action''] j = Some (JString ''closed'') \<and>
    json_at [''pull_request'', ''merged''] j = Some (JBool True) \<and>
    (\<exists>branch. json_at [''pull_request'', ''base'', ''ref''] j = Some (JString branch) \<and>
       json_at [''repository'', ''default_branch''] j = Some (JString branch)) \<and>
    json_at [''repository'', ''full_name''] j = Some (JString (merge_github_repo m)) \<and>
    json_at [''pull_request'', ''user'', ''login''] j = Some (JString (merge_github_username m)) \<and>
    json_at [''number''] j = Some (JNumber (PosInt (merge_pr_number m))) \<and>
    merge_points m = 1"
proof -
  from assms obtain top pr rep user base where parts: "j = JObject top"
      "json_get ''pull_request'' j = Some (JObject pr)" "json_get ''repository'' j = Some (JObject rep)"
      "json_get ''user'' (JObject pr) = Some (JObject user)"
      "json_get ''base'' (JObject pr) = Some (JObject base)"
    by (auto simp: object_at_def split: Option.bind_splits)
  have event: "decode_event j = Some e \<longleftrightarrow>
      json_get ''action'' j = Some (JString (event_action e)) \<and>
      json_get ''number'' j = Some (JNumber (PosInt (event_number e))) \<and>
      json_get ''merged'' (JObject pr) = Some (JBool (pr_merged (event_pull_request e))) \<and>
      json_get ''login'' (JObject user) = Some (JString (user_login (pr_user (event_pull_request e)))) \<and>
      json_get ''ref'' (JObject base) = Some (JString (ref_name (pr_base (event_pull_request e)))) \<and>
      json_get ''full_name'' (JObject rep) = Some (JString (full_name (event_repository e))) \<and>
      json_get ''default_branch'' (JObject rep) = Some (JString (default_branch (event_repository e)))" for e
    using parts
    by (simp del: json_get.simps add: decode_event_by_key decode_pull_request_by_key decode_parts_by_key)
  have merge: "parse_merge_event e = Inr m \<longleftrightarrow> merged_to_default e \<and>
      merge_github_repo m = full_name (event_repository e) \<and>
      merge_github_username m = user_login (pr_user (event_pull_request e)) \<and>
      merge_pr_number m = event_number e \<and> merge_points m = 1" for e
    by (cases m) (auto simp: parse_merge_event_Inr)
  have paths: "json_at [''action''] j = json_get ''action'' j" "json_at [''number''] j = json_get ''number'' j"
    "json_at [''pull_request'', ''merged''] j = json_get ''merged'' (JObject pr)"
    "json_at [''pull_request'', ''base'', ''ref''] j = json_get ''ref'' (JObject base)"
    "json_at [''pull_request'', ''user'', ''login''] j = json_get ''login'' (JObject user)"
    "json_at [''repository'', ''full_name''] j = json_get ''full_name'' (JObject rep)"
    "json_at [''repository'', ''default_branch''] j = json_get ''default_branch'' (JObject rep)"
    using parts by (simp_all del: json_get.simps split: Option.bind_split)
  show ?thesis (is "_ \<longleftrightarrow> ?reported")
  proof
    assume "\<exists>e. decode_event j = Some e \<and> parse_merge_event e = Inr m"
    then show ?reported
      unfolding paths by (auto simp del: json_get.simps simp: event merge merged_to_default_def)
  next
    assume reported: ?reported
    then obtain branch where branch: "json_get ''ref'' (JObject base) = Some (JString branch)"
        "json_get ''default_branch'' (JObject rep) = Some (JString branch)"
      unfolding paths by blast
    let ?e = "\<lparr>event_action = ''closed'', event_number = merge_pr_number m,
      event_pull_request = \<lparr>pr_merged = True, pr_user = \<lparr>user_login = merge_github_username m\<rparr>,
        pr_base = \<lparr>ref_name = branch\<rparr>\<rparr>,
      event_repository = \<lparr>full_name = merge_github_repo m, default_branch = branch\<rparr>\<rparr>"
    have "decode_event j = Some ?e"
      using reported branch unfolding event paths by simp
    moreover have "parse_merge_event ?e = Inr m"
      using reported unfolding merge by (simp add: merged_to_default_def)
    ultimately show "\<exists>e. decode_event j = Some e \<and> parse_merge_event e = Inr m" by blast
  qed
qed

text \<open>The fixture \<open>merged_pr.json\<close>, its fields in another order and among others.\<close>

definition merged_pr_json :: json where
  "merged_pr_json = JObject
     [(''repository'', JObject [(''id'', JNumber (PosInt 7)), (''default_branch'', JString ''main''),
        (''full_name'', JString ''StellarRoute/WaveFlow'')]),
      (''pull_request'', JObject [(''base'', JObject [(''ref'', JString ''main''), (''sha'', JString ''0'')]),
        (''title'', JString ''t''), (''user'', JObject [(''login'', JString ''alice'')]),
        (''merged'', JBool True)]),
      (''number'', JNumber (PosInt 42)), (''action'', JString ''closed''), (''sender'', JNull)]"

theorem payload_is_read_by_path_witness:
  "\<exists>e. decode_event merged_pr_json = Some e \<and> parse_merge_event e =
     Inr \<lparr>merge_github_repo = ''StellarRoute/WaveFlow'', merge_github_username = ''alice'',
       merge_pr_number = 42, merge_points = 1\<rparr>"
proof -
  have "object_at [] merged_pr_json" "object_at [''pull_request''] merged_pr_json"
    "object_at [''repository''] merged_pr_json" "object_at [''pull_request'', ''user''] merged_pr_json"
    "object_at [''pull_request'', ''base''] merged_pr_json"
    by (simp_all add: object_at_def merged_pr_json_def)
  from payload_is_read_by_path [OF this] show ?thesis by (simp add: merged_pr_json_def)
qed

end
