(* ===== verification/Spec2Isabelle.thy ===== *)
theory Spec2Isabelle
  imports Escrow_Properties Service_Properties Delivery_Properties Api_Properties Shared_Properties
begin

text \<open>
  WaveFlow pays open source contributors for merged pull requests. A maintainer puts tokens in
  escrow with a Soroban contract (\<open>contracts/waveflow-escrow\<close>). Off the chain, the API
  (\<open>crates/api\<close>) keeps the programs and the contributors in Postgres, and the gateway
  (\<open>crates/gateway\<close>) receives the webhooks of GitHub, stores a payout for every merge and is meant
  to attest it to the contract, which pays. Both services use \<open>crates/shared\<close> and one database. In
  the code at hand the gateway does not call the contract (\<open>submit_attestation\<close> answers a hash it
  makes up), so the two halves meet only in their data; the last section here compares them.

  Prelude. \<open>Prelude\<close> has the machine integers of Rust as words, with their checked and wrapping
  operations, runs of a labelled transition system, and the locales \<open>invariant_of\<close> and
  \<open>history_invariant\<close>.

  The contract.
  \<^item> \<open>Escrow_Types\<close>: \<open>errors.rs\<close>, \<open>types.rs\<close>, \<open>events.rs\<close> and the storage keys.
  \<^item> \<open>Escrow_Host\<close>: the host as explicit state (record \<open>env\<close>), outcomes \<open>Ok\<close>, \<open>Err\<close>, \<open>Trap\<close>, an
    invocation with the roll back of what does not return \<open>Ok\<close>; the token contract is a parameter
    \<open>transfer\<close> with the documented behaviour \<open>token_laws\<close>.
  \<^item> \<open>Escrow_Storage\<close>: \<open>storage.rs\<close>, and the locales \<open>slot\<close> and \<open>independent_slots\<close> it provides.
  \<^item> \<open>Escrow_Contract\<close>: \<open>contract.rs\<close>, one definition per function.
  \<^item> \<open>Escrow_System\<close>: the entry point \<open>dispatch\<close>, the abstract step relation \<open>committed\<close> it refines,
    and \<open>escrow_step\<close>, which adds the failures and the rest of the token world.
  \<^item> \<open>Escrow_Invariants\<close>, \<open>Escrow_Solvency\<close>, \<open>Escrow_Ledger\<close>, \<open>Escrow_Authority\<close>: what every
    reachable state satisfies, where the money is, the books of a run, who may do what and which
    traps are left.
  \<^item> \<open>Escrow_Vault\<close>: an abstract vault over whole numbers, without ids to run out, counters, traps or
    storage keys (\<open>vault_step\<close>), what of a state of the contract is its vault (\<open>vault_of\<close>), and the
    simulation. \<open>Escrow_Stranded\<close>: the tokens held beyond all balances (\<open>margin\<close>), which no step lowers.
  \<^item> \<open>Escrow_Demo\<close> is a concrete token and run for the witnesses, and \<open>Escrow_Properties\<close> states the
    properties of the contract.

  The shared crate.
  \<^item> \<open>Shared_Types\<close>: \<open>error.rs\<close>, \<open>types.rs\<close> and the two validators; \<open>Shared_Config\<close>: \<open>config.rs\<close> over
    an environment given as a function, with \<open>str::trim\<close>, \<open>str::split\<close> and the parser of a \<open>u16\<close>.
  \<^item> \<open>Json\<close>: \<open>serde_json::Value\<close>, its accessors, and the derived reader and writer of the GitHub event.

  The services.
  \<^item> \<open>Io\<close>: a handler is a tree of atomic actions on the shared world (\<open>'a io\<close>), run alone
    (\<open>run_io\<close>) or interleaved. \<open>Concurrency\<close>: a service as a pool of requests that arrive, advance
    by one action each in any order, and may be dropped in the middle (\<open>service_step\<close>); the
    rely-guarantee predicate \<open>obeys\<close> and the locale \<open>service\<close> that carries it to every reachable
    state. \<open>Ledger\<close>: the kind of a handler's answer (\<open>returns\<close>), and what its actions add up to
    (\<open>pays\<close>, locale \<open>ledger\<close>).
  \<^item> \<open>Database\<close>: the tables and the constraints of \<open>migrations/\<close> (locale \<open>keyed_table\<close>). \<open>Sql\<close>: the
    world the services share, one function per SQL statement, and how every statement moves the
    tables (\<open>evolves\<close>).
  \<^item> \<open>Webhook\<close>, \<open>Attestation\<close>, \<open>Gateway\<close>: \<open>webhook.rs\<close>, \<open>attestation.rs\<close> and \<open>routes.rs\<close> of the
    gateway, with its router. \<open>Api\<close>: \<open>routes/mod.rs\<close>, \<open>routes/admin.rs\<close>, \<open>middleware.rs\<close> and the two routers of the API.
    \<open>Startup\<close>: \<open>main\<close> of both services, up to the point where they serve.
  \<^item> \<open>Services\<close>: both services on one database, what each request may do to it, and why a payout may
    be there (\<open>justified\<close>). \<open>Service_Answers\<close>: what the answers \<open>processed\<close> and \<open>duplicate_delivery\<close>
    mean. \<open>Service_Kinds\<close>: the code and body of every answer of every route. \<open>Service_Ledger\<close>: payouts against bookings.
  \<^item> \<open>Gateway_Runs\<close>, \<open>Gateway_Failures\<close>, \<open>Api_Runs\<close>: the handlers run alone on a database that does
    not fail, branch by branch. \<open>Service_Demo\<close>, \<open>Demo_Runs\<close> and \<open>Registry_Demo\<close>: a concrete database,
    delivery and library for the witnesses, and the way from an empty database to a payout.
  \<^item> \<open>Service_Properties\<close> (every reachable state of any number of overlapping requests),
    \<open>Delivery_Properties\<close> (the whole course of a delivery), \<open>Api_Properties\<close>, \<open>Shared_Properties\<close>:
    the properties of the services.

  What the lemmas show. For the contract: solvency, exact books, the milestone cap, one payout per
  pull request, the authority over every change, refinement of the abstract vault, and when it
  traps. For the services: no payout without a signed merge of a registered contributor, payouts
  that are final and one per pull request, a registry of well-formed entries only, no booking
  without its payout, no change of the registry but by a step of a request with a key, and to every
  request the code and body it calls for; and for a database that does not fail the full effect of the delivery of a
  merge, of creating, reading, pausing and resuming a program. Several properties state defects
  that are there: a merge delivered with an id is paid but answered with an error, a refused
  delivery blocks the genuine one, a payout that cannot be booked stays, the gateway ignores the
  milestone cap, large on-chain ids collide, an empty secret accepts deliveries, and the money of a
  program created before \<open>initialize\<close> is stranded.

  Bounds and loops. No function of the model needs fuel: the recursions are structural or have a
  proved measure (\<open>decimal\<close>, \<open>trim\<close>), and a handler is a finite tree of actions. The books and the
  vault of a contract run (\<open>escrow_balance_is_booked\<close>, \<open>contract_refines_vault\<close>) are for runs shorter
  than the \<open>2^64\<close> ids.

  What is assumed. The database may fail any statement, before or after its effect, and the clock
  and the uuids are arbitrary; the properties of every reachable state hold for all of these, the
  properties of a single run ask for a database that does not fail (\<open>reliable\<close>). A statement is
  atomic, as a single statement of Postgres is under its constraints. The JSON text parser, HMAC-SHA256, the
  hex decoder and the lossy UTF-8 decoder are fields of a record \<open>library\<close>, arbitrary unless a
  property says otherwise. Rows with equal \<open>created_at\<close> are listed in the order of the table, where
  SQL leaves the order open; the order of keys in a JSON object and of two fields with the same
  name play no role in what is proved. The tables are those the migrations describe.

  Not modelled. Log lines and the exporter of the metrics (the counters are actions without an
  effect on the tables) and the page it serves; what the connection pool, the migrations runner, the
  listener and the body limit do, which are library calls (\<open>main\<close> has them as parameters and
  records the limit it sets); axum's own
  answers to paths and bodies it cannot extract, which reach no handler; the derived serialisation
  of the records the API answers, which are values of the model as they are; the unit tests; the
  crate roots, which hold only module declarations.
\<close>

section \<open>The two halves together\<close>

text \<open>
  C36. The two slug checks. The repository slugs the API accepts are exactly the ones the contract
  accepts (one slash, not at either end) that hold no space.
\<close>

theorem slug_checks_agree:
  "validate_github_repo repo \<longleftrightarrow> validate_repo repo = Ok () \<and> CHR '' '' \<notin> set repo"
proof
  assume "validate_github_repo repo"
  then obtain own name where "repo = own @ CHR ''/'' # name" "own \<noteq> []" "name \<noteq> []"
      "CHR ''/'' \<notin> set (own @ name)" "CHR '' '' \<notin> set (own @ name)"
    unfolding validate_github_repo_iff by blast
  moreover from this have "own ! 0 \<noteq> CHR ''/''" "name ! (length name - 1) \<noteq> CHR ''/''"
    by (metis Un_iff length_greater_0_conv nth_mem set_append,
        metis Un_iff diff_less length_greater_0_conv nth_mem set_append zero_less_one)
  ultimately show "validate_repo repo = Ok () \<and> CHR '' '' \<notin> set repo"
    by (auto simp: validate_repo_def nth_append filter_empty_conv)
next
  assume slug: "validate_repo repo = Ok () \<and> CHR '' '' \<notin> set repo"
  then have one: "length (filter (\<lambda>b. b = CHR ''/'') repo) = 1" and "repo \<noteq> []"
    and ends: "repo ! 0 \<noteq> CHR ''/''" "repo ! (length repo - 1) \<noteq> CHR ''/''"
    by (auto simp: validate_repo_def Let_def split: if_splits)
  from one have "filter (\<lambda>b. b = CHR ''/'') repo \<noteq> []" by auto
  then have "CHR ''/'' \<in> set repo" by (auto simp: filter_empty_conv)
  then obtain own name where split: "repo = own @ CHR ''/'' # name" "CHR ''/'' \<notin> set own"
    by (meson split_list_first)
  with one have "CHR ''/'' \<notin> set name" by (auto simp: filter_empty_conv)
  moreover have "own \<noteq> []" using ends(1) split(1) by auto
  moreover have "name \<noteq> []" using ends(2) split(1) by auto
  ultimately show "validate_github_repo repo"
    using split slug unfolding validate_github_repo_iff by auto
qed

lemma beyond_cap_refused:
  assumes "read_program env pid = Ok prog" and "milestone_cap prog = Some (i128_from_i64 cap)"
    and "sint cap < sint (milestone_spent prog) + sint (reward_per_point prog)"
  shows "\<not> (\<exists>payout env'. record_merge transfer gw pid user n 1 env = (Ok payout, env'))"
proof -
  have "charge_milestone prog payout \<noteq> Ok q" if "sint payout = sint (reward_per_point prog)" for payout q
    using assms(2,3) that
    by (auto simp: charge_milestone_def and_then_Ok checked_add_def split: if_splits)
  with assms(1) show ?thesis
    by (auto simp: record_merge_def propagate_Ok_iff checked_mul_def split: if_splits)
qed

text \<open>
  C24. The gateway pays what the contract refuses. The gateway never looks at the milestone cap: a
  due merge of a program whose cap the payout would exceed is stored, booked and answered as
  processed, while the contract, whose program has the same cap, counter and reward, refuses
  every \<open>record_merge\<close> for it.
\<close>

theorem gateway_pays_beyond_the_cap:
  fixes config :: app_config
  assumes "reliable w" and "schema_ok (db w)" and "authentic_merge lib config hs body e"
    and "merge_due w e p address pr" and "due_tx config p e tx"
    and "header_str ''x-github-delivery'' hs = None"
    and "\<not> list_ex (\<lambda>h. hook_id h = next_uuid (drew_uuid w)) (webhook_events (db w))"
    and "row_milestone_cap p = Some cap"
    and "sint cap < sint (row_milestone_spent p) + sint (row_reward_per_point p)"
    and "milestone_cap prog = Some (i128_from_i64 cap)"
    and "milestone_spent prog = i128_from_i64 (row_milestone_spent p)"
    and "reward_per_point prog = i128_from_i64 (row_reward_per_point p)"
    and "read_program env (row_on_chain_program_id p) = Ok prog"
  shows "(\<exists>i w'. run_io (github_webhook lib config hs body) w =
      (Response 200 (processed i tx (row_id p)), w') \<and> length (payouts (db w')) = Suc (length (payouts (db w)))) \<and>
    \<not> (\<exists>payout env'. record_merge transfer gw (row_on_chain_program_id p) user n 1 env = (Ok payout, env'))"
proof
  obtain payload where "parse_json lib body = Inr payload"
    by (rule authentic_payload [OF assms(3)])
  from run_first_delivery [OF assms(1-7) this]
    answered_world_facts(1) [OF assms(2) merge_due_program(2) [OF assms(4)]]
  show "\<exists>i w'. run_io (github_webhook lib config hs body) w =
      (Response 200 (processed i tx (row_id p)), w') \<and>
      length (payouts (db w')) = Suc (length (payouts (db w)))"
    by (intro exI conjI) auto
  show "\<not> (\<exists>payout env'. record_merge transfer gw (row_on_chain_program_id p) user n 1 env = (Ok payout, env'))"
    using beyond_cap_refused [OF assms(13,10)] assms(9,11,12) by simp
qed

definition capped_row :: program_row where
  "capped_row = demo_program_row\<lparr>row_milestone_cap := Some 3\<rparr>"

definition capped_world :: world where
  "capped_world = demo_world\<lparr>db := demo_tables\<lparr>programs := [capped_row]\<rparr>\<rparr>"

definition capped_program :: program where
  "capped_program = \<lparr>maintainer = ''M'', github_repo = ''org/repo'', reward_per_point = i128_from_i64 5,
     escrow_balance = 500, milestone_cap = Some (i128_from_i64 3), milestone_spent = i128_from_i64 0,
     status = Active\<rparr>"

definition capped_chain :: "ledger env" where
  "capped_chain = demo_funded\<lparr>persistent_store :=
     (persistent_store demo_funded)(Program 1 \<mapsto> StoredProgram capped_program)\<rparr>"

lemma capped_schema: "schema_ok (db capped_world)"
  by (simp add: schema_ok_def capped_world_def demo_tables_def capped_row_def demo_program_row_def
      program_ok_def program_ids.keyed_def program_chain_ids.keyed_def program_repos.keyed_def
      contributor_keys.keyed_def payout_ids.keyed_def payout_prs.keyed_def webhook_ids.keyed_def
      deliveries.keyed_def map_filter_def program_missing_def)

lemma capped_due: "merge_due capped_world demo_event capped_row ''GA'' 42"
  by (simp add: merge_due_def merge_ready_def unpaid_def chargeable_def active_program_def
      contributor_address_def payout_of_def capped_world_def demo_world_def demo_tables_def
      capped_row_def demo_program_row_def demo_event_def)

theorem gateway_pays_beyond_the_cap_witness:
  "(\<exists>i w'. run_io (github_webhook demo_library demo_config signed ''body'') capped_world =
      (Response 200 (processed i ''simulated-tx-1-42'' ''p1''), w') \<and> length (payouts (db w')) = 1) \<and>
    \<not> (\<exists>payout env'. record_merge ledger_transfer ''G'' 1 ''alice'' 42 1 capped_chain = (Ok payout, env'))"
proof -
  have row: "row_id capped_row = ''p1''" "row_on_chain_program_id capped_row = 1"
    "row_milestone_cap capped_row = Some 3" "row_milestone_spent capped_row = 0"
    "row_reward_per_point capped_row = 5"
    by (simp_all add: capped_row_def demo_program_row_def)
  have world: "reliable capped_world" "payouts (db capped_world) = []"
    "\<not> list_ex (\<lambda>h. hook_id h = next_uuid (drew_uuid capped_world)) (webhook_events (db capped_world))"
    by (simp_all add: capped_world_def demo_world_def demo_tables_def reliable_def)
  have tx: "due_tx demo_config capped_row demo_event ''simulated-tx-1-42''"
    using demo_tx by (simp add: due_tx_def capped_row_def demo_program_row_def)
  have chain: "milestone_cap capped_program = Some (i128_from_i64 3)"
    "milestone_spent capped_program = i128_from_i64 0" "reward_per_point capped_program = i128_from_i64 5"
    "read_program capped_chain 1 = Ok capped_program"
    by (simp_all add: capped_program_def capped_chain_def read_program_def)
  show ?thesis
    using gateway_pays_beyond_the_cap [where env = capped_chain and prog = capped_program and cap = 3
        and transfer = ledger_transfer and gw = "''G''" and user = "''alice''" and n = 42, OF world(1)
        capped_schema demo_authentic [OF signed_headers(1,2)] capped_due tx signed_headers(3) world(3)]
    by (simp add: row world(2) chain)
qed

end
